(* ===== verification/Prelude.thy ===== *)
theory Prelude
  imports Main "HOL-Library.Monad_Syntax"
begin

text \<open>
  Shared vocabulary of the development: the rule collections of the component proofs, the
  integer limits the code compares against, the error-or-value results of fallible code,
  JavaScript strings read as sequences of code units below 256 (so that a HOL
  character is one code unit and UTF-8 needs one or two bytes for it), and decimal and
  hexadecimal text.
\<close>

subsection \<open>Rule collections\<close>

named_theorems validator_dests \<open>what a successful validation says about its input\<close>
named_theorems field_iffs \<open>a field check as an equivalence on the value it reads\<close>
named_theorems result_simps \<open>computation rules of error-or-value results\<close>

subsection \<open>Integer limits\<close>

abbreviation U64_MAX :: int where "U64_MAX \<equiv> 18446744073709551615"
abbreviation INT64_MAX :: int where "INT64_MAX \<equiv> 9223372036854775807"
abbreviation INT32_MAX :: int where "INT32_MAX \<equiv> 2147483647"
abbreviation I128_MAX :: int where "I128_MAX \<equiv> 170141183460469231731687303715884105727"
abbreviation I128_MIN :: int where "I128_MIN \<equiv> - 170141183460469231731687303715884105728"
abbreviation MAX_SAFE_INTEGER :: int where "MAX_SAFE_INTEGER \<equiv> 9007199254740991"
abbreviation DATE_MAX_MS :: int where "DATE_MAX_MS \<equiv> 8640000000000000"

subsection \<open>Error-or-value results\<close>

text \<open>A function that may throw returns \<^typ>\<open>'e + 'a\<close>: \<open>Inl e\<close> is the thrown error, \<open>Inr x\<close> the
  returned value. \<open>bindE\<close> is the sequencing of two statements.\<close>

definition bindE :: "'e + 'a \<Rightarrow> ('a \<Rightarrow> 'e + 'b) \<Rightarrow> 'e + 'b" where
  "bindE r f = (case r of Inl e \<Rightarrow> Inl e | Inr x \<Rightarrow> f x)"

lemma bindE_Inl [simp]: "bindE (Inl e) f = Inl e"
  by (simp add: bindE_def)

lemma bindE_Inr [simp]: "bindE (Inr x) f = f x"
  by (simp add: bindE_def)

lemma bindE_eq_Inr [result_simps]:
  "bindE r f = Inr y \<longleftrightarrow> (\<exists>x. r = Inr x \<and> f x = Inr y)"
  by (cases r) auto

lemma bindE_eq_Inl [result_simps]:
  "bindE r f = Inl e \<longleftrightarrow> r = Inl e \<or> (\<exists>x. r = Inr x \<and> f x = Inl e)"
  by (cases r) auto

lemma if_Inl_eq_Inr [result_simps]:
  "(if c then Inl e else r) = Inr y \<longleftrightarrow> \<not> c \<and> r = Inr y"
  by simp

lemma if_None_eq_Some [result_simps]:
  "(if c then None else r) = Some y \<longleftrightarrow> \<not> c \<and> r = Some y"
  by simp

declare bind_eq_Some_conv [result_simps]

subsection \<open>Ceiling division\<close>

text \<open>The idiom \<open>(n + d - 1n) / d\<close> of the basis-point computations is the least integer
  whose product with the divisor reaches the numerator.\<close>

lemma int_div_less_iff:
  fixes a d c :: int
  assumes "0 < d"
  shows "a div d < c \<longleftrightarrow> a < c * d"
proof
  have split: "a = (a div d) * d + a mod d" by simp
  have rem: "0 \<le> a mod d" "a mod d < d" using assms by simp_all
  show "a < c * d" if "a div d < c"
  proof -
    from that have "(a div d) * d \<le> (c - 1) * d"
      using assms by (intro mult_right_mono) auto
    moreover have "(c - 1) * d = c * d - d" by (simp add: algebra_simps)
    ultimately show ?thesis using split rem by linarith
  qed
  show "a div d < c" if "a < c * d"
  proof (rule ccontr)
    assume "\<not> a div d < c"
    then have "c * d \<le> (a div d) * d"
      using assms by (intro mult_right_mono) auto
    then show False using split rem that by linarith
  qed
qed

lemma ceil_div_le_iff:
  fixes n d b :: int
  assumes "0 < d"
  shows "(n + d - 1) div d \<le> b \<longleftrightarrow> n \<le> b * d"
  using int_div_less_iff [OF assms, of "n + d - 1" "b + 1"] by (auto simp: algebra_simps)

lemma ceil_div_ge_iff:
  fixes n d b :: int
  assumes "0 < d"
  shows "b \<le> (n + d - 1) div d \<longleftrightarrow> (b - 1) * d < n"
  using ceil_div_le_iff [OF assms, of n "b - 1"] by linarith

subsection \<open>Text\<close>

definition code_unit :: "char \<Rightarrow> nat" where
  "code_unit c = of_char c"

text \<open>\<open>Buffer.byteLength(s, 'utf8')\<close> and \<open>Buffer.from(s, 'utf8')\<close>.\<close>

definition utf8_char :: "char \<Rightarrow> nat list" where
  "utf8_char c = (let u = code_unit c in
     if u < 128 then [u] else [192 + u div 64, 128 + u mod 64])"

definition utf8 :: "string \<Rightarrow> nat list" where
  "utf8 s = concat (map utf8_char s)"

definition utf8_length :: "string \<Rightarrow> nat" where
  "utf8_length s = length (utf8 s)"

text \<open>Evaluation of the two works on the bits of a character.\<close>

lemma code_unit_lt_128: "code_unit (Char b0 b1 b2 b3 b4 b5 b6 b7) < 128 \<longleftrightarrow> \<not> b7"
  by (simp add: code_unit_def)

lemma utf8_length_code [code]:
  "utf8_length s = sum_list (map (\<lambda>c. case c of Char b0 b1 b2 b3 b4 b5 b6 b7 \<Rightarrow> if b7 then 2 else 1) s)"
proof -
  have "length (utf8_char c) = (case c of Char b0 b1 b2 b3 b4 b5 b6 b7 \<Rightarrow> if b7 then 2 else 1)" for c
    by (cases c) (simp add: utf8_char_def Let_def code_unit_lt_128)
  then show ?thesis by (induction s) (simp_all add: utf8_length_def utf8_def)
qed

text \<open>\<open>String.prototype.trim\<close>: the white space and line terminators below U+0100.\<close>

definition is_space :: "char \<Rightarrow> bool" where
  "is_space c = (code_unit c \<in> {9, 10, 11, 12, 13, 32, 160})"

definition trim :: "string \<Rightarrow> string" where
  "trim s = rev (dropWhile is_space (rev (dropWhile is_space s)))"

text \<open>Decimal text of a number (\<open>String(n)\<close>, \<open>n.toString()\<close>).\<close>

definition dec_digit :: "nat \<Rightarrow> char" where
  "dec_digit d = char_of (48 + d)"

fun dec_nat :: "nat \<Rightarrow> string" where
  "dec_nat n = (if n < 10 then [dec_digit n] else dec_nat (n div 10) @ [dec_digit (n mod 10)])"

declare dec_nat.simps [simp del]

definition dec_int :: "int \<Rightarrow> string" where
  "dec_int i = (if i < 0 then CHR ''-'' # dec_nat (nat (- i)) else dec_nat (nat i))"

definition is_digit :: "char \<Rightarrow> bool" where
  "is_digit c = (48 \<le> code_unit c \<and> code_unit c \<le> 57)"

text \<open>\<open>/^[0-9a-f]{64}$/u\<close>, the shape of a SHA-256 digest in lower-case hexadecimal.\<close>

definition is_hex_char :: "char \<Rightarrow> bool" where
  "is_hex_char c = (let u = code_unit c in 48 \<le> u \<and> u \<le> 57 \<or> 97 \<le> u \<and> u \<le> 102)"

definition is_hex64 :: "string \<Rightarrow> bool" where
  "is_hex64 s = (length s = 64 \<and> list_all is_hex_char s)"

definition is_prefixed_hex64 :: "string \<Rightarrow> string \<Rightarrow> bool" where
  "is_prefixed_hex64 p s = (take (length p) s = p \<and> is_hex64 (drop (length p) s))"

lemma is_prefixed_hex64_append [simp]: "is_prefixed_hex64 p (p @ s) = is_hex64 s"
  by (simp add: is_prefixed_hex64_def)

subsubsection \<open>Decimal text determines the number\<close>

primrec dec_value :: "string \<Rightarrow> nat \<Rightarrow> nat" where
  "dec_value [] acc = acc"
| "dec_value (c # cs) acc = dec_value cs (acc * 10 + (code_unit c - 48))"

lemma dec_value_append: "dec_value (xs @ ys) acc = dec_value ys (dec_value xs acc)"
  by (induction xs arbitrary: acc) simp_all

lemma code_unit_dec_digit [simp]: "d < 10 \<Longrightarrow> code_unit (dec_digit d) = 48 + d"
  by (simp add: code_unit_def dec_digit_def)

lemma dec_value_dec_nat: "dec_value (dec_nat n) 0 = n"
proof (induction n rule: dec_nat.induct)
  case (1 n)
  show ?case
  proof (cases "n < 10")
    case True
    then show ?thesis by (simp add: dec_nat.simps [of n])
  next
    case False
    with 1 show ?thesis
      by (simp add: dec_nat.simps [of n] dec_value_append)
  qed
qed

lemma dec_nat_inj: "dec_nat m = dec_nat n \<Longrightarrow> m = n"
  by (metis dec_value_dec_nat)

lemma dec_nat_digits: "c \<in> set (dec_nat n) \<Longrightarrow> 48 \<le> code_unit c \<and> code_unit c \<le> 57"
proof (induction n rule: dec_nat.induct)
  case (1 n)
  have "n mod 10 < 10" by simp
  with 1 show ?case
    by (auto simp: dec_nat.simps [of n] split: if_splits)
qed

lemma dec_nat_nonempty [simp]: "dec_nat n \<noteq> []"
  by (simp add: dec_nat.simps [of n])

lemma dec_int_inj: "dec_int i = dec_int j \<Longrightarrow> i = j"
proof -
  have no_minus: "dec_nat n \<noteq> CHR ''-'' # s" for n s
    using dec_nat_digits [of "CHR ''-''" n] by (auto simp: code_unit_def)
  show "dec_int i = dec_int j \<Longrightarrow> i = j"
    using no_minus no_minus [symmetric]
    by (auto simp: dec_int_def split: if_splits dest!: dec_nat_inj)
qed

lemma dec_int_eq [simp]: "dec_int i = dec_int j \<longleftrightarrow> i = j"
  by (auto dest: dec_int_inj)

subsection \<open>Example digests\<close>

text \<open>Two functions with the shape of a SHA-256 digest, for concrete instances of statements that
  take the digest as an argument: a constant one, and one that separates a given input from all
  others.\<close>

definition zero_digest :: "'a \<Rightarrow> string" where
  "zero_digest x = replicate 64 CHR ''0''"

definition split_digest :: "'a \<Rightarrow> 'a \<Rightarrow> string" where
  "split_digest a x = replicate 64 (if x = a then CHR ''0'' else CHR ''1'')"

lemma zero_digest_hex [simp]: "is_hex64 (zero_digest x)"
  by (simp add: is_hex64_def zero_digest_def is_hex_char_def code_unit_def list_all_iff)

lemma split_digest_hex [simp]: "is_hex64 (split_digest a x)"
  by (simp add: is_hex64_def split_digest_def is_hex_char_def code_unit_def list_all_iff)

lemma split_digest_eq [simp]: "split_digest a x = split_digest a y \<longleftrightarrow> (x = a \<longleftrightarrow> y = a)"
  by (simp add: split_digest_def)

lemma inj_on_split_digest: "inj_on (split_digest a) {a, b}"
  by (auto simp: inj_on_def)

end
