(* ===== verification/Js_Value.thy ===== *)
theory Js_Value
  imports Prelude
begin

text \<open>
  The values an \<open>unknown\<close> argument of the code can hold, and the defensive readers the domain
  modules share: \<open>exactRecord\<close>, \<open>exactFrozenRecord\<close> and the checks of single fields.

  A number is an integer, negative zero, or anything else (fractions, NaN, infinities:
  every reader rejects them alike). An object has a prototype, may be a proxy, may be frozen,
  and has its own properties in insertion order, each a data property or an accessor with its
  enumerable flag. An array is a list of own element properties, \<open>None\<close> for a hole.
  Readers return \<open>None\<close> where the code throws its module's validation error.
\<close>

subsection \<open>Values\<close>

datatype js_num = JInt int | JNegZero | JNonInt

datatype js_proto = ObjectProto | NullProto | OtherProto

datatype js_key = KStr string | KSym nat

datatype 'v js_prop = DataProp bool 'v | AccessorProp bool

datatype js =
    JUndefined
  | JNull
  | JBool bool
  | JNum js_num
  | JBig int
  | JStr string
  | JSym nat
  | JFun
  | JArr bool bool "js js_prop option list"
  | JObj js_proto bool bool "(js_key \<times> js js_prop) list"

type_synonym js_record = "(string \<times> js) list"

text \<open>\<open>Number.isSafeInteger\<close>, with the integer it accepts; negative zero compares as zero.\<close>

fun js_safe_int :: "js \<Rightarrow> int option" where
  "js_safe_int (JNum (JInt n)) = (if \<bar>n\<bar> \<le> MAX_SAFE_INTEGER then Some n else None)"
| "js_safe_int (JNum JNegZero) = Some 0"
| "js_safe_int _ = None"

subsection \<open>Objects\<close>

fun isPlainObject :: "js \<Rightarrow> bool" where
  "isPlainObject (JObj proto proxy frozen props) = (\<not> proxy \<and> (proto = ObjectProto \<or> proto = NullProto))"
| "isPlainObject _ = False"

fun isFrozen :: "js \<Rightarrow> bool" where
  "isFrozen (JObj proto proxy frozen props) = frozen"
| "isFrozen (JArr proxy frozen elems) = frozen"
| "isFrozen _ = True"

definition isFrozenPlainObject :: "js \<Rightarrow> bool" where
  "isFrozenPlainObject v = (isPlainObject v \<and> isFrozen v)"

fun ownProps :: "js \<Rightarrow> (js_key \<times> js js_prop) list" where
  "ownProps (JObj proto proxy frozen props) = props"
| "ownProps _ = []"

text \<open>The value of an own enumerable data property.\<close>

definition enumerableDataProp :: "js \<Rightarrow> string \<Rightarrow> js option" where
  "enumerableDataProp v k = (case map_of (ownProps v) (KStr k) of
     Some (DataProp enumerable x) \<Rightarrow> if enumerable then Some x else None
   | _ \<Rightarrow> None)"

definition readKeys :: "string list \<Rightarrow> js \<Rightarrow> js_record option" where
  "readKeys keys v = those (map (\<lambda>k. map_option (Pair k) (enumerableDataProp v k)) keys)"

definition exactRecord :: "string list \<Rightarrow> js \<Rightarrow> js_record option" where
  "exactRecord keys v =
     (if \<not> isPlainObject v then None
      else let own = map fst (ownProps v) in
        if length own \<noteq> length keys
          \<or> list_ex (\<lambda>k. case k of KStr s \<Rightarrow> s \<notin> set keys | KSym _ \<Rightarrow> True) own
        then None
        else readKeys keys v)"

definition exactFrozenRecord :: "string list \<Rightarrow> js \<Rightarrow> js_record option" where
  "exactFrozenRecord keys v = (if \<not> isFrozen v then None else exactRecord keys v)"

text \<open>Reading a property of the record the readers build.\<close>

definition fld :: "js_record \<Rightarrow> string \<Rightarrow> js" where
  "fld r k = (case map_of r k of Some x \<Rightarrow> x | None \<Rightarrow> JUndefined)"

definition pick :: "js_record \<Rightarrow> string list \<Rightarrow> js_record" where
  "pick r keys = map (\<lambda>k. (k, fld r k)) keys"

text \<open>A frozen plain object with the given enumerable data properties.\<close>

definition frozen_object :: "js_record \<Rightarrow> js" where
  "frozen_object r = JObj ObjectProto False True (map (\<lambda>(k, x). (KStr k, DataProp True x)) r)"

subsection \<open>Single fields\<close>

definition boundedBigint :: "int \<Rightarrow> int \<Rightarrow> js \<Rightarrow> int option" where
  "boundedBigint minimumValue maximumValue v = (case v of
     JBig n \<Rightarrow> if n < minimumValue \<or> n > maximumValue then None else Some n
   | _ \<Rightarrow> None)"

definition unsignedBigint :: "js \<Rightarrow> int option" where
  "unsignedBigint v = boundedBigint 0 U64_MAX v"

definition positiveBigint :: "js \<Rightarrow> int option" where
  "positiveBigint v = boundedBigint 1 U64_MAX v"

definition signedBigint :: "js \<Rightarrow> int option" where
  "signedBigint v = boundedBigint I128_MIN I128_MAX v"

definition nullable :: "(js \<Rightarrow> 'a option) \<Rightarrow> js \<Rightarrow> 'a option option" where
  "nullable f v = (if v = JNull then Some None else map_option Some (f v))"

definition boundedInteger :: "int \<Rightarrow> int \<Rightarrow> js \<Rightarrow> int option" where
  "boundedInteger minimumValue maximumValue v = (case js_safe_int v of
     None \<Rightarrow> None
   | Some n \<Rightarrow> if n < minimumValue \<or> n > maximumValue then None else Some n)"

text \<open>\<open>enumValue\<close> and the \<open>includes\<close> tests: the literals a field may hold, with the constructor
  that models each.\<close>

definition enumValue :: "(string \<times> 'a) list \<Rightarrow> js \<Rightarrow> 'a option" where
  "enumValue values v = (case v of JStr s \<Rightarrow> map_of values s | _ \<Rightarrow> None)"

definition booleanValue :: "js \<Rightarrow> bool option" where
  "booleanValue v = (case v of JBool b \<Rightarrow> Some b | _ \<Rightarrow> None)"

definition text_field :: "nat \<Rightarrow> js \<Rightarrow> string option" where
  "text_field maximumBytes v = (case v of
     JStr s \<Rightarrow> if s = [] \<or> utf8_length s > maximumBytes then None else Some s
   | _ \<Rightarrow> None)"

definition string_matching :: "(string \<Rightarrow> bool) \<Rightarrow> js \<Rightarrow> string option" where
  "string_matching test v = (case v of JStr s \<Rightarrow> if test s then Some s else None | _ \<Rightarrow> None)"

definition timestamp_field :: "js \<Rightarrow> int option" where
  "timestamp_field v = boundedInteger 0 DATE_MAX_MS v"

subsection \<open>What a successful read says\<close>

lemma boundedBigint_Some [validator_dests]:
  "boundedBigint lo hi v = Some n \<Longrightarrow> v = JBig n \<and> lo \<le> n \<and> n \<le> hi"
  by (auto simp: boundedBigint_def split: js.splits if_splits)

lemma unsignedBigint_Some [validator_dests]:
  "unsignedBigint v = Some n \<Longrightarrow> v = JBig n \<and> 0 \<le> n \<and> n \<le> U64_MAX"
  using boundedBigint_Some [of 0 U64_MAX v n] by (simp add: unsignedBigint_def)

lemma positiveBigint_Some [validator_dests]:
  "positiveBigint v = Some n \<Longrightarrow> v = JBig n \<and> 1 \<le> n \<and> n \<le> U64_MAX"
  using boundedBigint_Some [of 1 U64_MAX v n] by (simp add: positiveBigint_def)

lemma signedBigint_Some [validator_dests]:
  "signedBigint v = Some n \<Longrightarrow> v = JBig n \<and> I128_MIN \<le> n \<and> n \<le> I128_MAX"
  using boundedBigint_Some [of I128_MIN I128_MAX v n] by (simp add: signedBigint_def)

lemma boundedInteger_Some [validator_dests]:
  "boundedInteger lo hi v = Some n \<Longrightarrow> lo \<le> n \<and> n \<le> hi \<and> \<bar>n\<bar> \<le> MAX_SAFE_INTEGER"
  by (cases v rule: js_safe_int.cases)
     (auto simp: boundedInteger_def split: option.splits if_splits)

lemma boundedBigint_iff [field_iffs]:
  "boundedBigint lo hi v = Some n \<longleftrightarrow> v = JBig n \<and> lo \<le> n \<and> n \<le> hi"
  by (auto simp: boundedBigint_def split: js.splits)

lemma unsignedBigint_iff [field_iffs]: "unsignedBigint v = Some n \<longleftrightarrow> v = JBig n \<and> 0 \<le> n \<and> n \<le> U64_MAX"
  by (simp add: unsignedBigint_def boundedBigint_iff)

lemma positiveBigint_iff [field_iffs]: "positiveBigint v = Some n \<longleftrightarrow> v = JBig n \<and> 1 \<le> n \<and> n \<le> U64_MAX"
  by (simp add: positiveBigint_def boundedBigint_iff)

lemma signedBigint_iff [field_iffs]: "signedBigint v = Some n \<longleftrightarrow> v = JBig n \<and> I128_MIN \<le> n \<and> n \<le> I128_MAX"
  by (simp add: signedBigint_def boundedBigint_iff)

lemma boundedInteger_iff [field_iffs]:
  "boundedInteger lo hi v = Some n \<longleftrightarrow> js_safe_int v = Some n \<and> lo \<le> n \<and> n \<le> hi"
  by (auto simp: boundedInteger_def split: option.splits)

lemma string_matching_iff [field_iffs]: "string_matching P v = Some s \<longleftrightarrow> v = JStr s \<and> P s"
  by (auto simp: string_matching_def split: js.splits)

lemma text_field_iff [field_iffs]:
  "text_field m v = Some s \<longleftrightarrow> v = JStr s \<and> s \<noteq> [] \<and> utf8_length s \<le> m"
  by (auto simp: text_field_def split: js.splits)

lemma enumValue_Some [validator_dests]:
  "enumValue tbl v = Some x \<Longrightarrow> \<exists>s. v = JStr s \<and> map_of tbl s = Some x"
  by (auto simp: enumValue_def split: js.splits)

lemma text_field_Some [validator_dests]:
  "text_field m v = Some s \<Longrightarrow> v = JStr s \<and> s \<noteq> [] \<and> utf8_length s \<le> m"
  by (auto simp: text_field_def split: js.splits if_splits)

lemma string_matching_Some [validator_dests]:
  "string_matching P v = Some s \<Longrightarrow> v = JStr s \<and> P s"
  by (auto simp: string_matching_def split: js.splits if_splits)

lemma timestamp_field_Some [validator_dests]:
  "timestamp_field v = Some t \<Longrightarrow> 0 \<le> t \<and> t \<le> DATE_MAX_MS"
  by (auto simp: timestamp_field_def dest: boundedInteger_Some)

lemma nullable_Some_Some [validator_dests]:
  "nullable f v = Some (Some x) \<Longrightarrow> f v = Some x"
  by (auto simp: nullable_def split: if_splits)

subsection \<open>Exact records\<close>

lemma readKeys_Nil [simp]: "readKeys [] v = Some []"
  by (simp add: readKeys_def)

lemma readKeys_Cons:
  "readKeys (k # ks) v =
     (case enumerableDataProp v k of None \<Rightarrow> None
      | Some x \<Rightarrow> map_option (Cons (k, x)) (readKeys ks v))"
  by (simp add: readKeys_def split: option.split)

lemma readKeys_keys: "readKeys ks v = Some r \<Longrightarrow> map fst r = ks"
  by (induction ks arbitrary: r) (auto simp: readKeys_Cons split: option.splits)

lemma readKeys_fld:
  "readKeys ks v = Some r \<Longrightarrow> k \<in> set ks \<Longrightarrow> enumerableDataProp v k = Some (fld r k)"
  by (induction ks arbitrary: r)
     (auto simp: readKeys_Cons fld_def split: option.splits if_splits)

text \<open>An accepted record carries exactly the listed keys, each read from an own enumerable
  data property: no accessor runs and no extra key survives.\<close>

lemma exactRecord_Some [validator_dests]:
  assumes "exactRecord keys v = Some r"
  shows "isPlainObject v \<and> map fst r = keys \<and> set (map fst (ownProps v)) \<subseteq> KStr ` set keys
     \<and> (\<forall>k \<in> set keys. enumerableDataProp v k = Some (fld r k))"
proof -
  from assms have plain: "isPlainObject v" and read: "readKeys keys v = Some r"
    and own: "\<not> list_ex (\<lambda>k. case k of KStr s \<Rightarrow> s \<notin> set keys | KSym _ \<Rightarrow> True) (map fst (ownProps v))"
    by (auto simp: exactRecord_def Let_def split: if_splits)
  have "k \<in> KStr ` set keys" if "k \<in> set (map fst (ownProps v))" for k
    using own that by (cases k) (fastforce simp: list_ex_iff)+
  with plain read show ?thesis
    using readKeys_keys [OF read] readKeys_fld [OF read] by auto
qed

lemma map_of_frozen_props:
  "map_of (map (\<lambda>(k, x). (KStr k, DataProp True x)) r) (KStr k) = map_option (DataProp True) (map_of r k)"
  by (induction r) auto

lemma enumerableDataProp_frozen_object [simp]:
  "enumerableDataProp (frozen_object r) k = map_of r k"
  by (simp add: enumerableDataProp_def frozen_object_def map_of_frozen_props split: option.split)

lemma readKeys_frozen_object:
  "distinct (map fst r) \<Longrightarrow> set ks \<subseteq> set (map fst r) \<Longrightarrow>
     readKeys ks (frozen_object r) = Some (map (\<lambda>k. (k, fld r k)) ks)"
proof (induction ks)
  case (Cons k ks)
  then obtain x where "map_of r k = Some x"
    by (cases "map_of r k") (auto simp: map_of_eq_None_iff)
  with Cons show ?case by (simp add: readKeys_Cons fld_def)
qed simp

lemma map_fld_self: "distinct (map fst r) \<Longrightarrow> map (\<lambda>k. (k, fld r k)) (map fst r) = r"
  by (simp add: comp_def) (auto simp: fld_def intro!: map_idI)

text \<open>A frozen object with exactly the expected keys is read back as it was built.\<close>

lemma exactRecord_frozen_object:
  assumes "map fst r = keys" and "distinct keys"
  shows "exactRecord keys (frozen_object r) = Some r"
proof -
  have own: "map fst (ownProps (frozen_object r)) = map KStr keys"
    using assms(1) by (auto simp: frozen_object_def)
  have "readKeys keys (frozen_object r) = Some (map (\<lambda>k. (k, fld r k)) keys)"
    using assms by (intro readKeys_frozen_object) auto
  also have "map (\<lambda>k. (k, fld r k)) keys = r"
    using assms map_fld_self [of r] by simp
  finally have read: "readKeys keys (frozen_object r) = Some r" .
  have "\<not> list_ex (\<lambda>k. case k of KStr s \<Rightarrow> s \<notin> set keys | KSym _ \<Rightarrow> True) (map KStr keys)"
    by (auto simp: list_ex_iff)
  then show ?thesis
    using read by (simp add: exactRecord_def own Let_def)
       (simp add: frozen_object_def)
qed

lemma fld_Cons [simp]: "fld ((k, x) # r) k' = (if k' = k then x else fld r k')"
  by (simp add: fld_def)

subsection \<open>Literals of closed vocabularies\<close>

text \<open>The string literal a constructor stands for in the program.\<close>

definition literal_of :: "(string \<times> 'a) list \<Rightarrow> 'a \<Rightarrow> string" where
  "literal_of tbl x = (case map_of (map (\<lambda>(s, y). (y, s)) tbl) x of Some s \<Rightarrow> s | None \<Rightarrow> [])"

lemma map_of_literal_of:
  assumes "distinct (map fst tbl)" and "x \<in> snd ` set tbl"
  shows "map_of tbl (literal_of tbl x) = Some x"
proof -
  from assms(2) obtain r where r: "(r, x) \<in> set tbl" by auto
  then have "(x, r) \<in> set (map (\<lambda>(s, y). (y, s)) tbl)" by force
  then obtain s where s: "map_of (map (\<lambda>(s, y). (y, s)) tbl) x = Some s"
    by (metis weak_map_of_SomeI)
  then have "(s, x) \<in> set tbl" by (auto dest!: map_of_SomeD)
  with assms(1) s show ?thesis by (simp add: literal_of_def map_of_is_SomeI)
qed

lemma literal_of_inj:
  assumes "distinct (map fst tbl)" and "\<And>z. z \<in> snd ` set tbl"
  shows "literal_of tbl x = literal_of tbl y \<longleftrightarrow> x = y"
  by (metis map_of_literal_of [OF assms(1) assms(2)] option.inject)

subsection \<open>Exact records with optional keys\<close>

definition exactRecordOpt :: "string list \<Rightarrow> string list \<Rightarrow> js \<Rightarrow> js_record option" where
  "exactRecordOpt keys optionalKeys v =
     (if \<not> isPlainObject v then None
      else let own = map fst (ownProps v) in
        if list_ex (\<lambda>k. case k of KStr s \<Rightarrow> s \<notin> set keys \<and> s \<notin> set optionalKeys | KSym _ \<Rightarrow> True) own
        then None
        else let present = keys @ filter (\<lambda>k. KStr k \<in> set own) optionalKeys in
          if length own \<noteq> length present then None else readKeys present v)"

definition optionalBoolean :: "js_record \<Rightarrow> string \<Rightarrow> bool option" where
  "optionalBoolean r k = (case map_of r k of
     None \<Rightarrow> Some False
   | Some (JBool b) \<Rightarrow> Some b
   | Some _ \<Rightarrow> None)"

subsection \<open>Patterned text\<close>

definition BASE58_ALPHABET :: string where
  "BASE58_ALPHABET = ''123456789ABCDEFGHJKLMNPQRSTUVWXYZabcdefghijkmnopqrstuvwxyz''"

definition is_base58_text :: "nat \<Rightarrow> nat \<Rightarrow> string \<Rightarrow> bool" where
  "is_base58_text minimumLength maximumLength s =
     (minimumLength \<le> length s \<and> length s \<le> maximumLength \<and> list_all (\<lambda>c. c \<in> set BASE58_ALPHABET) s)"

definition is_alnum :: "char \<Rightarrow> bool" where
  "is_alnum c = (let u = code_unit c in
     48 \<le> u \<and> u \<le> 57 \<or> 65 \<le> u \<and> u \<le> 90 \<or> 97 \<le> u \<and> u \<le> 122)"

text \<open>\<open>/^[A-Za-z0-9][A-Za-z0-9._-]{0,63}$/u\<close>\<close>

definition is_identifier :: "string \<Rightarrow> bool" where
  "is_identifier s = (case s of
     [] \<Rightarrow> False
   | c # cs \<Rightarrow> is_alnum c \<and> length cs \<le> 63
       \<and> list_all (\<lambda>x. is_alnum x \<or> x \<in> {CHR ''.'', CHR ''_'', CHR ''-''}) cs)"

end
