(* ===== verification/Execution_Types.thy ===== *)
theory Execution_Types
  imports Js_Value
begin

text \<open>
  The closed vocabularies of the execution domain (\<open>src/src/domain/execution-intent.ts\<close>): order
  sides, venue policies, intent statuses and reason codes, each with the table of
  string literals that stand for it in the program.
\<close>

datatype side = BUY | SELL

definition SIDES :: "(string \<times> side) list" where
  "SIDES = [(''BUY'', BUY), (''SELL'', SELL)]"

datatype venue_policy = PUMP_FUN_ONLY | CANONICAL_EXIT

definition VENUE_POLICIES :: "(string \<times> venue_policy) list" where
  "VENUE_POLICIES = [(''PUMP_FUN_ONLY'', PUMP_FUN_ONLY), (''CANONICAL_EXIT'', CANONICAL_EXIT)]"

datatype token_program = SPL_TOKEN | TOKEN_2022

definition TOKEN_PROGRAMS :: "(string \<times> token_program) list" where
  "TOKEN_PROGRAMS = [(''SPL_TOKEN'', SPL_TOKEN), (''TOKEN_2022'', TOKEN_2022)]"

datatype intent_status =
    PENDING
  | PROCESSING
  | SIMULATED
  | RETRY_READY
  | SIGNED_NOT_SUBMITTED
  | SUBMITTED
  | CONFIRMED
  | RECONCILING
  | SUCCEEDED
  | FAILED
  | EXPIRED
  | CANCELLED
  | UNKNOWN_REQUIRES_RECONCILIATION

definition EXECUTION_INTENT_STATUSES :: "(string \<times> intent_status) list" where
  "EXECUTION_INTENT_STATUSES =
  [(''PENDING'', PENDING),
   (''PROCESSING'', PROCESSING),
   (''SIMULATED'', SIMULATED),
   (''RETRY_READY'', RETRY_READY),
   (''SIGNED_NOT_SUBMITTED'', SIGNED_NOT_SUBMITTED),
   (''SUBMITTED'', SUBMITTED),
   (''CONFIRMED'', CONFIRMED),
   (''RECONCILING'', RECONCILING),
   (''SUCCEEDED'', SUCCEEDED),
   (''FAILED'', FAILED),
   (''EXPIRED'', EXPIRED),
   (''CANCELLED'', CANCELLED),
   (''UNKNOWN_REQUIRES_RECONCILIATION'', UNKNOWN_REQUIRES_RECONCILIATION)]"

datatype execution_reason =
    INTENT_EXPIRED
  | INTENT_DUPLICATE
  | INTENT_LEASE_LOST
  | QUALIFICATION_STALE
  | DECISION_STALE
  | QUOTE_STALE
  | QUOTE_MINT_NOT_ALLOWED
  | VENUE_UNAVAILABLE
  | BUY_SIMULATION_FAILED
  | SELL_SIMULATION_FAILED
  | SELL_QUOTE_UNAVAILABLE
  | MINIMUM_AMOUNT_OUT_VIOLATED
  | UNSUPPORTED_TOKEN_EXTENSION
  | WALLET_MISMATCH
  | GENESIS_MISMATCH
  | EXECUTION_PROVIDER_FAILED
  | EXECUTION_BUILD_FAILED
  | EXECUTION_EVIDENCE_INVALID
  | CAPITAL_LIMIT_EXCEEDED
  | EXPOSURE_LIMIT_EXCEEDED
  | DRAWDOWN_LIMIT_EXCEEDED
  | PROVIDER_USAGE_UNKNOWN
  | PROVIDER_ENTRY_LIMIT_REACHED
  | PROVIDER_EXIT_ONLY
  | KILL_SWITCH_ACTIVE
  | HARD_STOP_ACTIVE
  | ARMING_REQUIRED
  | ARMING_EXPIRED
  | SIGNATURE_PERSIST_FAILED
  | PRE_SUBMISSION_REVOKED_NO_SEND
  | SUBMISSION_AMBIGUOUS
  | CONFIRMATION_TIMEOUT
  | RECONCILIATION_REQUIRED
  | BALANCE_MISMATCH
  | RESIDUAL_TOKEN_BALANCE
  | DOUBLE_ORDER_SUSPECTED
  | EXECUTION_STARTED
  | SIMULATION_SUCCEEDED
  | ATTEMPT_COMPLETED
  | RETRY_AUTHORIZED
  | SIGNATURE_PERSISTED
  | SUBMISSION_ACCEPTED
  | CONFIRMATION_OBSERVED
  | RECONCILIATION_STARTED
  | INTENT_SUCCEEDED
  | INTENT_CANCELLED
  | RECONCILIATION_PROVED_NO_EFFECT

definition EXECUTION_INTENT_REASON_CODES :: "(string \<times> execution_reason) list" where
  "EXECUTION_INTENT_REASON_CODES =
  [(''INTENT_EXPIRED'', INTENT_EXPIRED),
   (''INTENT_DUPLICATE'', INTENT_DUPLICATE),
   (''INTENT_LEASE_LOST'', INTENT_LEASE_LOST),
   (''QUALIFICATION_STALE'', QUALIFICATION_STALE),
   (''DECISION_STALE'', DECISION_STALE),
   (''QUOTE_STALE'', QUOTE_STALE),
   (''QUOTE_MINT_NOT_ALLOWED'', QUOTE_MINT_NOT_ALLOWED),
   (''VENUE_UNAVAILABLE'', VENUE_UNAVAILABLE),
   (''BUY_SIMULATION_FAILED'', BUY_SIMULATION_FAILED),
   (''SELL_SIMULATION_FAILED'', SELL_SIMULATION_FAILED),
   (''SELL_QUOTE_UNAVAILABLE'', SELL_QUOTE_UNAVAILABLE),
   (''MINIMUM_AMOUNT_OUT_VIOLATED'', MINIMUM_AMOUNT_OUT_VIOLATED),
   (''UNSUPPORTED_TOKEN_EXTENSION'', UNSUPPORTED_TOKEN_EXTENSION),
   (''WALLET_MISMATCH'', WALLET_MISMATCH),
   (''GENESIS_MISMATCH'', GENESIS_MISMATCH),
   (''EXECUTION_PROVIDER_FAILED'', EXECUTION_PROVIDER_FAILED),
   (''EXECUTION_BUILD_FAILED'', EXECUTION_BUILD_FAILED),
   (''EXECUTION_EVIDENCE_INVALID'', EXECUTION_EVIDENCE_INVALID),
   (''CAPITAL_LIMIT_EXCEEDED'', CAPITAL_LIMIT_EXCEEDED),
   (''EXPOSURE_LIMIT_EXCEEDED'', EXPOSURE_LIMIT_EXCEEDED),
   (''DRAWDOWN_LIMIT_EXCEEDED'', DRAWDOWN_LIMIT_EXCEEDED),
   (''PROVIDER_USAGE_UNKNOWN'', PROVIDER_USAGE_UNKNOWN),
   (''PROVIDER_ENTRY_LIMIT_REACHED'', PROVIDER_ENTRY_LIMIT_REACHED),
   (''PROVIDER_EXIT_ONLY'', PROVIDER_EXIT_ONLY),
   (''KILL_SWITCH_ACTIVE'', KILL_SWITCH_ACTIVE),
   (''HARD_STOP_ACTIVE'', HARD_STOP_ACTIVE),
   (''ARMING_REQUIRED'', ARMING_REQUIRED),
   (''ARMING_EXPIRED'', ARMING_EXPIRED),
   (''SIGNATURE_PERSIST_FAILED'', SIGNATURE_PERSIST_FAILED),
   (''PRE_SUBMISSION_REVOKED_NO_SEND'', PRE_SUBMISSION_REVOKED_NO_SEND),
   (''SUBMISSION_AMBIGUOUS'', SUBMISSION_AMBIGUOUS),
   (''CONFIRMATION_TIMEOUT'', CONFIRMATION_TIMEOUT),
   (''RECONCILIATION_REQUIRED'', RECONCILIATION_REQUIRED),
   (''BALANCE_MISMATCH'', BALANCE_MISMATCH),
   (''RESIDUAL_TOKEN_BALANCE'', RESIDUAL_TOKEN_BALANCE),
   (''DOUBLE_ORDER_SUSPECTED'', DOUBLE_ORDER_SUSPECTED),
   (''EXECUTION_STARTED'', EXECUTION_STARTED),
   (''SIMULATION_SUCCEEDED'', SIMULATION_SUCCEEDED),
   (''ATTEMPT_COMPLETED'', ATTEMPT_COMPLETED),
   (''RETRY_AUTHORIZED'', RETRY_AUTHORIZED),
   (''SIGNATURE_PERSISTED'', SIGNATURE_PERSISTED),
   (''SUBMISSION_ACCEPTED'', SUBMISSION_ACCEPTED),
   (''CONFIRMATION_OBSERVED'', CONFIRMATION_OBSERVED),
   (''RECONCILIATION_STARTED'', RECONCILIATION_STARTED),
   (''INTENT_SUCCEEDED'', INTENT_SUCCEEDED),
   (''INTENT_CANCELLED'', INTENT_CANCELLED),
   (''RECONCILIATION_PROVED_NO_EFFECT'', RECONCILIATION_PROVED_NO_EFFECT)]"

abbreviation WSOL_MINT :: string where
  "WSOL_MINT \<equiv> ''So11111111111111111111111111111111111111112''"

lemma reason_table:
  "distinct (map fst EXECUTION_INTENT_REASON_CODES)" "z \<in> snd ` set EXECUTION_INTENT_REASON_CODES"
proof -
  show "distinct (map fst EXECUTION_INTENT_REASON_CODES)" by code_simp
  have "z \<in> set (map snd EXECUTION_INTENT_REASON_CODES)"
    by (simp add: EXECUTION_INTENT_REASON_CODES_def) (cases z; simp)
  then show "z \<in> snd ` set EXECUTION_INTENT_REASON_CODES" by simp
qed

lemma reason_literals: "literal_of EXECUTION_INTENT_REASON_CODES a = literal_of EXECUTION_INTENT_REASON_CODES b \<longleftrightarrow> a = b"
  by (rule literal_of_inj [OF reason_table])

lemma reason_literal_read:
  "map_of EXECUTION_INTENT_REASON_CODES (literal_of EXECUTION_INTENT_REASON_CODES r) = Some r"
  by (rule map_of_literal_of [OF reason_table])

end
