(* ===== verification/Fault_Policy.thy ===== *)
theory Fault_Policy
  imports Execution_Types
begin



















end
