(* ===== verification/Json_Text.thy ===== *)
theory Json_Text
  imports Prelude
begin

text \<open>
  \<open>JSON.stringify\<close> on the values the fingerprints are built from: nested arrays and
  objects of strings, integers, booleans and \<open>null\<close>; an object is the list of its members in the
  order they are written. The text is shown to determine the value, so two fingerprints
  can only agree on different inputs where SHA-256 itself collides.
\<close>

datatype json =
    JsonNull
  | JsonBool bool
  | JsonInt int
  | JsonStr string
  | JsonArr "json list"
  | JsonObj "(string \<times> json) list"

definition hex_digit :: "nat \<Rightarrow> char" where
  "hex_digit d = char_of (if d < 10 then 48 + d else 87 + d)"

definition json_escape :: "char \<Rightarrow> string" where
  "json_escape c = (let u = code_unit c in
     if u = 8 then [CHR 0x5C, CHR ''b'']
     else if u = 9 then [CHR 0x5C, CHR ''t'']
     else if u = 10 then [CHR 0x5C, CHR ''n'']
     else if u = 12 then [CHR 0x5C, CHR ''f'']
     else if u = 13 then [CHR 0x5C, CHR ''r'']
     else if u = 34 then [CHR 0x5C, CHR 0x22]
     else if u = 92 then [CHR 0x5C, CHR 0x5C]
     else if u < 32 then [CHR 0x5C, CHR ''u'', CHR ''0'', CHR ''0'', hex_digit (u div 16), hex_digit (u mod 16)]
     else [c])"

definition json_quote :: "string \<Rightarrow> string" where
  "json_quote s = CHR 0x22 # concat (map json_escape s) @ [CHR 0x22]"

fun json_join :: "string list \<Rightarrow> string" where
  "json_join [] = []"
| "json_join [x] = x"
| "json_join (x # y # zs) = x @ CHR '','' # json_join (y # zs)"

fun stringify :: "json \<Rightarrow> string" where
  "stringify JsonNull = ''null''"
| "stringify (JsonBool b) = (if b then ''true'' else ''false'')"
| "stringify (JsonInt i) = dec_int i"
| "stringify (JsonStr s) = json_quote s"
| "stringify (JsonArr js) = CHR ''['' # json_join (map stringify js) @ [CHR '']'']"
| "stringify (JsonObj members) =
     CHR ''{'' # json_join (map (\<lambda>(k, j). json_quote k @ CHR '':'' # stringify j) members) @ [CHR ''}'']"

subsection \<open>The text determines the value\<close>

text \<open>The inverse reader of one escaped character.\<close>

definition hex_value :: "char \<Rightarrow> nat" where
  "hex_value c = (if code_unit c < 58 then code_unit c - 48 else code_unit c - 87)"

definition json_unescape :: "string \<Rightarrow> char \<times> string" where
  "json_unescape xs =
     (if hd xs \<noteq> CHR 0x5C then (hd xs, tl xs)
      else let y = hd (tl xs); more = tl (tl xs) in
        if y = CHR ''b'' then (char_of (8 :: nat), more)
        else if y = CHR ''t'' then (char_of (9 :: nat), more)
        else if y = CHR ''n'' then (char_of (10 :: nat), more)
        else if y = CHR ''f'' then (char_of (12 :: nat), more)
        else if y = CHR ''r'' then (char_of (13 :: nat), more)
        else if y = CHR ''u'' then (char_of (16 * hex_value (more ! 2) + hex_value (more ! 3)), drop 4 more)
        else (y, more))"

lemma code_unit_inj: "code_unit c = code_unit d \<longleftrightarrow> c = d"
  by (simp add: code_unit_def)

lemma code_unit_char_of: "n < 256 \<Longrightarrow> code_unit (char_of n) = n"
  by (simp add: code_unit_def take_bit_nat_eq_self)

lemma hex_value_hex_digit: "d < 16 \<Longrightarrow> hex_value (hex_digit d) = d"
  by (simp add: hex_value_def hex_digit_def code_unit_char_of)

lemma char_of_code_unit [simp]: "char_of (code_unit c) = c"
  by (simp add: code_unit_def)

lemma char_of_eqI: "code_unit c = n \<Longrightarrow> char_of n = c"
  by auto

lemma code_unit_quote: "code_unit c = 34 \<Longrightarrow> CHR 0x22 = c"
  by (rule code_unit_inj [THEN iffD1]) (simp add: code_unit_def)

lemma code_unit_backslash: "code_unit c = 92 \<Longrightarrow> CHR 0x5C = c"
  by (rule code_unit_inj [THEN iffD1]) (simp add: code_unit_def)

text \<open>Evaluation of the escapes works on the bits of a character.\<close>

lemma code_unit_eq_char: "code_unit d = n \<Longrightarrow> code_unit c = n \<longleftrightarrow> c = d"
  using code_unit_inj by auto

lemma json_escape_code [code]:
  "json_escape c =
     (if c = CHR 0x08 then [CHR 0x5C, CHR ''b'']
      else if c = CHR 0x09 then [CHR 0x5C, CHR ''t'']
      else if c = CHR 0x0A then [CHR 0x5C, CHR ''n'']
      else if c = CHR 0x0C then [CHR 0x5C, CHR ''f'']
      else if c = CHR 0x0D then [CHR 0x5C, CHR ''r'']
      else if c = CHR 0x22 then [CHR 0x5C, CHR 0x22]
      else if c = CHR 0x5C then [CHR 0x5C, CHR 0x5C]
      else case c of Char b0 b1 b2 b3 b4 b5 b6 b7 \<Rightarrow>
        if \<not> b5 \<and> \<not> b6 \<and> \<not> b7
        then [CHR 0x5C, CHR ''u'', CHR ''0'', CHR ''0'', hex_digit (code_unit c div 16), hex_digit (code_unit c mod 16)]
        else [c])"
proof -
  have specials: "code_unit c = 8 \<longleftrightarrow> c = CHR 0x08" "code_unit c = 9 \<longleftrightarrow> c = CHR 0x09" "code_unit c = 10 \<longleftrightarrow> c = CHR 0x0A"
    "code_unit c = 12 \<longleftrightarrow> c = CHR 0x0C" "code_unit c = 13 \<longleftrightarrow> c = CHR 0x0D" "code_unit c = 34 \<longleftrightarrow> c = CHR 0x22"
    "code_unit c = 92 \<longleftrightarrow> c = CHR 0x5C"
    by (rule code_unit_eq_char, simp add: code_unit_def)+
  have control: "(case c of Char b0 b1 b2 b3 b4 b5 b6 b7 \<Rightarrow> if \<not> b5 \<and> \<not> b6 \<and> \<not> b7 then x else y)
      = (if code_unit c < 32 then x else y)" for x y :: string
  proof (cases c)
    case (Char b0 b1 b2 b3 b4 b5 b6 b7)
    have "code_unit c < 32 \<longleftrightarrow> \<not> b5 \<and> \<not> b6 \<and> \<not> b7" unfolding Char by (simp add: code_unit_def)
    then show ?thesis unfolding Char by simp
  qed
  show ?thesis unfolding json_escape_def Let_def specials control ..
qed

lemma json_unescape_control:
  assumes "code_unit c < 32"
  shows "json_unescape ([CHR 0x5C, CHR ''u'', CHR ''0'', CHR ''0'', hex_digit (code_unit c div 16), hex_digit (code_unit c mod 16)] @ xs)
    = (c, xs)"
proof -
  have "hex_value (hex_digit (code_unit c div 16)) = code_unit c div 16"
    "hex_value (hex_digit (code_unit c mod 16)) = code_unit c mod 16"
    using assms by (simp_all add: hex_value_hex_digit)
  then show ?thesis
    by (simp add: json_unescape_def)
qed

lemma json_unescape_escape: "json_unescape (json_escape c @ xs) = (c, xs)"
proof -
  consider (special) "code_unit c \<in> {8, 9, 10, 12, 13, 34, 92}"
    | (control) "code_unit c \<notin> {8, 9, 10, 12, 13, 34, 92}" "code_unit c < 32"
    | (plain) "code_unit c \<notin> {8, 9, 10, 12, 13, 34, 92}" "\<not> code_unit c < 32"
    by blast
  then show ?thesis
  proof cases
    case special
    then show ?thesis
      by (auto simp: json_escape_def json_unescape_def Let_def intro: char_of_eqI code_unit_quote code_unit_backslash)
  next
    case control
    then show ?thesis
      using json_unescape_control [of c xs] by (simp add: json_escape_def Let_def)
  next
    case plain
    moreover from plain have "c \<noteq> CHR 0x5C" by (auto simp: code_unit_def)
    ultimately show ?thesis by (simp add: json_escape_def json_unescape_def)
  qed
qed

lemma json_escape_prefix: "json_escape c @ xs = json_escape d @ ys \<Longrightarrow> c = d \<and> xs = ys"
  by (metis json_unescape_escape prod.inject)

lemma json_escape_hd: "\<exists>x xs. json_escape c = x # xs \<and> x \<noteq> CHR 0x22"
proof (cases "code_unit c = 34")
  case False
  then have "c \<noteq> CHR 0x22" by (auto simp: code_unit_def)
  then show ?thesis by (simp add: json_escape_def Let_def)
qed (simp add: json_escape_def)

lemma json_quote_prefix:
  assumes "json_quote s @ xs = json_quote t @ ys"
  shows "s = t \<and> xs = ys"
proof -
  have "concat (map json_escape s) @ CHR 0x22 # xs = concat (map json_escape t) @ CHR 0x22 # ys
      \<Longrightarrow> s = t \<and> xs = ys"
  proof (induction s arbitrary: t)
    case Nil
    then show ?case
    proof (cases t)
      case (Cons c cs)
      obtain x zs where "json_escape c = x # zs" "x \<noteq> CHR 0x22"
        using json_escape_hd by blast
      with Nil Cons show ?thesis by auto
    qed simp
  next
    case (Cons c cs)
    show ?case
    proof (cases t)
      case Nil
      obtain x zs where "json_escape c = x # zs" "x \<noteq> CHR 0x22"
        using json_escape_hd by blast
      with Nil Cons.prems show ?thesis by auto
    next
      case (Cons d ds)
      with Cons.prems
      have "json_escape c @ (concat (map json_escape cs) @ CHR 0x22 # xs)
          = json_escape d @ (concat (map json_escape ds) @ CHR 0x22 # ys)"
        by simp
      from json_escape_prefix [OF this] Cons.IH [of ds] Cons show ?thesis by blast
    qed
  qed
  with assms show ?thesis by (simp add: json_quote_def)
qed


text \<open>A number ends where a separator or the end of the text follows.\<close>

definition json_delimited :: "string \<Rightarrow> bool" where
  "json_delimited xs = (xs = [] \<or> hd xs = CHR '','' \<or> hd xs = CHR '']'' \<or> hd xs = CHR ''}'')"

definition numeric_char :: "char \<Rightarrow> bool" where
  "numeric_char c = (c = CHR ''-'' \<or> 48 \<le> code_unit c \<and> code_unit c \<le> 57)"

lemma dec_int_numeric: "list_all numeric_char (dec_int i)"
  using dec_nat_digits by (auto simp: dec_int_def numeric_char_def list_all_iff)

lemma json_delimited_not_numeric: "json_delimited xs \<Longrightarrow> takeWhile numeric_char xs = []"
  by (cases xs) (auto simp: json_delimited_def numeric_char_def code_unit_def)

lemma dec_int_prefix:
  assumes "dec_int i @ xs = dec_int j @ ys" "json_delimited xs" "json_delimited ys"
  shows "i = j \<and> xs = ys"
proof -
  have "takeWhile numeric_char (dec_int n @ zs) = dec_int n" if "json_delimited zs" for n zs
    using dec_int_numeric [of n] json_delimited_not_numeric [OF that]
    by (simp add: list_all_iff takeWhile_append2)
  with assms have "dec_int i = dec_int j" by metis
  with assms(1) show ?thesis by (auto dest: dec_int_inj)
qed

lemma dec_int_hd: "numeric_char (hd (dec_int i)) \<and> dec_int i \<noteq> []"
  using dec_int_numeric [of i] by (cases "dec_int i") (auto simp: dec_int_def split: if_splits)

lemma dec_int_append_hd: "dec_int i @ xs = c # ys \<Longrightarrow> numeric_char c"
  using dec_int_hd [of i] by (cases "dec_int i") auto

lemmas dec_int_append_hds = dec_int_append_hd dec_int_append_hd [OF sym]

lemma not_numeric [simp]:
  "\<not> numeric_char CHR ''n''" "\<not> numeric_char CHR ''t''" "\<not> numeric_char CHR ''f''"
  "\<not> numeric_char CHR ''[''" "\<not> numeric_char CHR 0x22" "\<not> numeric_char CHR '']''"
  "\<not> numeric_char CHR ''{''" "\<not> numeric_char CHR ''}''"
  by (simp_all add: numeric_char_def code_unit_def)

lemma stringify_hd: "\<exists>x xs. stringify j = x # xs \<and> x \<noteq> CHR '']''"
proof (cases j)
  case (JsonInt i)
  then show ?thesis using dec_int_hd [of i]
    by (cases "dec_int i") (auto simp: numeric_char_def code_unit_def)
qed (auto simp: json_quote_def)

lemma json_join_Cons:
  "json_join (x # xs) = x @ (if xs = [] then [] else CHR '','' # json_join xs)"
  by (cases xs) simp_all

text \<open>A printer whose text, followed by a delimiter, determines the value and the rest.\<close>

definition decodable :: "('a \<Rightarrow> string) \<Rightarrow> 'a \<Rightarrow> bool" where
  "decodable f x = (\<forall>y xs ys. json_delimited xs \<longrightarrow> json_delimited ys \<longrightarrow>
     f x @ xs = f y @ ys \<longrightarrow> x = y \<and> xs = ys)"

abbreviation stringify_decodable :: "json \<Rightarrow> bool" where
  "stringify_decodable \<equiv> decodable stringify"

abbreviation json_member :: "string \<times> json \<Rightarrow> string" where
  "json_member \<equiv> (\<lambda>(k, j). json_quote k @ CHR '':'' # stringify j)"

lemma json_join_prefix:
  assumes "\<forall>x \<in> set xs. decodable f x" and close: "c = CHR '']'' \<or> c = CHR ''}''"
    and hd: "\<And>x. \<exists>y ys. f x = y # ys \<and> y \<noteq> c"
    and "json_join (map f xs) @ c # us = json_join (map f ys) @ c # vs"
  shows "xs = ys \<and> us = vs"
  using assms(1,4)
proof (induction xs arbitrary: ys)
  case Nil
  show ?case
  proof (cases ys)
    case (Cons y rest)
    obtain z zs where "f y = z # zs" "z \<noteq> c" using hd by blast
    with Nil Cons show ?thesis by (simp add: json_join_Cons)
  qed (use Nil in simp)
next
  case (Cons x xs)
  show ?case
  proof (cases ys)
    case Nil
    obtain z zs where "f x = z # zs" "z \<noteq> c" using hd by blast
    with Nil Cons.prems show ?thesis by (simp add: json_join_Cons)
  next
    case ys: (Cons y rest)
    define tail where "tail ks ws = (if ks = [] then [] else CHR '','' # json_join (map f ks)) @ c # ws" for ks ws
    have delim: "json_delimited (tail ks ws)" for ks ws
      using close by (auto simp: tail_def json_delimited_def)
    have "f x @ tail xs us = f y @ tail rest vs"
      using Cons.prems(2) ys by (simp add: json_join_Cons tail_def)
    with Cons.prems(1) delim have "x = y" and tails: "tail xs us = tail rest vs"
      unfolding decodable_def by (meson list.set_intros(1))+
    moreover from tails have "xs = rest \<and> us = vs"
      using Cons.IH [of rest] Cons.prems(1) close by (auto simp: tail_def split: if_splits)
    ultimately show ?thesis using ys by simp
  qed
qed

lemma json_member_hd: "\<exists>y ys. json_member m = y # ys \<and> y \<noteq> CHR ''}''"
  by (cases m) (simp add: json_quote_def)

lemma json_member_decodable:
  assumes "stringify_decodable (snd m)"
  shows "decodable json_member m"
  unfolding decodable_def
proof (intro allI impI)
  fix m' xs ys
  assume d: "json_delimited xs" "json_delimited ys" and eq: "json_member m @ xs = json_member m' @ ys"
  obtain k j k' j' where m: "m = (k, j)" "m' = (k', j')" by (cases m, cases m')
  from eq m have "json_quote k @ (CHR '':'' # stringify j @ xs) = json_quote k' @ (CHR '':'' # stringify j' @ ys)" by simp
  from json_quote_prefix [OF this] have "k = k'" "stringify j @ xs = stringify j' @ ys" by simp_all
  with assms d m show "m = m' \<and> xs = ys" unfolding decodable_def by auto
qed

lemma stringify_all_decodable: "stringify_decodable j"
proof (induction j)
  case JsonNull
  show ?case unfolding decodable_def
  proof (intro allI impI)
    fix j' xs ys assume "stringify JsonNull @ xs = stringify j' @ ys"
    then show "JsonNull = j' \<and> xs = ys"
      by (cases j') (auto simp: json_quote_def dest!: dec_int_append_hds split: if_splits)
  qed
next
  case (JsonBool b)
  show ?case unfolding decodable_def
  proof (intro allI impI)
    fix j' xs ys assume "stringify (JsonBool b) @ xs = stringify j' @ ys"
    then show "JsonBool b = j' \<and> xs = ys"
      by (cases j') (auto simp: json_quote_def dest!: dec_int_append_hds split: if_splits)
  qed
next
  case (JsonInt i)
  show ?case unfolding decodable_def
  proof (intro allI impI)
    fix j' xs ys assume d: "json_delimited xs" "json_delimited ys"
      and eq: "stringify (JsonInt i) @ xs = stringify j' @ ys"
    show "JsonInt i = j' \<and> xs = ys"
    proof (cases j')
      case (JsonInt i')
      with eq d dec_int_prefix [of i xs i' ys] show ?thesis by simp
    qed (use eq in \<open>auto simp: json_quote_def dest!: dec_int_append_hds split: if_splits\<close>)
  qed
next
  case (JsonStr s)
  show ?case unfolding decodable_def
  proof (intro allI impI)
    fix j' xs ys assume eq: "stringify (JsonStr s) @ xs = stringify j' @ ys"
    show "JsonStr s = j' \<and> xs = ys"
    proof (cases j')
      case (JsonStr s')
      with eq json_quote_prefix [of s xs s' ys] show ?thesis by simp
    qed (use eq in \<open>auto simp: json_quote_def dest!: dec_int_append_hds split: if_splits\<close>)
  qed
next
  case (JsonArr js)
  show ?case unfolding decodable_def
  proof (intro allI impI)
    fix j' xs ys assume eq: "stringify (JsonArr js) @ xs = stringify j' @ ys"
    show "JsonArr js = j' \<and> xs = ys"
    proof (cases j')
      case (JsonArr js')
      have "js = js' \<and> xs = ys"
        by (rule json_join_prefix [where f = stringify and c = "CHR '']''"]) (use eq JsonArr JsonArr.IH stringify_hd in auto)
      with JsonArr show ?thesis by simp
    qed (use eq in \<open>auto simp: json_quote_def dest!: dec_int_append_hds split: if_splits\<close>)
  qed
next
  case (JsonObj ms)
  show ?case unfolding decodable_def
  proof (intro allI impI)
    fix j' xs ys assume eq: "stringify (JsonObj ms) @ xs = stringify j' @ ys"
    show "JsonObj ms = j' \<and> xs = ys"
    proof (cases j')
      case (JsonObj ms')
      have "\<forall>m \<in> set ms. decodable json_member m"
        using JsonObj.IH snds.intros by (blast intro: json_member_decodable)
      then have "ms = ms' \<and> xs = ys"
        by (rule json_join_prefix [where f = json_member and c = "CHR ''}''"]) (use eq JsonObj json_member_hd in auto)
      with JsonObj show ?thesis by simp
    qed (use eq in \<open>auto simp: json_quote_def dest!: dec_int_append_hds split: if_splits\<close>)
  qed
qed

lemma stringify_inj: "stringify j = stringify j' \<Longrightarrow> j = j'"
  using stringify_all_decodable [of j] unfolding decodable_def
  by (metis append_Nil2 json_delimited_def)

text \<open>A digest that separates the two texts separates the two values.\<close>

lemma digest_binds:
  assumes "inj_on h T" and "stringify j \<in> T" and "stringify j' \<in> T"
  shows "h (stringify j) = h (stringify j') \<longleftrightarrow> j = j'"
  using assms stringify_inj by (auto dest: inj_onD)

end
