(* ===== verification/Risk_Policy.thy ===== *)
theory Risk_Policy
  imports Execution_Types Json_Text
begin

text \<open>
  Capital and exposure limits of a BUY (\<open>src/src/domain/execution-risk-policy.ts\<close>): the risk policy
  and its fingerprint, the validation of a risk question, and the decision
  \<open>evaluateBuyRisk\<close>. SHA-256 is the argument \<open>sha256\<close>, a function from text to its digest.
  The decision is shown to coincide with limits stated in exact arithmetic (\<open>buy_allowed\<close>),
  although the code divides, rounds and saturates at 64 bits.
\<close>

abbreviation BPS_DENOMINATOR :: int where "BPS_DENOMINATOR \<equiv> 10000"

subsection \<open>Data\<close>

record risk_policy_input =
  quoteMintAllowlist :: "string list"
  initialCapitalLamports :: int
  maximumCapitalLamports :: int
  positionSizeBps :: int
  maximumOpenPositions :: int
  maximumTotalExposureBps :: int
  drawdownPauseBps :: int
  feeReserveLamports :: int
  walletSnapshotMaxAgeMs :: int
  providerUsageMaxAgeMs :: int
  providerEntryCostUnits :: int
  providerExitCostUnitsPerPosition :: int
  providerConfirmationCostUnitsPerPosition :: int
  providerReconciliationCostUnitsPerPosition :: int
  providerSafetyMarginUnits :: int
  maximumConsecutiveTechnicalFailures :: int

record risk_policy =
  policyPayloadVersion :: int
  policyFingerprint :: string
  policyFields :: risk_policy_input

datatype position_reconciliation = RECONCILED_POSITION | UNKNOWN_POSITION

record risk_position =
  riskPositionId :: string
  costBasisLamports :: int
  conservativeLiquidationLamports :: "int option"
  reconciliationStatus :: position_reconciliation

record risk_input =
  riskPolicy :: risk_policy
  quoteMint :: string
  requestedQuoteAmountRaw :: int
  realizedNetPnlLamports :: int
  reservedExposureLamports :: int
  openPositions :: "risk_position list"
  consecutiveTechnicalFailures :: int
  lastTechnicalFailureReasonCode :: "execution_reason option"

datatype risk_kind = ADMISSIBLE | REJECTED

record risk_decision =
  decisionPayloadVersion :: int
  kind :: risk_kind
  reasonCode :: "execution_reason option"
  reconciledCapitalLamports :: int
  capitalAfterFeeReserveLamports :: int
  positionLimitLamports :: int
  totalExposureLimitLamports :: int
  projectedExposureLamports :: int
  conservativeUnrealizedLossLamports :: int
  drawdownBps :: int
  openPositionCount :: int

definition POLICY_INPUT_KEYS :: "string list" where
  "POLICY_INPUT_KEYS =
  [''quoteMintAllowlist'', ''initialCapitalLamports'', ''maximumCapitalLamports'',
   ''positionSizeBps'', ''maximumOpenPositions'', ''maximumTotalExposureBps'',
   ''drawdownPauseBps'', ''feeReserveLamports'', ''walletSnapshotMaxAgeMs'',
   ''providerUsageMaxAgeMs'', ''providerEntryCostUnits'',
   ''providerExitCostUnitsPerPosition'', ''providerConfirmationCostUnitsPerPosition'',
   ''providerReconciliationCostUnitsPerPosition'', ''providerSafetyMarginUnits'',
   ''maximumConsecutiveTechnicalFailures'']"

definition POLICY_KEYS :: "string list" where
  "POLICY_KEYS = [''payloadVersion'', ''policyFingerprint''] @ POLICY_INPUT_KEYS"

definition RISK_INPUT_KEYS :: "string list" where
  "RISK_INPUT_KEYS =
  [''policy'', ''quoteMint'', ''requestedQuoteAmountRaw'', ''realizedNetPnlLamports'',
   ''reservedExposureLamports'', ''openPositions'', ''consecutiveTechnicalFailures'',
   ''lastTechnicalFailureReasonCode'']"

definition POSITION_KEYS :: "string list" where
  "POSITION_KEYS =
  [''positionId'', ''costBasisLamports'', ''conservativeLiquidationLamports'', ''reconciliationStatus'']"

definition TECHNICAL_FAILURE_REASON_CODES :: "(string \<times> execution_reason) list" where
  "TECHNICAL_FAILURE_REASON_CODES =
  [(''EXECUTION_BUILD_FAILED'', EXECUTION_BUILD_FAILED),
   (''BUY_SIMULATION_FAILED'', BUY_SIMULATION_FAILED),
   (''SELL_SIMULATION_FAILED'', SELL_SIMULATION_FAILED),
   (''EXECUTION_PROVIDER_FAILED'', EXECUTION_PROVIDER_FAILED),
   (''CONFIRMATION_TIMEOUT'', CONFIRMATION_TIMEOUT),
   (''RECONCILIATION_REQUIRED'', RECONCILIATION_REQUIRED)]"

subsection \<open>Validation\<close>

definition quoteMintAllowlistFrom :: "js \<Rightarrow> string list option" where
  "quoteMintAllowlistFrom v = (case v of
     JArr proxy frozen elems \<Rightarrow>
       if proxy \<or> length elems \<noteq> 1 then None
       else (case elems ! 0 of
           Some (DataProp True (JStr s)) \<Rightarrow> if s = WSOL_MINT then Some [WSOL_MINT] else None
         | _ \<Rightarrow> None)
   | _ \<Rightarrow> None)"

definition policyInputFromRecord :: "js_record \<Rightarrow> risk_policy_input option" where
  "policyInputFromRecord record = do {
     allowlist \<leftarrow> quoteMintAllowlistFrom (fld record ''quoteMintAllowlist'');
     initialCapital \<leftarrow> unsignedBigint (fld record ''initialCapitalLamports'');
     maximumCapital \<leftarrow> positiveBigint (fld record ''maximumCapitalLamports'');
     positionSize \<leftarrow> boundedBigint 1 1000 (fld record ''positionSizeBps'');
     maximumOpen \<leftarrow> boundedInteger 1 2 (fld record ''maximumOpenPositions'');
     maximumExposure \<leftarrow> boundedBigint 1 2000 (fld record ''maximumTotalExposureBps'');
     drawdownPause \<leftarrow> boundedBigint 1 2500 (fld record ''drawdownPauseBps'');
     feeReserve \<leftarrow> unsignedBigint (fld record ''feeReserveLamports'');
     walletAge \<leftarrow> boundedInteger 1 900000 (fld record ''walletSnapshotMaxAgeMs'');
     providerAge \<leftarrow> boundedInteger 30000 900000 (fld record ''providerUsageMaxAgeMs'');
     entryCost \<leftarrow> positiveBigint (fld record ''providerEntryCostUnits'');
     exitCost \<leftarrow> positiveBigint (fld record ''providerExitCostUnitsPerPosition'');
     confirmationCost \<leftarrow> positiveBigint (fld record ''providerConfirmationCostUnitsPerPosition'');
     reconciliationCost \<leftarrow> positiveBigint (fld record ''providerReconciliationCostUnitsPerPosition'');
     safetyMargin \<leftarrow> unsignedBigint (fld record ''providerSafetyMarginUnits'');
     maximumFailures \<leftarrow> boundedInteger 2 2 (fld record ''maximumConsecutiveTechnicalFailures'');
     (if initialCapital > maximumCapital \<or> feeReserve > maximumCapital then None
      else Some \<lparr>
        quoteMintAllowlist = allowlist,
        initialCapitalLamports = initialCapital,
        maximumCapitalLamports = maximumCapital,
        positionSizeBps = positionSize,
        maximumOpenPositions = maximumOpen,
        maximumTotalExposureBps = maximumExposure,
        drawdownPauseBps = drawdownPause,
        feeReserveLamports = feeReserve,
        walletSnapshotMaxAgeMs = walletAge,
        providerUsageMaxAgeMs = providerAge,
        providerEntryCostUnits = entryCost,
        providerExitCostUnitsPerPosition = exitCost,
        providerConfirmationCostUnitsPerPosition = confirmationCost,
        providerReconciliationCostUnitsPerPosition = reconciliationCost,
        providerSafetyMarginUnits = safetyMargin,
        maximumConsecutiveTechnicalFailures = maximumFailures\<rparr>)
   }"

definition policyInputFrom :: "js \<Rightarrow> risk_policy_input option" where
  "policyInputFrom v = do {
     record \<leftarrow> exactRecord POLICY_INPUT_KEYS v;
     policyInputFromRecord record
   }"

definition policyPreimage :: "risk_policy_input \<Rightarrow> json" where
  "policyPreimage p = JsonArr
  [JsonStr ''execution-risk-policy-v1'',
   JsonArr (map JsonStr (quoteMintAllowlist p)),
   JsonStr (dec_int (initialCapitalLamports p)),
   JsonStr (dec_int (maximumCapitalLamports p)),
   JsonStr (dec_int (positionSizeBps p)),
   JsonInt (maximumOpenPositions p),
   JsonStr (dec_int (maximumTotalExposureBps p)),
   JsonStr (dec_int (drawdownPauseBps p)),
   JsonStr (dec_int (feeReserveLamports p)),
   JsonInt (walletSnapshotMaxAgeMs p),
   JsonInt (providerUsageMaxAgeMs p),
   JsonStr (dec_int (providerEntryCostUnits p)),
   JsonStr (dec_int (providerExitCostUnitsPerPosition p)),
   JsonStr (dec_int (providerConfirmationCostUnitsPerPosition p)),
   JsonStr (dec_int (providerReconciliationCostUnitsPerPosition p)),
   JsonStr (dec_int (providerSafetyMarginUnits p)),
   JsonInt (maximumConsecutiveTechnicalFailures p)]"

definition fingerprintPolicy :: "(string \<Rightarrow> string) \<Rightarrow> risk_policy_input \<Rightarrow> string" where
  "fingerprintPolicy sha256 p = sha256 (stringify (policyPreimage p))"

definition createExecutionRiskPolicy :: "(string \<Rightarrow> string) \<Rightarrow> js \<Rightarrow> risk_policy option" where
  "createExecutionRiskPolicy sha256 input = do {
     vals \<leftarrow> policyInputFrom input;
     Some \<lparr>policyPayloadVersion = 1, policyFingerprint = fingerprintPolicy sha256 vals, policyFields = vals\<rparr>
   }"

definition policyFrom :: "(string \<Rightarrow> string) \<Rightarrow> js \<Rightarrow> risk_policy option" where
  "policyFrom sha256 v =
     (if \<not> isFrozenPlainObject v then None
      else do {
        record \<leftarrow> exactRecord POLICY_KEYS v;
        (if fld record ''payloadVersion'' \<noteq> JNum (JInt 1) then None
         else do {
           fingerprint \<leftarrow> string_matching is_hex64 (fld record ''policyFingerprint'');
           vals \<leftarrow> policyInputFrom (frozen_object (pick record POLICY_INPUT_KEYS));
           (if fingerprint \<noteq> fingerprintPolicy sha256 vals then None
            else Some \<lparr>policyPayloadVersion = 1, policyFingerprint = fingerprint, policyFields = vals\<rparr>)
         })
      })"

definition POSITION_STATUSES :: "(string \<times> position_reconciliation) list" where
  "POSITION_STATUSES = [(''RECONCILED'', RECONCILED_POSITION), (''UNKNOWN'', UNKNOWN_POSITION)]"

fun positionsLoop :: "js js_prop option list \<Rightarrow> string list \<Rightarrow> risk_position list option" where
  "positionsLoop [] identities = Some []"
| "positionsLoop (Some (DataProp True x) # rest) identities = do {
     record \<leftarrow> exactRecord POSITION_KEYS x;
     positionId \<leftarrow> text_field 128 (fld record ''positionId'');
     (if positionId \<in> set identities then None
      else do {
        costBasis \<leftarrow> unsignedBigint (fld record ''costBasisLamports'');
        liquidation \<leftarrow> nullable unsignedBigint (fld record ''conservativeLiquidationLamports'');
        status \<leftarrow> enumValue POSITION_STATUSES (fld record ''reconciliationStatus'');
        positions \<leftarrow> positionsLoop rest (positionId # identities);
        Some (\<lparr>riskPositionId = positionId, costBasisLamports = costBasis,
          conservativeLiquidationLamports = liquidation, reconciliationStatus = status\<rparr> # positions)
      })
   }"
| "positionsLoop (_ # rest) identities = None"

definition positionsFrom :: "js \<Rightarrow> risk_position list option" where
  "positionsFrom v = (case v of
     JArr proxy frozen elems \<Rightarrow> if proxy \<or> length elems > 16 then None else positionsLoop elems []
   | _ \<Rightarrow> None)"

definition riskInputFrom :: "(string \<Rightarrow> string) \<Rightarrow> js \<Rightarrow> risk_input option" where
  "riskInputFrom sha256 v = do {
     record \<leftarrow> exactRecord RISK_INPUT_KEYS v;
     policy \<leftarrow> policyFrom sha256 (fld record ''policy'');
     mint \<leftarrow> text_field 64 (fld record ''quoteMint'');
     requested \<leftarrow> positiveBigint (fld record ''requestedQuoteAmountRaw'');
     realized \<leftarrow> signedBigint (fld record ''realizedNetPnlLamports'');
     reserved \<leftarrow> unsignedBigint (fld record ''reservedExposureLamports'');
     positions \<leftarrow> positionsFrom (fld record ''openPositions'');
     failures \<leftarrow> boundedInteger 0 INT32_MAX (fld record ''consecutiveTechnicalFailures'');
     lastReason \<leftarrow> nullable (enumValue TECHNICAL_FAILURE_REASON_CODES) (fld record ''lastTechnicalFailureReasonCode'');
     (if (failures = 0) \<noteq> (lastReason = None) then None
      else Some \<lparr>riskPolicy = policy, quoteMint = mint, requestedQuoteAmountRaw = requested,
        realizedNetPnlLamports = realized, reservedExposureLamports = reserved,
        openPositions = positions, consecutiveTechnicalFailures = failures,
        lastTechnicalFailureReasonCode = lastReason\<rparr>)
   }"

subsection \<open>Decision\<close>

definition saturatedU64Add :: "int \<Rightarrow> int \<Rightarrow> int" where
  "saturatedU64Add left right = (if left > U64_MAX - right then U64_MAX else left + right)"

definition drawdownBasisPoints :: "int \<Rightarrow> int \<Rightarrow> int" where
  "drawdownBasisPoints loss capital =
     (if loss = 0 then 0
      else if capital = 0 then BPS_DENOMINATOR
      else (loss * BPS_DENOMINATOR + capital - 1) div capital)"

definition positionLoss :: "risk_position \<Rightarrow> int" where
  "positionLoss p = max 0 (costBasisLamports p -
     (case conservativeLiquidationLamports p of None \<Rightarrow> 0 | Some x \<Rightarrow> x))"

definition rejectionReason :: "risk_input \<Rightarrow> int \<Rightarrow> int \<Rightarrow> int \<Rightarrow> int \<Rightarrow> execution_reason option" where
  "rejectionReason input positionLimit totalExposureLimit projectedExposure drawdown =
     (let policy = policyFields (riskPolicy input) in
      if quoteMint input \<notin> set (quoteMintAllowlist policy) then Some QUOTE_MINT_NOT_ALLOWED
      else if list_ex (\<lambda>p. reconciliationStatus p = UNKNOWN_POSITION) (openPositions input)
        then Some RECONCILIATION_REQUIRED
      else if consecutiveTechnicalFailures input \<ge> maximumConsecutiveTechnicalFailures policy
        then Some (case lastTechnicalFailureReasonCode input of
                     None \<Rightarrow> RECONCILIATION_REQUIRED | Some r \<Rightarrow> r)
      else if requestedQuoteAmountRaw input > positionLimit then Some CAPITAL_LIMIT_EXCEEDED
      else if int (length (openPositions input)) \<ge> maximumOpenPositions policy
          \<or> projectedExposure > totalExposureLimit then Some EXPOSURE_LIMIT_EXCEEDED
      else if drawdown \<ge> drawdownPauseBps policy then Some DRAWDOWN_LIMIT_EXCEEDED
      else None)"

definition buyRiskDecision :: "risk_input \<Rightarrow> risk_decision" where
  "buyRiskDecision vals =
     (let policy = policyFields (riskPolicy vals);
          rawCapital = initialCapitalLamports policy + realizedNetPnlLamports vals;
          reconciledCapital = min (max 0 rawCapital) (maximumCapitalLamports policy);
          capitalAfterFeeReserve = max 0 (reconciledCapital - feeReserveLamports policy);
          positionLimit = capitalAfterFeeReserve * positionSizeBps policy div BPS_DENOMINATOR;
          totalExposureLimit = reconciledCapital * maximumTotalExposureBps policy div BPS_DENOMINATOR;
          projectedExposure = saturatedU64Add (reservedExposureLamports vals) (requestedQuoteAmountRaw vals);
          unrealizedLoss = foldl (\<lambda>sum p. saturatedU64Add sum (positionLoss p)) 0 (openPositions vals);
          drawdown = drawdownBasisPoints unrealizedLoss reconciledCapital;
          reason = rejectionReason vals positionLimit totalExposureLimit projectedExposure drawdown
      in \<lparr>decisionPayloadVersion = 1,
          kind = (if reason = None then ADMISSIBLE else REJECTED),
          reasonCode = reason,
          reconciledCapitalLamports = reconciledCapital,
          capitalAfterFeeReserveLamports = capitalAfterFeeReserve,
          positionLimitLamports = positionLimit,
          totalExposureLimitLamports = totalExposureLimit,
          projectedExposureLamports = projectedExposure,
          conservativeUnrealizedLossLamports = unrealizedLoss,
          drawdownBps = drawdown,
          openPositionCount = int (length (openPositions vals))\<rparr>)"

definition evaluateBuyRisk :: "(string \<Rightarrow> string) \<Rightarrow> js \<Rightarrow> risk_decision option" where
  "evaluateBuyRisk sha256 input = do {
     vals \<leftarrow> riskInputFrom sha256 input;
     Some (buyRiskDecision vals)
   }"


subsection \<open>Well-formed policies and questions\<close>

definition valid_policy :: "risk_policy_input \<Rightarrow> bool" where
  "valid_policy p =
     (quoteMintAllowlist p = [WSOL_MINT]
      \<and> 0 \<le> initialCapitalLamports p \<and> initialCapitalLamports p \<le> maximumCapitalLamports p
      \<and> 1 \<le> maximumCapitalLamports p \<and> maximumCapitalLamports p \<le> U64_MAX
      \<and> 1 \<le> positionSizeBps p \<and> positionSizeBps p \<le> 1000
      \<and> 1 \<le> maximumOpenPositions p \<and> maximumOpenPositions p \<le> 2
      \<and> 1 \<le> maximumTotalExposureBps p \<and> maximumTotalExposureBps p \<le> 2000
      \<and> 1 \<le> drawdownPauseBps p \<and> drawdownPauseBps p \<le> 2500
      \<and> 0 \<le> feeReserveLamports p \<and> feeReserveLamports p \<le> maximumCapitalLamports p
      \<and> 1 \<le> walletSnapshotMaxAgeMs p \<and> walletSnapshotMaxAgeMs p \<le> 900000
      \<and> 30000 \<le> providerUsageMaxAgeMs p \<and> providerUsageMaxAgeMs p \<le> 900000
      \<and> 1 \<le> providerEntryCostUnits p \<and> providerEntryCostUnits p \<le> U64_MAX
      \<and> 1 \<le> providerExitCostUnitsPerPosition p \<and> providerExitCostUnitsPerPosition p \<le> U64_MAX
      \<and> 1 \<le> providerConfirmationCostUnitsPerPosition p \<and> providerConfirmationCostUnitsPerPosition p \<le> U64_MAX
      \<and> 1 \<le> providerReconciliationCostUnitsPerPosition p \<and> providerReconciliationCostUnitsPerPosition p \<le> U64_MAX
      \<and> 0 \<le> providerSafetyMarginUnits p \<and> providerSafetyMarginUnits p \<le> U64_MAX
      \<and> maximumConsecutiveTechnicalFailures p = 2)"

definition valid_position :: "risk_position \<Rightarrow> bool" where
  "valid_position p = (0 \<le> costBasisLamports p \<and> costBasisLamports p \<le> U64_MAX
     \<and> (\<forall>x. conservativeLiquidationLamports p = Some x \<longrightarrow> 0 \<le> x \<and> x \<le> U64_MAX))"

definition valid_risk_input :: "risk_input \<Rightarrow> bool" where
  "valid_risk_input i =
     (valid_policy (policyFields (riskPolicy i))
      \<and> 1 \<le> requestedQuoteAmountRaw i \<and> requestedQuoteAmountRaw i \<le> U64_MAX
      \<and> 0 \<le> reservedExposureLamports i \<and> reservedExposureLamports i \<le> U64_MAX
      \<and> length (openPositions i) \<le> 16
      \<and> distinct (map riskPositionId (openPositions i))
      \<and> list_all valid_position (openPositions i)
      \<and> 0 \<le> consecutiveTechnicalFailures i
      \<and> (consecutiveTechnicalFailures i = 0 \<longleftrightarrow> lastTechnicalFailureReasonCode i = None))"

lemma quoteMintAllowlistFrom_Some [validator_dests]:
  "quoteMintAllowlistFrom v = Some l \<Longrightarrow> l = [WSOL_MINT]"
  by (auto simp: quoteMintAllowlistFrom_def split: js.splits option.splits js_prop.splits bool.splits if_splits)

lemma policyInputFromRecord_valid: "policyInputFromRecord r = Some p \<Longrightarrow> valid_policy p"
  unfolding policyInputFromRecord_def result_simps valid_policy_def
  by (clarsimp simp: field_iffs dest!: quoteMintAllowlistFrom_Some)

lemma policyInputFrom_valid: "policyInputFrom v = Some p \<Longrightarrow> valid_policy p"
  by (auto simp: policyInputFrom_def result_simps dest: policyInputFromRecord_valid)

lemma policyFrom_Some:
  assumes "policyFrom sha256 v = Some p"
  shows "valid_policy (policyFields p) \<and> policyFingerprint p = fingerprintPolicy sha256 (policyFields p)
    \<and> is_hex64 (policyFingerprint p) \<and> policyPayloadVersion p = 1"
  using assms unfolding policyFrom_def result_simps
  by (auto dest: policyInputFrom_valid string_matching_Some)

lemma positionsLoop_valid:
  "positionsLoop es ids = Some ps \<Longrightarrow>
     list_all valid_position ps \<and> distinct (map riskPositionId ps)
     \<and> set (map riskPositionId ps) \<inter> set ids = {} \<and> length ps = length es"
proof (induction es ids arbitrary: ps rule: positionsLoop.induct)
  case (2 x rest ids)
  from 2(2) obtain r pid cost liq st qs where
      steps: "exactRecord POSITION_KEYS x = Some r" "text_field 128 (fld r ''positionId'') = Some pid"
        "pid \<notin> set ids" "unsignedBigint (fld r ''costBasisLamports'') = Some cost"
        "nullable unsignedBigint (fld r ''conservativeLiquidationLamports'') = Some liq"
        "enumValue POSITION_STATUSES (fld r ''reconciliationStatus'') = Some st"
        "positionsLoop rest (pid # ids) = Some qs"
      and ps: "ps = \<lparr>riskPositionId = pid, costBasisLamports = cost,
          conservativeLiquidationLamports = liq, reconciliationStatus = st\<rparr> # qs"
    by (auto simp: result_simps)
  have "valid_position (hd ps)"
    using steps(4,5) ps
    by (cases liq) (auto simp: valid_position_def dest!: nullable_Some_Some unsignedBigint_Some)
  moreover note 2(1) [OF steps(1,2,3,4,5,6,7)]
  ultimately show ?case
    using steps(3) ps by auto
qed auto

lemma riskInputFrom_valid:
  assumes "riskInputFrom sha256 v = Some i"
  shows "valid_risk_input i"
proof -
  have "list_all valid_position ps \<and> distinct (map riskPositionId ps) \<and> length ps \<le> 16"
    if "positionsFrom w = Some ps" for w ps
    using that positionsLoop_valid
    by (fastforce simp: positionsFrom_def split: js.splits if_splits)
  then show ?thesis
    using assms unfolding riskInputFrom_def result_simps valid_risk_input_def
    by (elim exE conjE) (auto dest!: positiveBigint_Some unsignedBigint_Some boundedInteger_Some policyFrom_Some)
qed

subsection \<open>The decision against limits in exact arithmetic\<close>

lemma saturatedU64Add_min:
  "0 \<le> b \<Longrightarrow> saturatedU64Add a b = min U64_MAX (a + b)"
  by (auto simp: saturatedU64Add_def)

lemma positionLoss_bounds: "valid_position p \<Longrightarrow> 0 \<le> positionLoss p \<and> positionLoss p \<le> U64_MAX"
  by (auto simp: positionLoss_def valid_position_def split: option.splits)

lemma saturated_sum:
  "list_all valid_position ps \<Longrightarrow> 0 \<le> acc \<Longrightarrow> acc \<le> U64_MAX \<Longrightarrow>
     foldl (\<lambda>sum p. saturatedU64Add sum (positionLoss p)) acc ps
       = min U64_MAX (acc + sum_list (map positionLoss ps))"
proof (induction ps arbitrary: acc)
  case (Cons p ps)
  have bounds: "0 \<le> positionLoss p" "positionLoss p \<le> U64_MAX"
    using Cons.prems positionLoss_bounds by auto
  have rest: "0 \<le> sum_list (map positionLoss ps)"
    using Cons.prems positionLoss_bounds by (intro sum_list_nonneg) (auto simp: list_all_iff)
  have "foldl (\<lambda>sum p. saturatedU64Add sum (positionLoss p)) (min U64_MAX (acc + positionLoss p)) ps
      = min U64_MAX (min U64_MAX (acc + positionLoss p) + sum_list (map positionLoss ps))"
    using Cons bounds by (intro Cons.IH) auto
  with bounds rest show ?case by (simp add: saturatedU64Add_min min_def)
qed simp

text \<open>The capital a policy recognises after the realised result: never negative, never above the
  configured maximum.\<close>

definition recognised_capital :: "risk_input \<Rightarrow> int" where
  "recognised_capital i = (let policy = policyFields (riskPolicy i) in
     min (max 0 (initialCapitalLamports policy + realizedNetPnlLamports i)) (maximumCapitalLamports policy))"

definition unrealised_loss :: "risk_input \<Rightarrow> int" where
  "unrealised_loss i = sum_list (map positionLoss (openPositions i))"

text \<open>The limits a BUY has to respect, with no rounding and no saturation.\<close>

definition buy_allowed :: "risk_input \<Rightarrow> bool" where
  "buy_allowed i = (let policy = policyFields (riskPolicy i); capital = recognised_capital i in
     quoteMint i \<in> set (quoteMintAllowlist policy)
     \<and> list_all (\<lambda>p. reconciliationStatus p = RECONCILED_POSITION) (openPositions i)
     \<and> consecutiveTechnicalFailures i < 2
     \<and> requestedQuoteAmountRaw i * 10000 \<le> max 0 (capital - feeReserveLamports policy) * positionSizeBps policy
     \<and> int (length (openPositions i)) < maximumOpenPositions policy
     \<and> (reservedExposureLamports i + requestedQuoteAmountRaw i) * 10000 \<le> capital * maximumTotalExposureBps policy
     \<and> unrealised_loss i * 10000 \<le> capital * (drawdownPauseBps policy - 1))"

lemma le_div_bps: "(x :: int) \<le> y div 10000 \<longleftrightarrow> x * 10000 \<le> y"
  by linarith

lemma drawdown_limit_iff:
  assumes "0 \<le> loss" "0 \<le> capital" "1 \<le> pause" "pause \<le> 10000"
  shows "drawdownBasisPoints loss capital < pause \<longleftrightarrow> loss * 10000 \<le> capital * (pause - 1)"
proof (cases "loss = 0 \<or> capital = 0")
  case True
  with assms show ?thesis by (auto simp: drawdownBasisPoints_def)
next
  case False
  with assms have "0 < capital" by simp
  from ceil_div_le_iff [OF this, of "loss * 10000" "pause - 1"] False
  show ?thesis by (auto simp: drawdownBasisPoints_def mult.commute)
qed

lemma saturated_exposure_iff:
  assumes "limit < U64_MAX" "0 \<le> b"
  shows "saturatedU64Add a b \<le> limit \<longleftrightarrow> a + b \<le> limit"
  using assms by (auto simp: saturatedU64Add_def)

lemma saturated_drawdown_iff:
  assumes "0 \<le> loss" "0 \<le> capital" "capital \<le> U64_MAX" "1 \<le> pause" "pause \<le> 2500"
  shows "min U64_MAX loss * 10000 \<le> capital * (pause - 1) \<longleftrightarrow> loss * 10000 \<le> capital * (pause - 1)"
proof (cases "loss \<le> U64_MAX")
  case False
  have "capital * (pause - 1) \<le> U64_MAX * 2499"
    using assms by (intro mult_mono) auto
  with False show ?thesis by simp
qed simp

lemma recognised_capital_bounds:
  "valid_risk_input i \<Longrightarrow> 0 \<le> recognised_capital i
     \<and> recognised_capital i \<le> maximumCapitalLamports (policyFields (riskPolicy i))
     \<and> recognised_capital i \<le> U64_MAX"
  by (auto simp: recognised_capital_def valid_risk_input_def valid_policy_def Let_def)

lemma buyRiskDecision_fields:
  assumes "valid_risk_input i"
  shows "reconciledCapitalLamports (buyRiskDecision i) = recognised_capital i"
    and "conservativeUnrealizedLossLamports (buyRiskDecision i) = min U64_MAX (unrealised_loss i)"
    and "positionLimitLamports (buyRiskDecision i) =
      max 0 (recognised_capital i - feeReserveLamports (policyFields (riskPolicy i)))
        * positionSizeBps (policyFields (riskPolicy i)) div 10000"
    and "totalExposureLimitLamports (buyRiskDecision i) =
      recognised_capital i * maximumTotalExposureBps (policyFields (riskPolicy i)) div 10000"
    and "drawdownBps (buyRiskDecision i) =
      drawdownBasisPoints (min U64_MAX (unrealised_loss i)) (recognised_capital i)"
  using assms saturated_sum [of "openPositions i" 0]
  by (simp_all add: buyRiskDecision_def Let_def recognised_capital_def unrealised_loss_def
      valid_risk_input_def)

lemma buyRiskDecision_reason:
  "reasonCode (buyRiskDecision i) = rejectionReason i (positionLimitLamports (buyRiskDecision i))
     (totalExposureLimitLamports (buyRiskDecision i))
     (saturatedU64Add (reservedExposureLamports i) (requestedQuoteAmountRaw i)) (drawdownBps (buyRiskDecision i))"
  "kind (buyRiskDecision i) = ADMISSIBLE \<longleftrightarrow> reasonCode (buyRiskDecision i) = None"
  by (simp_all add: buyRiskDecision_def Let_def)

lemma no_unknown_iff:
  "\<not> list_ex (\<lambda>p. reconciliationStatus p = UNKNOWN_POSITION) ps
     \<longleftrightarrow> list_all (\<lambda>p. reconciliationStatus p = RECONCILED_POSITION) ps"
  by (induction ps) (auto intro: position_reconciliation.exhaust)

lemma rejectionReason_None:
  "rejectionReason i positionLimit exposureLimit projected drawdown = None \<longleftrightarrow>
     quoteMint i \<in> set (quoteMintAllowlist (policyFields (riskPolicy i)))
     \<and> list_all (\<lambda>p. reconciliationStatus p = RECONCILED_POSITION) (openPositions i)
     \<and> consecutiveTechnicalFailures i < maximumConsecutiveTechnicalFailures (policyFields (riskPolicy i))
     \<and> requestedQuoteAmountRaw i \<le> positionLimit
     \<and> int (length (openPositions i)) < maximumOpenPositions (policyFields (riskPolicy i))
     \<and> projected \<le> exposureLimit
     \<and> drawdown < drawdownPauseBps (policyFields (riskPolicy i))"
  by (auto simp: rejectionReason_def Let_def simp flip: no_unknown_iff)

lemma buyRiskDecision_admissible_iff:
  assumes valid: "valid_risk_input i"
  shows "kind (buyRiskDecision i) = ADMISSIBLE \<longleftrightarrow> buy_allowed i"
proof -
  let ?p = "policyFields (riskPolicy i)" and ?c = "recognised_capital i"
  from valid have p: "1 \<le> maximumTotalExposureBps ?p" "maximumTotalExposureBps ?p \<le> 2000"
      "1 \<le> drawdownPauseBps ?p" "drawdownPauseBps ?p \<le> 2500" "maximumConsecutiveTechnicalFailures ?p = 2"
      "0 \<le> requestedQuoteAmountRaw i"
    by (auto simp: valid_risk_input_def valid_policy_def)
  have c: "0 \<le> ?c" "?c \<le> U64_MAX" using recognised_capital_bounds [OF valid] by auto
  have loss: "0 \<le> unrealised_loss i"
    using valid positionLoss_bounds
    by (auto simp: unrealised_loss_def valid_risk_input_def list_all_iff intro!: sum_list_nonneg)
  have "?c * maximumTotalExposureBps ?p \<le> U64_MAX * 2000"
    using c p by (intro mult_mono) auto
  then have limit: "?c * maximumTotalExposureBps ?p div 10000 < U64_MAX" by linarith
  have draw: "drawdownBasisPoints (min U64_MAX (unrealised_loss i)) ?c < drawdownPauseBps ?p
      \<longleftrightarrow> unrealised_loss i * 10000 \<le> ?c * (drawdownPauseBps ?p - 1)"
    using drawdown_limit_iff [of "min U64_MAX (unrealised_loss i)" ?c "drawdownPauseBps ?p"]
      saturated_drawdown_iff [of "unrealised_loss i" ?c "drawdownPauseBps ?p"] loss c p by simp
  have exposure: "saturatedU64Add (reservedExposureLamports i) (requestedQuoteAmountRaw i)
        \<le> ?c * maximumTotalExposureBps ?p div 10000
      \<longleftrightarrow> (reservedExposureLamports i + requestedQuoteAmountRaw i) * 10000 \<le> ?c * maximumTotalExposureBps ?p"
    by (rule trans [OF saturated_exposure_iff [OF limit p(6)] le_div_bps])
  have "kind (buyRiskDecision i) = ADMISSIBLE \<longleftrightarrow> reasonCode (buyRiskDecision i) = None"
    by (rule buyRiskDecision_reason(2))
  also have "\<dots> \<longleftrightarrow> buy_allowed i"
    unfolding buyRiskDecision_reason(1) rejectionReason_None buyRiskDecision_fields [OF valid]
      exposure draw buy_allowed_def Let_def p(5)
    unfolding le_div_bps ..
  finally show ?thesis .
qed

lemma evaluateBuyRisk_Some:
  "evaluateBuyRisk sha256 v = Some d \<longleftrightarrow> (\<exists>i. riskInputFrom sha256 v = Some i \<and> d = buyRiskDecision i)"
  by (auto simp: evaluateBuyRisk_def result_simps)

text \<open>
  C2. The risk gate decides exactly the stated limits: whatever question it accepts, the
  BUY is admissible if and only if the limits hold in exact arithmetic over the recognised
  capital, with the losses of the open positions summed without overflow. Neither the truncating
  divisions nor the 64-bit saturation ever admits a BUY the limits forbid or rejects one they allow.
\<close>

theorem buy_risk_gate_exact:
  assumes "evaluateBuyRisk sha256 v = Some d"
  shows "\<exists>i. riskInputFrom sha256 v = Some i \<and> (kind d = ADMISSIBLE \<longleftrightarrow> buy_allowed i)
    \<and> (kind d = REJECTED \<longleftrightarrow> (\<exists>r. reasonCode d = Some r))"
proof -
  from assms obtain i where i: "riskInputFrom sha256 v = Some i" and d: "d = buyRiskDecision i"
    by (auto simp: evaluateBuyRisk_Some)
  have "kind d = ADMISSIBLE \<longleftrightarrow> buy_allowed i"
    using buyRiskDecision_admissible_iff [OF riskInputFrom_valid [OF i]] d by simp
  moreover have "kind d = REJECTED \<longleftrightarrow> (\<exists>r. reasonCode d = Some r)"
    using d by (auto simp: buyRiskDecision_def Let_def)
  ultimately show ?thesis using i by blast
qed

text \<open>
  C3. An admitted BUY stays small whatever the realised result and the policy are: it
  spends at most a tenth of the configured maximum capital, together with the exposure already
  reserved at most a fifth of it, it opens at most the second position, and it never
  happens while an open position is unreconciled or after two technical failures in a row.
\<close>

theorem admitted_buy_bounded:
  assumes "evaluateBuyRisk sha256 v = Some d" and "kind d = ADMISSIBLE"
    and "riskInputFrom sha256 v = Some i"
  shows "requestedQuoteAmountRaw i * 10 \<le> maximumCapitalLamports (policyFields (riskPolicy i))
    \<and> (reservedExposureLamports i + requestedQuoteAmountRaw i) * 5 \<le> maximumCapitalLamports (policyFields (riskPolicy i))
    \<and> length (openPositions i) \<le> 1 \<and> quoteMint i = WSOL_MINT
    \<and> list_all (\<lambda>p. reconciliationStatus p = RECONCILED_POSITION) (openPositions i)
    \<and> consecutiveTechnicalFailures i < 2"
proof -
  let ?p = "policyFields (riskPolicy i)" and ?c = "recognised_capital i"
  have valid: "valid_risk_input i" using assms(3) by (rule riskInputFrom_valid)
  then have p: "valid_policy ?p" by (simp add: valid_risk_input_def)
  have allowed: "buy_allowed i"
    using assms buyRiskDecision_admissible_iff [OF valid] by (auto simp: evaluateBuyRisk_Some)
  have c: "0 \<le> ?c" "?c \<le> maximumCapitalLamports ?p" using recognised_capital_bounds [OF valid] by auto
  have "max 0 (?c - feeReserveLamports ?p) * positionSizeBps ?p \<le> maximumCapitalLamports ?p * 1000"
    using c p by (intro mult_mono) (auto simp: valid_policy_def)
  moreover have "?c * maximumTotalExposureBps ?p \<le> maximumCapitalLamports ?p * 2000"
    using c p by (intro mult_mono) (auto simp: valid_policy_def)
  ultimately show ?thesis
    using allowed p by (auto simp: buy_allowed_def Let_def valid_policy_def)
qed

subsection \<open>Policy fingerprints\<close>

definition policyInputObject :: "risk_policy_input \<Rightarrow> js_record" where
  "policyInputObject p =
  [(''quoteMintAllowlist'', JArr False True (map (\<lambda>s. Some (DataProp True (JStr s))) (quoteMintAllowlist p))),
   (''initialCapitalLamports'', JBig (initialCapitalLamports p)),
   (''maximumCapitalLamports'', JBig (maximumCapitalLamports p)),
   (''positionSizeBps'', JBig (positionSizeBps p)),
   (''maximumOpenPositions'', JNum (JInt (maximumOpenPositions p))),
   (''maximumTotalExposureBps'', JBig (maximumTotalExposureBps p)),
   (''drawdownPauseBps'', JBig (drawdownPauseBps p)),
   (''feeReserveLamports'', JBig (feeReserveLamports p)),
   (''walletSnapshotMaxAgeMs'', JNum (JInt (walletSnapshotMaxAgeMs p))),
   (''providerUsageMaxAgeMs'', JNum (JInt (providerUsageMaxAgeMs p))),
   (''providerEntryCostUnits'', JBig (providerEntryCostUnits p)),
   (''providerExitCostUnitsPerPosition'', JBig (providerExitCostUnitsPerPosition p)),
   (''providerConfirmationCostUnitsPerPosition'', JBig (providerConfirmationCostUnitsPerPosition p)),
   (''providerReconciliationCostUnitsPerPosition'', JBig (providerReconciliationCostUnitsPerPosition p)),
   (''providerSafetyMarginUnits'', JBig (providerSafetyMarginUnits p)),
   (''maximumConsecutiveTechnicalFailures'', JNum (JInt (maximumConsecutiveTechnicalFailures p)))]"

text \<open>The frozen object \<open>createExecutionRiskPolicy\<close> returns.\<close>

definition policyObject :: "risk_policy \<Rightarrow> js" where
  "policyObject p = frozen_object
     ([(''payloadVersion'', JNum (JInt (policyPayloadVersion p))), (''policyFingerprint'', JStr (policyFingerprint p))]
      @ policyInputObject (policyFields p))"

lemma policyInputObject_keys: "map fst (policyInputObject p) = POLICY_INPUT_KEYS"
  by (simp add: policyInputObject_def POLICY_INPUT_KEYS_def)

lemma POLICY_KEYS_distinct: "distinct POLICY_KEYS"
  by code_simp

lemma POLICY_INPUT_KEYS_distinct: "distinct POLICY_INPUT_KEYS"
  using POLICY_KEYS_distinct by (simp add: POLICY_KEYS_def)

lemma policyInputFromRecord_object:
  assumes "valid_policy p"
  shows "policyInputFromRecord (policyInputObject p) = Some p"
  using assms
  by (simp add: policyInputFromRecord_def policyInputObject_def valid_policy_def quoteMintAllowlistFrom_def
      unsignedBigint_def positiveBigint_def boundedBigint_def boundedInteger_def)

lemma policyPreimage_inj: "policyPreimage p = policyPreimage q \<Longrightarrow> p = q"
proof -
  have "map JsonStr xs = map JsonStr ys \<longleftrightarrow> xs = ys" for xs ys
    by (rule inj_map_eq_map) (simp add: inj_def)
  then show "policyPreimage p = policyPreimage q \<Longrightarrow> p = q"
    by (cases p; cases q) (simp add: policyPreimage_def)
qed

lemma policyInputFrom_object:
  assumes "valid_policy p"
  shows "policyInputFrom (frozen_object (policyInputObject p)) = Some p"
  using exactRecord_frozen_object [OF policyInputObject_keys POLICY_INPUT_KEYS_distinct, of p]
    policyInputFromRecord_object [OF assms]
  by (simp add: policyInputFrom_def)

lemma pick_policy_record:
  "pick ((''payloadVersion'', x) # (''policyFingerprint'', y) # policyInputObject p) POLICY_INPUT_KEYS
     = policyInputObject p"
  using map_fld_self [of "policyInputObject p"] POLICY_INPUT_KEYS_distinct
  by (simp add: pick_def policyInputObject_keys POLICY_INPUT_KEYS_def)

lemma policyFrom_policyObject:
  assumes "\<And>x. is_hex64 (sha256 x)" and "createExecutionRiskPolicy sha256 v = Some p"
  shows "policyFrom sha256 (policyObject p) = Some p"
proof -
  from assms(2) obtain f where f: "policyInputFrom v = Some f"
    and p: "p = \<lparr>policyPayloadVersion = 1, policyFingerprint = fingerprintPolicy sha256 f, policyFields = f\<rparr>"
    by (auto simp: createExecutionRiskPolicy_def result_simps)
  define r where "r = [(''payloadVersion'', JNum (JInt 1)), (''policyFingerprint'', JStr (fingerprintPolicy sha256 f))]
      @ policyInputObject f"
  have obj: "policyObject p = frozen_object r"
    by (simp add: policyObject_def r_def p)
  have "map fst r = POLICY_KEYS"
    by (simp add: r_def policyInputObject_keys POLICY_KEYS_def)
  then have "exactRecord POLICY_KEYS (frozen_object r) = Some r"
    using POLICY_KEYS_distinct by (rule exactRecord_frozen_object)
  moreover have "isFrozenPlainObject (frozen_object r)"
    by (simp add: isFrozenPlainObject_def frozen_object_def)
  moreover have "string_matching is_hex64 (JStr (fingerprintPolicy sha256 f)) = Some (fingerprintPolicy sha256 f)"
    using assms(1) by (simp add: field_iffs fingerprintPolicy_def)
  moreover have "pick r POLICY_INPUT_KEYS = policyInputObject f"
    by (simp add: r_def pick_policy_record)
  moreover have "fld r ''payloadVersion'' = JNum (JInt 1)"
    "fld r ''policyFingerprint'' = JStr (fingerprintPolicy sha256 f)"
    by (simp_all add: r_def)
  ultimately show ?thesis
    unfolding obj using policyInputFrom_object [OF policyInputFrom_valid [OF f]]
    by (simp add: policyFrom_def p)
qed

text \<open>
  A policy survives the trip through the object that carries it: the frozen object
  \<open>createExecutionRiskPolicy\<close> returns is accepted by \<open>policyFrom\<close> and read back as the same
  policy, for any digest function that returns 64 lower-case hexadecimal digits.
\<close>

theorem risk_policy_round_trip:
  assumes "\<And>x. is_hex64 (sha256 x)" and "createExecutionRiskPolicy sha256 v = Some p"
  shows "policyFrom sha256 (policyObject p) = Some p"
  using assms by (rule policyFrom_policyObject)

text \<open>
  C13. The fingerprint binds the policy: two policies the gate accepts carry the same fingerprint
  exactly when all their sixteen limits agree, for any digest function that does not map the two
  canonical texts at hand to one digest.
\<close>

theorem risk_policy_fingerprint_binds:
  assumes "policyFrom sha256 v = Some p" and "policyFrom sha256 w = Some q"
    and "inj_on sha256 {stringify (policyPreimage (policyFields p)), stringify (policyPreimage (policyFields q))}"
  shows "policyFingerprint p = policyFingerprint q \<longleftrightarrow> policyFields p = policyFields q"
  using assms(1,2) digest_binds [OF assms(3), of "policyPreimage (policyFields p)" "policyPreimage (policyFields q)"]
    policyPreimage_inj [of "policyFields p" "policyFields q"]
  by (auto simp: fingerprintPolicy_def dest!: policyFrom_Some)

subsection \<open>Concrete inputs\<close>

definition example_policy :: risk_policy_input where
  "example_policy = \<lparr>
     quoteMintAllowlist = [WSOL_MINT],
     initialCapitalLamports = 1000000000, maximumCapitalLamports = 2000000000,
     positionSizeBps = 500, maximumOpenPositions = 2, maximumTotalExposureBps = 2000,
     drawdownPauseBps = 1000, feeReserveLamports = 100000000,
     walletSnapshotMaxAgeMs = 60000, providerUsageMaxAgeMs = 60000,
     providerEntryCostUnits = 10, providerExitCostUnitsPerPosition = 10,
     providerConfirmationCostUnitsPerPosition = 10, providerReconciliationCostUnitsPerPosition = 10,
     providerSafetyMarginUnits = 0, maximumConsecutiveTechnicalFailures = 2\<rparr>"

definition example_policy_record :: risk_policy where
  "example_policy_record = \<lparr>policyPayloadVersion = 1,
     policyFingerprint = zero_digest (stringify (policyPreimage example_policy)), policyFields = example_policy\<rparr>"

definition example_positions :: js where
  "example_positions = JArr False True [Some (DataProp True (frozen_object
      [(''positionId'', JStr ''p1''), (''costBasisLamports'', JBig 50000000),
       (''conservativeLiquidationLamports'', JBig 49000000), (''reconciliationStatus'', JStr ''RECONCILED'')]))]"

definition example_risk_record :: js_record where
  "example_risk_record =
  [(''policy'', policyObject example_policy_record),
   (''quoteMint'', JStr WSOL_MINT), (''requestedQuoteAmountRaw'', JBig 40000000),
   (''realizedNetPnlLamports'', JBig (- 1000)), (''reservedExposureLamports'', JBig 50000000),
   (''openPositions'', example_positions),
   (''consecutiveTechnicalFailures'', JNum (JInt 0)), (''lastTechnicalFailureReasonCode'', JNull)]"

lemma valid_policy_created:
  "valid_policy p \<Longrightarrow> createExecutionRiskPolicy zero_digest (frozen_object (policyInputObject p))
     = Some \<lparr>policyPayloadVersion = 1, policyFingerprint = zero_digest (stringify (policyPreimage p)), policyFields = p\<rparr>"
  using policyInputFrom_object [of p] by (simp add: createExecutionRiskPolicy_def fingerprintPolicy_def)

lemma example_policy_valid: "valid_policy example_policy" "valid_policy (example_policy\<lparr>positionSizeBps := 400\<rparr>)"
  by (simp_all add: valid_policy_def example_policy_def)

lemma example_policy_accepted: "policyFrom zero_digest (policyObject example_policy_record) = Some example_policy_record"
  unfolding example_policy_record_def
  by (rule policyFrom_policyObject [OF zero_digest_hex valid_policy_created [OF example_policy_valid(1)]])

lemma example_positions_read:
  "positionsFrom example_positions = Some
     [\<lparr>riskPositionId = ''p1'', costBasisLamports = 50000000, conservativeLiquidationLamports = Some 49000000,
       reconciliationStatus = RECONCILED_POSITION\<rparr>]"
  by code_simp

definition example_risk_input :: risk_input where
  "example_risk_input = \<lparr>riskPolicy = example_policy_record, quoteMint = WSOL_MINT,
     requestedQuoteAmountRaw = 40000000, realizedNetPnlLamports = - 1000, reservedExposureLamports = 50000000,
     openPositions = [\<lparr>riskPositionId = ''p1'', costBasisLamports = 50000000,
       conservativeLiquidationLamports = Some 49000000, reconciliationStatus = RECONCILED_POSITION\<rparr>],
     consecutiveTechnicalFailures = 0, lastTechnicalFailureReasonCode = None\<rparr>"

lemma RISK_INPUT_KEYS_distinct: "distinct RISK_INPUT_KEYS"
  by code_simp

lemma example_risk_fields:
  "exactRecord RISK_INPUT_KEYS (frozen_object example_risk_record) = Some example_risk_record"
  using RISK_INPUT_KEYS_distinct
  by (intro exactRecord_frozen_object) (simp_all add: example_risk_record_def RISK_INPUT_KEYS_def)

lemma example_risk_read: "riskInputFrom zero_digest (frozen_object example_risk_record) = Some example_risk_input"
proof -
  have wsol: "text_field 64 (JStr WSOL_MINT) = Some WSOL_MINT" by code_simp
  have flds: "fld example_risk_record ''policy'' = policyObject example_policy_record"
    "fld example_risk_record ''quoteMint'' = JStr WSOL_MINT"
    "fld example_risk_record ''requestedQuoteAmountRaw'' = JBig 40000000"
    "fld example_risk_record ''realizedNetPnlLamports'' = JBig (- 1000)"
    "fld example_risk_record ''reservedExposureLamports'' = JBig 50000000"
    "fld example_risk_record ''openPositions'' = example_positions"
    "fld example_risk_record ''consecutiveTechnicalFailures'' = JNum (JInt 0)"
    "fld example_risk_record ''lastTechnicalFailureReasonCode'' = JNull"
    by (simp_all add: example_risk_record_def)
  show ?thesis
    unfolding riskInputFrom_def example_risk_fields flds example_policy_accepted wsol
    by (simp add: example_positions_read flds example_policy_accepted wsol example_risk_input_def positiveBigint_def
        unsignedBigint_def signedBigint_def boundedBigint_def boundedInteger_def nullable_def)
qed

lemma example_risk_admitted: "kind (buyRiskDecision example_risk_input) = ADMISSIBLE"
  by (simp add: buyRiskDecision_def rejectionReason_def example_risk_input_def example_policy_record_def
      example_policy_def saturatedU64Add_def positionLoss_def drawdownBasisPoints_def)

lemma example_risk_evaluated:
  "evaluateBuyRisk zero_digest (frozen_object example_risk_record) = Some (buyRiskDecision example_risk_input)"
  by (simp add: evaluateBuyRisk_def example_risk_read)

theorem buy_risk_gate_exact_witness:
  "kind (buyRiskDecision example_risk_input) = ADMISSIBLE \<and> buy_allowed example_risk_input"
  using buy_risk_gate_exact [OF example_risk_evaluated] example_risk_read example_risk_admitted by simp

theorem admitted_buy_bounded_witness:
  "evaluateBuyRisk zero_digest (frozen_object example_risk_record) = Some (buyRiskDecision example_risk_input)
   \<and> requestedQuoteAmountRaw example_risk_input * 10 \<le> maximumCapitalLamports (policyFields (riskPolicy example_risk_input))"
  using admitted_buy_bounded [OF example_risk_evaluated example_risk_admitted example_risk_read]
    example_risk_evaluated by blast

theorem risk_policy_round_trip_witness:
  "\<exists>p. createExecutionRiskPolicy zero_digest (frozen_object (policyInputObject example_policy)) = Some p
     \<and> policyFrom zero_digest (policyObject p) = Some p"
  using risk_policy_round_trip [OF zero_digest_hex valid_policy_created [OF example_policy_valid(1)]]
    valid_policy_created [OF example_policy_valid(1)] by blast

text \<open>Two policies that differ in one limit, under a digest that separates their texts.\<close>

definition example_digest :: "string \<Rightarrow> string" where
  "example_digest = split_digest (stringify (policyPreimage example_policy))"

definition fingerprinted :: "risk_policy_input \<Rightarrow> risk_policy" where
  "fingerprinted p = \<lparr>policyPayloadVersion = 1,
     policyFingerprint = example_digest (stringify (policyPreimage p)), policyFields = p\<rparr>"

lemma fingerprinted_accepted:
  assumes "valid_policy p"
  shows "policyFrom example_digest (policyObject (fingerprinted p)) = Some (fingerprinted p)"
proof (rule policyFrom_policyObject)
  show "is_hex64 (example_digest x)" for x by (simp add: example_digest_def)
  show "createExecutionRiskPolicy example_digest (frozen_object (policyInputObject p)) = Some (fingerprinted p)"
    using policyInputFrom_object [OF assms]
    by (simp add: createExecutionRiskPolicy_def fingerprintPolicy_def fingerprinted_def)
qed

theorem risk_policy_fingerprint_binds_witness:
  "policyFingerprint (fingerprinted example_policy)
     \<noteq> policyFingerprint (fingerprinted (example_policy\<lparr>positionSizeBps := 400\<rparr>))"
proof -
  have "policyFields (fingerprinted example_policy) \<noteq> policyFields (fingerprinted (example_policy\<lparr>positionSizeBps := 400\<rparr>))"
    by (simp add: fingerprinted_def example_policy_def)
  moreover have "inj_on example_digest {stringify (policyPreimage (policyFields (fingerprinted example_policy))),
      stringify (policyPreimage (policyFields (fingerprinted (example_policy\<lparr>positionSizeBps := 400\<rparr>))))}"
    unfolding example_digest_def fingerprinted_def risk_policy.simps by (rule inj_on_split_digest)
  ultimately show ?thesis
    using risk_policy_fingerprint_binds [OF fingerprinted_accepted [OF example_policy_valid(1)]
        fingerprinted_accepted [OF example_policy_valid(2)]] by blast
qed

end
