(* ===== verification/Reconciliation.thy ===== *)
theory Reconciliation
  imports Execution_Types Json_Text
begin

text \<open>
  Reconciliation of a submitted transaction with what the chain shows
  (\<open>src/src/domain/execution-reconciliation.ts\<close>): validation of the expected and the observed
  evidence, the verdict of \<open>classify\<close>, and the identity of the stored evidence. SHA-256 is the
  argument \<open>sha256\<close>.
\<close>

subsection \<open>Data\<close>

datatype signature_history = PRESENT | ABSENT | UNKNOWN_HISTORY

definition SIGNATURE_HISTORY :: "(string \<times> signature_history) list" where
  "SIGNATURE_HISTORY = [(''PRESENT'', PRESENT), (''ABSENT'', ABSENT), (''UNKNOWN'', UNKNOWN_HISTORY)]"

datatype observed_status = OBS_FINALIZED | OBS_CONFIRMED | OBS_ORPHANED | OBS_NOT_FOUND

definition CONFIRMATION_STATUSES :: "(string \<times> observed_status) list" where
  "CONFIRMATION_STATUSES =
  [(''FINALIZED'', OBS_FINALIZED), (''CONFIRMED'', OBS_CONFIRMED), (''ORPHANED'', OBS_ORPHANED),
   (''NOT_FOUND'', OBS_NOT_FOUND)]"

datatype reconciliation_result = MATCHED | NO_EFFECT | MISMATCH | UNKNOWN_RESULT

definition RECONCILIATION_RESULTS :: "(string \<times> reconciliation_result) list" where
  "RECONCILIATION_RESULTS =
  [(''MATCHED'', MATCHED), (''NO_EFFECT'', NO_EFFECT), (''MISMATCH'', MISMATCH), (''UNKNOWN'', UNKNOWN_RESULT)]"

record expected_evidence =
  ex_intentId :: string
  ex_attemptNumber :: int
  ex_walletGeneration :: int
  ex_providerId :: string
  ex_side :: side
  ex_signature :: string
  ex_blockhash :: string
  ex_lastValidBlockHeight :: int
  ex_messageHash :: string
  ex_buildFingerprint :: string
  ex_snapshotFingerprint :: string
  ex_maximumFeeLamports :: int
  ex_maximumFeePayerLamportDebit :: int

record normalized_transaction =
  tx_signature :: string
  tx_blockhash :: string
  tx_messageHash :: string
  tx_buildFingerprint :: string
  tx_snapshotFingerprint :: string

record observed_evidence =
  ob_signatureHistory :: signature_history
  ob_confirmationStatus :: observed_status
  ob_finalizedBlockHeight :: int
  ob_observedSlot :: "int option"
  ob_transaction :: "normalized_transaction option"
  ob_feeLamports :: int
  ob_walletLamportDelta :: int
  ob_baseDeltaRaw :: int
  ob_quoteDeltaRaw :: int
  ob_unexpectedResidualTokenBalanceRaw :: int
  ob_observedAtMs :: int
  ob_finalizedAtMs :: "int option"
  ob_transactionFailed :: bool
  ob_baseTokenAccountsUnchanged :: bool

record evidence_fields =
  ef_expected :: expected_evidence
  ef_signatureHistory :: signature_history
  ef_confirmationStatus :: observed_status
  ef_finalizedBlockHeight :: int
  ef_observedSlot :: "int option"
  ef_observedTransactionFingerprint :: "string option"
  ef_feeLamports :: int
  ef_walletLamportDelta :: int
  ef_baseDeltaRaw :: int
  ef_quoteDeltaRaw :: int
  ef_unexpectedResidualTokenBalanceRaw :: int
  ef_observedAtMs :: int
  ef_finalizedAtMs :: "int option"
  ef_result :: reconciliation_result
  ef_reasonCode :: execution_reason

record reconciliation_evidence =
  evidenceId :: string
  evidencePayloadVersion :: int
  evidenceFingerprint :: string
  evidenceFields :: evidence_fields

definition ROOT_KEYS :: "string list" where
  "ROOT_KEYS = [''expected'', ''observed'']"

definition EXPECTED_KEYS :: "string list" where
  "EXPECTED_KEYS =
  [''intentId'', ''attemptNumber'', ''walletGeneration'', ''providerId'', ''side'',
   ''signature'', ''blockhash'', ''lastValidBlockHeight'', ''messageHash'',
   ''buildFingerprint'', ''snapshotFingerprint'', ''maximumFeeLamports'',
   ''maximumFeePayerLamportDebit'']"

definition OBSERVED_KEYS :: "string list" where
  "OBSERVED_KEYS =
  [''signatureHistory'', ''confirmationStatus'', ''finalizedBlockHeight'',
   ''observedSlot'', ''transaction'', ''feeLamports'', ''walletLamportDelta'',
   ''baseDeltaRaw'', ''quoteDeltaRaw'', ''unexpectedResidualTokenBalanceRaw'',
   ''observedAtMs'', ''finalizedAtMs'']"

definition OPTIONAL_OBSERVED_KEYS :: "string list" where
  "OPTIONAL_OBSERVED_KEYS = [''transactionFailed'', ''baseTokenAccountsUnchanged'']"

definition TRANSACTION_KEYS :: "string list" where
  "TRANSACTION_KEYS =
  [''signature'', ''blockhash'', ''messageHash'', ''buildFingerprint'', ''snapshotFingerprint'']"

subsection \<open>Validation\<close>

definition intentId_field :: "js \<Rightarrow> string option" where
  "intentId_field v = string_matching (is_prefixed_hex64 ''execution_intent_'') v"

definition positiveInteger :: "js \<Rightarrow> int option" where
  "positiveInteger v = boundedInteger 1 MAX_SAFE_INTEGER v"

definition expectedFrom :: "js \<Rightarrow> expected_evidence option" where
  "expectedFrom v =
     (if \<not> isFrozenPlainObject v then None
      else do {
        record \<leftarrow> exactRecord EXPECTED_KEYS v;
        intent \<leftarrow> intentId_field (fld record ''intentId'');
        attempt \<leftarrow> positiveInteger (fld record ''attemptNumber'');
        generation \<leftarrow> positiveInteger (fld record ''walletGeneration'');
        provider \<leftarrow> string_matching is_identifier (fld record ''providerId'');
        side \<leftarrow> enumValue SIDES (fld record ''side'');
        signature \<leftarrow> string_matching (is_base58_text 64 96) (fld record ''signature'');
        blockhash \<leftarrow> string_matching (is_base58_text 32 64) (fld record ''blockhash'');
        lastValid \<leftarrow> unsignedBigint (fld record ''lastValidBlockHeight'');
        messageHash \<leftarrow> string_matching is_hex64 (fld record ''messageHash'');
        build \<leftarrow> string_matching is_hex64 (fld record ''buildFingerprint'');
        snapshot \<leftarrow> string_matching is_hex64 (fld record ''snapshotFingerprint'');
        maximumFee \<leftarrow> unsignedBigint (fld record ''maximumFeeLamports'');
        maximumDebit \<leftarrow> unsignedBigint (fld record ''maximumFeePayerLamportDebit'');
        Some \<lparr>ex_intentId = intent, ex_attemptNumber = attempt, ex_walletGeneration = generation,
          ex_providerId = provider, ex_side = side, ex_signature = signature, ex_blockhash = blockhash,
          ex_lastValidBlockHeight = lastValid, ex_messageHash = messageHash,
          ex_buildFingerprint = build, ex_snapshotFingerprint = snapshot,
          ex_maximumFeeLamports = maximumFee, ex_maximumFeePayerLamportDebit = maximumDebit\<rparr>
      })"

definition transactionFrom :: "js \<Rightarrow> normalized_transaction option option" where
  "transactionFrom v =
     (if v = JNull then Some None
      else if \<not> isFrozenPlainObject v then None
      else do {
        record \<leftarrow> exactRecord TRANSACTION_KEYS v;
        signature \<leftarrow> string_matching (is_base58_text 64 96) (fld record ''signature'');
        blockhash \<leftarrow> string_matching (is_base58_text 32 64) (fld record ''blockhash'');
        messageHash \<leftarrow> string_matching is_hex64 (fld record ''messageHash'');
        build \<leftarrow> string_matching is_hex64 (fld record ''buildFingerprint'');
        snapshot \<leftarrow> string_matching is_hex64 (fld record ''snapshotFingerprint'');
        Some (Some \<lparr>tx_signature = signature, tx_blockhash = blockhash, tx_messageHash = messageHash,
          tx_buildFingerprint = build, tx_snapshotFingerprint = snapshot\<rparr>)
      })"

definition observedConsistent :: "observed_evidence \<Rightarrow> bool" where
  "observedConsistent r =
     (\<not> (case ob_finalizedAtMs r of None \<Rightarrow> False | Some t \<Rightarrow> t < ob_observedAtMs r)
      \<and> \<not> ((ob_transactionFailed r \<or> ob_baseTokenAccountsUnchanged r) \<and> ob_confirmationStatus r \<noteq> OBS_FINALIZED)
      \<and> \<not> (ob_confirmationStatus r = OBS_FINALIZED
            \<and> (ob_finalizedAtMs r = None \<or> ob_observedSlot r = None
               \<or> ob_signatureHistory r \<noteq> PRESENT \<or> ob_transaction r = None))
      \<and> \<not> (ob_confirmationStatus r = OBS_CONFIRMED
            \<and> (ob_finalizedAtMs r \<noteq> None \<or> ob_observedSlot r = None))
      \<and> \<not> (ob_confirmationStatus r = OBS_NOT_FOUND
            \<and> (ob_observedSlot r \<noteq> None \<or> ob_transaction r \<noteq> None \<or> ob_signatureHistory r = PRESENT)))"

definition observedFrom :: "js \<Rightarrow> observed_evidence option" where
  "observedFrom v =
     (if \<not> isFrozenPlainObject v then None
      else do {
        record \<leftarrow> exactRecordOpt OBSERVED_KEYS OPTIONAL_OBSERVED_KEYS v;
        history \<leftarrow> enumValue SIGNATURE_HISTORY (fld record ''signatureHistory'');
        status \<leftarrow> enumValue CONFIRMATION_STATUSES (fld record ''confirmationStatus'');
        height \<leftarrow> unsignedBigint (fld record ''finalizedBlockHeight'');
        slot \<leftarrow> nullable unsignedBigint (fld record ''observedSlot'');
        transaction \<leftarrow> transactionFrom (fld record ''transaction'');
        fee \<leftarrow> unsignedBigint (fld record ''feeLamports'');
        walletDelta \<leftarrow> signedBigint (fld record ''walletLamportDelta'');
        baseDelta \<leftarrow> signedBigint (fld record ''baseDeltaRaw'');
        quoteDelta \<leftarrow> signedBigint (fld record ''quoteDeltaRaw'');
        residual \<leftarrow> unsignedBigint (fld record ''unexpectedResidualTokenBalanceRaw'');
        observedAt \<leftarrow> timestamp_field (fld record ''observedAtMs'');
        finalizedAt \<leftarrow> nullable timestamp_field (fld record ''finalizedAtMs'');
        failed \<leftarrow> optionalBoolean record ''transactionFailed'';
        unchanged \<leftarrow> optionalBoolean record ''baseTokenAccountsUnchanged'';
        (let result = \<lparr>ob_signatureHistory = history, ob_confirmationStatus = status,
          ob_finalizedBlockHeight = height, ob_observedSlot = slot, ob_transaction = transaction,
          ob_feeLamports = fee, ob_walletLamportDelta = walletDelta, ob_baseDeltaRaw = baseDelta,
          ob_quoteDeltaRaw = quoteDelta, ob_unexpectedResidualTokenBalanceRaw = residual,
          ob_observedAtMs = observedAt, ob_finalizedAtMs = finalizedAt,
          ob_transactionFailed = failed, ob_baseTokenAccountsUnchanged = unchanged\<rparr>
         in if observedConsistent result then Some result else None)
      })"

subsection \<open>Verdict\<close>

definition sameTransaction :: "expected_evidence \<Rightarrow> normalized_transaction \<Rightarrow> bool" where
  "sameTransaction expected observed =
     (tx_signature observed = ex_signature expected
      \<and> tx_blockhash observed = ex_blockhash expected
      \<and> tx_messageHash observed = ex_messageHash expected
      \<and> tx_buildFingerprint observed = ex_buildFingerprint expected
      \<and> tx_snapshotFingerprint observed = ex_snapshotFingerprint expected)"

definition isLandedSellFailureWithoutEffect :: "expected_evidence \<Rightarrow> observed_evidence \<Rightarrow> bool" where
  "isLandedSellFailureWithoutEffect expected observed =
     (ex_side expected = SELL
      \<and> ob_transactionFailed observed
      \<and> ob_baseTokenAccountsUnchanged observed
      \<and> ob_signatureHistory observed = PRESENT
      \<and> ob_confirmationStatus observed = OBS_FINALIZED
      \<and> ob_finalizedAtMs observed \<noteq> None
      \<and> ob_observedSlot observed \<noteq> None
      \<and> (case ob_transaction observed of None \<Rightarrow> False | Some t \<Rightarrow> sameTransaction expected t)
      \<and> ob_baseDeltaRaw observed = 0
      \<and> ob_quoteDeltaRaw observed = 0
      \<and> ob_unexpectedResidualTokenBalanceRaw observed > 0
      \<and> ob_feeLamports observed > 0
      \<and> ob_feeLamports observed \<le> ex_maximumFeeLamports expected
      \<and> ob_walletLamportDelta observed = - ob_feeLamports observed)"

definition isMatched :: "expected_evidence \<Rightarrow> observed_evidence \<Rightarrow> bool" where
  "isMatched expected observed =
     (if ob_signatureHistory observed \<noteq> PRESENT
        \<or> ob_confirmationStatus observed \<noteq> OBS_FINALIZED
        \<or> ob_finalizedAtMs observed = None
        \<or> ob_observedSlot observed = None
        \<or> ob_transaction observed = None
        \<or> ob_feeLamports observed > ex_maximumFeeLamports expected then False
      else if ex_side expected = BUY then
        ob_baseDeltaRaw observed > 0
        \<and> ob_quoteDeltaRaw observed < 0
        \<and> ob_walletLamportDelta observed < 0
        \<and> - ob_walletLamportDelta observed \<le> ex_maximumFeePayerLamportDebit expected
      else
        ob_baseDeltaRaw observed < 0
        \<and> ob_quoteDeltaRaw observed > 0
        \<and> ob_walletLamportDelta observed > 0)"

definition classify :: "expected_evidence \<Rightarrow> observed_evidence \<Rightarrow> reconciliation_result \<times> execution_reason" where
  "classify expected observed =
     (let hasAnyDelta = ob_feeLamports observed \<noteq> 0 \<or> ob_walletLamportDelta observed \<noteq> 0
            \<or> ob_baseDeltaRaw observed \<noteq> 0 \<or> ob_quoteDeltaRaw observed \<noteq> 0
      in if isLandedSellFailureWithoutEffect expected observed then (NO_EFFECT, RECONCILIATION_PROVED_NO_EFFECT)
      else if ob_unexpectedResidualTokenBalanceRaw observed > 0 then (MISMATCH, RESIDUAL_TOKEN_BALANCE)
      else if (case ob_transaction observed of None \<Rightarrow> False | Some t \<Rightarrow> \<not> sameTransaction expected t)
        then (MISMATCH, DOUBLE_ORDER_SUSPECTED)
      else if (ob_signatureHistory observed = ABSENT \<or> ob_transaction observed = None) \<and> hasAnyDelta
        then (MISMATCH, BALANCE_MISMATCH)
      else if isMatched expected observed then (MATCHED, INTENT_SUCCEEDED)
      else if ob_signatureHistory observed = PRESENT \<and> ob_confirmationStatus observed = OBS_FINALIZED
          \<and> ob_transaction observed \<noteq> None then (MISMATCH, BALANCE_MISMATCH)
      else if ob_signatureHistory observed = ABSENT
          \<and> ob_confirmationStatus observed = OBS_NOT_FOUND
          \<and> ob_finalizedBlockHeight observed > ex_lastValidBlockHeight expected
          \<and> ob_transaction observed = None
          \<and> \<not> hasAnyDelta
          \<and> ob_finalizedAtMs observed \<noteq> None then (NO_EFFECT, RECONCILIATION_PROVED_NO_EFFECT)
      else (UNKNOWN_RESULT, RECONCILIATION_REQUIRED))"

subsection \<open>Evidence\<close>

definition JsonOptInt :: "int option \<Rightarrow> json" where
  "JsonOptInt x = (case x of None \<Rightarrow> JsonNull | Some n \<Rightarrow> JsonInt n)"

definition JsonOptStr :: "string option \<Rightarrow> json" where
  "JsonOptStr x = (case x of None \<Rightarrow> JsonNull | Some s \<Rightarrow> JsonStr s)"

definition hash :: "(string \<Rightarrow> string) \<Rightarrow> json list \<Rightarrow> string" where
  "hash sha256 js = sha256 (stringify (JsonArr js))"

definition transactionFingerprint :: "(string \<Rightarrow> string) \<Rightarrow> normalized_transaction \<Rightarrow> string" where
  "transactionFingerprint sha256 t = hash sha256
  [JsonStr ''normalized-execution-transaction-v1'', JsonStr (tx_signature t), JsonStr (tx_blockhash t),
   JsonStr (tx_messageHash t), JsonStr (tx_buildFingerprint t), JsonStr (tx_snapshotFingerprint t)]"

definition evidencePreimage :: "evidence_fields \<Rightarrow> json list" where
  "evidencePreimage f = (let x = ef_expected f in
  [JsonStr ''execution-reconciliation-evidence-v1'', JsonStr (ex_intentId x), JsonInt (ex_attemptNumber x),
   JsonInt (ex_walletGeneration x), JsonStr (ex_providerId x), JsonStr (literal_of SIDES (ex_side x)),
   JsonStr (ex_signature x), JsonStr (ex_blockhash x), JsonStr (dec_int (ex_lastValidBlockHeight x)),
   JsonStr (ex_messageHash x), JsonStr (ex_buildFingerprint x), JsonStr (ex_snapshotFingerprint x),
   JsonStr (dec_int (ex_maximumFeeLamports x)), JsonStr (dec_int (ex_maximumFeePayerLamportDebit x)),
   JsonStr (literal_of SIGNATURE_HISTORY (ef_signatureHistory f)),
   JsonStr (literal_of CONFIRMATION_STATUSES (ef_confirmationStatus f)),
   JsonStr (dec_int (ef_finalizedBlockHeight f)),
   JsonOptStr (map_option dec_int (ef_observedSlot f)), JsonOptStr (ef_observedTransactionFingerprint f),
   JsonStr (dec_int (ef_feeLamports f)), JsonStr (dec_int (ef_walletLamportDelta f)),
   JsonStr (dec_int (ef_baseDeltaRaw f)), JsonStr (dec_int (ef_quoteDeltaRaw f)),
   JsonStr (dec_int (ef_unexpectedResidualTokenBalanceRaw f)), JsonInt (ef_observedAtMs f),
   JsonOptInt (ef_finalizedAtMs f), JsonStr (literal_of RECONCILIATION_RESULTS (ef_result f)),
   JsonStr (literal_of EXECUTION_INTENT_REASON_CODES (ef_reasonCode f))])"

definition evidenceFingerprintFor :: "(string \<Rightarrow> string) \<Rightarrow> evidence_fields \<Rightarrow> string" where
  "evidenceFingerprintFor sha256 f = hash sha256 (evidencePreimage f)"

definition evidenceFromFields :: "(string \<Rightarrow> string) \<Rightarrow> evidence_fields \<Rightarrow> reconciliation_evidence" where
  "evidenceFromFields sha256 f =
     (let fingerprint = evidenceFingerprintFor sha256 f
      in \<lparr>evidenceId = ''execution_reconciliation_'' @ hash sha256
            [JsonStr ''execution-reconciliation-id-v1'', JsonStr (ex_intentId (ef_expected f)),
             JsonInt (ex_attemptNumber (ef_expected f)), JsonStr fingerprint],
          evidencePayloadVersion = 1, evidenceFingerprint = fingerprint, evidenceFields = f\<rparr>)"

definition reconciliationFields :: "(string \<Rightarrow> string) \<Rightarrow> expected_evidence \<Rightarrow> observed_evidence \<Rightarrow> evidence_fields" where
  "reconciliationFields sha256 expected observed =
     (let outcome = classify expected observed
      in \<lparr>ef_expected = expected,
          ef_signatureHistory = ob_signatureHistory observed,
          ef_confirmationStatus = ob_confirmationStatus observed,
          ef_finalizedBlockHeight = ob_finalizedBlockHeight observed,
          ef_observedSlot = ob_observedSlot observed,
          ef_observedTransactionFingerprint = map_option (transactionFingerprint sha256) (ob_transaction observed),
          ef_feeLamports = ob_feeLamports observed,
          ef_walletLamportDelta = ob_walletLamportDelta observed,
          ef_baseDeltaRaw = ob_baseDeltaRaw observed,
          ef_quoteDeltaRaw = ob_quoteDeltaRaw observed,
          ef_unexpectedResidualTokenBalanceRaw = ob_unexpectedResidualTokenBalanceRaw observed,
          ef_observedAtMs = ob_observedAtMs observed,
          ef_finalizedAtMs = ob_finalizedAtMs observed,
          ef_result = fst outcome,
          ef_reasonCode = snd outcome\<rparr>)"

definition evaluateExecutionReconciliation :: "(string \<Rightarrow> string) \<Rightarrow> js \<Rightarrow> reconciliation_evidence option" where
  "evaluateExecutionReconciliation sha256 input = do {
     root \<leftarrow> exactRecord ROOT_KEYS input;
     expected \<leftarrow> expectedFrom (fld root ''expected'');
     observed \<leftarrow> observedFrom (fld root ''observed'');
     Some (evidenceFromFields sha256 (reconciliationFields sha256 expected observed))
   }"

definition assertExecutionReconciliationEvidenceIdentity ::
  "(string \<Rightarrow> string) \<Rightarrow> reconciliation_evidence \<Rightarrow> bool" where
  "assertExecutionReconciliationEvidenceIdentity sha256 e =
     (let canonical = evidenceFromFields sha256 (evidenceFields e)
      in evidencePayloadVersion e = 1 \<and> evidenceId e = evidenceId canonical
         \<and> evidenceFingerprint e = evidenceFingerprint canonical)"

subsection \<open>What the verdicts mean\<close>

text \<open>The claims about the chain that the verdicts stand for, in terms of the order that was
  signed.\<close>

definition expectedTransaction :: "expected_evidence \<Rightarrow> normalized_transaction" where
  "expectedTransaction x = \<lparr>tx_signature = ex_signature x, tx_blockhash = ex_blockhash x,
     tx_messageHash = ex_messageHash x, tx_buildFingerprint = ex_buildFingerprint x,
     tx_snapshotFingerprint = ex_snapshotFingerprint x\<rparr>"

definition landed :: "expected_evidence \<Rightarrow> observed_evidence \<Rightarrow> bool" where
  "landed x r = (ob_confirmationStatus r = OBS_FINALIZED \<and> ob_transaction r = Some (expectedTransaction x))"

definition filled :: "expected_evidence \<Rightarrow> observed_evidence \<Rightarrow> bool" where
  "filled x r = (landed x r \<and> ob_unexpectedResidualTokenBalanceRaw r = 0
     \<and> ob_feeLamports r \<le> ex_maximumFeeLamports x
     \<and> (case ex_side x of
          BUY \<Rightarrow> ob_baseDeltaRaw r > 0 \<and> ob_quoteDeltaRaw r < 0 \<and> ob_walletLamportDelta r < 0
            \<and> - ob_walletLamportDelta r \<le> ex_maximumFeePayerLamportDebit x
        | SELL \<Rightarrow> ob_baseDeltaRaw r < 0 \<and> ob_quoteDeltaRaw r > 0 \<and> ob_walletLamportDelta r > 0))"

definition reverted_sell :: "expected_evidence \<Rightarrow> observed_evidence \<Rightarrow> bool" where
  "reverted_sell x r = (landed x r \<and> ex_side x = SELL \<and> ob_transactionFailed r \<and> ob_baseTokenAccountsUnchanged r
     \<and> ob_baseDeltaRaw r = 0 \<and> ob_quoteDeltaRaw r = 0 \<and> ob_unexpectedResidualTokenBalanceRaw r > 0
     \<and> 0 < ob_feeLamports r \<and> ob_feeLamports r \<le> ex_maximumFeeLamports x
     \<and> ob_walletLamportDelta r = - ob_feeLamports r)"

definition no_movement :: "observed_evidence \<Rightarrow> bool" where
  "no_movement r = (ob_feeLamports r = 0 \<and> ob_walletLamportDelta r = 0
     \<and> ob_baseDeltaRaw r = 0 \<and> ob_quoteDeltaRaw r = 0)"

definition never_landed :: "expected_evidence \<Rightarrow> observed_evidence \<Rightarrow> bool" where
  "never_landed x r = (ob_signatureHistory r = ABSENT \<and> ob_confirmationStatus r = OBS_NOT_FOUND
     \<and> ob_finalizedAtMs r \<noteq> None \<and> ob_finalizedBlockHeight r > ex_lastValidBlockHeight x
     \<and> ob_unexpectedResidualTokenBalanceRaw r = 0 \<and> no_movement r)"

lemma sameTransaction_iff: "sameTransaction x t \<longleftrightarrow> t = expectedTransaction x"
  by (cases t) (auto simp: sameTransaction_def expectedTransaction_def)

lemma observedFrom_Some:
  assumes "observedFrom v = Some r"
  shows "observedConsistent r \<and> 0 \<le> ob_feeLamports r \<and> 0 \<le> ob_unexpectedResidualTokenBalanceRaw r"
  using assms unfolding observedFrom_def result_simps
  by (clarsimp simp: field_iffs Let_def split: if_splits)

lemma expectedFrom_Some:
  assumes "expectedFrom v = Some x"
  shows "0 \<le> ex_maximumFeeLamports x \<and> ex_maximumFeeLamports x \<le> U64_MAX
     \<and> ex_maximumFeePayerLamportDebit x \<le> U64_MAX \<and> 1 \<le> ex_attemptNumber x"
  using assms unfolding expectedFrom_def result_simps positiveInteger_def
  by (clarsimp simp: field_iffs split: if_splits)

lemma observed_finalized:
  assumes "observedConsistent r" and "ob_confirmationStatus r = OBS_FINALIZED"
  shows "ob_signatureHistory r = PRESENT \<and> ob_observedSlot r \<noteq> None \<and> ob_finalizedAtMs r \<noteq> None
     \<and> ob_transaction r \<noteq> None"
  using assms by (auto simp: observedConsistent_def)

lemma observed_not_found:
  assumes "observedConsistent r" and "ob_confirmationStatus r = OBS_NOT_FOUND"
  shows "ob_signatureHistory r \<noteq> PRESENT \<and> ob_transaction r = None"
  using assms by (auto simp: observedConsistent_def)

lemma reverted_sell_iff:
  "observedConsistent r \<Longrightarrow> isLandedSellFailureWithoutEffect x r \<longleftrightarrow> reverted_sell x r"
  using observed_finalized [of r]
  by (auto simp: isLandedSellFailureWithoutEffect_def reverted_sell_def landed_def sameTransaction_iff
      split: option.splits)

lemma classify_matched_guards:
  "fst (classify x r) = MATCHED \<longleftrightarrow> \<not> isLandedSellFailureWithoutEffect x r
     \<and> ob_unexpectedResidualTokenBalanceRaw r \<le> 0
     \<and> \<not> (case ob_transaction r of None \<Rightarrow> False | Some t \<Rightarrow> t \<noteq> expectedTransaction x) \<and> isMatched x r"
  by (auto simp: classify_def Let_def sameTransaction_iff isMatched_def simp del: split_paired_Ex)

lemma isMatched_filled:
  assumes "observedConsistent r" and "ob_unexpectedResidualTokenBalanceRaw r = 0"
    and "ob_transaction r = Some (expectedTransaction x)"
  shows "isMatched x r \<longleftrightarrow> filled x r"
  using assms(2,3) observed_finalized [OF assms(1)]
  by (cases "ex_side x") (auto simp: isMatched_def filled_def landed_def)

lemma classify_matched_iff:
  assumes "observedConsistent r" and "0 \<le> ob_unexpectedResidualTokenBalanceRaw r"
  shows "fst (classify x r) = MATCHED \<longleftrightarrow> filled x r"
proof (cases "ob_unexpectedResidualTokenBalanceRaw r = 0 \<and> ob_transaction r = Some (expectedTransaction x)")
  case True
  then show ?thesis
    using isMatched_filled [OF assms(1), of x]
    by (simp add: classify_matched_guards reverted_sell_iff [OF assms(1)] reverted_sell_def)
next
  case False
  then have "\<not> filled x r" by (auto simp: filled_def landed_def)
  moreover have "ob_transaction r \<noteq> None" if "isMatched x r" using that by (auto simp: isMatched_def split: if_splits)
  ultimately show ?thesis
    using False assms(2) by (auto simp: classify_matched_guards split: option.splits)
qed

lemma classify_no_effect_iff:
  assumes "observedConsistent r" and "0 \<le> ob_unexpectedResidualTokenBalanceRaw r"
  shows "fst (classify x r) = NO_EFFECT \<longleftrightarrow> never_landed x r \<or> reverted_sell x r"
  using assms(2) observed_not_found [OF assms(1)] unfolding classify_def Let_def reverted_sell_iff [OF assms(1)]
  by (auto simp: never_landed_def no_movement_def isMatched_def sameTransaction_iff reverted_sell_def split: option.splits)

text \<open>An observation that proves nothing yet: nothing contradicts the order, the transaction is not finalized,
  and its absence is not final either.\<close>

definition undecided :: "expected_evidence \<Rightarrow> observed_evidence \<Rightarrow> bool" where
  "undecided x r = (ob_confirmationStatus r \<noteq> OBS_FINALIZED \<and> \<not> never_landed x r
     \<and> ob_unexpectedResidualTokenBalanceRaw r = 0 \<and> ob_transaction r \<in> {None, Some (expectedTransaction x)}
     \<and> (ob_transaction r = None \<or> ob_signatureHistory r = ABSENT \<longrightarrow> no_movement r))"

lemma classify_unknown_iff:
  assumes "observedConsistent r" and "0 \<le> ob_unexpectedResidualTokenBalanceRaw r"
  shows "fst (classify x r) = UNKNOWN_RESULT \<longleftrightarrow> undecided x r"
  using assms(2) observed_not_found [OF assms(1)] observed_finalized [OF assms(1)]
  unfolding classify_def Let_def reverted_sell_iff [OF assms(1)]
  by (auto simp: undecided_def never_landed_def no_movement_def isMatched_def sameTransaction_iff reverted_sell_def landed_def
      split: option.splits)

lemma classify_finalized:
  assumes "observedConsistent r" and "ob_confirmationStatus r = OBS_FINALIZED"
  shows "fst (classify x r) \<noteq> UNKNOWN_RESULT"
  using observed_finalized [OF assms] assms(2) by (auto simp: classify_def Let_def)

lemma classify_reason:
  "snd (classify x r) = (case fst (classify x r) of
     MATCHED \<Rightarrow> INTENT_SUCCEEDED
   | NO_EFFECT \<Rightarrow> RECONCILIATION_PROVED_NO_EFFECT
   | UNKNOWN_RESULT \<Rightarrow> RECONCILIATION_REQUIRED
   | MISMATCH \<Rightarrow> if ob_unexpectedResidualTokenBalanceRaw r > 0 then RESIDUAL_TOKEN_BALANCE
       else if (case ob_transaction r of None \<Rightarrow> False | Some t \<Rightarrow> t \<noteq> expectedTransaction x)
         then DOUBLE_ORDER_SUSPECTED else BALANCE_MISMATCH)"
  by (simp add: classify_def Let_def sameTransaction_iff split: option.split)

lemma evaluate_Some:
  assumes "evaluateExecutionReconciliation sha256 v = Some e"
  obtains x r where "observedConsistent r" "0 \<le> ob_feeLamports r" "0 \<le> ob_unexpectedResidualTokenBalanceRaw r"
    "0 \<le> ex_maximumFeeLamports x" "e = evidenceFromFields sha256 (reconciliationFields sha256 x r)"
  using assms that unfolding evaluateExecutionReconciliation_def result_simps
  by (auto dest!: observedFrom_Some expectedFrom_Some)

subsection \<open>Properties\<close>

text \<open>
  C4. The verdict is exact. For every validated order and observation, MATCHED is returned exactly
  when the finalized transaction is the signed one and moved base, quote and lamports in the
  direction of the order within its limits; NO_EFFECT exactly when the signature can no longer
  land or a finalized sell reverted and cost only its fee; UNKNOWN exactly when nothing contradicts the
  order but neither its transaction nor its absence is final; and MISMATCH exactly in the remaining
  situations. A finalized observation is always decided, never UNKNOWN.
\<close>

theorem reconciliation_verdict_exact:
  assumes "expectedFrom v = Some x" and "observedFrom w = Some r"
  shows "(fst (classify x r) = MATCHED \<longleftrightarrow> filled x r)
     \<and> (fst (classify x r) = NO_EFFECT \<longleftrightarrow> never_landed x r \<or> reverted_sell x r)
     \<and> (fst (classify x r) = UNKNOWN_RESULT \<longleftrightarrow> undecided x r)
     \<and> (fst (classify x r) = MISMATCH \<longleftrightarrow> \<not> filled x r \<and> \<not> never_landed x r \<and> \<not> reverted_sell x r \<and> \<not> undecided x r)
     \<and> (ob_confirmationStatus r = OBS_FINALIZED \<longrightarrow> fst (classify x r) \<noteq> UNKNOWN_RESULT)"
proof -
  have r: "observedConsistent r" "0 \<le> ob_unexpectedResidualTokenBalanceRaw r" using observedFrom_Some [OF assms(2)] by blast+
  note verdicts = classify_matched_iff [OF r, of x] classify_no_effect_iff [OF r, of x] classify_unknown_iff [OF r, of x]
  then have "fst (classify x r) = MISMATCH \<longleftrightarrow> \<not> filled x r \<and> \<not> (never_landed x r \<or> reverted_sell x r) \<and> \<not> undecided x r"
    by (cases "fst (classify x r)") simp_all
  with verdicts show ?thesis by (simp add: undecided_def)
qed

text \<open>
  C5. Evidence of NO_EFFECT never hides a movement of funds: neither token balance changed, the
  wallet lost exactly the fee, the fee is within the approved maximum, and a buy lost nothing at
  all.
\<close>

theorem no_effect_costs_at_most_the_fee:
  assumes "evaluateExecutionReconciliation sha256 v = Some e" and "ef_result (evidenceFields e) = NO_EFFECT"
  shows "ef_baseDeltaRaw (evidenceFields e) = 0 \<and> ef_quoteDeltaRaw (evidenceFields e) = 0
     \<and> ef_walletLamportDelta (evidenceFields e) = - ef_feeLamports (evidenceFields e)
     \<and> 0 \<le> ef_feeLamports (evidenceFields e)
     \<and> ef_feeLamports (evidenceFields e) \<le> ex_maximumFeeLamports (ef_expected (evidenceFields e))
     \<and> (ex_side (ef_expected (evidenceFields e)) = BUY \<longrightarrow> ef_feeLamports (evidenceFields e) = 0)"
proof -
  obtain x r where r: "observedConsistent r" "0 \<le> ob_feeLamports r" "0 \<le> ob_unexpectedResidualTokenBalanceRaw r"
    and x: "0 \<le> ex_maximumFeeLamports x" and e: "e = evidenceFromFields sha256 (reconciliationFields sha256 x r)"
    using evaluate_Some [OF assms(1)] by metis
  then have "never_landed x r \<or> reverted_sell x r"
    using assms(2) classify_no_effect_iff [OF r(1,3), of x]
    by (simp add: e evidenceFromFields_def reconciliationFields_def Let_def)
  then show ?thesis
    using r x by (auto simp: e evidenceFromFields_def reconciliationFields_def Let_def
        never_landed_def reverted_sell_def no_movement_def)
qed

text \<open>
  C6. Evidence of MATCHED is evidence of the signed order and of no other: the chain's finalized
  transaction has the fingerprint of the signed one, the fee is within its maximum, no unexpected
  tokens are left, and a matched buy debited the fee payer by no more than the approved maximum.
\<close>

theorem matched_evidence_is_the_signed_order:
  assumes "evaluateExecutionReconciliation sha256 v = Some e" and "ef_result (evidenceFields e) = MATCHED"
  shows "ef_confirmationStatus (evidenceFields e) = OBS_FINALIZED
     \<and> ef_observedTransactionFingerprint (evidenceFields e)
         = Some (transactionFingerprint sha256 (expectedTransaction (ef_expected (evidenceFields e))))
     \<and> ef_feeLamports (evidenceFields e) \<le> ex_maximumFeeLamports (ef_expected (evidenceFields e))
     \<and> ef_unexpectedResidualTokenBalanceRaw (evidenceFields e) = 0
     \<and> ef_reasonCode (evidenceFields e) = INTENT_SUCCEEDED
     \<and> (ex_side (ef_expected (evidenceFields e)) = BUY \<longrightarrow>
          - ef_walletLamportDelta (evidenceFields e) \<le> ex_maximumFeePayerLamportDebit (ef_expected (evidenceFields e))
          \<and> ef_baseDeltaRaw (evidenceFields e) > 0)
     \<and> (ex_side (ef_expected (evidenceFields e)) = SELL \<longrightarrow>
          ef_walletLamportDelta (evidenceFields e) > 0 \<and> ef_baseDeltaRaw (evidenceFields e) < 0)"
proof -
  obtain x r where r: "observedConsistent r" "0 \<le> ob_unexpectedResidualTokenBalanceRaw r"
    and e: "e = evidenceFromFields sha256 (reconciliationFields sha256 x r)"
    using evaluate_Some [OF assms(1)] by metis
  then have matched: "fst (classify x r) = MATCHED"
    using assms(2) by (simp add: evidenceFromFields_def reconciliationFields_def Let_def)
  then have "filled x r" using classify_matched_iff [OF r, of x] by simp
  then show ?thesis
    using classify_reason [of x r] matched
    by (auto simp: e evidenceFromFields_def reconciliationFields_def Let_def filled_def landed_def)
qed

subsection \<open>Identity of stored evidence\<close>

lemma evidence_literals:
  "literal_of SIDES s = literal_of SIDES s' \<longleftrightarrow> s = s'"
  "literal_of SIGNATURE_HISTORY h = literal_of SIGNATURE_HISTORY h' \<longleftrightarrow> h = h'"
  "literal_of CONFIRMATION_STATUSES c = literal_of CONFIRMATION_STATUSES c' \<longleftrightarrow> c = c'"
  "literal_of RECONCILIATION_RESULTS t = literal_of RECONCILIATION_RESULTS t' \<longleftrightarrow> t = t'"
  subgoal by (cases s; cases s'; simp add: literal_of_def SIDES_def)
  subgoal by (cases h; cases h'; simp add: literal_of_def SIGNATURE_HISTORY_def)
  subgoal by (cases c; cases c'; simp add: literal_of_def CONFIRMATION_STATUSES_def)
  subgoal by (cases t; cases t'; simp add: literal_of_def RECONCILIATION_RESULTS_def)
  done

lemma json_option_eq:
  "JsonOptStr u = JsonOptStr w \<longleftrightarrow> u = w"
  "JsonOptInt a = JsonOptInt b \<longleftrightarrow> a = b"
  "map_option dec_int a = map_option dec_int b \<longleftrightarrow> a = b"
  by (cases u; cases w; simp add: JsonOptStr_def) (cases a; cases b; simp add: JsonOptInt_def)+

lemma evidencePreimage_inj: "evidencePreimage f = evidencePreimage g \<longleftrightarrow> f = g"
  by (cases f, cases "ef_expected f", cases g, cases "ef_expected g")
     (auto simp: evidencePreimage_def Let_def evidence_literals reason_literals json_option_eq)

text \<open>The two texts the identity of an evidence record hashes.\<close>

definition evidenceIdPreimage :: "(string \<Rightarrow> string) \<Rightarrow> evidence_fields \<Rightarrow> json" where
  "evidenceIdPreimage sha256 f = JsonArr [JsonStr ''execution-reconciliation-id-v1'',
     JsonStr (ex_intentId (ef_expected f)), JsonInt (ex_attemptNumber (ef_expected f)),
     JsonStr (evidenceFingerprintFor sha256 f)]"

definition evidenceTexts :: "(string \<Rightarrow> string) \<Rightarrow> evidence_fields \<Rightarrow> string set" where
  "evidenceTexts sha256 f = {stringify (JsonArr (evidencePreimage f)), stringify (evidenceIdPreimage sha256 f)}"

lemma evidenceId_eq: "evidenceId (evidenceFromFields sha256 f)
    = ''execution_reconciliation_'' @ sha256 (stringify (evidenceIdPreimage sha256 f))"
  by (simp add: evidenceFromFields_def evidenceIdPreimage_def hash_def Let_def)

lemma evidenceFromFields_id_inj:
  assumes "inj_on sha256 (evidenceTexts sha256 f \<union> evidenceTexts sha256 g)"
    and "evidenceId (evidenceFromFields sha256 f) = evidenceId (evidenceFromFields sha256 g)"
  shows "f = g"
proof -
  have "evidenceIdPreimage sha256 f = evidenceIdPreimage sha256 g"
    using assms(2) digest_binds [OF assms(1), of "evidenceIdPreimage sha256 f" "evidenceIdPreimage sha256 g"]
    by (simp add: evidenceId_eq evidenceTexts_def)
  then have "sha256 (stringify (JsonArr (evidencePreimage f))) = sha256 (stringify (JsonArr (evidencePreimage g)))"
    by (simp add: evidenceIdPreimage_def evidenceFingerprintFor_def hash_def)
  then show ?thesis
    using digest_binds [OF assms(1), of "JsonArr (evidencePreimage f)" "JsonArr (evidencePreimage g)"]
    by (simp add: evidenceTexts_def evidencePreimage_inj)
qed

text \<open>
  C14. The identity check accepts what the evaluation produced, and the identifier binds the whole
  record: two evidence records that pass the check have the same identifier exactly when they are
  equal in every field, for any digest function that separates the texts being hashed.
\<close>

theorem evidence_identity_binds:
  assumes "assertExecutionReconciliationEvidenceIdentity sha256 e"
    and "assertExecutionReconciliationEvidenceIdentity sha256 e'"
    and "inj_on sha256 (evidenceTexts sha256 (evidenceFields e) \<union> evidenceTexts sha256 (evidenceFields e'))"
  shows "evidenceId e = evidenceId e' \<longleftrightarrow> e = e'"
proof -
  have "e = evidenceFromFields sha256 (evidenceFields e)" "e' = evidenceFromFields sha256 (evidenceFields e')"
    using assms(1,2) by (simp_all add: assertExecutionReconciliationEvidenceIdentity_def evidenceFromFields_def Let_def)
  then show ?thesis
    using evidenceFromFields_id_inj [OF assms(3)] by metis
qed

subsection \<open>Concrete observations\<close>

definition example_expected_record :: js_record where
  "example_expected_record =
  [(''intentId'', JStr (''execution_intent_'' @ replicate 64 CHR ''0'')), (''attemptNumber'', JNum (JInt 1)),
   (''walletGeneration'', JNum (JInt 1)), (''providerId'', JStr ''helius''), (''side'', JStr ''BUY''),
   (''signature'', JStr (replicate 64 CHR ''2'')), (''blockhash'', JStr (replicate 32 CHR ''3'')),
   (''lastValidBlockHeight'', JBig 1000), (''messageHash'', JStr (replicate 64 CHR ''a'')),
   (''buildFingerprint'', JStr (replicate 64 CHR ''b'')), (''snapshotFingerprint'', JStr (replicate 64 CHR ''c'')),
   (''maximumFeeLamports'', JBig 20000), (''maximumFeePayerLamportDebit'', JBig 50000000)]"

definition example_expected :: expected_evidence where
  "example_expected = \<lparr>ex_intentId = ''execution_intent_'' @ replicate 64 CHR ''0'', ex_attemptNumber = 1,
     ex_walletGeneration = 1, ex_providerId = ''helius'', ex_side = BUY,
     ex_signature = replicate 64 CHR ''2'', ex_blockhash = replicate 32 CHR ''3'',
     ex_lastValidBlockHeight = 1000, ex_messageHash = replicate 64 CHR ''a'',
     ex_buildFingerprint = replicate 64 CHR ''b'', ex_snapshotFingerprint = replicate 64 CHR ''c'',
     ex_maximumFeeLamports = 20000, ex_maximumFeePayerLamportDebit = 50000000\<rparr>"

definition example_transaction :: js where
  "example_transaction = frozen_object
  [(''signature'', JStr (replicate 64 CHR ''2'')), (''blockhash'', JStr (replicate 32 CHR ''3'')),
   (''messageHash'', JStr (replicate 64 CHR ''a'')), (''buildFingerprint'', JStr (replicate 64 CHR ''b'')),
   (''snapshotFingerprint'', JStr (replicate 64 CHR ''c''))]"

text \<open>A finalized buy that filled, and a buy whose blockhash expired unseen.\<close>

definition example_filled_record :: js_record where
  "example_filled_record =
  [(''signatureHistory'', JStr ''PRESENT''), (''confirmationStatus'', JStr ''FINALIZED''),
   (''finalizedBlockHeight'', JBig 900), (''observedSlot'', JBig 880), (''transaction'', example_transaction),
   (''feeLamports'', JBig 5000), (''walletLamportDelta'', JBig (- 40005000)), (''baseDeltaRaw'', JBig 777),
   (''quoteDeltaRaw'', JBig (- 40000000)), (''unexpectedResidualTokenBalanceRaw'', JBig 0),
   (''observedAtMs'', JNum (JInt 10)), (''finalizedAtMs'', JNum (JInt 20))]"

definition example_absent_record :: js_record where
  "example_absent_record =
  [(''signatureHistory'', JStr ''ABSENT''), (''confirmationStatus'', JStr ''NOT_FOUND''),
   (''finalizedBlockHeight'', JBig 1001), (''observedSlot'', JNull), (''transaction'', JNull),
   (''feeLamports'', JBig 0), (''walletLamportDelta'', JBig 0), (''baseDeltaRaw'', JBig 0),
   (''quoteDeltaRaw'', JBig 0), (''unexpectedResidualTokenBalanceRaw'', JBig 0),
   (''observedAtMs'', JNum (JInt 10)), (''finalizedAtMs'', JNum (JInt 20))]"

definition example_filled :: observed_evidence where
  "example_filled = \<lparr>ob_signatureHistory = PRESENT, ob_confirmationStatus = OBS_FINALIZED,
     ob_finalizedBlockHeight = 900, ob_observedSlot = Some 880,
     ob_transaction = Some (expectedTransaction example_expected), ob_feeLamports = 5000,
     ob_walletLamportDelta = - 40005000, ob_baseDeltaRaw = 777, ob_quoteDeltaRaw = - 40000000,
     ob_unexpectedResidualTokenBalanceRaw = 0, ob_observedAtMs = 10, ob_finalizedAtMs = Some 20,
     ob_transactionFailed = False, ob_baseTokenAccountsUnchanged = False\<rparr>"

definition example_absent :: observed_evidence where
  "example_absent = \<lparr>ob_signatureHistory = ABSENT, ob_confirmationStatus = OBS_NOT_FOUND,
     ob_finalizedBlockHeight = 1001, ob_observedSlot = None, ob_transaction = None, ob_feeLamports = 0,
     ob_walletLamportDelta = 0, ob_baseDeltaRaw = 0, ob_quoteDeltaRaw = 0,
     ob_unexpectedResidualTokenBalanceRaw = 0, ob_observedAtMs = 10, ob_finalizedAtMs = Some 20,
     ob_transactionFailed = False, ob_baseTokenAccountsUnchanged = False\<rparr>"

lemma example_expected_read: "expectedFrom (frozen_object example_expected_record) = Some example_expected"
  by code_simp

lemma example_observed_read:
  "observedFrom (frozen_object example_filled_record) = Some example_filled"
  "observedFrom (frozen_object example_absent_record) = Some example_absent"
  by code_simp+

lemma example_verdicts:
  "fst (classify example_expected example_filled) = MATCHED"
  "fst (classify example_expected example_absent) = NO_EFFECT"
  by code_simp+

definition example_question :: "js_record \<Rightarrow> js" where
  "example_question r = frozen_object [(''expected'', frozen_object example_expected_record), (''observed'', frozen_object r)]"

lemma example_question_evaluated:
  assumes "observedFrom (frozen_object r) = Some obs"
  shows "evaluateExecutionReconciliation sha256 (example_question r)
     = Some (evidenceFromFields sha256 (reconciliationFields sha256 example_expected obs))"
  using assms exactRecord_frozen_object [of "[(''expected'', frozen_object example_expected_record), (''observed'', frozen_object r)]" ROOT_KEYS]
  by (simp add: evaluateExecutionReconciliation_def example_question_def ROOT_KEYS_def example_expected_read)

theorem reconciliation_verdict_exact_witness:
  "filled example_expected example_filled \<and> (never_landed example_expected example_absent \<or> reverted_sell example_expected example_absent)
     \<and> \<not> undecided example_expected example_absent"
  using reconciliation_verdict_exact [OF example_expected_read example_observed_read(1)]
    reconciliation_verdict_exact [OF example_expected_read example_observed_read(2)] example_verdicts by simp

lemma evidence_result: "ef_result (evidenceFields (evidenceFromFields sha256 (reconciliationFields sha256 x r))) = fst (classify x r)"
  by (simp add: evidenceFromFields_def reconciliationFields_def Let_def)

theorem no_effect_costs_at_most_the_fee_witness:
  "\<exists>e. evaluateExecutionReconciliation zero_digest (example_question example_absent_record) = Some e
     \<and> ef_result (evidenceFields e) = NO_EFFECT \<and> ef_baseDeltaRaw (evidenceFields e) = 0"
  using no_effect_costs_at_most_the_fee [OF example_question_evaluated [OF example_observed_read(2), of zero_digest]]
    example_question_evaluated [OF example_observed_read(2)] example_verdicts(2)
  by (auto simp: evidence_result)

theorem matched_evidence_is_the_signed_order_witness:
  "\<exists>e. evaluateExecutionReconciliation zero_digest (example_question example_filled_record) = Some e
     \<and> ef_result (evidenceFields e) = MATCHED \<and> ef_reasonCode (evidenceFields e) = INTENT_SUCCEEDED"
  using matched_evidence_is_the_signed_order [OF example_question_evaluated [OF example_observed_read(1), of zero_digest]]
    example_question_evaluated [OF example_observed_read(1)] example_verdicts(1)
  by (auto simp: evidence_result)

theorem evidence_identity_binds_witness:
  "evidenceId (evidenceFromFields id (reconciliationFields id example_expected example_filled))
     \<noteq> evidenceId (evidenceFromFields id (reconciliationFields id example_expected example_absent))"
proof -
  have passes: "assertExecutionReconciliationEvidenceIdentity id (evidenceFromFields id f)" for f
    by (simp add: assertExecutionReconciliationEvidenceIdentity_def evidenceFromFields_def Let_def)
  have "evidenceFromFields id (reconciliationFields id example_expected example_filled)
      \<noteq> evidenceFromFields id (reconciliationFields id example_expected example_absent)"
    using example_verdicts by (metis evidence_result reconciliation_result.distinct(1))
  then show ?thesis
    using evidence_identity_binds [OF passes passes] by (metis inj_on_id)
qed

end
