(* ===== verification/Interfaces.thy ===== *)
theory Interfaces
  imports Main
begin

text \<open>
  The contracts several components of the program share, as locales: a life cycle whose terminal
  states are final and always reachable, a three-way comparison that is a total order, and a
  merge of observations that is insensitive to order and repetition. Each is interpreted in the
  theory of the component that provides it.
\<close>

subsection \<open>Life cycles\<close>

locale lifecycle =
  fixes step :: "'s \<Rightarrow> 's \<Rightarrow> bool"
    and terminal :: "'s \<Rightarrow> bool"
    and remaining :: "'s \<Rightarrow> nat"
  assumes terminal_final: "terminal s \<Longrightarrow> \<not> step s t"
    and progress: "\<not> terminal s \<Longrightarrow> \<exists>t. step s t \<and> remaining t < remaining s"
begin

lemma terminal_absorbing:
  assumes "step\<^sup>*\<^sup>* s t" and "terminal s"
  shows "t = s"
  using assms by (induction rule: converse_rtranclp_induct) (auto dest: terminal_final)

lemma finishes: "\<exists>t. step\<^sup>*\<^sup>* s t \<and> terminal t"
proof (induction "remaining s" arbitrary: s rule: less_induct)
  case less
  show ?case
  proof (cases "terminal s")
    case False
    then obtain t where "step s t" "remaining t < remaining s" using progress by blast
    with less show ?thesis by (meson converse_rtranclp_into_rtranclp)
  qed blast
qed

lemma terminal_iff_stuck: "terminal s \<longleftrightarrow> (\<nexists>t. step s t)"
  using terminal_final progress by blast

end

subsection \<open>Three-way comparisons\<close>

text \<open>A comparison that returns a negative number, zero or a positive number, used to sort.\<close>

locale three_way_order =
  fixes cmp :: "'a \<Rightarrow> 'a \<Rightarrow> int" and valid :: "'a \<Rightarrow> bool"
  assumes cmp_eq: "valid a \<Longrightarrow> valid b \<Longrightarrow> cmp a b = 0 \<longleftrightarrow> a = b"
    and cmp_antisym: "valid a \<Longrightarrow> valid b \<Longrightarrow> cmp a b < 0 \<longleftrightarrow> cmp b a > 0"
    and cmp_trans: "valid a \<Longrightarrow> valid b \<Longrightarrow> valid c \<Longrightarrow> cmp a b < 0 \<Longrightarrow> cmp b c < 0 \<Longrightarrow> cmp a c < 0"
begin

lemma total: "valid a \<Longrightarrow> valid b \<Longrightarrow> cmp a b < 0 \<or> a = b \<or> cmp b a < 0"
  using cmp_eq cmp_antisym by (meson not_less_iff_gr_or_eq)

lemma irreflexive: "valid a \<Longrightarrow> \<not> cmp a a < 0"
  using cmp_eq [of a a] by simp

lemma asymmetric: "valid a \<Longrightarrow> valid b \<Longrightarrow> cmp a b < 0 \<Longrightarrow> \<not> cmp b a < 0"
  using cmp_trans irreflexive by blast

text \<open>Sorting with the comparison has one result: a strictly increasing list is determined by its
  set.\<close>

lemma sorted_unique:
  assumes "\<forall>a \<in> set xs. valid a"
    and "sorted_wrt (\<lambda>a b. cmp a b < 0) xs" and "sorted_wrt (\<lambda>a b. cmp a b < 0) ys" and "set xs = set ys"
  shows "xs = ys"
  using assms
proof (induction xs arbitrary: ys)
  case (Cons x xs)
  then obtain y ys' where ys: "ys = y # ys'" by (cases ys) auto
  have eq: "x = y"
  proof (rule ccontr)
    assume "x \<noteq> y"
    with Cons.prems(4) ys have "x \<in> set ys'" "y \<in> set xs" by auto
    with Cons.prems ys have "cmp y x < 0" "cmp x y < 0" by auto
    with Cons.prems ys asymmetric [of x y] \<open>y \<in> set xs\<close> show False by auto
  qed
  have "x \<notin> set xs" "y \<notin> set ys'"
    using Cons.prems ys irreflexive by fastforce+
  then have "set xs = set ys'" using Cons.prems(4) ys eq by auto
  with Cons eq ys show ?case by auto
qed simp

end

subsection \<open>Merges of observations\<close>

text \<open>A merge of two observations of one fact that keeps one of them. Folding it over the
  observations gives a result that depends neither on which comes first, nor on their order, nor on repetitions.\<close>

locale observation_merge =
  fixes merge :: "'a \<Rightarrow> 'a \<Rightarrow> 'a"
  assumes idem: "merge a a = a"
    and comm: "merge a b = merge b a"
    and assoc: "merge (merge a b) c = merge a (merge b c)"
begin

lemma left_comm: "merge a (merge b c) = merge b (merge a c)"
  using assoc comm by metis

lemma fold_absorb: "x \<in> set xs \<Longrightarrow> merge x (foldr merge xs a) = foldr merge xs a"
proof (induction xs)
  case (Cons y ys)
  show ?case
  proof (cases "x = y")
    case True
    then show ?thesis by (simp add: assoc [symmetric] idem)
  next
    case False
    with Cons have "merge x (foldr merge ys a) = foldr merge ys a" by simp
    then show ?thesis by (simp add: left_comm [of x y])
  qed
qed simp

lemma fold_subset: "set xs \<subseteq> set ys \<Longrightarrow> foldr merge (xs @ ys) a = foldr merge ys a"
  by (induction xs) (auto simp: fold_absorb)

lemma fold_append_comm: "foldr merge (xs @ ys) a = foldr merge (ys @ xs) a"
proof (induction xs)
  case (Cons x xs)
  have "foldr merge (zs @ x # xs) a = merge x (foldr merge (zs @ xs) a)" for zs
    by (induction zs) (auto simp: left_comm)
  with Cons show ?case by simp
qed simp

lemma fold_set_cong: "set xs = set ys \<Longrightarrow> foldr merge xs a = foldr merge ys a"
  using fold_subset [of xs ys a] fold_subset [of ys xs a] fold_append_comm [of xs ys a] by simp

lemma fold_merge: "foldr merge xs (merge a b) = merge a (foldr merge xs b)"
  by (induction xs) (simp_all add: left_comm)

lemma fold_all_cong:
  assumes "set (a # xs) = set (b # ys)"
  shows "foldr merge xs a = foldr merge ys b"
proof -
  have start: "foldr merge (c # zs) c = foldr merge zs c" for c zs using fold_merge [of zs c c] by (simp add: idem)
  have "a \<in> set (b # ys)" using assms by auto
  then have "foldr merge (b # ys) a = foldr merge (b # ys) b"
    using fold_merge [of "b # ys" a b] fold_merge [of "b # ys" b a] fold_absorb [of a "b # ys" b] fold_absorb [of b "b # ys" a]
    by (simp add: comm [of a b])
  then show ?thesis using fold_set_cong [OF assms, of a] start [of a xs] start [of b ys] by simp
qed

end

end
