(* ===== verification/Intent_Lifecycle.thy ===== *)
theory Intent_Lifecycle
  imports Execution_Types Interfaces
begin

text \<open>
  The life cycle of an execution intent (\<open>src/src/domain/execution-intent.ts\<close>): the table of
  allowed transitions, the reason every status must carry, and the checks the repositories run
  before a status is written.
\<close>

subsection \<open>Tables\<close>

definition TERMINAL_STATUSES :: "intent_status list" where
  "TERMINAL_STATUSES = [SUCCEEDED, FAILED, EXPIRED, CANCELLED]"

fun EXACT_STATUS_REASONS :: "intent_status \<Rightarrow> execution_reason option" where
  "EXACT_STATUS_REASONS PROCESSING = Some EXECUTION_STARTED"
| "EXACT_STATUS_REASONS SIMULATED = Some SIMULATION_SUCCEEDED"
| "EXACT_STATUS_REASONS SIGNED_NOT_SUBMITTED = Some SIGNATURE_PERSISTED"
| "EXACT_STATUS_REASONS SUBMITTED = Some SUBMISSION_ACCEPTED"
| "EXACT_STATUS_REASONS CONFIRMED = Some CONFIRMATION_OBSERVED"
| "EXACT_STATUS_REASONS RECONCILING = Some RECONCILIATION_STARTED"
| "EXACT_STATUS_REASONS SUCCEEDED = Some INTENT_SUCCEEDED"
| "EXACT_STATUS_REASONS EXPIRED = Some INTENT_EXPIRED"
| "EXACT_STATUS_REASONS CANCELLED = Some INTENT_CANCELLED"
| "EXACT_STATUS_REASONS UNKNOWN_REQUIRES_RECONCILIATION = Some RECONCILIATION_REQUIRED"
| "EXACT_STATUS_REASONS _ = None"

definition POSITIVE_REASON_CODES :: "execution_reason list" where
  "POSITIVE_REASON_CODES =
  [EXECUTION_STARTED, SIMULATION_SUCCEEDED, ATTEMPT_COMPLETED,
   RETRY_AUTHORIZED, SIGNATURE_PERSISTED, SUBMISSION_ACCEPTED,
   CONFIRMATION_OBSERVED, RECONCILIATION_STARTED, INTENT_SUCCEEDED,
   INTENT_CANCELLED]"

fun ALLOWED_TRANSITIONS :: "intent_status \<Rightarrow> intent_status list" where
  "ALLOWED_TRANSITIONS PENDING = [PROCESSING, EXPIRED, CANCELLED]"
| "ALLOWED_TRANSITIONS RETRY_READY = [PROCESSING, EXPIRED, CANCELLED]"
| "ALLOWED_TRANSITIONS PROCESSING = [SIMULATED, FAILED, EXPIRED, CANCELLED]"
| "ALLOWED_TRANSITIONS SIMULATED = [SUCCEEDED, FAILED, EXPIRED, CANCELLED, SIGNED_NOT_SUBMITTED]"
| "ALLOWED_TRANSITIONS SIGNED_NOT_SUBMITTED =
     [SUBMITTED, UNKNOWN_REQUIRES_RECONCILIATION, FAILED, RETRY_READY]"
| "ALLOWED_TRANSITIONS SUBMITTED = [CONFIRMED, UNKNOWN_REQUIRES_RECONCILIATION]"
| "ALLOWED_TRANSITIONS CONFIRMED = [RECONCILING, UNKNOWN_REQUIRES_RECONCILIATION, SUCCEEDED]"
| "ALLOWED_TRANSITIONS RECONCILING = [UNKNOWN_REQUIRES_RECONCILIATION, SUCCEEDED]"
| "ALLOWED_TRANSITIONS UNKNOWN_REQUIRES_RECONCILIATION = [CONFIRMED, FAILED, RETRY_READY]"
| "ALLOWED_TRANSITIONS SUCCEEDED = []"
| "ALLOWED_TRANSITIONS FAILED = []"
| "ALLOWED_TRANSITIONS EXPIRED = []"
| "ALLOWED_TRANSITIONS CANCELLED = []"

subsection \<open>Checks\<close>

definition statusFrom :: "js \<Rightarrow> intent_status option" where
  "statusFrom v = enumValue EXECUTION_INTENT_STATUSES v"

definition nullableReasonCodeFrom :: "js \<Rightarrow> execution_reason option option" where
  "nullableReasonCodeFrom v = nullable (enumValue EXECUTION_INTENT_REASON_CODES) v"

definition assertStatusReason :: "intent_status \<Rightarrow> execution_reason option \<Rightarrow> bool" where
  "assertStatusReason status reasonCode =
     (if status = PENDING then reasonCode = None
      else if status = FAILED then
        (case reasonCode of None \<Rightarrow> False | Some r \<Rightarrow> r \<notin> set POSITIVE_REASON_CODES)
      else if status = RETRY_READY then
        reasonCode = Some RECONCILIATION_PROVED_NO_EFFECT \<or> reasonCode = Some PRE_SUBMISSION_REVOKED_NO_SEND
      else reasonCode = EXACT_STATUS_REASONS status)"

text \<open>\<open>True\<close> where the code returns, \<open>False\<close> where it throws.\<close>

definition assertExecutionIntentTransition :: "js \<Rightarrow> js \<Rightarrow> bool" where
  "assertExecutionIntentTransition previous nxt =
     (case statusFrom previous of None \<Rightarrow> False
      | Some prior \<Rightarrow> (case statusFrom nxt of None \<Rightarrow> False
          | Some successor \<Rightarrow> successor \<in> set (ALLOWED_TRANSITIONS prior)))"

definition transitionReasonAllowed :: "intent_status \<Rightarrow> intent_status \<Rightarrow> execution_reason option \<Rightarrow> bool" where
  "transitionReasonAllowed prior successor reasonCode =
     (if reasonCode = None \<or> successor \<notin> set (ALLOWED_TRANSITIONS prior) then False
      else if \<not> assertStatusReason successor reasonCode then False
      else let provesUnknownHadNoEffect = prior = UNKNOWN_REQUIRES_RECONCILIATION
                 \<and> (successor = FAILED \<or> successor = RETRY_READY)
           in provesUnknownHadNoEffect = (reasonCode = Some RECONCILIATION_PROVED_NO_EFFECT))"

definition assertExecutionIntentTransitionReason :: "js \<Rightarrow> js \<Rightarrow> js \<Rightarrow> bool" where
  "assertExecutionIntentTransitionReason previous nxt reason =
     (case statusFrom previous of None \<Rightarrow> False
      | Some prior \<Rightarrow> (case statusFrom nxt of None \<Rightarrow> False
          | Some successor \<Rightarrow> (case nullableReasonCodeFrom reason of None \<Rightarrow> False
              | Some reasonCode \<Rightarrow> transitionReasonAllowed prior successor reasonCode)))"

definition assertExecutionIntentStatusReason :: "js \<Rightarrow> js \<Rightarrow> bool" where
  "assertExecutionIntentStatusReason statusValue reasonValue =
     (case statusFrom statusValue of None \<Rightarrow> False
      | Some status \<Rightarrow> (case nullableReasonCodeFrom reasonValue of None \<Rightarrow> False
          | Some reasonCode \<Rightarrow> assertStatusReason status reasonCode))"

definition assertExecutionAttemptStatusReason :: "js \<Rightarrow> js \<Rightarrow> bool" where
  "assertExecutionAttemptStatusReason statusValue reasonValue =
     (case nullableReasonCodeFrom reasonValue of None \<Rightarrow> False
      | Some reasonCode \<Rightarrow>
          if statusValue = JStr ''STARTED'' then reasonCode = None
          else if statusValue = JStr ''COMPLETED'' then reasonCode = Some ATTEMPT_COMPLETED
          else statusValue = JStr ''ABANDONED''
            \<and> (case reasonCode of None \<Rightarrow> False | Some r \<Rightarrow> r \<notin> set POSITIVE_REASON_CODES))"

subsection \<open>Histories\<close>

text \<open>A history of an intent: the statuses and reasons written one after the other, each
  accepted by \<open>assertExecutionIntentTransitionReason\<close>.\<close>

inductive intent_step :: "intent_status \<Rightarrow> intent_status \<Rightarrow> bool" where
  written: "transitionReasonAllowed s t reason \<Longrightarrow> intent_step s t"

inductive intent_history :: "intent_status \<Rightarrow> (intent_status \<times> execution_reason) list \<Rightarrow> intent_status \<Rightarrow> bool" where
  start: "intent_history s [] s"
| appended: "intent_history s h t \<Longrightarrow> transitionReasonAllowed t u (Some r) \<Longrightarrow> intent_history s (h @ [(u, r)]) u"

inductive_cases intent_step_cases: "intent_step s t"

definition is_terminal :: "intent_status \<Rightarrow> bool" where
  "is_terminal s = (s \<in> set TERMINAL_STATUSES)"

text \<open>Steps on the shortest way to a terminal status.\<close>

fun steps_to_end :: "intent_status \<Rightarrow> nat" where
  "steps_to_end SUBMITTED = 2"
| "steps_to_end SUCCEEDED = 0"
| "steps_to_end FAILED = 0"
| "steps_to_end EXPIRED = 0"
| "steps_to_end CANCELLED = 0"
| "steps_to_end _ = 1"

lemma intent_step_iff: "intent_step s t \<longleftrightarrow> (\<exists>r. transitionReasonAllowed s t (Some r))"
  by (auto simp: intent_step.simps transitionReasonAllowed_def)

lemma intent_step_allowed: "intent_step s t \<Longrightarrow> t \<in> set (ALLOWED_TRANSITIONS s)"
  by (auto elim!: intent_step_cases simp: transitionReasonAllowed_def split: if_splits)

lemma transition_reason_exists:
  assumes "t \<in> set (ALLOWED_TRANSITIONS s)"
  shows "\<exists>r. transitionReasonAllowed s t (Some r)"
proof (cases "EXACT_STATUS_REASONS t")
  case (Some r)
  with assms have "transitionReasonAllowed s t (Some r)"
    by (cases t rule: intent_status.exhaust) (auto simp: transitionReasonAllowed_def assertStatusReason_def)
  then show ?thesis by blast
next
  case None
  have "transitionReasonAllowed s t (Some (if s = UNKNOWN_REQUIRES_RECONCILIATION
      then RECONCILIATION_PROVED_NO_EFFECT else PRE_SUBMISSION_REVOKED_NO_SEND))"
    using assms None by (cases t rule: intent_status.exhaust; cases s rule: intent_status.exhaust)
      (simp_all add: transitionReasonAllowed_def assertStatusReason_def POSITIVE_REASON_CODES_def)
  then show ?thesis by blast
qed

lemma intent_step_allowed_iff: "intent_step s t \<longleftrightarrow> t \<in> set (ALLOWED_TRANSITIONS s)"
  using intent_step_allowed transition_reason_exists by (auto simp: intent_step_iff)

interpretation intent: lifecycle intent_step is_terminal steps_to_end
proof unfold_locales
  show "\<not> intent_step s t" if "is_terminal s" for s t
    using that by (auto simp: intent_step_allowed_iff is_terminal_def TERMINAL_STATUSES_def)
  show "\<exists>t. intent_step s t \<and> steps_to_end t < steps_to_end s" if "\<not> is_terminal s" for s
    using that unfolding intent_step_allowed_iff is_terminal_def TERMINAL_STATUSES_def
    by (cases s) (fastforce intro: exI [of _ EXPIRED] exI [of _ SUCCEEDED] exI [of _ FAILED] exI [of _ CONFIRMED])+
qed

lemma history_step: "intent_history s h t \<Longrightarrow> intent_step\<^sup>*\<^sup>* s t"
  by (induction rule: intent_history.induct) (auto simp: intent_step_iff intro: rtranclp.rtrancl_into_rtrancl)

subsection \<open>Properties\<close>

text \<open>
  C24. The checks of the repositories form a sound life cycle: a status with a recorded end
  (SUCCEEDED, FAILED, EXPIRED, CANCELLED) is never left, whatever is asked for, and from every
  other status some sequence of accepted writes reaches such an end.
\<close>

theorem intent_lifecycle_sound:
  "(intent_step\<^sup>*\<^sup>* s t \<longrightarrow> is_terminal s \<longrightarrow> t = s) \<and> (\<exists>u. intent_step\<^sup>*\<^sup>* s u \<and> is_terminal u)
   \<and> (is_terminal s \<longleftrightarrow> (\<nexists>u. intent_step s u))"
  using intent.terminal_absorbing intent.finishes intent.terminal_iff_stuck by blast

text \<open>Statuses in which the order may already be in the hands of the network.\<close>

definition maybe_sent :: "intent_status \<Rightarrow> bool" where
  "maybe_sent s = (s \<in> {SUBMITTED, CONFIRMED, RECONCILING, UNKNOWN_REQUIRES_RECONCILIATION, SUCCEEDED, FAILED})"

lemma maybe_sent_step:
  assumes "transitionReasonAllowed s t (Some r)" and "maybe_sent s"
  shows "maybe_sent t \<or> t = RETRY_READY \<and> r = RECONCILIATION_PROVED_NO_EFFECT"
  using assms
  by (cases s rule: intent_status.exhaust)
     (auto simp: transitionReasonAllowed_def maybe_sent_def assertStatusReason_def Let_def split: if_splits)

lemma maybe_sent_history:
  "intent_history s h t \<Longrightarrow> maybe_sent s \<Longrightarrow>
     maybe_sent t \<or> (RETRY_READY, RECONCILIATION_PROVED_NO_EFFECT) \<in> set h"
  by (induction rule: intent_history.induct) (auto dest: maybe_sent_step)

text \<open>
  C18. No blind resubmission: once an order was submitted, or its fate is unknown, every history
  that leads back to a status in which it may be processed, simulated or signed again records the
  step to RETRY_READY with the reason RECONCILIATION_PROVED_NO_EFFECT, that is, the proof that the
  earlier submission had no effect.
\<close>

theorem resubmission_needs_proof_of_no_effect:
  assumes "intent_history s h t" and "maybe_sent s"
    and "t \<in> {RETRY_READY, PROCESSING, SIMULATED, SIGNED_NOT_SUBMITTED, EXPIRED, CANCELLED}"
  shows "(RETRY_READY, RECONCILIATION_PROVED_NO_EFFECT) \<in> set h"
  using maybe_sent_history [OF assms(1,2)] assms(3) by (auto simp: maybe_sent_def)

text \<open>A second signature after a first one.\<close>

definition signed_or_later :: "intent_status \<Rightarrow> bool" where
  "signed_or_later s = (s = SIGNED_NOT_SUBMITTED \<or> maybe_sent s)"

lemma signed_step:
  assumes "transitionReasonAllowed s t (Some r)" and "signed_or_later s"
  shows "maybe_sent t \<or> t = RETRY_READY \<and>
    r = (if s = SIGNED_NOT_SUBMITTED then PRE_SUBMISSION_REVOKED_NO_SEND else RECONCILIATION_PROVED_NO_EFFECT)"
  using assms
  by (cases s rule: intent_status.exhaust)
     (auto simp: transitionReasonAllowed_def maybe_sent_def signed_or_later_def assertStatusReason_def Let_def
       split: if_splits)

lemma signed_history:
  "intent_history s h t \<Longrightarrow> s = SIGNED_NOT_SUBMITTED \<Longrightarrow>
     h = [] \<and> t = s \<or> maybe_sent t
     \<or> (\<exists>r \<in> {PRE_SUBMISSION_REVOKED_NO_SEND, RECONCILIATION_PROVED_NO_EFFECT}. (RETRY_READY, r) \<in> set h)"
proof (induction rule: intent_history.induct)
  case (appended s h t u r)
  then show ?case using signed_step [OF appended.hyps(2)] by (auto simp: signed_or_later_def split: if_splits)
qed simp

text \<open>
  C19. One signature per attempt: between two moments at which an intent holds a persisted, unsent
  signature there is a recorded release of the first one, either PRE_SUBMISSION_REVOKED_NO_SEND or
  RECONCILIATION_PROVED_NO_EFFECT.
\<close>

theorem second_signature_needs_release:
  assumes "intent_history SIGNED_NOT_SUBMITTED h SIGNED_NOT_SUBMITTED" and "h \<noteq> []"
  shows "(RETRY_READY, PRE_SUBMISSION_REVOKED_NO_SEND) \<in> set h
    \<or> (RETRY_READY, RECONCILIATION_PROVED_NO_EFFECT) \<in> set h"
  using signed_history [OF assms(1)] assms(2) by (auto simp: maybe_sent_def)

subsection \<open>Concrete histories\<close>

definition example_history :: "(intent_status \<times> execution_reason) list" where
  "example_history =
  [(UNKNOWN_REQUIRES_RECONCILIATION, RECONCILIATION_REQUIRED),
   (RETRY_READY, RECONCILIATION_PROVED_NO_EFFECT),
   (PROCESSING, EXECUTION_STARTED), (SIMULATED, SIMULATION_SUCCEEDED),
   (SIGNED_NOT_SUBMITTED, SIGNATURE_PERSISTED)]"

lemma history_Cons:
  assumes "transitionReasonAllowed s t (Some r)" and "intent_history t h u"
  shows "intent_history s ((t, r) # h) u"
  using assms(2,1)
proof (induction rule: intent_history.induct)
  case (start t)
  then show ?case using intent_history.appended [OF intent_history.start] by fastforce
next
  case (appended t h v u q)
  then show ?case using intent_history.appended [of s "(t, r) # h"] by simp
qed

lemma example_history_accepted:
  "intent_history SUBMITTED example_history SIGNED_NOT_SUBMITTED"
  "intent_history SIGNED_NOT_SUBMITTED ((SUBMITTED, SUBMISSION_ACCEPTED) # example_history) SIGNED_NOT_SUBMITTED"
proof -
  show first: "intent_history SUBMITTED example_history SIGNED_NOT_SUBMITTED"
    unfolding example_history_def by (intro history_Cons intent_history.start) code_simp+
  show "intent_history SIGNED_NOT_SUBMITTED ((SUBMITTED, SUBMISSION_ACCEPTED) # example_history) SIGNED_NOT_SUBMITTED"
    by (rule history_Cons [OF _ first]) code_simp
qed

theorem resubmission_needs_proof_of_no_effect_witness:
  "intent_history SUBMITTED example_history SIGNED_NOT_SUBMITTED
   \<and> (RETRY_READY, RECONCILIATION_PROVED_NO_EFFECT) \<in> set example_history"
  using resubmission_needs_proof_of_no_effect [OF example_history_accepted(1)] example_history_accepted(1)
  by (simp add: maybe_sent_def)

theorem second_signature_needs_release_witness:
  "(RETRY_READY, PRE_SUBMISSION_REVOKED_NO_SEND) \<in> set ((SUBMITTED, SUBMISSION_ACCEPTED) # example_history)
    \<or> (RETRY_READY, RECONCILIATION_PROVED_NO_EFFECT) \<in> set ((SUBMITTED, SUBMISSION_ACCEPTED) # example_history)"
  using second_signature_needs_release [OF example_history_accepted(2)] by simp

theorem intent_lifecycle_sound_witness:
  "intent_step\<^sup>*\<^sup>* FAILED FAILED \<and> is_terminal FAILED \<and> (\<exists>u. intent_step\<^sup>*\<^sup>* SUBMITTED u \<and> is_terminal u)"
  using intent_lifecycle_sound [of FAILED FAILED] intent_lifecycle_sound [of SUBMITTED SUBMITTED]
  by (simp add: is_terminal_def TERMINAL_STATUSES_def)

end
