(* ===== verification/Public_Key.thy ===== *)
theory Public_Key
  imports Js_Value
begin

text \<open>
  The two tests for a canonical Base58 public key: \<open>isCanonicalBase58PublicKey\<close> of
  \<open>src/src/domain/execution-intent.ts\<close>, which decodes into one big integer, and
  \<open>isCanonicalSolanaPublicKey\<close> of \<open>src/src/domain/solana-public-key.ts\<close>, which decodes into a
  little-endian list of bytes with a carry. They accept the same texts, and no two accepted texts
  stand for the same 32 bytes.
\<close>

subsection \<open>Decoding into a big integer\<close>

fun indexOf :: "char \<Rightarrow> string \<Rightarrow> nat option" where
  "indexOf c [] = None"
| "indexOf c (x # xs) = (if c = x then Some 0 else map_option Suc (indexOf c xs))"

definition base58_digit :: "char \<Rightarrow> nat option" where
  "base58_digit c = indexOf c BASE58_ALPHABET"

fun decodeBase58 :: "nat \<Rightarrow> string \<Rightarrow> nat option" where
  "decodeBase58 decoded [] = Some decoded"
| "decodeBase58 decoded (c # cs) = (case base58_digit c of
     None \<Rightarrow> None
   | Some digit \<Rightarrow> decodeBase58 (decoded * 58 + digit) cs)"

fun encodedByteLength :: "nat \<Rightarrow> nat" where
  "encodedByteLength decoded = (if decoded > 0 then 1 + encodedByteLength (decoded div 256) else 0)"

declare encodedByteLength.simps [simp del]

definition leadingZeroByteLength :: "string \<Rightarrow> nat" where
  "leadingZeroByteLength s = length (takeWhile (\<lambda>c. c = CHR ''1'') s)"

definition isCanonicalBase58PublicKey :: "string \<Rightarrow> bool" where
  "isCanonicalBase58PublicKey s =
     (if length s < 32 \<or> length s > 44 then False
      else case decodeBase58 0 s of
        None \<Rightarrow> False
      | Some decoded \<Rightarrow> encodedByteLength decoded + leadingZeroByteLength s = 32)"

subsection \<open>Decoding into bytes with a carry\<close>

text \<open>The inner loop over the bytes decoded so far. All values stay below 2 to the 31
  (\<open>multiplyAdd_carry\<close>), so the 32-bit \<open>&\<close> and \<open>>>\<close> of the code are \<open>mod\<close> and \<open>div\<close>.\<close>

fun multiplyAdd :: "nat list \<Rightarrow> nat \<Rightarrow> nat list \<times> nat" where
  "multiplyAdd [] carry = ([], carry)"
| "multiplyAdd (decoded # rest) carry =
     (let nxt = decoded * 58 + carry;
          (rest', carry') = multiplyAdd rest (nxt div 256)
      in (nxt mod 256 # rest', carry'))"

fun pushCarry :: "nat list \<Rightarrow> nat \<Rightarrow> nat list" where
  "pushCarry bytes carry = (if carry > 0 then pushCarry (bytes @ [carry mod 256]) (carry div 256) else bytes)"

declare pushCarry.simps [simp del]

fun decodeLittleEndian :: "nat list \<Rightarrow> string \<Rightarrow> nat list option" where
  "decodeLittleEndian bytes [] = Some bytes"
| "decodeLittleEndian bytes (c # cs) = (case base58_digit c of
     None \<Rightarrow> None
   | Some digit \<Rightarrow>
       let (bytes', carry) = multiplyAdd bytes digit
       in decodeLittleEndian (pushCarry bytes' carry) cs)"

definition isCanonicalSolanaPublicKey :: "string \<Rightarrow> bool" where
  "isCanonicalSolanaPublicKey s =
     (if utf8_length s < 32 \<or> utf8_length s > 44 \<or> s \<noteq> trim s then False
      else case decodeLittleEndian [0] s of
        None \<Rightarrow> False
      | Some bytes \<Rightarrow>
          leadingZeroByteLength s + (if length bytes = 1 \<and> bytes ! 0 = 0 then 0 else length bytes) = 32)"

subsection \<open>Both decodings compute the same number\<close>

definition le_value :: "nat list \<Rightarrow> nat" where
  "le_value bytes = foldr (\<lambda>b v. b + 256 * v) bytes 0"

lemma le_value_simps [simp]: "le_value [] = 0" "le_value (b # bs) = b + 256 * le_value bs"
  by (simp_all add: le_value_def)

lemma le_value_append: "le_value (xs @ ys) = le_value xs + 256 ^ length xs * le_value ys"
  by (induction xs) (auto simp: algebra_simps)

text \<open>Bytes without superfluous high zeros: the single byte 0, or a non-zero last byte.\<close>

definition compact :: "nat list \<Rightarrow> bool" where
  "compact bytes = (list_all (\<lambda>b. b < 256) bytes \<and> bytes \<noteq> [] \<and> (bytes = [0] \<or> last bytes \<noteq> 0))"

lemma multiplyAdd_value:
  "multiplyAdd bytes carry = (bytes', carry') \<Longrightarrow>
     length bytes' = length bytes \<and> list_all (\<lambda>b. b < 256) bytes'
     \<and> le_value bytes' + 256 ^ length bytes * carry' = le_value bytes * 58 + carry"
proof (induction bytes arbitrary: carry bytes' carry')
  case (Cons b bs)
  obtain r c where r: "multiplyAdd bs ((b * 58 + carry) div 256) = (r, c)" by fastforce
  with Cons.prems have out: "bytes' = (b * 58 + carry) mod 256 # r" "carry' = c"
    by (auto simp: Let_def)
  note IH = Cons.IH [OF r]
  have "le_value bytes' + 256 ^ length (b # bs) * carry'
      = (b * 58 + carry) mod 256 + 256 * (le_value r + 256 ^ length bs * c)"
    by (simp add: out algebra_simps)
  also have "\<dots> = le_value (b # bs) * 58 + carry"
    using IH by (simp add: algebra_simps)
  finally show ?case using IH out by simp
qed simp

lemma multiplyAdd_carry:
  "list_all (\<lambda>b. b < 256) bytes \<Longrightarrow> carry < 58 \<Longrightarrow> snd (multiplyAdd bytes carry) < 58"
proof (induction bytes arbitrary: carry)
  case (Cons b bs)
  then have "b * 58 + carry < 58 * 256" by simp
  then have "(b * 58 + carry) div 256 < 58" by (rule less_mult_imp_div_less)
  then show ?case
    using Cons.IH [of "(b * 58 + carry) div 256"] Cons.prems by (simp add: Let_def split_beta)
qed simp

lemma pushCarry_value:
  "list_all (\<lambda>b. b < 256) bytes \<Longrightarrow>
     list_all (\<lambda>b. b < 256) (pushCarry bytes carry)
     \<and> le_value (pushCarry bytes carry) = le_value bytes + 256 ^ length bytes * carry
     \<and> (carry > 0 \<longrightarrow> last (pushCarry bytes carry) \<noteq> 0 \<and> pushCarry bytes carry \<noteq> [])"
proof (induction bytes carry rule: pushCarry.induct)
  case (1 bytes carry)
  show ?case
  proof (cases "carry > 0")
    case True
    have "list_all (\<lambda>b. b < 256) (bytes @ [carry mod 256])" using 1(2) by simp
    note IH = 1(1) [OF True this]
    have step: "pushCarry bytes carry = pushCarry (bytes @ [carry mod 256]) (carry div 256)"
      using True by (simp add: pushCarry.simps [of bytes carry])
    have "256 ^ length bytes * carry = 256 ^ length bytes * (carry mod 256 + 256 * (carry div 256))" by simp
    then have sum: "256 ^ length bytes * (carry mod 256) + 256 * 256 ^ length bytes * (carry div 256) = 256 ^ length bytes * carry"
      by (simp only: distrib_left mult.assoc mult.left_commute)
    have high: "last (pushCarry bytes carry) \<noteq> 0 \<and> pushCarry bytes carry \<noteq> []"
    proof (cases "carry div 256 = 0")
      case True
      with \<open>carry > 0\<close> show ?thesis by (simp add: step pushCarry.simps [of _ 0])
    next
      case False
      with IH show ?thesis by (simp add: step)
    qed
    show ?thesis
      using IH sum high by (simp add: step le_value_append)
  next
    case False
    then show ?thesis using 1(2) by (simp add: pushCarry.simps)
  qed
qed

lemma multiplyAdd_last:
  "bytes \<noteq> [] \<Longrightarrow> last bytes \<noteq> 0 \<Longrightarrow> snd (multiplyAdd bytes carry) = 0 \<Longrightarrow> last (fst (multiplyAdd bytes carry)) \<noteq> 0"
proof (induction bytes arbitrary: carry)
  case (Cons b bs)
  show ?case
  proof (cases "bs = []")
    case True
    with Cons.prems show ?thesis by (auto simp: Let_def)
  next
    case False
    then have "fst (multiplyAdd bs c) \<noteq> []" for c
      using multiplyAdd_value [of bs c] by (metis length_0_conv prod.collapse)
    then show ?thesis
      using False Cons.prems Cons.IH [of "(b * 58 + carry) div 256"] by (simp add: Let_def split_beta)
  qed
qed simp

lemma digit_step:
  assumes "compact bytes" and "digit < 58" and "multiplyAdd bytes digit = (bytes', carry)"
  shows "compact (pushCarry bytes' carry) \<and> le_value (pushCarry bytes' carry) = le_value bytes * 58 + digit"
proof -
  have small: "list_all (\<lambda>b. b < 256) bytes'" and len: "length bytes' = length bytes"
    and val: "le_value bytes' + 256 ^ length bytes * carry = le_value bytes * 58 + digit"
    using multiplyAdd_value [OF assms(3)] by auto
  note push = pushCarry_value [OF small, of carry]
  have "compact (pushCarry bytes' carry)"
  proof (cases "carry > 0")
    case True
    with push show ?thesis by (simp add: compact_def)
  next
    case False
    then have push0: "pushCarry bytes' carry = bytes'" by (simp add: pushCarry.simps)
    show ?thesis
    proof (cases "bytes = [0]")
      case True
      with assms(2,3) have "bytes' = [digit]" by (auto simp: Let_def)
      with push0 small show ?thesis by (auto simp: compact_def)
    next
      case nonzero: False
      with assms(1,3) False multiplyAdd_last [of bytes digit] have "last bytes' \<noteq> 0" by (simp add: compact_def)
      with push0 small len assms(1) show ?thesis by (auto simp: compact_def)
    qed
  qed
  with push val len show ?thesis by simp
qed

lemma indexOf_bound: "indexOf c xs = Some i \<Longrightarrow> i < length xs \<and> xs ! i = c"
  by (induction xs arbitrary: i) (auto split: if_splits)

lemma base58_digit_bound: "base58_digit c = Some d \<Longrightarrow> d < 58 \<and> BASE58_ALPHABET ! d = c"
proof -
  have "length BASE58_ALPHABET = 58" by code_simp
  then show "base58_digit c = Some d \<Longrightarrow> d < 58 \<and> BASE58_ALPHABET ! d = c"
    using indexOf_bound [of c BASE58_ALPHABET d] by (simp add: base58_digit_def)
qed

lemma decode_equiv:
  "compact bytes \<Longrightarrow>
     rel_option (\<lambda>bytes' decoded. compact bytes' \<and> le_value bytes' = decoded)
       (decodeLittleEndian bytes s) (decodeBase58 (le_value bytes) s)"
proof (induction s arbitrary: bytes)
  case (Cons c cs)
  show ?case
  proof (cases "base58_digit c")
    case (Some d)
    obtain bytes' carry where m: "multiplyAdd bytes d = (bytes', carry)" by fastforce
    note step = digit_step [OF Cons.prems _ m] base58_digit_bound [OF Some]
    then show ?thesis using Cons.IH [of "pushCarry bytes' carry"] by (simp add: Some m)
  qed simp
qed simp

text \<open>The number of significant bytes of the value is the length of its compact bytes.\<close>

lemma encodedByteLength_le_value:
  "list_all (\<lambda>b. b < 256) bytes \<Longrightarrow> bytes \<noteq> [] \<Longrightarrow> last bytes \<noteq> 0 \<Longrightarrow>
     le_value bytes > 0 \<and> encodedByteLength (le_value bytes) = length bytes"
proof (induction bytes)
  case (Cons b bs)
  show ?case
  proof (cases "bs = []")
    case True
    with Cons.prems have b: "b < 256" "b \<noteq> 0" by auto
    then have "encodedByteLength b = 1" by (simp add: encodedByteLength.simps [of b] encodedByteLength.simps [of 0])
    with b True show ?thesis by simp
  next
    case False
    with Cons have IH: "le_value bs > 0" "encodedByteLength (le_value bs) = length bs" by auto
    have "encodedByteLength (b + 256 * le_value bs) = 1 + encodedByteLength ((b + 256 * le_value bs) div 256)"
      using IH(1) by (subst encodedByteLength.simps) simp
    also have "(b + 256 * le_value bs) div 256 = le_value bs" using Cons.prems by simp
    finally show ?thesis using IH by simp
  qed
qed simp

lemma compact_length:
  "compact bytes \<Longrightarrow>
     (if length bytes = 1 \<and> bytes ! 0 = 0 then 0 else length bytes) = encodedByteLength (le_value bytes)"
proof (cases "bytes = [0]")
  case True
  then show ?thesis by (simp add: encodedByteLength.simps)
next
  case False
  assume "compact bytes"
  with False have c: "list_all (\<lambda>b. b < 256) bytes" "bytes \<noteq> []" "last bytes \<noteq> 0" by (auto simp: compact_def)
  have "\<not> (length bytes = 1 \<and> bytes ! 0 = 0)" using False by (cases bytes) auto
  then show ?thesis using encodedByteLength_le_value [OF c] by (simp only: if_False)
qed

text \<open>A text over the alphabet is ASCII without white space, so both length tests agree on it.\<close>

lemma alphabet_ascii: "list_all (\<lambda>c. utf8_char c = [code_unit c] \<and> \<not> is_space c) BASE58_ALPHABET"
  by code_simp

lemma decodable_ascii:
  "decodeBase58 n s = Some m \<Longrightarrow> list_all (\<lambda>c. utf8_char c = [code_unit c] \<and> \<not> is_space c) s"
proof (induction s arbitrary: n)
  case (Cons c cs)
  then obtain d where d: "base58_digit c = Some d" "decodeBase58 (n * 58 + d) cs = Some m"
    by (auto split: option.splits)
  have "c \<in> set BASE58_ALPHABET"
    using indexOf_bound [of c BASE58_ALPHABET d] d(1) by (auto simp: base58_digit_def intro: nth_mem)
  with alphabet_ascii Cons.IH [OF d(2)] show ?case by (auto simp: list_all_iff)
qed simp

lemma ascii_length: "list_all (\<lambda>c. utf8_char c = [code_unit c] \<and> \<not> is_space c) s \<Longrightarrow> utf8_length s = length s"
  by (induction s) (auto simp: utf8_length_def utf8_def)

lemma ascii_trim:
  assumes "list_all (\<lambda>c. utf8_char c = [code_unit c] \<and> \<not> is_space c) s"
  shows "trim s = s"
proof -
  have drop: "dropWhile is_space xs = xs" if "\<forall>c \<in> set xs. \<not> is_space c" for xs
    using that by (cases xs) auto
  show ?thesis
    using assms drop [of s] drop [of "rev s"] by (simp add: trim_def list_all_iff)
qed

lemma public_key_tests_equal: "isCanonicalSolanaPublicKey s = isCanonicalBase58PublicKey s"
proof (cases "decodeBase58 0 s")
  case None
  then have "decodeLittleEndian [0] s = None"
    using decode_equiv [of "[0]" s] by (simp add: compact_def)
  with None show ?thesis by (simp add: isCanonicalSolanaPublicKey_def isCanonicalBase58PublicKey_def)
next
  case (Some m)
  then obtain bytes where b: "decodeLittleEndian [0] s = Some bytes" "compact bytes" "le_value bytes = m"
    using decode_equiv [of "[0]" s] by (auto simp: compact_def elim: option.rel_cases)
  note ascii = decodable_ascii [OF Some]
  show ?thesis
    using compact_length [OF b(2)] ascii_trim [OF ascii] ascii_length [OF ascii]
    by (simp add: isCanonicalSolanaPublicKey_def isCanonicalBase58PublicKey_def Some b add.commute)
qed

text \<open>
  C28. The byte-wise test and the big-integer test accept exactly the same texts: every module
  that validates a mint or an account with either of them sees the same set of keys.
\<close>

theorem public_key_tests_agree: "isCanonicalSolanaPublicKey s = isCanonicalBase58PublicKey s"
  by (rule public_key_tests_equal)

subsection \<open>Accepted texts name distinct keys\<close>

text \<open>The 32 bytes an accepted text stands for: its leading zeros, then the bytes of its value.\<close>

fun bigEndianBytes :: "nat \<Rightarrow> nat list" where
  "bigEndianBytes n = (if n > 0 then bigEndianBytes (n div 256) @ [n mod 256] else [])"

declare bigEndianBytes.simps [simp del]

definition publicKeyBytes :: "string \<Rightarrow> nat list" where
  "publicKeyBytes s = replicate (leadingZeroByteLength s) 0
     @ (case decodeBase58 0 s of None \<Rightarrow> [] | Some n \<Rightarrow> bigEndianBytes n)"

lemma bigEndianBytes_length: "length (bigEndianBytes n) = encodedByteLength n"
  by (induction n rule: bigEndianBytes.induct)
     (simp add: bigEndianBytes.simps encodedByteLength.simps)

lemma bigEndianBytes_inj: "bigEndianBytes m = bigEndianBytes n \<Longrightarrow> m = n"
proof (induction m arbitrary: n rule: bigEndianBytes.induct)
  case (1 m)
  show ?case
  proof (cases "m > 0")
    case True
    with 1(2) have "n > 0" by (auto simp: bigEndianBytes.simps [of m] bigEndianBytes.simps [of n] split: if_splits)
    with True 1(2) have "bigEndianBytes (m div 256) = bigEndianBytes (n div 256)" "m mod 256 = n mod 256"
      by (simp_all add: bigEndianBytes.simps [of m] bigEndianBytes.simps [of n])
    with 1(1) [OF True] show ?thesis by (metis mult_div_mod_eq)
  next
    case False
    with 1(2) show ?thesis by (auto simp: bigEndianBytes.simps [of m] bigEndianBytes.simps [of n] split: if_splits)
  qed
qed

lemma bigEndianBytes_head: "n > 0 \<Longrightarrow> bigEndianBytes n \<noteq> [] \<and> hd (bigEndianBytes n) \<noteq> 0"
proof (induction n rule: bigEndianBytes.induct)
  case (1 n)
  show ?case
  proof (cases "n div 256 > 0")
    case True
    with 1 show ?thesis by (simp add: bigEndianBytes.simps [of n])
  next
    case False
    with 1(2) show ?thesis by (simp add: bigEndianBytes.simps [of n] bigEndianBytes.simps [of 0])
  qed
qed

lemma publicKey_parts_unique:
  assumes "replicate y 0 @ bigEndianBytes m = replicate z 0 @ bigEndianBytes n"
  shows "y = z \<and> m = n"
proof -
  have zeros: "takeWhile (\<lambda>b. b = 0) (replicate k 0 @ bigEndianBytes i) = replicate k 0" for k i
  proof (cases "i = 0")
    case False
    then show ?thesis using bigEndianBytes_head [of i] by (cases "bigEndianBytes i") (auto simp: takeWhile_append)
  qed (simp add: bigEndianBytes.simps)
  have "replicate y (0::nat) = replicate z 0"
    using assms zeros by metis
  then have "y = z" by (metis length_replicate)
  with assms bigEndianBytes_inj show ?thesis by auto
qed

text \<open>Base58 text without a leading \<open>1\<close> is determined by its value.\<close>

lemma decodeBase58_snoc:
  "decodeBase58 n (xs @ [c]) = (case decodeBase58 n xs of None \<Rightarrow> None
     | Some m \<Rightarrow> map_option (\<lambda>d. m * 58 + d) (base58_digit c))"
  by (induction xs arbitrary: n) (auto split: option.splits)

lemma decodeBase58_ge: "decodeBase58 n s = Some m \<Longrightarrow> n \<le> m"
proof (induction s arbitrary: n)
  case (Cons c cs)
  then obtain d where "decodeBase58 (n * 58 + d) cs = Some m" by (auto split: option.splits)
  with Cons.IH show ?case by fastforce
qed simp

lemma base58_digit_one: "base58_digit CHR ''1'' = Some 0" "base58_digit c = Some 0 \<Longrightarrow> c = CHR ''1''"
  using base58_digit_bound [of c 0] by (simp_all add: base58_digit_def BASE58_ALPHABET_def)

lemma decodeBase58_positive:
  assumes "decodeBase58 0 s = Some m" and "s \<noteq> []" and "hd s \<noteq> CHR ''1''"
  shows "m > 0"
proof -
  obtain c cs where s: "s = c # cs" using assms(2) by (cases s) auto
  with assms obtain d where d: "base58_digit c = Some d" "decodeBase58 d cs = Some m"
    by (auto split: option.splits)
  then have "d \<noteq> 0" using base58_digit_one(2) assms(3) s by force
  with decodeBase58_ge [OF d(2)] show ?thesis by simp
qed

lemma decodeBase58_inj:
  "decodeBase58 0 s = Some m \<Longrightarrow> decodeBase58 0 t = Some m \<Longrightarrow>
   s = [] \<or> hd s \<noteq> CHR ''1'' \<Longrightarrow> t = [] \<or> hd t \<noteq> CHR ''1'' \<Longrightarrow> s = t"
proof (induction s arbitrary: t m rule: rev_induct)
  case Nil
  then show ?case using decodeBase58_positive [of t m] by (cases "t = []") auto
next
  case (snoc c xs)
  then have "m > 0" using decodeBase58_positive [of "xs @ [c]" m] by auto
  with snoc.prems(2) obtain d ys where t: "t = ys @ [d]"
    by (cases t rule: rev_cases) auto
  obtain p i q j where parts: "decodeBase58 0 xs = Some p" "base58_digit c = Some i" "m = p * 58 + i"
      "decodeBase58 0 ys = Some q" "base58_digit d = Some j" "m = q * 58 + j"
    using snoc.prems(1,2) by (auto simp: t decodeBase58_snoc split: option.splits)
  have bounds: "i < 58" "j < 58" using parts(2,5) base58_digit_bound by blast+
  then have "p = m div 58" "i = m mod 58" unfolding parts(3) by simp_all
  moreover have "q = m div 58" "j = m mod 58" using bounds unfolding parts(6) by simp_all
  ultimately have "p = q" "i = j" by simp_all
  moreover have "c = d" using parts(2,5) base58_digit_bound \<open>i = j\<close> by metis
  moreover have "xs = [] \<or> hd xs \<noteq> CHR ''1''" "ys = [] \<or> hd ys \<noteq> CHR ''1''"
    using snoc.prems(3,4) t by (auto simp: hd_append split: if_splits)
  ultimately show ?case using snoc.IH [of p ys] parts t by simp
qed

lemma strip_ones: "s = replicate (leadingZeroByteLength s) CHR ''1'' @ dropWhile (\<lambda>c. c = CHR ''1'') s"
proof -
  have "replicate (length (takeWhile (\<lambda>c. c = CHR ''1'') s)) CHR ''1'' = takeWhile (\<lambda>c. c = CHR ''1'') s"
    by (rule replicate_length_same) (auto dest: set_takeWhileD)
  then show ?thesis by (simp add: leadingZeroByteLength_def)
qed

lemma decodeBase58_ones: "decodeBase58 0 (replicate k CHR ''1'' @ s) = decodeBase58 0 s"
  by (induction k) (simp_all add: base58_digit_one)

lemma decodeBase58_stripped: "decodeBase58 0 (dropWhile (\<lambda>c. c = CHR ''1'') s) = decodeBase58 0 s"
  by (subst (2) strip_ones) (simp only: decodeBase58_ones)

lemma stripped_head: "dropWhile (\<lambda>c. c = CHR ''1'') s = [] \<or> hd (dropWhile (\<lambda>c. c = CHR ''1'') s) \<noteq> CHR ''1''"
  by (induction s) auto

text \<open>
  Acceptance is canonical: every accepted text stands for exactly 32 bytes, and two accepted
  texts that stand for the same bytes are the same text, so a key has one spelling and text
  comparison of validated keys is comparison of keys.
\<close>

theorem public_key_spelling_unique:
  assumes "isCanonicalSolanaPublicKey s" and "isCanonicalSolanaPublicKey t"
  shows "length (publicKeyBytes s) = 32 \<and> (publicKeyBytes s = publicKeyBytes t \<longleftrightarrow> s = t)"
proof -
  obtain m n where m: "decodeBase58 0 s = Some m" "encodedByteLength m + leadingZeroByteLength s = 32"
    and n: "decodeBase58 0 t = Some n"
    using assms unfolding public_key_tests_equal isCanonicalBase58PublicKey_def
    by (auto split: if_splits option.splits)
  have "s = t" if "publicKeyBytes s = publicKeyBytes t"
  proof -
    have "replicate (leadingZeroByteLength s) 0 @ bigEndianBytes m = replicate (leadingZeroByteLength t) 0 @ bigEndianBytes n"
      using that m(1) n by (simp add: publicKeyBytes_def)
    then have parts: "leadingZeroByteLength s = leadingZeroByteLength t" "m = n"
      using publicKey_parts_unique by blast+
    have "dropWhile (\<lambda>c. c = CHR ''1'') s = dropWhile (\<lambda>c. c = CHR ''1'') t"
      using m(1) n parts(2) by (intro decodeBase58_inj [of _ m] stripped_head) (simp_all add: decodeBase58_stripped)
    then have "replicate (leadingZeroByteLength s) CHR ''1'' @ dropWhile (\<lambda>c. c = CHR ''1'') s
        = replicate (leadingZeroByteLength t) CHR ''1'' @ dropWhile (\<lambda>c. c = CHR ''1'') t"
      using parts(1) by simp
    then show ?thesis by (simp only: strip_ones [symmetric])
  qed
  moreover have "length (publicKeyBytes s) = 32"
    using m by (simp add: publicKeyBytes_def bigEndianBytes_length)
  ultimately show ?thesis by blast
qed

theorem public_key_spelling_unique_witness:
  "isCanonicalSolanaPublicKey (replicate 32 CHR ''1'') \<and> length (publicKeyBytes (replicate 32 CHR ''1'')) = 32"
proof -
  have "isCanonicalSolanaPublicKey (replicate 32 CHR ''1'')" by code_simp
  with public_key_spelling_unique [OF this this] show ?thesis by blast
qed

end
