(* ===== verification/Utf16_Text.thy ===== *)
theory Utf16_Text
  imports Prelude "HOL-Library.Word"
begin

text \<open>
  JavaScript strings in full: sequences of 16-bit code units, and the bytes \<open>Buffer.from(s, 'utf8')\<close> makes of
  them. A surrogate without its partner is written as U+FFFD, so the bytes determine a text up to
  this replacement and no further. The texts of \<open>Prelude\<close>, with code units below 256, are the special case \<open>widen\<close>.
\<close>

type_synonym code_units = "16 word list"

definition is_high :: "16 word \<Rightarrow> bool" where
  "is_high u = (0xD800 \<le> u \<and> u \<le> 0xDBFF)"

definition is_low :: "16 word \<Rightarrow> bool" where
  "is_low u = (0xDC00 \<le> u \<and> u \<le> 0xDFFF)"

text \<open>\<open>String.prototype.toWellFormed\<close>.\<close>

definition replaced :: "16 word \<Rightarrow> 16 word" where
  "replaced u = (if is_high u \<or> is_low u then 0xFFFD else u)"

fun toWellFormed :: "code_units \<Rightarrow> code_units" where
  "toWellFormed [] = []"
| "toWellFormed [u] = [replaced u]"
| "toWellFormed (u # v # rest) =
     (if is_high u \<and> is_low v then u # v # toWellFormed rest else replaced u # toWellFormed (v # rest))"

text \<open>The code points read from the code units.\<close>

fun code_points :: "code_units \<Rightarrow> nat list" where
  "code_points [] = []"
| "code_points [u] = [unat (replaced u)]"
| "code_points (u # v # rest) =
     (if is_high u \<and> is_low v then (0x10000 + (unat u - 0xD800) * 0x400 + (unat v - 0xDC00)) # code_points rest
      else unat (replaced u) # code_points (v # rest))"

definition utf8_point :: "nat \<Rightarrow> nat list" where
  "utf8_point p =
     (if p < 0x80 then [p]
      else if p < 0x800 then [192 + p div 64, 128 + p mod 64]
      else if p < 0x10000 then [224 + p div 64 div 64, 128 + p div 64 mod 64, 128 + p mod 64]
      else [240 + p div 64 div 64 div 64, 128 + p div 64 div 64 mod 64, 128 + p div 64 mod 64, 128 + p mod 64])"

definition utf8_units :: "code_units \<Rightarrow> nat list" where
  "utf8_units t = concat (map utf8_point (code_points t))"

definition widen :: "string \<Rightarrow> code_units" where
  "widen s = map (\<lambda>c. word_of_nat (code_unit c)) s"

subsection \<open>The bytes determine the code points\<close>

lemma unit_bounds:
  "unat (u :: 16 word) < 0x10000" "is_high u \<longleftrightarrow> 0xD800 \<le> unat u \<and> unat u \<le> 0xDBFF" "is_low u \<longleftrightarrow> 0xDC00 \<le> unat u \<and> unat u \<le> 0xDFFF"
  using unsigned_less [of u] by (simp_all add: is_high_def is_low_def word_le_nat_alt)

lemma code_points_bound: "p \<in> set (code_points t) \<Longrightarrow> p < 0x110000"
proof (induction t rule: code_points.induct)
  case (2 u)
  then show ?case using unit_bounds(1) [of "replaced u"] by simp
next
  case (3 u v rest)
  then show ?case using unit_bounds(1) [of "replaced u"] unit_bounds(2) [of u] unit_bounds(3) [of v] by (auto split: if_splits)
qed simp

lemma digits64: "(a :: nat) div 64 = b div 64 \<Longrightarrow> a mod 64 = b mod 64 \<Longrightarrow> a = b"
  by (metis mult_div_mod_eq)

lemma utf8_point_prefix_free:
  assumes "utf8_point p @ xs = utf8_point q @ ys" and "p < 0x110000" and "q < 0x110000"
  shows "p = q \<and> xs = ys"
proof -
  have lead: "a < 0x800 \<Longrightarrow> a div 64 < 32" "a < 0x10000 \<Longrightarrow> a div 64 div 64 < 16" "a < 0x110000 \<Longrightarrow> a div 64 div 64 div 64 < 5" for a :: nat
    by (simp_all add: div_mult2_eq [symmetric] less_mult_imp_div_less)
  have "p < 0x80 \<longleftrightarrow> q < 0x80" "p < 0x800 \<longleftrightarrow> q < 0x800" "p < 0x10000 \<longleftrightarrow> q < 0x10000"
    using assms(1) lead [of p] lead [of q] assms(2,3) by (auto simp: utf8_point_def split: if_splits)
  then show ?thesis using assms(1) by (auto simp: utf8_point_def split: if_splits intro!: digits64)
qed

lemma utf8_units_iff: "utf8_units s = utf8_units t \<longleftrightarrow> code_points s = code_points t"
proof
  have "concat (map utf8_point ps) = concat (map utf8_point qs) \<Longrightarrow> \<forall>p \<in> set (ps @ qs). p < 0x110000 \<Longrightarrow> ps = qs" for ps qs
  proof (induction ps arbitrary: qs)
    case Nil
    then show ?case by (cases qs) (auto simp: utf8_point_def split: if_splits)
  next
    case (Cons p ps)
    then obtain q qs' where "qs = q # qs'" by (cases qs) (auto simp: utf8_point_def split: if_splits)
    with Cons show ?case using utf8_point_prefix_free [of p "concat (map utf8_point ps)" q "concat (map utf8_point qs')"] by auto
  qed
  then show "utf8_units s = utf8_units t \<Longrightarrow> code_points s = code_points t"
    using code_points_bound by (auto simp: utf8_units_def)
qed (simp add: utf8_units_def)

subsection \<open>The code points determine the well-formed text\<close>

definition units_of_point :: "nat \<Rightarrow> code_units" where
  "units_of_point p = (if p < 0x10000 then [word_of_nat p]
     else [word_of_nat (0xD800 + (p - 0x10000) div 0x400), word_of_nat (0xDC00 + (p - 0x10000) mod 0x400)])"

lemma units_of_unit: "units_of_point (unat (u :: 16 word)) = [u]"
  using unit_bounds(1) [of u] by (simp add: units_of_point_def)

lemma units_of_pair:
  assumes "is_high u" and "is_low v"
  shows "units_of_point (0x10000 + (unat u - 0xD800) * 0x400 + (unat v - 0xDC00)) = [u, v]"
proof -
  obtain h where h: "unat u = 0xD800 + h" using assms(1) unit_bounds(2) [of u] le_Suc_ex by blast
  obtain l where l: "unat v = 0xDC00 + l" using assms(2) unit_bounds(3) [of v] le_Suc_ex by blast
  have hl: "unat u = 0xD800 + h" "unat v = 0xDC00 + l" "l < 0x400"
    using h l assms(2) unit_bounds(3) [of v] by simp_all
  have "word_of_nat (0xD800 + h) = u" "word_of_nat (0xDC00 + l) = v"
    unfolding h [symmetric] l [symmetric] by simp_all
  with hl show ?thesis by (simp add: units_of_point_def)
qed

lemma toWellFormed_points: "toWellFormed t = concat (map units_of_point (code_points t))"
  by (induction t rule: toWellFormed.induct) (simp_all add: units_of_unit units_of_pair)

lemma replaced_simps: "\<not> is_high (replaced u)" "\<not> is_low (replaced u)" "replaced (replaced u) = replaced u"
  by (simp_all add: replaced_def is_high_def is_low_def)

lemma code_points_toWellFormed: "code_points (toWellFormed t) = code_points t"
proof (induction t rule: toWellFormed.induct)
  case (3 u v rest)
  show ?case
  proof (cases "is_high u \<and> is_low v")
    case False
    have "code_points (replaced u # ws) = unat (replaced u) # code_points ws" for ws
      by (cases ws) (simp_all add: replaced_simps)
    with 3 False show ?thesis by auto
  qed (use 3 in simp)
qed (simp_all add: replaced_simps)

text \<open>Two texts are written as the same bytes exactly when they agree after lone surrogates are replaced.\<close>

lemma utf8_units_exact: "utf8_units s = utf8_units t \<longleftrightarrow> toWellFormed s = toWellFormed t"
  unfolding utf8_units_iff by (metis toWellFormed_points code_points_toWellFormed)

subsection \<open>Texts with code units below 256\<close>

lemma code_unit_bound: "code_unit c < 256"
  by (cases c) (simp add: code_unit_def)

lemma widen_unit:
  "unat (word_of_nat (code_unit c) :: 16 word) = code_unit c"
  "\<not> is_high (word_of_nat (code_unit c))" "\<not> is_low (word_of_nat (code_unit c))"
  "replaced (word_of_nat (code_unit c)) = word_of_nat (code_unit c)"
proof -
  show unat: "unat (word_of_nat (code_unit c) :: 16 word) = code_unit c"
    using code_unit_bound [of c] by (simp add: unat_of_nat)
  show "\<not> is_high (word_of_nat (code_unit c))" "\<not> is_low (word_of_nat (code_unit c))"
    using code_unit_bound [of c] unfolding unit_bounds unat by simp_all
  then show "replaced (word_of_nat (code_unit c)) = word_of_nat (code_unit c)" by (simp add: replaced_def)
qed

lemma widen_points: "code_points (widen s) = map code_unit s"
proof (induction s)
  case (Cons c cs)
  have "code_points (word_of_nat (code_unit c) # ws) = code_unit c # code_points ws" for ws
    by (cases ws) (simp_all add: widen_unit)
  with Cons show ?case by (simp add: widen_def)
qed (simp add: widen_def)

lemma utf8_widen: "utf8_units (widen s) = utf8 s"
proof -
  have "utf8_point (code_unit c) = utf8_char c" for c
    using code_unit_bound [of c] by (simp add: utf8_point_def utf8_char_def Let_def)
  then show ?thesis by (simp add: utf8_units_def widen_points utf8_def comp_def)
qed

lemma toWellFormed_widen [simp]: "toWellFormed (widen s) = widen s"
  unfolding toWellFormed_points widen_points
  by (induction s) (simp_all add: widen_def units_of_unit [of "word_of_nat (code_unit c)" for c, unfolded widen_unit])

lemma widen_Nil [simp]: "widen s = [] \<longleftrightarrow> s = []"
  by (simp add: widen_def)

lemma widen_inj [simp]: "widen s = widen t \<longleftrightarrow> s = t"
proof
  assume "widen s = widen t"
  then have "map code_unit s = map code_unit t" using widen_points by metis
  then show "s = t" by (simp add: inj_map_eq_map inj_def code_unit_def)
qed simp

lemma utf8_inj: "utf8 s = utf8 t \<Longrightarrow> s = t"
  using utf8_units_exact [of "widen s" "widen t"] by (simp add: utf8_widen)

end
