(* ===== verification/Execution_Intent.thy ===== *)
theory Execution_Intent
  imports Intent_Lifecycle Public_Key Utf16_Text
begin

text \<open>
  Execution intents (\<open>src/src/domain/execution-intent.ts\<close>): creation of a draft from untrusted
  input, its identifier, and the validation of a stored intent. The digest is the argument
  \<open>sha256\<close>, a function from bytes to text. The identifier is modelled for texts with any code
  units; the readers give it texts with code units below 256, widened.
\<close>

subsection \<open>Data\<close>

record intent_fields =
  it_strategyId :: string
  it_strategyVersion :: int
  it_positionId :: string
  it_candidateId :: "string option"
  it_logicalCommandId :: string
  it_mint :: string
  it_side :: side
  it_venuePolicy :: venue_policy
  it_quoteMint :: string
  it_quoteTokenProgram :: token_program
  it_quoteDecimals :: int
  it_quoteAmountRaw :: "int option"
  it_baseAmountRaw :: "int option"
  it_minimumAmountOutRaw :: int
  it_decisionEventId :: string
  it_decisionFingerprint :: string
  it_requestedAtMs :: int
  it_expiresAtMs :: int

record intent_draft =
  it_id :: string
  it_payloadVersion :: int
  it_logicalOrderKey :: string
  it_fields :: intent_fields

record execution_intent =
  it_draft :: intent_draft
  it_status :: intent_status
  it_attemptCount :: int
  it_stateRevision :: int
  it_lastReasonCode :: "execution_reason option"
  it_terminalAtMs :: "int option"
  it_reconciliationCompletedAtMs :: "int option"
  it_purgeAfterMs :: "int option"
  it_createdAtMs :: int
  it_updatedAtMs :: int

abbreviation EXECUTION_INTENT_MAXIMUM_TTL_MS :: int where
  "EXECUTION_INTENT_MAXIMUM_TTL_MS \<equiv> 14400000"

definition DRAFT_INPUT_KEYS :: "string list" where
  "DRAFT_INPUT_KEYS =
  [''strategyId'', ''strategyVersion'', ''positionId'', ''candidateId'', ''logicalCommandId'', ''mint'',
   ''side'', ''venuePolicy'', ''quoteMint'', ''quoteTokenProgram'', ''quoteDecimals'', ''quoteAmountRaw'',
   ''baseAmountRaw'', ''minimumAmountOutRaw'', ''decisionEventId'', ''decisionFingerprint'',
   ''requestedAtMs'', ''expiresAtMs'']"

definition LEGACY_DRAFT_INPUT_KEYS :: "string list" where
  "LEGACY_DRAFT_INPUT_KEYS = filter (\<lambda>key. key \<noteq> ''candidateId'') DRAFT_INPUT_KEYS"

definition DRAFT_KEYS :: "string list" where
  "DRAFT_KEYS = [''id'', ''payloadVersion'', ''logicalOrderKey''] @ DRAFT_INPUT_KEYS"

definition INTENT_KEYS :: "string list" where
  "INTENT_KEYS = DRAFT_KEYS @
  [''status'', ''attemptCount'', ''stateRevision'', ''lastReasonCode'', ''terminalAtMs'',
   ''reconciliationCompletedAtMs'', ''purgeAfterMs'', ''createdAtMs'', ''updatedAtMs'']"

subsection \<open>Reading\<close>

text \<open>
  Without expected keys every own key is read. The result is an ordinary object, on which the
  assignment of a key \<open>__proto__\<close> sets the prototype instead of a property: that key is lost.
\<close>

definition ownEnumerableDataRecord :: "string list option \<Rightarrow> js \<Rightarrow> js_record option" where
  "ownEnumerableDataRecord expectedKeys v =
     (if \<not> isPlainObject v then None
      else let keys = map fst (ownProps v) in
        case expectedKeys of
          Some expected \<Rightarrow>
            if length keys \<noteq> length expected then None
            else if list_ex (\<lambda>key. KStr key \<notin> set keys) expected then None
            else readKeys expected v
        | None \<Rightarrow> do {
            names \<leftarrow> those (map (\<lambda>key. case key of KStr s \<Rightarrow> Some s | KSym _ \<Rightarrow> None) keys);
            record \<leftarrow> readKeys names v;
            Some (filter (\<lambda>(key, _). key \<noteq> ''__proto__'') record)
          })"

definition readOwnDataProperty :: "js_record \<Rightarrow> string \<Rightarrow> js option" where
  "readOwnDataProperty record key = map_of record key"

definition sameKeySet :: "string list \<Rightarrow> string list \<Rightarrow> bool" where
  "sameKeySet actual expected = (length actual = length expected \<and> list_all (\<lambda>key. key \<in> set expected) actual)"

definition textFrom :: "js \<Rightarrow> string option" where
  "textFrom v = text_field 256 v"

definition mintFrom :: "js \<Rightarrow> string option" where
  "mintFrom v = do { mint \<leftarrow> textFrom v; (if \<not> isCanonicalBase58PublicKey mint then None else Some mint) }"

definition boundedIntegerFrom :: "int \<Rightarrow> int \<Rightarrow> js \<Rightarrow> int option" where
  "boundedIntegerFrom minimumValue maximumValue v =
     (if v = JNum JNegZero then None else boundedInteger minimumValue maximumValue v)"

definition timestampFrom :: "js \<Rightarrow> int option" where
  "timestampFrom v = boundedIntegerFrom 0 DATE_MAX_MS v"

definition stateRevisionFrom :: "js \<Rightarrow> int option" where
  "stateRevisionFrom v = boundedBigint 0 INT64_MAX v"

definition nullableCandidateIdFrom :: "js \<Rightarrow> string option option" where
  "nullableCandidateIdFrom v = nullable (string_matching (is_prefixed_hex64 ''candidate_'')) v"

definition immutableFieldsFrom :: "js_record \<Rightarrow> intent_fields option" where
  "immutableFieldsFrom record = do {
     strategyId \<leftarrow> textFrom (fld record ''strategyId'');
     strategyVersion \<leftarrow> boundedIntegerFrom 1 INT32_MAX (fld record ''strategyVersion'');
     positionId \<leftarrow> textFrom (fld record ''positionId'');
     candidateId \<leftarrow> nullableCandidateIdFrom (fld record ''candidateId'');
     logicalCommandId \<leftarrow> textFrom (fld record ''logicalCommandId'');
     mint \<leftarrow> mintFrom (fld record ''mint'');
     side \<leftarrow> enumValue SIDES (fld record ''side'');
     venuePolicy \<leftarrow> enumValue VENUE_POLICIES (fld record ''venuePolicy'');
     quoteMint \<leftarrow> mintFrom (fld record ''quoteMint'');
     quoteTokenProgram \<leftarrow> enumValue TOKEN_PROGRAMS (fld record ''quoteTokenProgram'');
     quoteDecimals \<leftarrow> boundedIntegerFrom 0 255 (fld record ''quoteDecimals'');
     quoteAmountRaw \<leftarrow> nullable positiveBigint (fld record ''quoteAmountRaw'');
     baseAmountRaw \<leftarrow> nullable positiveBigint (fld record ''baseAmountRaw'');
     minimumAmountOutRaw \<leftarrow> positiveBigint (fld record ''minimumAmountOutRaw'');
     decisionEventId \<leftarrow> textFrom (fld record ''decisionEventId'');
     decisionFingerprint \<leftarrow> string_matching is_hex64 (fld record ''decisionFingerprint'');
     requestedAtMs \<leftarrow> timestampFrom (fld record ''requestedAtMs'');
     expiresAtMs \<leftarrow> timestampFrom (fld record ''expiresAtMs'');
     (if expiresAtMs \<le> requestedAtMs \<or> expiresAtMs - requestedAtMs > EXECUTION_INTENT_MAXIMUM_TTL_MS then None
      else if side = BUY \<and> (quoteAmountRaw = None \<or> baseAmountRaw \<noteq> None)
        \<or> side = SELL \<and> (baseAmountRaw = None \<or> quoteAmountRaw \<noteq> None) then None
      else if side = BUY \<and> venuePolicy \<noteq> PUMP_FUN_ONLY \<or> side = SELL \<and> venuePolicy \<noteq> CANONICAL_EXIT then None
      else Some \<lparr>it_strategyId = strategyId, it_strategyVersion = strategyVersion, it_positionId = positionId,
        it_candidateId = candidateId, it_logicalCommandId = logicalCommandId, it_mint = mint, it_side = side,
        it_venuePolicy = venuePolicy, it_quoteMint = quoteMint, it_quoteTokenProgram = quoteTokenProgram,
        it_quoteDecimals = quoteDecimals, it_quoteAmountRaw = quoteAmountRaw, it_baseAmountRaw = baseAmountRaw,
        it_minimumAmountOutRaw = minimumAmountOutRaw, it_decisionEventId = decisionEventId,
        it_decisionFingerprint = decisionFingerprint, it_requestedAtMs = requestedAtMs,
        it_expiresAtMs = expiresAtMs\<rparr>)
   }"

subsection \<open>Identifier\<close>

record intent_identity =
  idn_strategyId :: code_units
  idn_strategyVersion :: int
  idn_positionId :: code_units
  idn_side :: side
  idn_logicalCommandId :: code_units

definition identityFrom :: "js \<Rightarrow> intent_identity option" where
  "identityFrom v = do {
     record \<leftarrow> ownEnumerableDataRecord None v;
     strategyId \<leftarrow> readOwnDataProperty record ''strategyId'' \<bind> textFrom;
     strategyVersion \<leftarrow> readOwnDataProperty record ''strategyVersion'' \<bind> boundedIntegerFrom 1 INT32_MAX;
     positionId \<leftarrow> readOwnDataProperty record ''positionId'' \<bind> textFrom;
     side \<leftarrow> readOwnDataProperty record ''side'' \<bind> enumValue SIDES;
     logicalCommandId \<leftarrow> readOwnDataProperty record ''logicalCommandId'' \<bind> textFrom;
     Some \<lparr>idn_strategyId = widen strategyId, idn_strategyVersion = strategyVersion, idn_positionId = widen positionId,
       idn_side = side, idn_logicalCommandId = widen logicalCommandId\<rparr>
   }"

definition be32 :: "nat \<Rightarrow> nat list" where
  "be32 n = [n div 2 ^ 24 mod 256, n div 2 ^ 16 mod 256, n div 2 ^ 8 mod 256, n mod 256]"

definition lengthPrefixedUtf8 :: "code_units list \<Rightarrow> nat list" where
  "lengthPrefixedUtf8 values = concat (map (\<lambda>value. be32 (length (utf8_units value)) @ utf8_units value) values)"

definition identityTexts :: "intent_identity \<Rightarrow> code_units list" where
  "identityTexts i = [widen ''execution-intent-v1'', idn_strategyId i, widen (dec_int (idn_strategyVersion i)),
     idn_positionId i, widen (literal_of SIDES (idn_side i)), idn_logicalCommandId i]"

definition intentIdOf :: "(nat list \<Rightarrow> string) \<Rightarrow> intent_identity \<Rightarrow> string" where
  "intentIdOf sha256 i = ''execution_intent_'' @ sha256 (lengthPrefixedUtf8 (identityTexts i))"

definition createExecutionIntentId :: "(nat list \<Rightarrow> string) \<Rightarrow> js \<Rightarrow> string option" where
  "createExecutionIntentId sha256 v = map_option (intentIdOf sha256) (identityFrom v)"

text \<open>The identity of fields that are validated already: reading them again changes nothing.\<close>

definition fieldsIdentity :: "intent_fields \<Rightarrow> intent_identity" where
  "fieldsIdentity f = \<lparr>idn_strategyId = widen (it_strategyId f), idn_strategyVersion = it_strategyVersion f,
     idn_positionId = widen (it_positionId f), idn_side = it_side f, idn_logicalCommandId = widen (it_logicalCommandId f)\<rparr>"

subsection \<open>Drafts and intents\<close>

definition draftInputFrom :: "js \<Rightarrow> intent_fields option" where
  "draftInputFrom v = do {
     record \<leftarrow> ownEnumerableDataRecord None v;
     (let keys = map fst record in
      if \<not> sameKeySet keys DRAFT_INPUT_KEYS \<and> \<not> sameKeySet keys LEGACY_DRAFT_INPUT_KEYS then None
      else immutableFieldsFrom
        (if ''candidateId'' \<in> set keys then record else record @ [(''candidateId'', JNull)]))
   }"

definition createExecutionIntentDraft :: "(nat list \<Rightarrow> string) \<Rightarrow> js \<Rightarrow> intent_draft option" where
  "createExecutionIntentDraft sha256 input = do {
     fields \<leftarrow> draftInputFrom input;
     Some \<lparr>it_id = intentIdOf sha256 (fieldsIdentity fields), it_payloadVersion = 1,
       it_logicalOrderKey = it_logicalCommandId fields, it_fields = fields\<rparr>
   }"

text \<open>\<open>isFrozenObject\<close> also accepts a frozen array; the record check that follows rejects it.\<close>

definition isFrozenObject :: "js \<Rightarrow> bool" where
  "isFrozenObject v = (case v of
     JObj proto proxy frozen props \<Rightarrow> \<not> proxy \<and> frozen
   | JArr proxy frozen elems \<Rightarrow> \<not> proxy \<and> frozen
   | _ \<Rightarrow> False)"

definition draftFrom :: "(nat list \<Rightarrow> string) \<Rightarrow> bool \<Rightarrow> js \<Rightarrow> intent_draft option" where
  "draftFrom sha256 requireFrozen v =
     (if requireFrozen \<and> \<not> isFrozenObject v then None
      else do {
        record \<leftarrow> ownEnumerableDataRecord (Some DRAFT_KEYS) v;
        (if fld record ''payloadVersion'' \<noteq> JNum (JInt 1) then None
         else do {
           fields \<leftarrow> immutableFieldsFrom record;
           (if fld record ''logicalOrderKey'' \<noteq> JStr (it_logicalCommandId fields) then None
            else do {
              ident \<leftarrow> textFrom (fld record ''id'');
              (if ident \<noteq> intentIdOf sha256 (fieldsIdentity fields) then None
               else Some \<lparr>it_id = ident, it_payloadVersion = 1,
                 it_logicalOrderKey = it_logicalCommandId fields, it_fields = fields\<rparr>)
            })
         })
      })"

definition intentConsistent :: "execution_intent \<Rightarrow> bool" where
  "intentConsistent i =
     (\<not> it_updatedAtMs i < it_createdAtMs i
      \<and> (it_status i \<in> set TERMINAL_STATUSES \<longleftrightarrow> it_terminalAtMs i \<noteq> None)
      \<and> \<not> (it_reconciliationCompletedAtMs i \<noteq> None \<and> it_terminalAtMs i = None)
      \<and> (case it_purgeAfterMs i of None \<Rightarrow> True
         | Some purge \<Rightarrow> (case it_reconciliationCompletedAtMs i of None \<Rightarrow> False
             | Some completed \<Rightarrow> purge = completed + EXECUTION_INTENT_MAXIMUM_TTL_MS))
      \<and> \<not> (it_status i = PENDING \<and> (it_attemptCount i \<noteq> 0 \<or> it_lastReasonCode i \<noteq> None
            \<or> it_terminalAtMs i \<noteq> None \<or> it_reconciliationCompletedAtMs i \<noteq> None \<or> it_purgeAfterMs i \<noteq> None)))"

definition intentFrom :: "(nat list \<Rightarrow> string) \<Rightarrow> bool \<Rightarrow> js \<Rightarrow> execution_intent option" where
  "intentFrom sha256 requireFrozen v =
     (if requireFrozen \<and> \<not> isFrozenObject v then None
      else do {
        record \<leftarrow> ownEnumerableDataRecord (Some INTENT_KEYS) v;
        draft \<leftarrow> draftFrom sha256 requireFrozen (frozen_object (pick record DRAFT_KEYS));
        status \<leftarrow> statusFrom (fld record ''status'');
        attemptCount \<leftarrow> boundedIntegerFrom 0 INT32_MAX (fld record ''attemptCount'');
        stateRevision \<leftarrow> stateRevisionFrom (fld record ''stateRevision'');
        lastReasonCode \<leftarrow> nullableReasonCodeFrom (fld record ''lastReasonCode'');
        (if \<not> assertStatusReason status lastReasonCode then None
         else do {
           terminalAtMs \<leftarrow> nullable timestampFrom (fld record ''terminalAtMs'');
           reconciliationCompletedAtMs \<leftarrow> nullable timestampFrom (fld record ''reconciliationCompletedAtMs'');
           purgeAfterMs \<leftarrow> nullable timestampFrom (fld record ''purgeAfterMs'');
           createdAtMs \<leftarrow> timestampFrom (fld record ''createdAtMs'');
           updatedAtMs \<leftarrow> timestampFrom (fld record ''updatedAtMs'');
           (let intent = \<lparr>it_draft = draft, it_status = status, it_attemptCount = attemptCount,
              it_stateRevision = stateRevision, it_lastReasonCode = lastReasonCode,
              it_terminalAtMs = terminalAtMs, it_reconciliationCompletedAtMs = reconciliationCompletedAtMs,
              it_purgeAfterMs = purgeAfterMs, it_createdAtMs = createdAtMs, it_updatedAtMs = updatedAtMs\<rparr>
            in if intentConsistent intent then Some intent else None)
         })
      })"

definition assertExecutionIntent :: "(nat list \<Rightarrow> string) \<Rightarrow> js \<Rightarrow> bool" where
  "assertExecutionIntent sha256 v = (intentFrom sha256 True v \<noteq> None)"

subsection \<open>The hashed bytes determine the texts\<close>

lemma byte_step: "a mod 256 = b mod 256 \<Longrightarrow> a div 256 = b div 256 \<Longrightarrow> a = b" for a b :: nat
  by (metis mult_div_mod_eq)

lemma be32_inj:
  assumes "be32 m = be32 n" and "m < 2 ^ 32" and "n < 2 ^ 32"
  shows "m = n"
proof -
  have parts: "be32 k = [k div 256 div 256 div 256 mod 256, k div 256 div 256 mod 256, k div 256 mod 256, k mod 256]" for k
    by (simp add: be32_def div_mult2_eq [symmetric])
  have top: "k div 256 div 256 div 256 < 256" if "k < 2 ^ 32" for k :: nat
    using that by (simp add: div_mult2_eq [symmetric] less_mult_imp_div_less)
  have "m div 256 div 256 div 256 = n div 256 div 256 div 256"
    using assms(1) top [OF assms(2)] top [OF assms(3)] unfolding parts list.inject by (metis mod_less)
  then show ?thesis using assms(1) unfolding parts list.inject by (metis byte_step)
qed

lemma length_be32 [simp]: "length (be32 n) = 4"
  by (simp add: be32_def)

lemma lengthPrefixedUtf8_inj:
  "lengthPrefixedUtf8 xs = lengthPrefixedUtf8 ys \<Longrightarrow>
   \<forall>x \<in> set (xs @ ys). length (utf8_units x) < 2 ^ 32 \<Longrightarrow> map toWellFormed xs = map toWellFormed ys"
proof (induction xs arbitrary: ys)
  case Nil
  then show ?case by (cases ys) (auto simp: lengthPrefixedUtf8_def be32_def)
next
  case (Cons x xs)
  then obtain y ys' where ys: "ys = y # ys'"
    by (cases ys) (auto simp: lengthPrefixedUtf8_def be32_def)
  have eq: "be32 (length (utf8_units x)) @ utf8_units x @ lengthPrefixedUtf8 xs
      = be32 (length (utf8_units y)) @ utf8_units y @ lengthPrefixedUtf8 ys'"
    using Cons.prems(1) by (simp add: ys lengthPrefixedUtf8_def)
  then have "be32 (length (utf8_units x)) = be32 (length (utf8_units y))"
    and rest: "utf8_units x @ lengthPrefixedUtf8 xs = utf8_units y @ lengthPrefixedUtf8 ys'"
    by (simp_all add: append_eq_append_conv)
  then have "length (utf8_units x) = length (utf8_units y)"
    using Cons.prems(2) ys by (intro be32_inj) auto
  with rest have "utf8_units x = utf8_units y" "lengthPrefixedUtf8 xs = lengthPrefixedUtf8 ys'" by auto
  then show ?case using Cons ys utf8_units_exact by simp
qed

lemma lengthPrefixedUtf8_cong:
  "map toWellFormed xs = map toWellFormed ys \<Longrightarrow> lengthPrefixedUtf8 xs = lengthPrefixedUtf8 ys"
proof (induction xs arbitrary: ys)
  case (Cons x xs)
  then obtain y ys' where ys: "ys = y # ys'" "utf8_units x = utf8_units y" "map toWellFormed xs = map toWellFormed ys'"
    by (cases ys) (auto simp: utf8_units_exact)
  then show ?case using Cons.IH [of ys'] by (simp add: lengthPrefixedUtf8_def)
qed simp

subsection \<open>Valid intents\<close>

text \<open>A buy spends a quote amount on Pump.fun, a sell a base amount on the canonical exit venue.\<close>

definition order_shape :: "side \<Rightarrow> venue_policy \<Rightarrow> int option \<Rightarrow> int option \<Rightarrow> bool" where
  "order_shape s venue quoteAmount baseAmount =
     (let ok = (\<lambda>x. case x of None \<Rightarrow> False | Some a \<Rightarrow> 1 \<le> a \<and> a \<le> U64_MAX)
      in case s of
        BUY \<Rightarrow> venue = PUMP_FUN_ONLY \<and> baseAmount = None \<and> ok quoteAmount
      | SELL \<Rightarrow> venue = CANONICAL_EXIT \<and> quoteAmount = None \<and> ok baseAmount)"

definition valid_text :: "string \<Rightarrow> bool" where
  "valid_text s = (s \<noteq> [] \<and> utf8_length s \<le> 256)"

text \<open>What the fields of an order must satisfy.\<close>

definition valid_fields :: "intent_fields \<Rightarrow> bool" where
  "valid_fields f =
     (valid_text (it_strategyId f) \<and> 1 \<le> it_strategyVersion f \<and> it_strategyVersion f \<le> INT32_MAX
      \<and> valid_text (it_positionId f)
      \<and> (case it_candidateId f of None \<Rightarrow> True | Some c \<Rightarrow> is_prefixed_hex64 ''candidate_'' c)
      \<and> valid_text (it_logicalCommandId f)
      \<and> valid_text (it_mint f) \<and> isCanonicalBase58PublicKey (it_mint f)
      \<and> valid_text (it_quoteMint f) \<and> isCanonicalBase58PublicKey (it_quoteMint f)
      \<and> 0 \<le> it_quoteDecimals f \<and> it_quoteDecimals f \<le> 255
      \<and> order_shape (it_side f) (it_venuePolicy f) (it_quoteAmountRaw f) (it_baseAmountRaw f)
      \<and> 1 \<le> it_minimumAmountOutRaw f \<and> it_minimumAmountOutRaw f \<le> U64_MAX
      \<and> valid_text (it_decisionEventId f) \<and> is_hex64 (it_decisionFingerprint f)
      \<and> 0 \<le> it_requestedAtMs f \<and> it_requestedAtMs f < it_expiresAtMs f \<and> it_expiresAtMs f \<le> DATE_MAX_MS
      \<and> it_expiresAtMs f - it_requestedAtMs f \<le> EXECUTION_INTENT_MAXIMUM_TTL_MS)"

lemma textFrom_iff [field_iffs]: "textFrom v = Some s \<longleftrightarrow> v = JStr s \<and> valid_text s"
  by (auto simp: textFrom_def valid_text_def field_iffs)

lemma mintFrom_iff [field_iffs]:
  "mintFrom v = Some s \<longleftrightarrow> v = JStr s \<and> valid_text s \<and> isCanonicalBase58PublicKey s"
  by (auto simp: mintFrom_def result_simps field_iffs)

lemma boundedIntegerFrom_iff [field_iffs]:
  "0 \<le> lo \<Longrightarrow> hi \<le> MAX_SAFE_INTEGER \<Longrightarrow>
     boundedIntegerFrom lo hi v = Some n \<longleftrightarrow> v = JNum (JInt n) \<and> lo \<le> n \<and> n \<le> hi"
  by (cases v rule: js_safe_int.cases) (auto simp: boundedIntegerFrom_def boundedInteger_def)

lemma timestampFrom_iff [field_iffs]:
  "timestampFrom v = Some n \<longleftrightarrow> v = JNum (JInt n) \<and> 0 \<le> n \<and> n \<le> DATE_MAX_MS"
  by (simp add: timestampFrom_def field_iffs)

lemma nullable_positive:
  "nullable positiveBigint v = Some x \<longleftrightarrow> (case x of None \<Rightarrow> v = JNull | Some a \<Rightarrow> v = JBig a \<and> 1 \<le> a \<and> a \<le> U64_MAX)"
  by (cases x) (auto simp: nullable_def field_iffs)

lemma order_shape_checked:
  assumes "nullable positiveBigint v = Some quoteAmount" and "nullable positiveBigint w = Some baseAmount"
    and "\<not> (s = BUY \<and> (quoteAmount = None \<or> baseAmount \<noteq> None) \<or> s = SELL \<and> (baseAmount = None \<or> quoteAmount \<noteq> None))"
    and "\<not> (s = BUY \<and> venue \<noteq> PUMP_FUN_ONLY \<or> s = SELL \<and> venue \<noteq> CANONICAL_EXIT)"
  shows "order_shape s venue quoteAmount baseAmount"
  using assms by (cases s) (auto simp: order_shape_def nullable_positive split: option.splits)

lemma candidate_checked:
  "nullableCandidateIdFrom v = Some c \<Longrightarrow> case c of None \<Rightarrow> True | Some x \<Rightarrow> is_prefixed_hex64 ''candidate_'' x"
  by (cases c) (auto simp: nullableCandidateIdFrom_def nullable_def field_iffs split: if_splits)

lemma immutableFieldsFrom_valid:
  assumes "immutableFieldsFrom r = Some f"
  shows "valid_fields f"
  using assms unfolding immutableFieldsFrom_def result_simps valid_fields_def
  apply (elim exE conjE)
  apply (drule candidate_checked)
  apply (drule (3) order_shape_checked)
  apply (clarsimp simp: field_iffs)
  done

text \<open>The frozen objects the constructors build, as the readers see them.\<close>

definition js_opt :: "('a \<Rightarrow> js) \<Rightarrow> 'a option \<Rightarrow> js" where
  "js_opt g x = (case x of None \<Rightarrow> JNull | Some y \<Rightarrow> g y)"

definition fieldsObject :: "intent_fields \<Rightarrow> js_record" where
  "fieldsObject f =
  [(''strategyId'', JStr (it_strategyId f)), (''strategyVersion'', JNum (JInt (it_strategyVersion f))),
   (''positionId'', JStr (it_positionId f)), (''candidateId'', js_opt JStr (it_candidateId f)),
   (''logicalCommandId'', JStr (it_logicalCommandId f)), (''mint'', JStr (it_mint f)),
   (''side'', JStr (literal_of SIDES (it_side f))),
   (''venuePolicy'', JStr (literal_of VENUE_POLICIES (it_venuePolicy f))),
   (''quoteMint'', JStr (it_quoteMint f)),
   (''quoteTokenProgram'', JStr (literal_of TOKEN_PROGRAMS (it_quoteTokenProgram f))),
   (''quoteDecimals'', JNum (JInt (it_quoteDecimals f))),
   (''quoteAmountRaw'', js_opt JBig (it_quoteAmountRaw f)), (''baseAmountRaw'', js_opt JBig (it_baseAmountRaw f)),
   (''minimumAmountOutRaw'', JBig (it_minimumAmountOutRaw f)), (''decisionEventId'', JStr (it_decisionEventId f)),
   (''decisionFingerprint'', JStr (it_decisionFingerprint f)),
   (''requestedAtMs'', JNum (JInt (it_requestedAtMs f))), (''expiresAtMs'', JNum (JInt (it_expiresAtMs f)))]"

definition draftObject :: "intent_draft \<Rightarrow> js_record" where
  "draftObject d = [(''id'', JStr (it_id d)), (''payloadVersion'', JNum (JInt (it_payloadVersion d))),
     (''logicalOrderKey'', JStr (it_logicalOrderKey d))] @ fieldsObject (it_fields d)"

definition intentObject :: "execution_intent \<Rightarrow> js_record" where
  "intentObject i = draftObject (it_draft i) @
  [(''status'', JStr (literal_of EXECUTION_INTENT_STATUSES (it_status i))),
   (''attemptCount'', JNum (JInt (it_attemptCount i))), (''stateRevision'', JBig (it_stateRevision i)),
   (''lastReasonCode'', js_opt (\<lambda>r. JStr (literal_of EXECUTION_INTENT_REASON_CODES r)) (it_lastReasonCode i)),
   (''terminalAtMs'', js_opt (\<lambda>t. JNum (JInt t)) (it_terminalAtMs i)),
   (''reconciliationCompletedAtMs'', js_opt (\<lambda>t. JNum (JInt t)) (it_reconciliationCompletedAtMs i)),
   (''purgeAfterMs'', js_opt (\<lambda>t. JNum (JInt t)) (it_purgeAfterMs i)),
   (''createdAtMs'', JNum (JInt (it_createdAtMs i))), (''updatedAtMs'', JNum (JInt (it_updatedAtMs i)))]"

subsection \<open>Reading back what was built\<close>

lemma frozen_object_simps [simp]:
  "isPlainObject (frozen_object r)" "isFrozenObject (frozen_object r)"
  "map fst (ownProps (frozen_object r)) = map (KStr \<circ> fst) r"
  by (simp_all add: frozen_object_def isFrozenObject_def comp_def split_beta)

lemma readKeys_all: "distinct (map fst r) \<Longrightarrow> readKeys (map fst r) (frozen_object r) = Some r"
  using readKeys_frozen_object [of r "map fst r"] map_fld_self [of r] by simp

lemma own_record_expected:
  assumes "map fst r = keys" and "distinct keys"
  shows "ownEnumerableDataRecord (Some keys) (frozen_object r) = Some r"
  using assms readKeys_all [of r] by (auto simp: ownEnumerableDataRecord_def list_ex_iff)

lemma own_record_any:
  assumes "distinct (map fst r)" and "''__proto__'' \<notin> set (map fst r)"
  shows "ownEnumerableDataRecord None (frozen_object r) = Some r"
proof -
  have "those (map (\<lambda>key. case key of KStr s \<Rightarrow> Some s | KSym _ \<Rightarrow> None) (map (KStr \<circ> fst) r)) = Some (map fst r)"
    by (induction r) auto
  moreover have "filter (\<lambda>(key, _). key \<noteq> ''__proto__'') r = r"
    using assms(2) by (induction r) auto
  ultimately show ?thesis
    using readKeys_all [OF assms(1)] by (simp add: ownEnumerableDataRecord_def)
qed

lemma INTENT_KEYS_distinct: "distinct INTENT_KEYS"
  by code_simp

text \<open>The key set of a draft input is not exact: an own enumerable key \<open>__proto__\<close>, whatever its
  value, is neither read nor refused.\<close>

lemma readKeys_skip:
  assumes "key \<notin> set keys"
  shows "readKeys keys (JObj proto proxy frozen ((KStr key, x) # props)) = readKeys keys (JObj proto proxy frozen props)"
  using assms by (induction keys) (auto simp: readKeys_Cons enumerableDataProp_def cong: option.case_cong)

lemma string_names:
  "those (map (\<lambda>key. case key of KStr s \<Rightarrow> Some s | KSym _ \<Rightarrow> None) ks) = Some names \<Longrightarrow> ks = map KStr names"
  by (induction ks arbitrary: names) (auto split: js_key.splits option.splits)

lemma draft_ignores_proto_key:
  assumes "KStr ''__proto__'' \<notin> fst ` set props"
  shows "createExecutionIntentDraft sha256 (JObj proto proxy frozen ((KStr ''__proto__'', DataProp True x) # props))
    = createExecutionIntentDraft sha256 (JObj proto proxy frozen props)"
proof -
  let ?names = "those (map (\<lambda>key. case key of KStr s \<Rightarrow> Some s | KSym _ \<Rightarrow> None) (map fst props))"
  have "''__proto__'' \<notin> set names" if "?names = Some names" for names
    using arg_cong [OF string_names [OF that], of set] assms by auto
  then have "ownEnumerableDataRecord None (JObj proto proxy frozen ((KStr ''__proto__'', DataProp True x) # props))
      = ownEnumerableDataRecord None (JObj proto proxy frozen props)"
    by (cases ?names) (auto simp: ownEnumerableDataRecord_def Let_def readKeys_Cons readKeys_skip enumerableDataProp_def Option.bind_map_option comp_def
        split: option.splits)
  then show ?thesis by (simp add: createExecutionIntentDraft_def draftInputFrom_def)
qed

lemma DRAFT_KEYS_distinct: "distinct DRAFT_KEYS" "distinct DRAFT_INPUT_KEYS" "''__proto__'' \<notin> set DRAFT_INPUT_KEYS"
  by code_simp+

lemma object_keys:
  "map fst (fieldsObject f) = DRAFT_INPUT_KEYS" "map fst (draftObject d) = DRAFT_KEYS"
  "map fst (intentObject i) = INTENT_KEYS"
  by (simp_all add: fieldsObject_def draftObject_def intentObject_def DRAFT_INPUT_KEYS_def DRAFT_KEYS_def INTENT_KEYS_def)

lemma literals_read:
  "enumValue SIDES (JStr (literal_of SIDES x1)) = Some x1"
  "enumValue VENUE_POLICIES (JStr (literal_of VENUE_POLICIES x2)) = Some x2"
  "enumValue TOKEN_PROGRAMS (JStr (literal_of TOKEN_PROGRAMS x3)) = Some x3"
  "statusFrom (JStr (literal_of EXECUTION_INTENT_STATUSES x4)) = Some x4"
  subgoal by (cases x1; simp add: enumValue_def literal_of_def SIDES_def)
  subgoal by (cases x2; simp add: enumValue_def literal_of_def VENUE_POLICIES_def)
  subgoal by (cases x3; simp add: enumValue_def literal_of_def TOKEN_PROGRAMS_def)
  subgoal by (cases x4; simp add: statusFrom_def enumValue_def literal_of_def EXECUTION_INTENT_STATUSES_def)
  done

lemma optional_read:
  "(case c of None \<Rightarrow> True | Some x \<Rightarrow> is_prefixed_hex64 ''candidate_'' x) \<Longrightarrow>
     nullableCandidateIdFrom (js_opt JStr c) = Some c"
  "nullable positiveBigint (js_opt JBig a) = Some a \<longleftrightarrow> (case a of None \<Rightarrow> True | Some n \<Rightarrow> 1 \<le> n \<and> n \<le> U64_MAX)"
  by (auto simp: nullableCandidateIdFrom_def nullable_def js_opt_def field_iffs nullable_positive split: option.splits)

lemma immutableFieldsFrom_object:
  assumes "valid_fields f"
  shows "immutableFieldsFrom (fieldsObject f) = Some f"
proof -
  have shape: "order_shape (it_side f) (it_venuePolicy f) (it_quoteAmountRaw f) (it_baseAmountRaw f)"
    using assms by (simp add: valid_fields_def)
  have amounts: "nullable positiveBigint (js_opt JBig (it_quoteAmountRaw f)) = Some (it_quoteAmountRaw f)"
      "nullable positiveBigint (js_opt JBig (it_baseAmountRaw f)) = Some (it_baseAmountRaw f)"
    using shape unfolding optional_read(2) by (auto simp: order_shape_def Let_def split: side.splits option.splits)
  have side: "\<not> (it_side f = BUY \<and> (it_quoteAmountRaw f = None \<or> it_baseAmountRaw f \<noteq> None)
        \<or> it_side f = SELL \<and> (it_baseAmountRaw f = None \<or> it_quoteAmountRaw f \<noteq> None))"
      "\<not> (it_side f = BUY \<and> it_venuePolicy f \<noteq> PUMP_FUN_ONLY \<or> it_side f = SELL \<and> it_venuePolicy f \<noteq> CANONICAL_EXIT)"
    using shape by (auto simp: order_shape_def Let_def split: side.splits option.splits)
  have texts: "textFrom (JStr s) = Some s" if "valid_text s" for s using that by (simp add: field_iffs)
  have mints: "mintFrom (JStr s) = Some s" if "valid_text s" "isCanonicalBase58PublicKey s" for s
    using that by (simp add: field_iffs)
  have ints: "boundedIntegerFrom lo hi (JNum (JInt n)) = Some n" if "0 \<le> lo" "hi \<le> MAX_SAFE_INTEGER" "lo \<le> n" "n \<le> hi" for lo hi n
    using that by (simp add: field_iffs)
  have hex: "string_matching is_hex64 (JStr s) = Some s" if "is_hex64 s" for s using that by (simp add: field_iffs)
  have big: "positiveBigint (JBig n) = Some n" if "1 \<le> n" "n \<le> U64_MAX" for n using that by (simp add: field_iffs)
  show ?thesis
    using assms side unfolding immutableFieldsFrom_def fieldsObject_def valid_fields_def
    by (simp add: texts mints ints hex big literals_read optional_read(1) amounts timestampFrom_def)
qed

definition valid_time :: "int option \<Rightarrow> bool" where
  "valid_time t = (case t of None \<Rightarrow> True | Some x \<Rightarrow> 0 \<le> x \<and> x \<le> DATE_MAX_MS)"

definition valid_draft :: "(nat list \<Rightarrow> string) \<Rightarrow> intent_draft \<Rightarrow> bool" where
  "valid_draft sha256 d = (valid_fields (it_fields d) \<and> it_payloadVersion d = 1
     \<and> it_logicalOrderKey d = it_logicalCommandId (it_fields d)
     \<and> it_id d = intentIdOf sha256 (fieldsIdentity (it_fields d)))"

text \<open>The reasons a status can carry.\<close>

definition fitting_reason :: "intent_status \<Rightarrow> execution_reason option \<Rightarrow> bool" where
  "fitting_reason s reason = (case s of
     PENDING \<Rightarrow> reason = None
   | PROCESSING \<Rightarrow> reason = Some EXECUTION_STARTED
   | SIMULATED \<Rightarrow> reason = Some SIMULATION_SUCCEEDED
   | RETRY_READY \<Rightarrow> reason \<in> {Some RECONCILIATION_PROVED_NO_EFFECT, Some PRE_SUBMISSION_REVOKED_NO_SEND}
   | SIGNED_NOT_SUBMITTED \<Rightarrow> reason = Some SIGNATURE_PERSISTED
   | SUBMITTED \<Rightarrow> reason = Some SUBMISSION_ACCEPTED
   | CONFIRMED \<Rightarrow> reason = Some CONFIRMATION_OBSERVED
   | RECONCILING \<Rightarrow> reason = Some RECONCILIATION_STARTED
   | SUCCEEDED \<Rightarrow> reason = Some INTENT_SUCCEEDED
   | EXPIRED \<Rightarrow> reason = Some INTENT_EXPIRED
   | CANCELLED \<Rightarrow> reason = Some INTENT_CANCELLED
   | UNKNOWN_REQUIRES_RECONCILIATION \<Rightarrow> reason = Some RECONCILIATION_REQUIRED
   | FAILED \<Rightarrow> reason \<notin> {None, Some EXECUTION_STARTED, Some SIMULATION_SUCCEEDED, Some ATTEMPT_COMPLETED,
       Some RETRY_AUTHORIZED, Some SIGNATURE_PERSISTED, Some SUBMISSION_ACCEPTED, Some CONFIRMATION_OBSERVED,
       Some RECONCILIATION_STARTED, Some INTENT_SUCCEEDED, Some INTENT_CANCELLED})"

text \<open>The times of an order: it ends exactly in an end status, is reconciled only after it ended, and
  is purged four hours after that, if at all; a pending order has no history.\<close>

definition lifecycle_times :: "execution_intent \<Rightarrow> bool" where
  "lifecycle_times i =
     (it_createdAtMs i \<le> it_updatedAtMs i
      \<and> ((\<exists>t. it_terminalAtMs i = Some t) \<longleftrightarrow> it_status i \<in> {SUCCEEDED, FAILED, EXPIRED, CANCELLED})
      \<and> (\<forall>t. it_reconciliationCompletedAtMs i = Some t \<longrightarrow> it_status i \<in> {SUCCEEDED, FAILED, EXPIRED, CANCELLED})
      \<and> (\<forall>t. it_purgeAfterMs i = Some t \<longrightarrow> it_reconciliationCompletedAtMs i = Some (t - 4 * 60 * 60 * 1000))
      \<and> (it_status i = PENDING \<longrightarrow> it_attemptCount i = 0))"

lemma fitting_reason_iff: "assertStatusReason s reason \<longleftrightarrow> fitting_reason s reason"
  by (cases s; cases reason) (auto simp: assertStatusReason_def fitting_reason_def POSITIVE_REASON_CODES_def)

lemma lifecycle_times_iff:
  "fitting_reason (it_status i) (it_lastReasonCode i) \<Longrightarrow> intentConsistent i \<longleftrightarrow> lifecycle_times i"
  by (cases "it_status i"; cases "it_terminalAtMs i"; cases "it_reconciliationCompletedAtMs i"; cases "it_purgeAfterMs i")
    (auto simp: intentConsistent_def lifecycle_times_def TERMINAL_STATUSES_def fitting_reason_def)

definition valid_intent :: "(nat list \<Rightarrow> string) \<Rightarrow> execution_intent \<Rightarrow> bool" where
  "valid_intent sha256 i = (valid_draft sha256 (it_draft i)
     \<and> 0 \<le> it_attemptCount i \<and> it_attemptCount i \<le> INT32_MAX
     \<and> 0 \<le> it_stateRevision i \<and> it_stateRevision i \<le> INT64_MAX
     \<and> fitting_reason (it_status i) (it_lastReasonCode i)
     \<and> valid_time (it_terminalAtMs i) \<and> valid_time (it_reconciliationCompletedAtMs i)
     \<and> valid_time (it_purgeAfterMs i) \<and> valid_time (Some (it_createdAtMs i)) \<and> valid_time (Some (it_updatedAtMs i))
     \<and> lifecycle_times i)"

lemma nullable_time [field_iffs]:
  "nullable timestampFrom v = Some t \<longleftrightarrow> v = js_opt (\<lambda>n. JNum (JInt n)) t \<and> valid_time t"
  by (cases t) (auto simp: nullable_def js_opt_def valid_time_def field_iffs)

lemma stateRevisionFrom_iff [field_iffs]:
  "stateRevisionFrom v = Some n \<longleftrightarrow> v = JBig n \<and> 0 \<le> n \<and> n \<le> INT64_MAX"
  by (simp add: stateRevisionFrom_def field_iffs)

lemma draftFrom_valid: "draftFrom sha256 b v = Some d \<Longrightarrow> valid_draft sha256 d"
  unfolding draftFrom_def result_simps valid_draft_def by (auto dest: immutableFieldsFrom_valid)

lemma intentFrom_valid: "intentFrom sha256 b v = Some i \<Longrightarrow> valid_intent sha256 i"
  unfolding intentFrom_def result_simps valid_intent_def Let_def
  by (clarsimp simp: field_iffs valid_time_def fitting_reason_iff lifecycle_times_iff split: if_splits dest!: draftFrom_valid)

lemma immutableFieldsFrom_draft: "immutableFieldsFrom (draftObject d) = immutableFieldsFrom (fieldsObject (it_fields d))"
  by (simp add: immutableFieldsFrom_def draftObject_def)

lemma utf8_hex_id:
  assumes "\<And>x. is_hex64 (sha256 x)"
  shows "textFrom (JStr (intentIdOf sha256 i)) = Some (intentIdOf sha256 i)"
proof -
  have char: "length (utf8_char c) \<le> 2" for c by (simp add: utf8_char_def Let_def)
  have "utf8_length s \<le> 2 * length s" for s
  proof (induction s)
    case (Cons c cs)
    then show ?case using char [of c] by (simp add: utf8_length_def utf8_def)
  qed (simp add: utf8_length_def utf8_def)
  from this [of "intentIdOf sha256 i"] have "utf8_length (intentIdOf sha256 i) \<le> 162"
    using assms by (simp add: intentIdOf_def is_hex64_def)
  then show ?thesis by (simp add: textFrom_iff valid_text_def intentIdOf_def)
qed

lemma draftFrom_object:
  assumes "\<And>x. is_hex64 (sha256 x)" and "valid_draft sha256 d"
  shows "draftFrom sha256 b (frozen_object (draftObject d)) = Some d"
proof -
  have flds: "fld (draftObject d) ''payloadVersion'' = JNum (JInt (it_payloadVersion d))"
    "fld (draftObject d) ''logicalOrderKey'' = JStr (it_logicalOrderKey d)" "fld (draftObject d) ''id'' = JStr (it_id d)"
    by (simp_all add: draftObject_def)
  have ident: "textFrom (JStr (it_id d)) = Some (it_id d)"
    using assms(2) utf8_hex_id [OF assms(1)] by (simp add: valid_draft_def)
  show ?thesis
    using assms(2) own_record_expected [OF object_keys(2) DRAFT_KEYS_distinct(1), of d] ident
    unfolding draftFrom_def valid_draft_def
    by (simp add: flds immutableFieldsFrom_draft immutableFieldsFrom_object)
qed

lemma pick_draft: "pick (intentObject i) DRAFT_KEYS = draftObject (it_draft i)"
proof -
  have app: "fld (xs @ ys) k = fld xs k" if "k \<in> set (map fst xs)" for xs ys :: js_record and k
    using that by (auto simp: fld_def map_add_def split: option.splits dest: weak_map_of_SomeI)
  have "fld (intentObject i) k = fld (draftObject (it_draft i)) k" if "k \<in> set DRAFT_KEYS" for k
    unfolding intentObject_def by (rule app) (simp only: object_keys that)
  then have "pick (intentObject i) DRAFT_KEYS = pick (draftObject (it_draft i)) DRAFT_KEYS"
    by (simp add: pick_def)
  also have "\<dots> = draftObject (it_draft i)"
    using map_fld_self [of "draftObject (it_draft i)"] by (simp add: pick_def object_keys DRAFT_KEYS_distinct)
  finally show ?thesis .
qed

lemma intentFrom_object:
  assumes "\<And>x. is_hex64 (sha256 x)" and "valid_intent sha256 i"
  shows "intentFrom sha256 b (frozen_object (intentObject i)) = Some i"
proof -
  have flds: "fld (intentObject i) ''status'' = JStr (literal_of EXECUTION_INTENT_STATUSES (it_status i))"
    "fld (intentObject i) ''attemptCount'' = JNum (JInt (it_attemptCount i))"
    "fld (intentObject i) ''stateRevision'' = JBig (it_stateRevision i)"
    "fld (intentObject i) ''lastReasonCode'' = js_opt (\<lambda>r. JStr (literal_of EXECUTION_INTENT_REASON_CODES r)) (it_lastReasonCode i)"
    "fld (intentObject i) ''terminalAtMs'' = js_opt (\<lambda>t. JNum (JInt t)) (it_terminalAtMs i)"
    "fld (intentObject i) ''reconciliationCompletedAtMs'' = js_opt (\<lambda>t. JNum (JInt t)) (it_reconciliationCompletedAtMs i)"
    "fld (intentObject i) ''purgeAfterMs'' = js_opt (\<lambda>t. JNum (JInt t)) (it_purgeAfterMs i)"
    "fld (intentObject i) ''createdAtMs'' = JNum (JInt (it_createdAtMs i))"
    "fld (intentObject i) ''updatedAtMs'' = JNum (JInt (it_updatedAtMs i))"
    by (simp_all add: intentObject_def draftObject_def fieldsObject_def)
  have reason: "nullableReasonCodeFrom (js_opt (\<lambda>r. JStr (literal_of EXECUTION_INTENT_REASON_CODES r)) x) = Some x" for x
    by (cases x) (simp_all add: nullableReasonCodeFrom_def nullable_def js_opt_def enumValue_def reason_literal_read)
  have ints: "boundedIntegerFrom 0 INT32_MAX (JNum (JInt n)) = Some n" if "0 \<le> n" "n \<le> INT32_MAX" for n
    using that by (simp add: field_iffs)
  have rev: "stateRevisionFrom (JBig n) = Some n" if "0 \<le> n" "n \<le> INT64_MAX" for n using that by (simp add: field_iffs)
  have opt: "nullable timestampFrom (js_opt (\<lambda>t. JNum (JInt t)) t) = Some t" if "valid_time t" for t
    using that by (simp add: field_iffs)
  have time: "timestampFrom (JNum (JInt n)) = Some n" if "valid_time (Some n)" for n
    using that by (simp add: field_iffs valid_time_def)
  have draft: "draftFrom sha256 b (frozen_object (draftObject (it_draft i))) = Some (it_draft i)"
    using assms by (intro draftFrom_object) (auto simp: valid_intent_def)
  have eta: "\<lparr>it_draft = it_draft i, it_status = it_status i, it_attemptCount = it_attemptCount i,
      it_stateRevision = it_stateRevision i, it_lastReasonCode = it_lastReasonCode i,
      it_terminalAtMs = it_terminalAtMs i, it_reconciliationCompletedAtMs = it_reconciliationCompletedAtMs i,
      it_purgeAfterMs = it_purgeAfterMs i, it_createdAtMs = it_createdAtMs i, it_updatedAtMs = it_updatedAtMs i\<rparr> = i"
    by simp
  show ?thesis
    using assms(2) own_record_expected [OF object_keys(3) INTENT_KEYS_distinct, of i]
    unfolding intentFrom_def valid_intent_def
    by (simp add: flds pick_draft draft literals_read reason ints rev opt time Let_def eta fitting_reason_iff lifecycle_times_iff)
qed

subsection \<open>Properties\<close>

text \<open>
  C25. Validation is exact: an intent can come out of \<open>assertExecutionIntent\<close>'s reader exactly when
  it is valid, that is, when its fields describe one bounded, unexpired order of the right shape,
  its identifier is the digest of its identity, its reason fits its status, and its end,
  reconciliation and purge times agree with each other. For any digest function that returns 64
  lower-case hexadecimal digits.
\<close>

theorem intent_validation_exact:
  assumes "\<And>x. is_hex64 (sha256 x)"
  shows "(\<exists>v. intentFrom sha256 True v = Some i) \<longleftrightarrow> valid_intent sha256 i"
  using intentFrom_valid intentFrom_object [of sha256, OF assms] by blast

lemma created_draft_valid: "createExecutionIntentDraft sha256 v = Some d \<Longrightarrow> valid_draft sha256 d"
proof -
  have "draftInputFrom v = Some f \<Longrightarrow> valid_fields f" for f
    by (auto simp: draftInputFrom_def result_simps Let_def dest: immutableFieldsFrom_valid split: if_splits)
  then show "createExecutionIntentDraft sha256 v = Some d \<Longrightarrow> valid_draft sha256 d"
    by (auto simp: createExecutionIntentDraft_def result_simps valid_draft_def)
qed

text \<open>The intent a repository stores for a new draft.\<close>

definition pendingIntent :: "intent_draft \<Rightarrow> int \<Rightarrow> execution_intent" where
  "pendingIntent d now = \<lparr>it_draft = d, it_status = PENDING, it_attemptCount = 0, it_stateRevision = 0,
     it_lastReasonCode = None, it_terminalAtMs = None, it_reconciliationCompletedAtMs = None,
     it_purgeAfterMs = None, it_createdAtMs = now, it_updatedAtMs = now\<rparr>"

text \<open>
  C26. Round trip from creation to validation: whatever input a draft was created from, the pending
  intent stored for it at any representable time passes \<open>assertExecutionIntent\<close>, and is read back
  unchanged.
\<close>

theorem created_draft_is_a_valid_intent:
  assumes "\<And>x. is_hex64 (sha256 x)" and "createExecutionIntentDraft sha256 v = Some d"
    and "0 \<le> now" and "now \<le> DATE_MAX_MS"
  shows "assertExecutionIntent sha256 (frozen_object (intentObject (pendingIntent d now)))
    \<and> intentFrom sha256 True (frozen_object (intentObject (pendingIntent d now))) = Some (pendingIntent d now)"
proof -
  have "valid_intent sha256 (pendingIntent d now)"
    using created_draft_valid [OF assms(2)] assms(3,4)
    by (simp add: valid_intent_def pendingIntent_def valid_time_def fitting_reason_def lifecycle_times_def)
  then show ?thesis
    using intentFrom_object [of sha256, OF assms(1)] by (simp add: assertExecutionIntent_def)
qed

text \<open>Two identities agree when they differ at most in code units that are surrogates without their partner.\<close>

definition same_identity :: "intent_identity \<Rightarrow> intent_identity \<Rightarrow> bool" where
  "same_identity i j =
     (toWellFormed (idn_strategyId i) = toWellFormed (idn_strategyId j) \<and> idn_strategyVersion i = idn_strategyVersion j
      \<and> toWellFormed (idn_positionId i) = toWellFormed (idn_positionId j) \<and> idn_side i = idn_side j
      \<and> toWellFormed (idn_logicalCommandId i) = toWellFormed (idn_logicalCommandId j))"

lemma identityTexts_iff: "map toWellFormed (identityTexts i) = map toWellFormed (identityTexts j) \<longleftrightarrow> same_identity i j"
proof -
  have "literal_of SIDES s = literal_of SIDES t \<longleftrightarrow> s = t" for s t
    by (cases s; cases t) (simp_all add: literal_of_def SIDES_def)
  then show ?thesis by (auto simp: identityTexts_def same_identity_def)
qed

lemma length_dec_nat: "n < 10 ^ Suc k \<Longrightarrow> length (dec_nat n) \<le> Suc k"
proof (induction k arbitrary: n)
  case (Suc k)
  then have "n div 10 < 10 ^ Suc k" by (auto intro: less_mult_imp_div_less)
  with Suc.IH [of "n div 10"] show ?case by (subst dec_nat.simps) auto
qed (simp add: dec_nat.simps)

lemma utf8_length_le: "utf8_length s \<le> 2 * length s"
proof (induction s)
  case (Cons c cs)
  have "length (utf8_char c) \<le> 2" by (simp add: utf8_char_def Let_def)
  with Cons show ?case by (simp add: utf8_length_def utf8_def)
qed (simp add: utf8_length_def utf8_def)

text \<open>What the readers guarantee of an identity.\<close>

definition valid_identity :: "intent_identity \<Rightarrow> bool" where
  "valid_identity i =
     (list_all (\<lambda>t. t \<noteq> [] \<and> length (utf8_units t) \<le> 256) [idn_strategyId i, idn_positionId i, idn_logicalCommandId i]
      \<and> 1 \<le> idn_strategyVersion i \<and> idn_strategyVersion i \<le> INT32_MAX)"

lemma fieldsIdentity_valid: "valid_fields f \<Longrightarrow> valid_identity (fieldsIdentity f)"
  by (auto simp: valid_identity_def fieldsIdentity_def valid_fields_def valid_text_def utf8_widen utf8_length_def)

lemma identityTexts_short:
  assumes "valid_identity i"
  shows "\<forall>x \<in> set (identityTexts i). length (utf8_units x) \<le> 256"
proof -
  have "length (dec_int (idn_strategyVersion i)) \<le> 10"
    using assms length_dec_nat [of "nat (idn_strategyVersion i)" 9] by (auto simp: valid_identity_def dec_int_def)
  then have "utf8_length (dec_int (idn_strategyVersion i)) \<le> 256"
    using utf8_length_le [of "dec_int (idn_strategyVersion i)"] by simp
  moreover have "utf8_length (literal_of SIDES (idn_side i)) \<le> 256"
    using utf8_length_le [of "literal_of SIDES (idn_side i)"] by (cases "idn_side i") (simp_all add: literal_of_def SIDES_def)
  moreover have "utf8_length ''execution-intent-v1'' \<le> 256"
    using utf8_length_le [of "''execution-intent-v1''"] by simp
  ultimately show ?thesis
    using assms by (simp add: identityTexts_def valid_identity_def utf8_widen utf8_length_def)
qed

text \<open>
  C27. The identifier binds the identity: for texts with any code units within the accepted length,
  two identities get the same identifier exactly when they agree on strategy, strategy version,
  position, side and logical command, up to surrogates without their partner, which are all hashed as
  U+FFFD; for any digest function that does not map the two byte sequences at hand to one digest. The
  length prefixes are what makes the sequence unambiguous. A validated intent carries the identifier
  of its own identity, which is such an identity.
\<close>

theorem intent_id_binds:
  assumes "valid_identity i" and "valid_identity j"
    and "inj_on sha256 {lengthPrefixedUtf8 (identityTexts i), lengthPrefixedUtf8 (identityTexts j)}"
  shows "(intentIdOf sha256 i = intentIdOf sha256 j \<longleftrightarrow>
      toWellFormed (idn_strategyId i) = toWellFormed (idn_strategyId j) \<and> idn_strategyVersion i = idn_strategyVersion j
      \<and> toWellFormed (idn_positionId i) = toWellFormed (idn_positionId j) \<and> idn_side i = idn_side j
      \<and> toWellFormed (idn_logicalCommandId i) = toWellFormed (idn_logicalCommandId j))
    \<and> (\<forall>requireFrozen v intent. intentFrom sha256 requireFrozen v = Some intent \<longrightarrow>
      it_id (it_draft intent) = intentIdOf sha256 (fieldsIdentity (it_fields (it_draft intent)))
      \<and> valid_identity (fieldsIdentity (it_fields (it_draft intent))))"
proof -
  have "\<forall>x \<in> set (identityTexts i @ identityTexts j). length (utf8_units x) < 2 ^ 32"
    using identityTexts_short [OF assms(1)] identityTexts_short [OF assms(2)] by fastforce
  then have "lengthPrefixedUtf8 (identityTexts i) = lengthPrefixedUtf8 (identityTexts j) \<longleftrightarrow> same_identity i j"
    using lengthPrefixedUtf8_inj lengthPrefixedUtf8_cong unfolding identityTexts_iff [symmetric] by blast
  moreover have "intentIdOf sha256 i = intentIdOf sha256 j \<longleftrightarrow>
      lengthPrefixedUtf8 (identityTexts i) = lengthPrefixedUtf8 (identityTexts j)"
    using inj_on_eq_iff [OF assms(3)] by (simp add: intentIdOf_def)
  ultimately show ?thesis
    using intentFrom_valid fieldsIdentity_valid unfolding same_identity_def valid_intent_def valid_draft_def by blast
qed

text \<open>Reading the identity of validated fields again gives the fields' own identity, as
  \<open>createExecutionIntentDraft\<close> and \<open>draftFrom\<close> rely on.\<close>

lemma identity_reread:
  assumes "valid_fields f"
  shows "createExecutionIntentId sha256 (frozen_object (fieldsObject f)) = Some (intentIdOf sha256 (fieldsIdentity f))"
proof -
  have texts: "textFrom (JStr s) = Some s" if "valid_text s" for s using that by (simp add: field_iffs)
  have ints: "boundedIntegerFrom 1 INT32_MAX (JNum (JInt n)) = Some n" if "1 \<le> n" "n \<le> INT32_MAX" for n
    using that by (simp add: field_iffs)
  have "identityFrom (frozen_object (fieldsObject f)) = Some (fieldsIdentity f)"
    using assms own_record_any [of "fieldsObject f"] DRAFT_KEYS_distinct(2,3)
    unfolding identityFrom_def object_keys
    by (simp add: readOwnDataProperty_def fieldsObject_def valid_fields_def texts ints literals_read(1)
        fieldsIdentity_def del: set_simps)
  then show ?thesis by (simp add: createExecutionIntentId_def)
qed

subsection \<open>Concrete intents\<close>

definition example_fields :: intent_fields where
  "example_fields = \<lparr>it_strategyId = ''creation-entry'', it_strategyVersion = 1, it_positionId = ''p1'',
     it_candidateId = None, it_logicalCommandId = ''c1'', it_mint = replicate 32 CHR ''1'', it_side = BUY,
     it_venuePolicy = PUMP_FUN_ONLY, it_quoteMint = WSOL_MINT, it_quoteTokenProgram = SPL_TOKEN,
     it_quoteDecimals = 9, it_quoteAmountRaw = Some 1000000, it_baseAmountRaw = None,
     it_minimumAmountOutRaw = 1, it_decisionEventId = ''e1'', it_decisionFingerprint = replicate 64 CHR ''0'',
     it_requestedAtMs = 0, it_expiresAtMs = 60000\<rparr>"

lemma wsol_canonical: "isCanonicalBase58PublicKey WSOL_MINT"
  unfolding isCanonicalBase58PublicKey_def
  by (simp add: base58_digit_def BASE58_ALPHABET_def leadingZeroByteLength_def encodedByteLength.simps)

lemma example_fields_valid: "valid_fields example_fields" "valid_fields (example_fields\<lparr>it_positionId := ''p2''\<rparr>)"
proof -
  have "valid_text WSOL_MINT" "valid_text (replicate 32 CHR ''1'')" "isCanonicalBase58PublicKey (replicate 32 CHR ''1'')"
    "is_hex64 (replicate 64 CHR ''0'')" "valid_text ''creation-entry''" "valid_text ''p1''" "valid_text ''p2''"
    "valid_text ''c1''" "valid_text ''e1''"
    by code_simp+
  then show "valid_fields example_fields" "valid_fields (example_fields\<lparr>it_positionId := ''p2''\<rparr>)"
    using wsol_canonical by (simp_all add: valid_fields_def example_fields_def order_shape_def Let_def)
qed

lemma draft_from_fields:
  assumes "valid_fields f"
  shows "createExecutionIntentDraft sha256 (frozen_object (fieldsObject f)) = Some
    \<lparr>it_id = intentIdOf sha256 (fieldsIdentity f), it_payloadVersion = 1,
     it_logicalOrderKey = it_logicalCommandId f, it_fields = f\<rparr>"
proof -
  have own: "ownEnumerableDataRecord None (frozen_object (fieldsObject f)) = Some (fieldsObject f)"
    using own_record_any [of "fieldsObject f"] DRAFT_KEYS_distinct(2,3) unfolding object_keys by blast
  have keys: "sameKeySet DRAFT_INPUT_KEYS DRAFT_INPUT_KEYS" "''candidateId'' \<in> set DRAFT_INPUT_KEYS" by code_simp+
  then have "draftInputFrom (frozen_object (fieldsObject f)) = Some f"
    using own immutableFieldsFrom_object [OF assms] by (simp add: draftInputFrom_def object_keys Let_def)
  then show ?thesis by (simp add: createExecutionIntentDraft_def)
qed

definition draftOf :: "(nat list \<Rightarrow> string) \<Rightarrow> intent_fields \<Rightarrow> intent_draft" where
  "draftOf sha256 f = \<lparr>it_id = intentIdOf sha256 (fieldsIdentity f), it_payloadVersion = 1,
     it_logicalOrderKey = it_logicalCommandId f, it_fields = f\<rparr>"

lemma pending_example_valid:
  assumes "valid_fields f"
  shows "valid_intent sha256 (pendingIntent (draftOf sha256 f) 5)"
  using assms by (simp add: valid_intent_def valid_draft_def draftOf_def pendingIntent_def valid_time_def
      fitting_reason_def lifecycle_times_def)

theorem intent_validation_exact_witness:
  "\<exists>v. intentFrom zero_digest True v = Some (pendingIntent (draftOf zero_digest example_fields) 5)"
  using intent_validation_exact [of zero_digest, OF zero_digest_hex] pending_example_valid [OF example_fields_valid(1)] by blast

theorem created_draft_is_a_valid_intent_witness:
  "assertExecutionIntent zero_digest (frozen_object (intentObject (pendingIntent (draftOf zero_digest example_fields) 5)))"
  using created_draft_is_a_valid_intent [of zero_digest, OF zero_digest_hex draft_from_fields [OF example_fields_valid(1)], of 5]
  unfolding draftOf_def by simp

text \<open>Position ids that differ in a letter give different identifiers; position ids that consist of
  different lone surrogates give the same.\<close>

definition example_identity :: "code_units \<Rightarrow> intent_identity" where
  "example_identity positionId = (fieldsIdentity example_fields)\<lparr>idn_positionId := positionId\<rparr>"

lemma example_identity_valid:
  assumes "positionId \<noteq> []" and "length (utf8_units positionId) \<le> 256"
  shows "valid_identity (example_identity positionId)"
  using fieldsIdentity_valid [OF example_fields_valid(1)] assms by (simp add: valid_identity_def example_identity_def)

theorem intent_id_binds_witness:
  "\<exists>sha256. intentIdOf sha256 (example_identity [0x70, 0x31]) \<noteq> intentIdOf sha256 (example_identity [0x70, 0x32])
     \<and> intentIdOf sha256 (example_identity [0xD800]) = intentIdOf sha256 (example_identity [0xDFFF])"
proof -
  let ?bytes = "\<lambda>t. lengthPrefixedUtf8 (identityTexts (example_identity t))"
  define sha where "sha = split_digest (?bytes [0x70, 0x31])"
  have valid: "valid_identity (example_identity [0x70, 0x31])" "valid_identity (example_identity [0x70, 0x32])"
      "valid_identity (example_identity [0xD800])" "valid_identity (example_identity [0xDFFF])"
    by (rule example_identity_valid; simp add: utf8_units_def replaced_def is_high_def is_low_def utf8_point_def)+
  have lone: "toWellFormed [0xD800] = toWellFormed [0xDFFF]" by (simp add: replaced_def is_high_def is_low_def)
  then have same: "?bytes [0xD800] = ?bytes [0xDFFF]"
    by (intro lengthPrefixedUtf8_cong) (simp add: identityTexts_def example_identity_def)
  have "inj_on sha {?bytes [0x70, 0x31], ?bytes [0x70, 0x32]}" unfolding sha_def by (rule inj_on_split_digest)
  from intent_id_binds [OF valid(1,2) this]
  have "intentIdOf sha (example_identity [0x70, 0x31]) \<noteq> intentIdOf sha (example_identity [0x70, 0x32])"
    by (simp add: example_identity_def replaced_def is_high_def is_low_def)
  moreover have "inj_on sha {?bytes [0xD800], ?bytes [0xDFFF]}" by (simp add: same)
  from intent_id_binds [OF valid(3,4) this]
  have "intentIdOf sha (example_identity [0xD800]) = intentIdOf sha (example_identity [0xDFFF])"
    using lone by (simp add: example_identity_def)
  ultimately show ?thesis by blast
qed

end
