(* ===== verification/Chain_Model.thy ===== *)
theory Chain_Model
  imports Js_Value Json_Text Interfaces
begin

text \<open>
  Positions, times and confirmation of chain events, and the launch transitions derived from
  them: \<open>src/src/domain/timestamp.ts\<close>, \<open>cursor.ts\<close>, \<open>confirmation-status.ts\<close>,
  \<open>launch-status.ts\<close>, \<open>state-transitions.ts\<close>, \<open>events.ts\<close>, \<open>worker-admission.ts\<close>,
  \<open>projection-reconciliation.ts\<close> and \<open>rpc-provider.ts\<close>.

  Numbers that the code checks at run time enter as \<^typ>\<open>js\<close> values and leave as integers. SHA-256
  is the argument \<open>sha256\<close>.
\<close>

subsection \<open>Vocabularies and errors\<close>

datatype launch_status =
    DETECTED | METADATA_PENDING | METADATA_RESOLVED | OBSERVING | SOCIAL_CHECKING | ONCHAIN_CHECKING
  | QUALIFIED | WATCHLISTED | SUSPECT | LAUNCH_REJECTED | PAPER_BUY_PENDING | LAUNCH_PAPER_HOLDING
  | PAPER_SELL_PENDING | LAUNCH_PAPER_CLOSED | BONDING_CURVE_COMPLETE | MIGRATION_PENDING | PUMPSWAP_ACTIVE
  | LAUNCH_EXPIRED | MANUAL_REVIEW

definition LAUNCH_STATUSES :: "(string \<times> launch_status) list" where
  "LAUNCH_STATUSES =
  [(''DETECTED'', DETECTED), (''METADATA_PENDING'', METADATA_PENDING),
   (''METADATA_RESOLVED'', METADATA_RESOLVED), (''OBSERVING'', OBSERVING),
   (''SOCIAL_CHECKING'', SOCIAL_CHECKING), (''ONCHAIN_CHECKING'', ONCHAIN_CHECKING),
   (''QUALIFIED'', QUALIFIED), (''WATCHLISTED'', WATCHLISTED), (''SUSPECT'', SUSPECT),
   (''REJECTED'', LAUNCH_REJECTED), (''PAPER_BUY_PENDING'', PAPER_BUY_PENDING),
   (''PAPER_HOLDING'', LAUNCH_PAPER_HOLDING), (''PAPER_SELL_PENDING'', PAPER_SELL_PENDING),
   (''PAPER_CLOSED'', LAUNCH_PAPER_CLOSED), (''BONDING_CURVE_COMPLETE'', BONDING_CURVE_COMPLETE),
   (''MIGRATION_PENDING'', MIGRATION_PENDING), (''PUMPSWAP_ACTIVE'', PUMPSWAP_ACTIVE),
   (''EXPIRED'', LAUNCH_EXPIRED), (''MANUAL_REVIEW'', MANUAL_REVIEW)]"

definition isTerminalLaunchStatus :: "launch_status \<Rightarrow> bool" where
  "isTerminalLaunchStatus status = (status \<in> {LAUNCH_REJECTED, LAUNCH_EXPIRED})"

datatype confirmation_status = Processed | Confirmed | Finalized | Orphaned

datatype cursor_field = SlotField | TransactionIndexField | InstructionIndexField | InnerInstructionIndexField

datatype timestamp_name = ObservedAtMs | BlockchainTimeMs | OccurredAtMs | EvaluatedAtMs | PendingExitTriggerAtMs

datatype chain_error =
    InvalidTimestampError timestamp_name js
  | InvalidChainCursorError cursor_field js
  | ConfirmationStatusConflictError confirmation_status confirmation_status
  | InvalidLaunchTransitionError "launch_status option" launch_status
  | InvalidTransitionOccurrenceSourceError js
  | DerivedEventQualifierInvalid

subsection \<open>Timestamps\<close>

text \<open>A safe integer that is neither negative nor negative zero.\<close>

definition safe_index :: "js \<Rightarrow> int option" where
  "safe_index v = (case v of
     JNum (JInt n) \<Rightarrow> if \<bar>n\<bar> \<le> MAX_SAFE_INTEGER \<and> \<not> n < 0 then Some n else None
   | _ \<Rightarrow> None)"

definition assertValidTimestampMs :: "timestamp_name \<Rightarrow> js \<Rightarrow> chain_error + int" where
  "assertValidTimestampMs field v = (case safe_index v of
     None \<Rightarrow> Inl (InvalidTimestampError field v) | Some t \<Rightarrow> Inr t)"

definition assertValidNullableTimestampMs :: "timestamp_name \<Rightarrow> js \<Rightarrow> chain_error + int option" where
  "assertValidNullableTimestampMs field v =
     (if v = JNull then Inr None else map_sum id Some (assertValidTimestampMs field v))"

subsection \<open>Cursors\<close>

record raw_cursor =
  raw_slot :: js
  raw_transactionIndex :: js
  raw_instructionIndex :: js
  raw_innerInstructionIndex :: js

record chain_cursor =
  slot :: int
  transactionIndex :: int
  instructionIndex :: int
  innerInstructionIndex :: "int option"

definition assertValidCursorIndex :: "cursor_field \<Rightarrow> js \<Rightarrow> chain_error + int" where
  "assertValidCursorIndex field v = (case safe_index v of
     None \<Rightarrow> Inl (InvalidChainCursorError field v) | Some n \<Rightarrow> Inr n)"

definition assertValidTransactionCursor :: "raw_cursor \<Rightarrow> chain_error + int \<times> int" where
  "assertValidTransactionCursor cursor = (case raw_slot cursor of
     JBig s \<Rightarrow>
       if s < 0 then Inl (InvalidChainCursorError SlotField (JBig s))
       else bindE (assertValidCursorIndex TransactionIndexField (raw_transactionIndex cursor)) (\<lambda>t. Inr (s, t))
   | v \<Rightarrow> Inl (InvalidChainCursorError SlotField v))"

definition assertValidChainCursor :: "raw_cursor \<Rightarrow> chain_error + chain_cursor" where
  "assertValidChainCursor cursor =
     bindE (assertValidTransactionCursor cursor) (\<lambda>(s, t).
     bindE (assertValidCursorIndex InstructionIndexField (raw_instructionIndex cursor)) (\<lambda>i.
     bindE (if raw_innerInstructionIndex cursor = JNull then Inr None
            else map_sum id Some (assertValidCursorIndex InnerInstructionIndexField (raw_innerInstructionIndex cursor)))
       (\<lambda>inner. Inr \<lparr>slot = s, transactionIndex = t, instructionIndex = i, innerInstructionIndex = inner\<rparr>)))"

definition compareNumber :: "int \<Rightarrow> int \<Rightarrow> int" where
  "compareNumber left right = (if left < right then - 1 else if left > right then 1 else 0)"

definition compareInnerInstructionIndex :: "int option \<Rightarrow> int option \<Rightarrow> int" where
  "compareInnerInstructionIndex left right = (case left of
     None \<Rightarrow> if right = None then 0 else - 1
   | Some l \<Rightarrow> (case right of None \<Rightarrow> 1 | Some r \<Rightarrow> compareNumber l r))"

definition cursorOrder :: "chain_cursor \<Rightarrow> chain_cursor \<Rightarrow> int" where
  "cursorOrder left right =
     (let s = compareNumber (slot left) (slot right) in
      if s \<noteq> 0 then s
      else let t = compareNumber (transactionIndex left) (transactionIndex right) in
      if t \<noteq> 0 then t
      else let i = compareNumber (instructionIndex left) (instructionIndex right) in
      if i \<noteq> 0 then i
      else compareInnerInstructionIndex (innerInstructionIndex left) (innerInstructionIndex right))"

definition compareCursors :: "raw_cursor \<Rightarrow> raw_cursor \<Rightarrow> chain_error + int" where
  "compareCursors left right =
     bindE (assertValidChainCursor left) (\<lambda>l.
     bindE (assertValidChainCursor right) (\<lambda>r. Inr (cursorOrder l r)))"

subsection \<open>Confirmation\<close>

datatype confirmation_reconciliation = Keep | Update

definition reconcileConfirmationStatus ::
  "confirmation_status \<Rightarrow> confirmation_status \<Rightarrow> chain_error + confirmation_reconciliation" where
  "reconcileConfirmationStatus current incoming =
     (if current = incoming then Inr Keep
      else if current = Orphaned \<or> current = Finalized \<and> incoming = Orphaned
        then Inl (ConfirmationStatusConflictError current incoming)
      else if current = Finalized then Inr Keep
      else if incoming = Orphaned then Inr Update
      else if current = Processed \<and> (incoming = Confirmed \<or> incoming = Finalized) then Inr Update
      else if current = Confirmed \<and> incoming = Finalized then Inr Update
      else Inr Keep)"

datatype missing_launch_policy = MissingError | DissolveCurrent

definition missingCanonicalLaunchPolicy :: "confirmation_status \<Rightarrow> missing_launch_policy" where
  "missingCanonicalLaunchPolicy status = (if status = Orphaned then DissolveCurrent else MissingError)"

subsection \<open>Event identifiers\<close>

record chain_event_identity =
  ce_type :: string
  ce_mint :: string
  ce_source :: string
  ce_program :: string
  ce_signature :: string
  ce_cursor :: raw_cursor

definition cursorTexts :: "chain_cursor \<Rightarrow> json list" where
  "cursorTexts c = [JsonStr (dec_int (slot c)), JsonStr (dec_int (transactionIndex c)),
     JsonStr (dec_int (instructionIndex c)),
     JsonStr (case innerInstructionIndex c of None \<Rightarrow> ''outer'' | Some n \<Rightarrow> dec_int n)]"

definition eventPreimage :: "chain_event_identity \<Rightarrow> chain_cursor \<Rightarrow> json" where
  "eventPreimage e c = JsonArr ([JsonStr (ce_type e), JsonStr (ce_mint e), JsonStr (ce_source e),
     JsonStr (ce_program e), JsonStr (ce_signature e)] @ cursorTexts c)"

definition createDeterministicChainEventId ::
  "(string \<Rightarrow> string) \<Rightarrow> chain_event_identity \<Rightarrow> chain_error + string" where
  "createDeterministicChainEventId sha256 e =
     bindE (assertValidChainCursor (ce_cursor e)) (\<lambda>c.
       Inr (''evt_'' @ sha256 (stringify (eventPreimage e c))))"

definition createDeterministicDerivedEventId ::
  "(string \<Rightarrow> string) \<Rightarrow> chain_event_identity \<Rightarrow> js \<Rightarrow> chain_error + string" where
  "createDeterministicDerivedEventId sha256 e qualifier = (case qualifier of
     JStr q \<Rightarrow>
       if q = [] \<or> utf8_length q > 16384 then Inl DerivedEventQualifierInvalid
       else bindE (createDeterministicChainEventId sha256 e) (\<lambda>chainId.
         Inr (''evt_'' @ sha256 (stringify (JsonArr [JsonStr chainId, JsonStr q]))))
   | _ \<Rightarrow> Inl DerivedEventQualifierInvalid)"

subsection \<open>Launch transitions\<close>

datatype occurrence_source = Blockchain | Observation

text \<open>An occurrence as it arrives: the two properties, \<open>JUndefined\<close> where one is missing or the
  value is not an object.\<close>

record raw_occurrence =
  raw_occurredAtMs :: js
  raw_occurredAtSource :: js

record occurrence =
  occurredAtMs :: int
  occurredAtSource :: occurrence_source

definition OCCURRENCE_SOURCES :: "(string \<times> occurrence_source) list" where
  "OCCURRENCE_SOURCES = [(''blockchain'', Blockchain), (''observation'', Observation)]"

definition assertValidTransitionOccurrence :: "raw_occurrence \<Rightarrow> chain_error + occurrence" where
  "assertValidTransitionOccurrence candidate =
     (case enumValue OCCURRENCE_SOURCES (raw_occurredAtSource candidate) of
        None \<Rightarrow> Inl (InvalidTransitionOccurrenceSourceError (raw_occurredAtSource candidate))
      | Some source \<Rightarrow>
          bindE (assertValidTimestampMs OccurredAtMs (raw_occurredAtMs candidate)) (\<lambda>t.
            Inr \<lparr>occurredAtMs = t, occurredAtSource = source\<rparr>))"

definition occurrenceWinner :: "occurrence \<Rightarrow> occurrence \<Rightarrow> occurrence" where
  "occurrenceWinner current incoming =
     (if occurredAtSource current = occurredAtSource incoming
      then if occurredAtMs current \<le> occurredAtMs incoming then current else incoming
      else if occurredAtSource current = Blockchain then current else incoming)"

definition reconcileTransitionOccurrence :: "raw_occurrence \<Rightarrow> raw_occurrence \<Rightarrow> chain_error + occurrence" where
  "reconcileTransitionOccurrence current incoming =
     bindE (assertValidTransitionOccurrence current) (\<lambda>c.
     bindE (assertValidTransitionOccurrence incoming) (\<lambda>i. Inr (occurrenceWinner c i)))"

record launch_event =
  le_id :: string
  le_type :: string
  le_mint :: string
  le_source :: string
  le_program :: string
  le_blockchainTimeMs :: js
  le_observedAtMs :: js

record state_transition =
  tr_id :: string
  tr_payloadVersion :: int
  tr_mint :: string
  tr_triggeringEventId :: string
  tr_triggeringEventType :: string
  tr_occurrence :: occurrence
  tr_previousStatus :: "launch_status option"
  tr_newStatus :: launch_status
  tr_reasonCode :: "string option"
  tr_message :: string
  tr_evidence :: "string \<times> string"

definition transitionCanonical :: "string \<Rightarrow> launch_status option \<Rightarrow> launch_status \<Rightarrow> string" where
  "transitionCanonical eventId previousStatus newStatus =
     eventId @ [char_of (31 :: nat)]
     @ (case previousStatus of None \<Rightarrow> ''none'' | Some s \<Rightarrow> literal_of LAUNCH_STATUSES s)
     @ [char_of (31 :: nat)] @ literal_of LAUNCH_STATUSES newStatus"

definition createDeterministicTransitionId ::
  "(string \<Rightarrow> string) \<Rightarrow> string \<Rightarrow> launch_status option \<Rightarrow> launch_status \<Rightarrow> string" where
  "createDeterministicTransitionId sha256 eventId previousStatus newStatus =
     ''transition_'' @ sha256 (transitionCanonical eventId previousStatus newStatus)"

definition assertInitialLaunchTransitionAllowed :: "launch_status option \<Rightarrow> launch_status \<Rightarrow> chain_error + unit" where
  "assertInitialLaunchTransitionAllowed previousStatus newStatus =
     (if previousStatus \<noteq> None \<or> newStatus \<noteq> DETECTED
      then Inl (InvalidLaunchTransitionError previousStatus newStatus) else Inr ())"

definition createEventTransition ::
  "(string \<Rightarrow> string) \<Rightarrow> launch_status option \<Rightarrow> launch_status \<Rightarrow> string \<Rightarrow> launch_event \<Rightarrow> chain_error + state_transition" where
  "createEventTransition sha256 previousStatus newStatus message event =
     bindE (assertValidTimestampMs ObservedAtMs (le_observedAtMs event)) (\<lambda>observed.
     bindE (assertValidNullableTimestampMs BlockchainTimeMs (le_blockchainTimeMs event)) (\<lambda>chain.
       Inr \<lparr>tr_id = createDeterministicTransitionId sha256 (le_id event) previousStatus newStatus,
         tr_payloadVersion = 1, tr_mint = le_mint event, tr_triggeringEventId = le_id event,
         tr_triggeringEventType = le_type event,
         tr_occurrence = \<lparr>occurredAtMs = (case chain of None \<Rightarrow> observed | Some t \<Rightarrow> t),
           occurredAtSource = (if chain = None then Observation else Blockchain)\<rparr>,
         tr_previousStatus = previousStatus, tr_newStatus = newStatus, tr_reasonCode = None,
         tr_message = message, tr_evidence = (le_source event, le_program event)\<rparr>))"

definition createInitialDetectedTransition :: "(string \<Rightarrow> string) \<Rightarrow> launch_event \<Rightarrow> chain_error + state_transition" where
  "createInitialDetectedTransition sha256 event =
     bindE (assertValidTimestampMs ObservedAtMs (le_observedAtMs event)) (\<lambda>observed.
     bindE (assertValidNullableTimestampMs BlockchainTimeMs (le_blockchainTimeMs event)) (\<lambda>chain.
     bindE (assertInitialLaunchTransitionAllowed None DETECTED) (\<lambda>_.
     let occurred = (case chain of None \<Rightarrow> observed | Some t \<Rightarrow> t) in
     bindE (assertValidTimestampMs OccurredAtMs (JNum (JInt occurred))) (\<lambda>_.
       Inr \<lparr>tr_id = createDeterministicTransitionId sha256 (le_id event) None DETECTED,
         tr_payloadVersion = 1, tr_mint = le_mint event, tr_triggeringEventId = le_id event,
         tr_triggeringEventType = le_type event,
         tr_occurrence = \<lparr>occurredAtMs = occurred,
           occurredAtSource = (if chain = None then Observation else Blockchain)\<rparr>,
         tr_previousStatus = None, tr_newStatus = DETECTED, tr_reasonCode = None,
         tr_message = ''Token launch detected'', tr_evidence = (le_source event, le_program event)\<rparr>))))"

definition createMigrationPendingTransition ::
  "(string \<Rightarrow> string) \<Rightarrow> launch_status \<Rightarrow> launch_event \<Rightarrow> chain_error + state_transition" where
  "createMigrationPendingTransition sha256 current event =
     createEventTransition sha256 (Some current) MIGRATION_PENDING ''Pump.fun migration observed'' event"

definition createPumpSwapActiveTransition :: "(string \<Rightarrow> string) \<Rightarrow> launch_event \<Rightarrow> chain_error + state_transition" where
  "createPumpSwapActiveTransition sha256 event =
     createEventTransition sha256 (Some MIGRATION_PENDING) PUMPSWAP_ACTIVE ''Canonical PumpSwap pool activated'' event"

subsection \<open>Worker admission policy and provider identifiers\<close>

record worker_admission_policy =
  wa_enabled :: bool
  wa_trackingWindowSeconds :: int

definition createPumpFunWorkerAdmissionPolicy :: "js \<Rightarrow> js \<Rightarrow> worker_admission_policy option" where
  "createPumpFunWorkerAdmissionPolicy enabled trackingWindowSeconds = do {
     e \<leftarrow> booleanValue enabled;
     w \<leftarrow> boundedInteger 1 3600 trackingWindowSeconds;
     Some \<lparr>wa_enabled = e, wa_trackingWindowSeconds = w\<rparr>
   }"

definition RPC_PROVIDER_IDS :: "string list" where
  "RPC_PROVIDER_IDS = [''primary'', ''fallback-1'', ''fallback-2'', ''fallback-3'']"

definition isRpcProviderId :: "js \<Rightarrow> bool" where
  "isRpcProviderId v = (case v of JStr s \<Rightarrow> s \<in> set RPC_PROVIDER_IDS | _ \<Rightarrow> False)"

subsection \<open>Cursors are totally ordered\<close>

lemma compareNumber_simps [simp]:
  "compareNumber a b = 0 \<longleftrightarrow> a = b" "compareNumber a b < 0 \<longleftrightarrow> a < b" "compareNumber a b > 0 \<longleftrightarrow> a > b"
  by (auto simp: compareNumber_def)

lemma compareInner_simps:
  "compareInnerInstructionIndex a b = 0 \<longleftrightarrow> a = b"
  "compareInnerInstructionIndex a b < 0 \<longleftrightarrow> (case (a, b) of (None, Some _) \<Rightarrow> True | (Some x, Some y) \<Rightarrow> x < y | _ \<Rightarrow> False)"
  "compareInnerInstructionIndex a b > 0 \<longleftrightarrow> compareInnerInstructionIndex b a < 0"
  by (auto simp: compareInnerInstructionIndex_def split: option.splits)

lemma cursorOrder_less:
  "cursorOrder a b < 0 \<longleftrightarrow> slot a < slot b \<or> slot a = slot b \<and>
     (transactionIndex a < transactionIndex b \<or> transactionIndex a = transactionIndex b \<and>
       (instructionIndex a < instructionIndex b \<or> instructionIndex a = instructionIndex b \<and>
         compareInnerInstructionIndex (innerInstructionIndex a) (innerInstructionIndex b) < 0))"
  by (auto simp: cursorOrder_def Let_def)

lemma cursorOrder_greater: "cursorOrder a b > 0 \<longleftrightarrow> cursorOrder b a < 0"
  unfolding cursorOrder_less by (auto simp: cursorOrder_def Let_def compareInner_simps(3))

interpretation cursor: three_way_order cursorOrder "\<lambda>_. True"
proof unfold_locales
  show "cursorOrder a b = 0 \<longleftrightarrow> a = b" for a b
    by (cases a; cases b) (auto simp: cursorOrder_def Let_def compareInner_simps(1))
  show "cursorOrder a b < 0 \<longleftrightarrow> cursorOrder b a > 0" for a b by (simp add: cursorOrder_greater)
  have inner: "compareInnerInstructionIndex a c < 0"
    if "compareInnerInstructionIndex a b < 0" "compareInnerInstructionIndex b c < 0" for a b c
    using that unfolding compareInner_simps(2) by (auto split: option.splits)
  show "cursorOrder a c < 0" if "cursorOrder a b < 0" "cursorOrder b c < 0" for a b c
    using that inner unfolding cursorOrder_less by (elim disjE conjE) auto
qed

lemma cursorOrder_range: "cursorOrder a b \<in> {-1, 0, 1}"
  by (auto simp: cursorOrder_def Let_def compareNumber_def compareInnerInstructionIndex_def split: option.split)

text \<open>
  Comparison of chain positions is a total order on valid cursors: the result is -1, 0 or 1, it
  is 0 exactly for equal positions, swapping the arguments swaps the sign, and it is transitive.
  An invalid cursor is never compared.
\<close>

theorem compare_cursors_total_order:
  assumes "assertValidChainCursor a = Inr x" and "assertValidChainCursor b = Inr y" and "assertValidChainCursor c = Inr z"
  shows "(\<exists>r \<in> {-1, 0, 1}. compareCursors a b = Inr r)
     \<and> (compareCursors a b = Inr 0 \<longleftrightarrow> x = y)
     \<and> (compareCursors a b = Inr (-1) \<longleftrightarrow> compareCursors b a = Inr 1)
     \<and> (compareCursors a b = Inr (-1) \<and> compareCursors b c = Inr (-1) \<longrightarrow> compareCursors a c = Inr (-1))"
proof -
  have neg: "cursorOrder u v = - 1 \<longleftrightarrow> cursorOrder u v < 0" and pos: "cursorOrder u v = 1 \<longleftrightarrow> cursorOrder u v > 0" for u v
    using cursorOrder_range [of u v] by auto
  show ?thesis
    using cursor.cmp_eq [of x y] cursor.cmp_antisym [of x y] cursor.cmp_trans [of x y z] cursorOrder_range [of x y]
    unfolding compareCursors_def assms bindE_Inr sum.inject neg pos by blast
qed

text \<open>
  Replays are deterministic: a set of chain positions has exactly one strictly increasing
  arrangement under the comparison of the code, so events sorted by it are processed in the same
  order on every replay.
\<close>

theorem cursor_sort_unique:
  assumes "sorted_wrt (\<lambda>a b. cursorOrder a b < 0) xs" and "sorted_wrt (\<lambda>a b. cursorOrder a b < 0) ys"
    and "set xs = set ys"
  shows "xs = ys"
  using cursor.sorted_unique [OF _ assms] by simp

subsection \<open>Occurrences of a transition\<close>

lemma occurrenceWinner_max:
  "occurrenceWinner a b = (if (occurredAtSource b = Blockchain \<and> occurredAtSource a \<noteq> Blockchain)
     \<or> (occurredAtSource a = occurredAtSource b \<and> occurredAtMs b < occurredAtMs a) then b else a)"
  by (cases "occurredAtSource a"; cases "occurredAtSource b") (auto simp: occurrenceWinner_def)

interpretation occurrence: observation_merge occurrenceWinner
proof unfold_locales
  show "occurrenceWinner a a = a" for a by (simp add: occurrenceWinner_def)
  show "occurrenceWinner a b = occurrenceWinner b a" for a b
    by (cases a; cases b; cases "occurredAtSource a"; cases "occurredAtSource b") (auto simp: occurrenceWinner_def)
  show "occurrenceWinner (occurrenceWinner a b) c = occurrenceWinner a (occurrenceWinner b c)" for a b c
    by (cases "occurredAtSource a"; cases "occurredAtSource b"; cases "occurredAtSource c")
       (auto simp: occurrenceWinner_def)
qed

text \<open>The occurrence a repository holds after a first report and a list of further ones.\<close>

definition occurrenceObject :: "occurrence \<Rightarrow> raw_occurrence" where
  "occurrenceObject c = \<lparr>raw_occurredAtMs = JNum (JInt (occurredAtMs c)),
     raw_occurredAtSource = JStr (literal_of OCCURRENCE_SOURCES (occurredAtSource c))\<rparr>"

definition deliverOccurrences :: "raw_occurrence \<Rightarrow> raw_occurrence list \<Rightarrow> chain_error + occurrence" where
  "deliverOccurrences first rest = foldl (\<lambda>acc r. bindE acc (\<lambda>c. reconcileTransitionOccurrence (occurrenceObject c) r))
     (assertValidTransitionOccurrence first) rest"

lemma assertValidTimestampMs_iff:
  "assertValidTimestampMs n v = Inr t \<longleftrightarrow> v = JNum (JInt t) \<and> 0 \<le> t \<and> t \<le> MAX_SAFE_INTEGER"
  by (auto simp: assertValidTimestampMs_def safe_index_def split: js.splits js_num.splits)

lemma occurrence_valid:
  "assertValidTransitionOccurrence r = Inr c \<Longrightarrow> assertValidTransitionOccurrence (occurrenceObject c) = Inr c"
proof (cases "occurredAtSource c")
qed (auto simp: assertValidTransitionOccurrence_def occurrenceObject_def result_simps assertValidTimestampMs_iff
    enumValue_def OCCURRENCE_SOURCES_def literal_of_def split: option.splits)

lemma occurrence_ok: "assertValidTransitionOccurrence r = Inr c \<Longrightarrow> 0 \<le> occurredAtMs c \<and> occurredAtMs c \<le> MAX_SAFE_INTEGER"
  by (auto simp: assertValidTransitionOccurrence_def result_simps assertValidTimestampMs_iff split: option.splits)

lemma deliver_winner:
  assumes "assertValidTransitionOccurrence first = Inr c"
    and "list_all2 (\<lambda>r d. assertValidTransitionOccurrence r = Inr d) rest ds"
  shows "deliverOccurrences first rest = Inr (foldl occurrenceWinner c ds)"
proof -
  have "foldl (\<lambda>acc r. bindE acc (\<lambda>c. reconcileTransitionOccurrence (occurrenceObject c) r)) (Inr c) rest
      = Inr (foldl occurrenceWinner c ds)" if "assertValidTransitionOccurrence (occurrenceObject c) = Inr c" for c
    using assms(2) that
  proof (induction rest ds arbitrary: c rule: list_all2_induct)
    case (Cons r rs d ds)
    have "assertValidTransitionOccurrence (occurrenceObject (occurrenceWinner c d)) = Inr (occurrenceWinner c d)"
      using Cons.prems occurrence_valid [OF Cons.hyps(1)] by (simp add: occurrenceWinner_def)
    with Cons show ?case by (simp add: reconcileTransitionOccurrence_def)
  qed simp
  then show ?thesis using occurrence_valid [OF assms(1)] assms(1) by (simp add: deliverOccurrences_def)
qed

lemma foldl_winner: "foldl occurrenceWinner c ds = foldr occurrenceWinner ds c"
proof (induction ds arbitrary: c)
  case (Cons d ds)
  have "foldr occurrenceWinner xs (occurrenceWinner c d) = occurrenceWinner d (foldr occurrenceWinner xs c)" for xs
    by (induction xs) (simp_all add: occurrence.comm [of c d] occurrence.left_comm)
  with Cons show ?case by simp
qed simp

text \<open>A report is preferred to another when it is no later from the same source, or from the chain
  where the other is an observation.\<close>

definition preferred :: "occurrence \<Rightarrow> occurrence \<Rightarrow> bool" where
  "preferred c d = (if occurredAtSource c = occurredAtSource d then occurredAtMs c \<le> occurredAtMs d
     else occurredAtSource c = Blockchain)"

lemma winner_preferred: "d \<in> set (a # zs) \<Longrightarrow> preferred (foldr occurrenceWinner zs a) d"
proof (induction zs)
  case (Cons z zs)
  have "preferred (occurrenceWinner z c) z" "preferred c e \<Longrightarrow> preferred (occurrenceWinner z c) e" for c e
    by (cases "occurredAtSource z"; cases "occurredAtSource c"; cases "occurredAtSource e";
        simp add: preferred_def occurrenceWinner_def)+
  with Cons show ?case by auto
qed (simp add: preferred_def)

text \<open>
  C30. The recorded time of a launch transition depends neither on which report of it arrives first, nor on
  the order of the others, nor on how often each arrives: after any deliveries of the same valid
  reports the same occurrence is held. It is one of the reports, and it is preferred to each of them:
  the earliest time on the chain, and the earliest observation only where no report comes from the chain.
\<close>

theorem transition_occurrence_converges:
  assumes "\<forall>r \<in> set (first # xs). \<exists>c. assertValidTransitionOccurrence r = Inr c" and "set (first # xs) = set (other # ys)"
  shows "deliverOccurrences first xs = deliverOccurrences other ys
     \<and> (\<exists>c. deliverOccurrences first xs = Inr c
          \<and> (\<exists>r \<in> set (first # xs). assertValidTransitionOccurrence r = Inr c)
          \<and> (\<forall>r \<in> set (first # xs). \<forall>d. assertValidTransitionOccurrence r = Inr d \<longrightarrow> preferred c d))"
proof -
  define parsed where "parsed r = (case assertValidTransitionOccurrence r of Inr c \<Rightarrow> c)" for r
  have parse: "assertValidTransitionOccurrence r = Inr (parsed r)" if "r \<in> set (first # xs)" for r
    using assms(1) that by (fastforce simp: parsed_def)
  have eq: "deliverOccurrences z zs = Inr (foldr occurrenceWinner (map parsed zs) (parsed z))"
    if "set (z # zs) = set (first # xs)" for z zs
    unfolding foldl_winner [symmetric]
    using parse that by (intro deliver_winner) (auto simp: list_all2_map2 intro!: list.rel_refl_strong)
  let ?c = "foldr occurrenceWinner (map parsed xs) (parsed first)"
  have "set (parsed first # map parsed xs) = set (parsed other # map parsed ys)"
    using arg_cong [OF assms(2), of "(`) parsed"] by simp
  then have same: "?c = foldr occurrenceWinner (map parsed ys) (parsed other)" by (rule occurrence.fold_all_cong)
  have "foldr occurrenceWinner zs a \<in> set (a # zs)" for zs a
    by (induction zs) (auto simp: occurrenceWinner_def)
  from this [of "map parsed xs" "parsed first"] obtain r where r: "r \<in> set (first # xs)" "?c = parsed r" by auto
  have "preferred ?c d" if "s \<in> set (first # xs)" "assertValidTransitionOccurrence s = Inr d" for s d
    using winner_preferred [of d "parsed first" "map parsed xs"] parse [OF that(1)] that by auto
  moreover have "assertValidTransitionOccurrence r = Inr ?c" using parse [OF r(1)] r(2) by simp
  ultimately show ?thesis using eq [of first xs] eq [of other ys] same assms(2) r(1) by (metis (no_types, lifting))
qed

subsection \<open>Confirmation only advances\<close>

text \<open>The status held after a report, and after a list of reports; a conflict stops the sequence.\<close>

definition absorbConfirmation :: "confirmation_status \<Rightarrow> confirmation_status \<Rightarrow> chain_error + confirmation_status" where
  "absorbConfirmation current incoming =
     map_sum id (\<lambda>d. case d of Keep \<Rightarrow> current | Update \<Rightarrow> incoming) (reconcileConfirmationStatus current incoming)"

definition absorbAll :: "confirmation_status \<Rightarrow> confirmation_status list \<Rightarrow> chain_error + confirmation_status" where
  "absorbAll current reports = foldl (\<lambda>acc r. bindE acc (\<lambda>c. absorbConfirmation c r)) (Inr current) reports"

definition confirmation_step :: "confirmation_status \<Rightarrow> confirmation_status \<Rightarrow> bool" where
  "confirmation_step s t = (\<exists>r. reconcileConfirmationStatus s r = Inr Update \<and> t = r)"

definition confirmation_terminal :: "confirmation_status \<Rightarrow> bool" where
  "confirmation_terminal s = (s = Finalized \<or> s = Orphaned)"

fun confirmation_rank :: "confirmation_status \<Rightarrow> nat" where
  "confirmation_rank Processed = 0"
| "confirmation_rank Confirmed = 1"
| "confirmation_rank Finalized = 2"
| "confirmation_rank Orphaned = 3"

interpretation confirmation: lifecycle confirmation_step confirmation_terminal "\<lambda>s. 3 - confirmation_rank s"
proof unfold_locales
  show "\<not> confirmation_step s t" if "confirmation_terminal s" for s t
    using that by (auto simp: confirmation_step_def confirmation_terminal_def reconcileConfirmationStatus_def split: if_splits)
  show "\<exists>t. confirmation_step s t \<and> 3 - confirmation_rank t < 3 - confirmation_rank s" if "\<not> confirmation_terminal s" for s
    using that by (cases s) (auto simp: confirmation_step_def confirmation_terminal_def reconcileConfirmationStatus_def
        intro: exI [of _ Finalized])
qed

lemma foldl_Inl: "foldl (\<lambda>acc r. bindE acc (\<lambda>c. absorbConfirmation c r)) (Inl e) rs = Inl e"
  by (induction rs) simp_all

lemma absorbAll_Cons: "absorbAll c (r # rs) = bindE (absorbConfirmation c r) (\<lambda>d. absorbAll d rs)"
  by (cases "absorbConfirmation c r") (simp_all add: absorbAll_def foldl_Inl)

lemma absorb_step: "absorbConfirmation c r = Inr d \<Longrightarrow> d = c \<or> confirmation_step c d"
  by (auto simp: absorbConfirmation_def confirmation_step_def map_sum_def split: sum.splits confirmation_reconciliation.splits)

lemma absorbAll_reachable: "absorbAll c rs = Inr d \<Longrightarrow> confirmation_step\<^sup>*\<^sup>* c d"
proof (induction rs arbitrary: c)
  case Nil
  then show ?case by (simp add: absorbAll_def)
next
  case (Cons r rs)
  then obtain e where "absorbConfirmation c r = Inr e" "absorbAll e rs = Inr d"
    by (auto simp: absorbAll_Cons result_simps)
  with Cons.IH [of e] absorb_step [of c r e] show ?case by (auto intro: converse_rtranclp_into_rtranclp)
qed

lemma absorb_max:
  "c \<noteq> Orphaned \<Longrightarrow> r \<noteq> Orphaned \<Longrightarrow>
     absorbConfirmation c r = Inr (if confirmation_rank c < confirmation_rank r then r else c)"
  by (cases c; cases r) (auto simp: absorbConfirmation_def reconcileConfirmationStatus_def)

text \<open>
  C31. Finality is final: whatever reports arrive, a finalized fact stays finalized and an orphaned
  one stays orphaned; and as long as no report says orphaned, the status held is the strongest one
  reported, in whatever order the reports came, with no conflict.
\<close>

theorem confirmation_converges:
  "(absorbAll c reports = Inr d \<and> confirmation_terminal c \<longrightarrow> d = c)
   \<and> (Orphaned \<notin> set (c # reports) \<longrightarrow>
       (\<exists>s \<in> set (c # reports). absorbAll c reports = Inr s
          \<and> (\<forall>r \<in> set (c # reports). confirmation_rank r \<le> confirmation_rank s)))"
proof -
  have "\<exists>s \<in> set (c # reports). absorbAll c reports = Inr s \<and> (\<forall>r \<in> set (c # reports). confirmation_rank r \<le> confirmation_rank s)"
    if "Orphaned \<notin> set (c # reports)"
    using that
  proof (induction reports arbitrary: c)
    case Nil
    then show ?case by (simp add: absorbAll_def)
  next
    case (Cons r rs)
    define e where "e = (if confirmation_rank c < confirmation_rank r then r else c)"
    have e: "absorbConfirmation c r = Inr e" using Cons.prems absorb_max [of c r] by (auto simp: e_def)
    have "Orphaned \<notin> set (e # rs)" using Cons.prems by (auto simp: e_def)
    from Cons.IH [OF this] obtain s where s: "s \<in> set (e # rs)" "absorbAll e rs = Inr s"
      "\<forall>q \<in> set (e # rs). confirmation_rank q \<le> confirmation_rank s" by blast
    then have "\<forall>q \<in> set (c # r # rs). confirmation_rank q \<le> confirmation_rank s"
      by (auto simp: e_def split: if_splits)
    with s e show ?case by (intro bexI [of _ s]) (auto simp: absorbAll_Cons e_def split: if_splits)
  qed
  with confirmation.terminal_absorbing absorbAll_reachable show ?thesis by blast
qed

subsection \<open>Identifiers bind what they identify\<close>

lemma dec_nat_not_outer: "dec_int n \<noteq> ''outer''" if "0 \<le> n"
proof -
  have "CHR ''o'' \<notin> set (dec_nat (nat n))"
    using dec_nat_digits [of "CHR ''o''" "nat n"] by (auto simp: code_unit_def)
  with that show ?thesis by (auto simp: dec_int_def)
qed

lemma cursor_valid_inner:
  "assertValidChainCursor r = Inr c \<Longrightarrow> case innerInstructionIndex c of None \<Rightarrow> True | Some n \<Rightarrow> 0 \<le> n"
  by (auto simp: assertValidChainCursor_def assertValidCursorIndex_def safe_index_def result_simps map_sum_def
      split: if_splits option.splits js.splits js_num.splits sum.splits)

lemma cursorTexts_inj:
  assumes "case innerInstructionIndex c of None \<Rightarrow> True | Some n \<Rightarrow> 0 \<le> n"
    and "case innerInstructionIndex d of None \<Rightarrow> True | Some n \<Rightarrow> 0 \<le> n"
  shows "cursorTexts c = cursorTexts d \<longleftrightarrow> c = d"
  using assms dec_nat_not_outer dec_nat_not_outer [symmetric]
  by (cases c; cases d) (auto simp: cursorTexts_def split: option.splits)

text \<open>
  An event identifier binds the event's place on chain: two chain events have the same
  identifier exactly when they agree on type, mint, source, program, signature and cursor, for any
  digest function that separates the two canonical texts at hand.
\<close>

theorem chain_event_id_binds:
  assumes "assertValidChainCursor (ce_cursor e) = Inr c" and "assertValidChainCursor (ce_cursor f) = Inr d"
    and "inj_on sha256 {stringify (eventPreimage e c), stringify (eventPreimage f d)}"
  shows "createDeterministicChainEventId sha256 e = createDeterministicChainEventId sha256 f
     \<longleftrightarrow> ce_type e = ce_type f \<and> ce_mint e = ce_mint f \<and> ce_source e = ce_source f
       \<and> ce_program e = ce_program f \<and> ce_signature e = ce_signature f \<and> c = d"
  using digest_binds [OF assms(3), of "eventPreimage e c" "eventPreimage f d"]
    cursorTexts_inj [OF cursor_valid_inner [OF assms(1)] cursor_valid_inner [OF assms(2)]]
  by (auto simp: createDeterministicChainEventId_def assms(1,2) eventPreimage_def)

lemma launch_table:
  "distinct (map fst LAUNCH_STATUSES)" "z \<in> snd ` set LAUNCH_STATUSES"
proof -
  show "distinct (map fst LAUNCH_STATUSES)" by code_simp
  have "z \<in> set (map snd LAUNCH_STATUSES)" by (simp add: LAUNCH_STATUSES_def) (cases z; simp)
  then show "z \<in> snd ` set LAUNCH_STATUSES" by simp
qed

lemma launch_literals: "literal_of LAUNCH_STATUSES a = literal_of LAUNCH_STATUSES b \<longleftrightarrow> a = b"
  by (rule literal_of_inj [OF launch_table])

lemma launch_literal_chars: "char_of (31 :: nat) \<notin> set (literal_of LAUNCH_STATUSES s)" "literal_of LAUNCH_STATUSES s \<noteq> ''none''"
proof -
  have "list_all (\<lambda>(l, _). char_of (31 :: nat) \<notin> set l \<and> l \<noteq> ''none'') LAUNCH_STATUSES" by code_simp
  moreover have "(literal_of LAUNCH_STATUSES s, s) \<in> set LAUNCH_STATUSES"
    using map_of_SomeD [OF map_of_literal_of [OF launch_table]] .
  ultimately show "char_of (31 :: nat) \<notin> set (literal_of LAUNCH_STATUSES s)" "literal_of LAUNCH_STATUSES s \<noteq> ''none''"
    by (auto simp: list_all_iff)
qed

lemma split_last_separator:
  assumes "xs @ [c] @ ys = us @ [c] @ vs" and "c \<notin> set ys" and "c \<notin> set vs"
  shows "xs = us \<and> ys = vs"
proof -
  have rev: "rev ys @ c # rev xs = rev vs @ c # rev us"
    using arg_cong [OF assms(1), of rev] by simp
  have "takeWhile (\<lambda>x. x \<noteq> c) (rev as @ c # bs) = rev as" if "c \<notin> set as" for as bs
    using that by (subst takeWhile_append2) auto
  with rev assms(2,3) have "rev ys = rev vs" by metis
  with rev show ?thesis by simp
qed

text \<open>
  A transition identifier binds the event and both statuses, although the event identifier in
  the hashed text is arbitrary: no status contains the separator, so the text splits in one way
  only.
\<close>

theorem transition_id_binds:
  assumes "inj_on sha256 {transitionCanonical e p s, transitionCanonical f q t}"
  shows "createDeterministicTransitionId sha256 e p s = createDeterministicTransitionId sha256 f q t
     \<longleftrightarrow> e = f \<and> p = q \<and> s = t"
proof -
  define prev where "prev x = (case x of None \<Rightarrow> ''none'' | Some s \<Rightarrow> literal_of LAUNCH_STATUSES s)" for x
  have no_sep: "char_of (31 :: nat) \<notin> set (prev x)" for x
    using launch_literal_chars(1) by (simp add: prev_def char_of_def split: option.split)
  have prev_inj: "prev x = prev y \<longleftrightarrow> x = y" for x y
    using launch_literals launch_literal_chars(2) launch_literal_chars(2) [symmetric]
    by (auto simp: prev_def split: option.splits)
  have canonical: "transitionCanonical x y z
      = (x @ [char_of (31 :: nat)] @ prev y) @ [char_of (31 :: nat)] @ literal_of LAUNCH_STATUSES z" for x y z
    by (simp add: transitionCanonical_def prev_def)
  have "e = f \<and> p = q \<and> s = t" if "transitionCanonical e p s = transitionCanonical f q t"
  proof -
    have "e @ [char_of (31 :: nat)] @ prev p = f @ [char_of (31 :: nat)] @ prev q
        \<and> literal_of LAUNCH_STATUSES s = literal_of LAUNCH_STATUSES t"
      using that unfolding canonical by (rule split_last_separator) (rule launch_literal_chars(1))+
    then show ?thesis
      using split_last_separator [OF _ no_sep no_sep] by (auto simp: launch_literals prev_inj)
  qed
  with assms show ?thesis by (auto simp: createDeterministicTransitionId_def dest: inj_onD)
qed

subsection \<open>Concrete inputs\<close>

definition example_cursor :: "int \<Rightarrow> raw_cursor" where
  "example_cursor n = \<lparr>raw_slot = JBig 7, raw_transactionIndex = JNum (JInt n), raw_instructionIndex = JNum (JInt 2),
     raw_innerInstructionIndex = JNull\<rparr>"

definition parsed_cursor :: "int \<Rightarrow> chain_cursor" where
  "parsed_cursor n = \<lparr>slot = 7, transactionIndex = n, instructionIndex = 2, innerInstructionIndex = None\<rparr>"

lemma example_cursors:
  "assertValidChainCursor (example_cursor 0) = Inr (parsed_cursor 0)"
  "assertValidChainCursor (example_cursor 1) = Inr (parsed_cursor 1)"
  "assertValidChainCursor (example_cursor 2) = Inr (parsed_cursor 2)"
  by code_simp+

theorem compare_cursors_total_order_witness:
  "\<exists>r \<in> {-1, 0, 1}. compareCursors (example_cursor 0) (example_cursor 1) = Inr r"
  using compare_cursors_total_order [OF example_cursors] by blast

theorem cursor_sort_unique_witness:
  "rev [parsed_cursor 1, parsed_cursor 0] = [parsed_cursor 0, parsed_cursor 1]
   \<and> sorted_wrt (\<lambda>a b. cursorOrder a b < 0) [parsed_cursor 0, parsed_cursor 1]"
proof -
  have "sorted_wrt (\<lambda>a b. cursorOrder a b < 0) (rev [parsed_cursor 1, parsed_cursor 0])"
    "sorted_wrt (\<lambda>a b. cursorOrder a b < 0) [parsed_cursor 0, parsed_cursor 1]" by code_simp+
  with cursor_sort_unique [OF this] show ?thesis by auto
qed

definition example_reports :: "raw_occurrence list" where
  "example_reports =
  [\<lparr>raw_occurredAtMs = JNum (JInt 5), raw_occurredAtSource = JStr ''observation''\<rparr>,
   \<lparr>raw_occurredAtMs = JNum (JInt 9), raw_occurredAtSource = JStr ''blockchain''\<rparr>]"

theorem transition_occurrence_converges_witness:
  "deliverOccurrences (example_reports ! 0) [example_reports ! 1] = deliverOccurrences (example_reports ! 1) [example_reports ! 0]"
proof -
  have "assertValidTransitionOccurrence (example_reports ! 0) = Inr \<lparr>occurredAtMs = 5, occurredAtSource = Observation\<rparr>"
    "assertValidTransitionOccurrence (example_reports ! 1) = Inr \<lparr>occurredAtMs = 9, occurredAtSource = Blockchain\<rparr>"
    by code_simp+
  then have "\<forall>r \<in> set [example_reports ! 0, example_reports ! 1]. \<exists>c. assertValidTransitionOccurrence r = Inr c" by simp
  from transition_occurrence_converges [OF this, of "example_reports ! 1" "[example_reports ! 0]"] show ?thesis by (simp add: insert_commute)
qed

theorem confirmation_converges_witness:
  "\<exists>s \<in> set [Processed, Finalized, Confirmed]. absorbAll Processed [Finalized, Confirmed] = Inr s
     \<and> (\<forall>r \<in> set [Processed, Finalized, Confirmed]. confirmation_rank r \<le> confirmation_rank s)"
  using confirmation_converges [of Processed "[Finalized, Confirmed]" Processed] by simp

definition example_event :: "int \<Rightarrow> chain_event_identity" where
  "example_event n = \<lparr>ce_type = ''TokenLaunchDetected'', ce_mint = ''m'', ce_source = ''pumpfun'', ce_program = ''p'',
     ce_signature = ''s'', ce_cursor = example_cursor n\<rparr>"

theorem chain_event_id_binds_witness:
  "createDeterministicChainEventId id (example_event 0) \<noteq> createDeterministicChainEventId id (example_event 1)"
proof -
  have "assertValidChainCursor (ce_cursor (example_event 0)) = Inr (parsed_cursor 0)"
    "assertValidChainCursor (ce_cursor (example_event 1)) = Inr (parsed_cursor 1)"
    using example_cursors by (simp_all add: example_event_def)
  from chain_event_id_binds [OF this inj_on_id] show ?thesis by (simp add: parsed_cursor_def)
qed

theorem transition_id_binds_witness:
  "createDeterministicTransitionId id ''evt_1'' None DETECTED
     \<noteq> createDeterministicTransitionId id ''evt_1'' (Some DETECTED) MIGRATION_PENDING"
  using transition_id_binds [OF inj_on_id, of "''evt_1''" None DETECTED "''evt_1''" "Some DETECTED" MIGRATION_PENDING] by simp

end
