(* ===== verification/Paper_Math.thy ===== *)
theory Paper_Math
  imports Chain_Model Execution_Intent
begin

text \<open>
  Quotes and their round trip (\<open>src/src/paper/paper-math.ts\<close>, \<open>src/src/domain/paper-trading.ts\<close>), the
  fast entry decision built on it (\<open>src/src/domain/fast-entry.ts\<close>) and the effective reserves of a
  PumpSwap pool (\<open>src/src/markets/pumpswap/reserve-math.ts\<close>). Amounts are unbounded integers, as
  \<open>bigint\<close> is.
\<close>

subsection \<open>Quotes\<close>

record paper_quote =
  pq_id :: string
  pq_inputMint :: string
  pq_outputMint :: string
  pq_amountInRaw :: int
  pq_amountOutRaw :: int
  pq_minimumAmountOutRaw :: int
  pq_feesRaw :: int
  pq_slippageBps :: int
  pq_priceImpactBps :: int
  pq_observedAtMs :: js
  pq_observedSlot :: int

record paper_round_trip =
  rt_quoteCostRaw :: int
  rt_baseFilledRaw :: int
  rt_returnRaw :: int
  rt_lossRaw :: int
  rt_lossBps :: int

text \<open>A \<open>PaperTradingError\<close> with code QUOTE_INVALID and the field it names, or the
  \<open>InvalidTimestampError\<close> of the time check.\<close>

datatype quote_error = QUOTE_INVALID string | QUOTE_TIMESTAMP chain_error

abbreviation MAX_BPS :: int where "MAX_BPS \<equiv> 10000"

definition validateBps :: "string \<Rightarrow> int \<Rightarrow> quote_error + unit" where
  "validateBps field v = (if v < 0 \<or> v > MAX_BPS then Inl (QUOTE_INVALID field) else Inr ())"

definition validatePaperQuote :: "paper_quote \<Rightarrow> quote_error + unit" where
  "validatePaperQuote q =
     (if trim (pq_id q) = [] then Inl (QUOTE_INVALID ''id'')
      else if trim (pq_inputMint q) = [] then Inl (QUOTE_INVALID ''inputMint'')
      else if trim (pq_outputMint q) = [] then Inl (QUOTE_INVALID ''outputMint'')
      else if pq_inputMint q = pq_outputMint q then Inl (QUOTE_INVALID ''outputMint'')
      else if pq_amountInRaw q \<le> 0 then Inl (QUOTE_INVALID ''amountInRaw'')
      else if pq_amountOutRaw q \<le> 0 then Inl (QUOTE_INVALID ''amountOutRaw'')
      else if pq_minimumAmountOutRaw q \<le> 0 \<or> pq_minimumAmountOutRaw q > pq_amountOutRaw q
        then Inl (QUOTE_INVALID ''minimumAmountOutRaw'')
      else if pq_feesRaw q < 0 then Inl (QUOTE_INVALID ''feesRaw'')
      else bindE (validateBps ''slippageBps'' (pq_slippageBps q)) (\<lambda>_.
        bindE (validateBps ''priceImpactBps'' (pq_priceImpactBps q)) (\<lambda>_.
        bindE (map_sum QUOTE_TIMESTAMP id (assertValidTimestampMs ObservedAtMs (pq_observedAtMs q))) (\<lambda>_.
          if pq_observedSlot q < 0 then Inl (QUOTE_INVALID ''observedSlot'') else Inr ()))))"

definition calculateLossBps :: "int \<Rightarrow> int \<Rightarrow> quote_error + int" where
  "calculateLossBps costRaw returnRaw =
     (if costRaw \<le> 0 then Inl (QUOTE_INVALID ''quoteCostRaw'')
      else if returnRaw < 0 then Inl (QUOTE_INVALID ''returnRaw'')
      else let lossRaw = (if costRaw > returnRaw then costRaw - returnRaw else 0)
           in Inr (if lossRaw = 0 then 0 else (lossRaw * MAX_BPS + costRaw - 1) div costRaw))"

definition calculateRoundTrip :: "paper_quote \<Rightarrow> paper_quote \<Rightarrow> quote_error + paper_round_trip" where
  "calculateRoundTrip buy reverseSell =
     bindE (validatePaperQuote buy) (\<lambda>_.
     bindE (validatePaperQuote reverseSell) (\<lambda>_.
       if pq_inputMint reverseSell \<noteq> pq_outputMint buy then Inl (QUOTE_INVALID ''inputMint'')
       else if pq_outputMint reverseSell \<noteq> pq_inputMint buy then Inl (QUOTE_INVALID ''outputMint'')
       else if pq_amountInRaw reverseSell \<noteq> pq_minimumAmountOutRaw buy then Inl (QUOTE_INVALID ''amountInRaw'')
       else let lossRaw = (if pq_amountInRaw buy > pq_minimumAmountOutRaw reverseSell
                  then pq_amountInRaw buy - pq_minimumAmountOutRaw reverseSell else 0)
            in bindE (calculateLossBps (pq_amountInRaw buy) (pq_minimumAmountOutRaw reverseSell)) (\<lambda>lossBps.
              Inr \<lparr>rt_quoteCostRaw = pq_amountInRaw buy, rt_baseFilledRaw = pq_minimumAmountOutRaw buy,
                rt_returnRaw = pq_minimumAmountOutRaw reverseSell, rt_lossRaw = lossRaw, rt_lossBps = lossBps\<rparr>)))"

subsection \<open>Fast entry\<close>

datatype fast_entry_rejection =
    UNSUPPORTED_QUOTE_MINT | UNSUPPORTED_EXTENSION | CREATOR_ALREADY_SOLD | NO_ENVELOPE_CAPACITY
  | QUOTE_UNAVAILABLE | ROUND_TRIP_LOSS_EXCEEDED

record fast_entry_launch =
  fe_mint :: string
  fe_quoteMint :: string
  fe_creatorSoldInCreate :: bool

record fast_entry_envelope =
  fe_envelopeId :: string
  fe_perBuyQuoteAmountRaw :: int

datatype fast_entry_decision = FastBuy int | FastRejected fast_entry_rejection "int option"

definition precheckFastEntry :: "fast_entry_launch \<Rightarrow> fast_entry_envelope option \<Rightarrow> fast_entry_rejection option" where
  "precheckFastEntry launch envelope =
     (if fe_quoteMint launch \<noteq> WSOL_MINT then Some UNSUPPORTED_QUOTE_MINT
      else if fe_creatorSoldInCreate launch then Some CREATOR_ALREADY_SOLD
      else if envelope = None then Some NO_ENVELOPE_CAPACITY
      else None)"

definition decideFastEntryQuotes :: "paper_quote \<Rightarrow> paper_quote \<Rightarrow> int \<Rightarrow> quote_error + fast_entry_decision" where
  "decideFastEntryQuotes buy reverseSell maximumRoundTripLossBps =
     (case calculateRoundTrip buy reverseSell of
        Inl (QUOTE_INVALID _) \<Rightarrow> Inr (FastRejected QUOTE_UNAVAILABLE None)
      | Inl (QUOTE_TIMESTAMP e) \<Rightarrow> Inl (QUOTE_TIMESTAMP e)
      | Inr trip \<Rightarrow>
          if rt_lossBps trip > maximumRoundTripLossBps
          then Inr (FastRejected ROUND_TRIP_LOSS_EXCEEDED (Some (rt_lossBps trip)))
          else Inr (FastBuy (rt_lossBps trip)))"

definition createEntryDecisionId :: "(nat list \<Rightarrow> string) \<Rightarrow> js \<Rightarrow> string option" where
  "createEntryDecisionId sha256 mint = (case mint of
     JStr m \<Rightarrow> if m = [] then None
       else Some (''entry_decision_'' @ sha256 (lengthPrefixedUtf8 [widen ''entry-decision-v1'', widen m]))
   | _ \<Rightarrow> None)"

subsection \<open>Effective reserves\<close>

definition computeEffectiveQuoteReservesRaw :: "int \<Rightarrow> int \<Rightarrow> int + int" where
  "computeEffectiveQuoteReservesRaw quoteVaultAmountRaw virtualQuoteReservesRaw =
     (if quoteVaultAmountRaw < 0 then Inl quoteVaultAmountRaw
      else let effective = quoteVaultAmountRaw + virtualQuoteReservesRaw
           in if effective \<le> 0 then Inl effective else Inr effective)"

subsection \<open>Facts\<close>

lemma validatePaperQuote_ok:
  "validatePaperQuote q = Inr () \<longleftrightarrow>
     trim (pq_id q) \<noteq> [] \<and> trim (pq_inputMint q) \<noteq> [] \<and> trim (pq_outputMint q) \<noteq> []
     \<and> pq_inputMint q \<noteq> pq_outputMint q \<and> 0 < pq_amountInRaw q \<and> 0 < pq_amountOutRaw q
     \<and> 0 < pq_minimumAmountOutRaw q \<and> pq_minimumAmountOutRaw q \<le> pq_amountOutRaw q \<and> 0 \<le> pq_feesRaw q
     \<and> 0 \<le> pq_slippageBps q \<and> pq_slippageBps q \<le> MAX_BPS \<and> 0 \<le> pq_priceImpactBps q \<and> pq_priceImpactBps q \<le> MAX_BPS
     \<and> (\<exists>t. pq_observedAtMs q = JNum (JInt t) \<and> 0 \<le> t \<and> t \<le> MAX_SAFE_INTEGER) \<and> 0 \<le> pq_observedSlot q"
proof -
  have time: "map_sum QUOTE_TIMESTAMP id (assertValidTimestampMs ObservedAtMs v) = Inr t
      \<longleftrightarrow> v = JNum (JInt t) \<and> 0 \<le> t \<and> t \<le> MAX_SAFE_INTEGER" for v t
    using assertValidTimestampMs_iff [of ObservedAtMs v t]
    by (cases "assertValidTimestampMs ObservedAtMs v") simp_all
  show ?thesis
    unfolding validatePaperQuote_def validateBps_def result_simps time by auto
qed

lemma calculateLossBps_ceiling:
  assumes "calculateLossBps cost ret = Inr b"
  shows "0 < cost \<and> 0 \<le> b \<and> b \<le> MAX_BPS \<and> (\<forall>limit \<ge> 0. b \<le> limit \<longleftrightarrow> (cost - ret) * MAX_BPS \<le> limit * cost)"
proof -
  from assms have cost: "0 < cost" and ret: "0 \<le> ret"
    and b: "b = (if cost > ret then ((cost - ret) * MAX_BPS + cost - 1) div cost else 0)"
    by (auto simp: calculateLossBps_def Let_def split: if_splits)
  show ?thesis
  proof (cases "cost > ret")
    case True
    then have b: "b = ((cost - ret) * MAX_BPS + cost - 1) div cost" using b by simp
    have iff: "b \<le> limit \<longleftrightarrow> (cost - ret) * MAX_BPS \<le> limit * cost" for limit
      unfolding b by (rule ceil_div_le_iff [OF cost])
    have "b \<le> MAX_BPS" unfolding iff using cost ret by simp
    moreover have "0 \<le> b" unfolding b using cost True by (intro pos_imp_zdiv_nonneg_iff [THEN iffD2]) auto
    ultimately show ?thesis using cost iff by blast
  next
    case False
    then have "(cost - ret) * MAX_BPS \<le> 0" by simp
    moreover have "0 \<le> limit * cost" if "0 \<le> limit" for limit using that cost by simp
    ultimately have "(cost - ret) * MAX_BPS \<le> limit * cost" if "0 \<le> limit" for limit
      using that order_trans by blast
    with False b cost show ?thesis by auto
  qed
qed

subsection \<open>Properties\<close>

text \<open>The two quotes describe one round trip.\<close>

definition reverses :: "paper_quote \<Rightarrow> paper_quote \<Rightarrow> bool" where
  "reverses sell buy = (pq_inputMint sell = pq_outputMint buy \<and> pq_outputMint sell = pq_inputMint buy
     \<and> pq_amountInRaw sell = pq_minimumAmountOutRaw buy)"

lemma calculateRoundTrip_ok:
  assumes "validatePaperQuote buy = Inr ()" and "validatePaperQuote sell = Inr ()" and "reverses sell buy"
  shows "\<exists>b. calculateLossBps (pq_amountInRaw buy) (pq_minimumAmountOutRaw sell) = Inr b
     \<and> calculateRoundTrip buy sell = Inr \<lparr>rt_quoteCostRaw = pq_amountInRaw buy,
         rt_baseFilledRaw = pq_minimumAmountOutRaw buy, rt_returnRaw = pq_minimumAmountOutRaw sell,
         rt_lossRaw = max 0 (pq_amountInRaw buy - pq_minimumAmountOutRaw sell), rt_lossBps = b\<rparr>"
proof -
  have "0 < pq_amountInRaw buy" "0 < pq_minimumAmountOutRaw sell"
    using assms(1,2) unfolding validatePaperQuote_ok by blast+
  then obtain b where "calculateLossBps (pq_amountInRaw buy) (pq_minimumAmountOutRaw sell) = Inr b"
    by (auto simp: calculateLossBps_def Let_def)
  with assms show ?thesis by (auto simp: calculateRoundTrip_def reverses_def Let_def)
qed

text \<open>
  C29. The fast entry decision is exact. For two valid quotes of one round trip and any limit, the
  answer is a buy exactly when the guaranteed loss (cost minus the minimum return of the reverse
  sell) is at most the limit in basis points of the cost, with no rounding in the trader's
  disfavour; otherwise the rejection names the loss.
\<close>

theorem fast_entry_exact:
  assumes "validatePaperQuote buy = Inr ()" and "validatePaperQuote sell = Inr ()" and "reverses sell buy"
    and "0 \<le> limit"
  shows "((\<exists>b. decideFastEntryQuotes buy sell limit = Inr (FastBuy b))
            \<longleftrightarrow> (pq_amountInRaw buy - pq_minimumAmountOutRaw sell) * 10000 \<le> limit * pq_amountInRaw buy)
     \<and> (\<exists>b. 0 \<le> b \<and> b \<le> 10000 \<and> decideFastEntryQuotes buy sell limit \<in>
           {Inr (FastBuy b), Inr (FastRejected ROUND_TRIP_LOSS_EXCEEDED (Some b))})"
proof -
  obtain b where b: "calculateLossBps (pq_amountInRaw buy) (pq_minimumAmountOutRaw sell) = Inr b"
    and trip: "calculateRoundTrip buy sell = Inr \<lparr>rt_quoteCostRaw = pq_amountInRaw buy,
         rt_baseFilledRaw = pq_minimumAmountOutRaw buy, rt_returnRaw = pq_minimumAmountOutRaw sell,
         rt_lossRaw = max 0 (pq_amountInRaw buy - pq_minimumAmountOutRaw sell), rt_lossBps = b\<rparr>"
    using calculateRoundTrip_ok [OF assms(1-3)] by blast
  note ceiling = calculateLossBps_ceiling [OF b]
  then have "b \<le> limit \<longleftrightarrow> (pq_amountInRaw buy - pq_minimumAmountOutRaw sell) * 10000 \<le> limit * pq_amountInRaw buy"
    using assms(4) by blast
  with trip ceiling show ?thesis by (auto simp: decideFastEntryQuotes_def)
qed

text \<open>
  Bad quotes are answers, not crashes: the decision throws only when a quote carries an
  unusable observation time. Every other malformed or mismatched quote is rejected as unavailable.
\<close>

theorem fast_entry_throws_only_on_time:
  "(decideFastEntryQuotes buy sell limit = Inl e \<longrightarrow>
      (\<exists>q \<in> {buy, sell}. safe_index (pq_observedAtMs q) = None))
   \<and> (calculateRoundTrip buy sell = Inl (QUOTE_INVALID field) \<longrightarrow>
      decideFastEntryQuotes buy sell limit = Inr (FastRejected QUOTE_UNAVAILABLE None))"
proof -
  have quote: "safe_index (pq_observedAtMs q) = None" if "validatePaperQuote q = Inl (QUOTE_TIMESTAMP t)" for q t
    using that unfolding validatePaperQuote_def
    by (auto simp: result_simps validateBps_def assertValidTimestampMs_def split: if_splits option.splits)
  have "\<exists>q \<in> {buy, sell}. safe_index (pq_observedAtMs q) = None" if "calculateRoundTrip buy sell = Inl (QUOTE_TIMESTAMP t)" for t
    using that quote unfolding calculateRoundTrip_def
    by (auto simp: result_simps calculateLossBps_def Let_def split: if_splits)
  then show ?thesis
    by (auto simp: decideFastEntryQuotes_def split: sum.splits quote_error.splits if_splits)
qed

definition example_buy :: paper_quote where
  "example_buy = \<lparr>pq_id = ''q1'', pq_inputMint = WSOL_MINT, pq_outputMint = ''mint'', pq_amountInRaw = 1000000,
     pq_amountOutRaw = 500, pq_minimumAmountOutRaw = 480, pq_feesRaw = 10, pq_slippageBps = 400, pq_priceImpactBps = 5,
     pq_observedAtMs = JNum (JInt 1), pq_observedSlot = 7\<rparr>"

definition example_sell :: paper_quote where
  "example_sell = \<lparr>pq_id = ''q2'', pq_inputMint = ''mint'', pq_outputMint = WSOL_MINT, pq_amountInRaw = 480,
     pq_amountOutRaw = 990000, pq_minimumAmountOutRaw = 949999, pq_feesRaw = 10, pq_slippageBps = 400, pq_priceImpactBps = 5,
     pq_observedAtMs = JNum (JInt 1), pq_observedSlot = 7\<rparr>"

theorem fast_entry_exact_witness:
  "\<not> (\<exists>b. decideFastEntryQuotes example_buy example_sell 500 = Inr (FastBuy b))
   \<and> (\<exists>b. decideFastEntryQuotes example_buy example_sell 501 = Inr (FastBuy b))"
proof -
  have "validatePaperQuote example_buy = Inr ()" "validatePaperQuote example_sell = Inr ()" by code_simp+
  moreover have "reverses example_sell example_buy" by code_simp
  ultimately show ?thesis
    using fast_entry_exact [of example_buy example_sell 500] fast_entry_exact [of example_buy example_sell 501]
    by (simp add: example_buy_def example_sell_def)
qed

theorem fast_entry_throws_only_on_time_witness:
  "decideFastEntryQuotes (example_buy\<lparr>pq_id := []\<rparr>) example_sell 500 = Inr (FastRejected QUOTE_UNAVAILABLE None)"
proof -
  have "calculateRoundTrip (example_buy\<lparr>pq_id := []\<rparr>) example_sell = Inl (QUOTE_INVALID ''id'')" by code_simp
  then show ?thesis
    using fast_entry_throws_only_on_time [of "example_buy\<lparr>pq_id := []\<rparr>" example_sell 500 "QUOTE_INVALID []" "''id''"]
    by blast
qed

end
