(* ===== verification/Fast_Exit.thy ===== *)
theory Fast_Exit
  imports Complex_Main Execution_Types Public_Key Interfaces "HOL-Library.List_Lexorder" "HOL-Library.Char_ord"
begin

text \<open>
  Early exit of a position (\<open>src/src/domain/fast-exit.ts\<close>): validation of the policy and the facts,
  the rules in their order, and the logical keys that name an exit order and its re-exits.
  String comparison is lexicographic on code units (\<open>List_Lexorder\<close> on \<open>Char_ord\<close>), as in
  JavaScript. The elements of an array are data properties.
\<close>

subsection \<open>Data\<close>

datatype fast_exit_reason = ENVELOPE_REVOKED | CREATOR_SOLD | TAKE_PROFIT | EXTERNAL_BUYERS

datatype exit_reason = FastReason fast_exit_reason | DEADLINE

definition FAST_EXIT_REASONS :: "(string \<times> fast_exit_reason) list" where
  "FAST_EXIT_REASONS = [(''ENVELOPE_REVOKED'', ENVELOPE_REVOKED), (''CREATOR_SOLD'', CREATOR_SOLD),
     (''TAKE_PROFIT'', TAKE_PROFIT), (''EXTERNAL_BUYERS'', EXTERNAL_BUYERS)]"

abbreviation MAXIMUM_RE_EXITS :: nat where "MAXIMUM_RE_EXITS \<equiv> 3"

record fast_exit_policy =
  takeProfitBps :: int
  externalBuyersTarget :: int
  externalMinimumBuyRaw :: int

record fast_exit_trade =
  fx_eventId :: string
  fx_kind :: side
  fx_trader :: "string option"
  fx_baseAmountRaw :: int
  fx_quoteAmountRaw :: int
  fx_slot :: int
  fx_transactionIndex :: int
  fx_instructionIndex :: int
  fx_innerInstructionIndex :: "int option"

record fast_exit_facts =
  fx_envelopeState :: string
  fx_creator :: "string option"
  fx_walletPublicKey :: string
  fx_remainingBaseRaw :: int
  fx_quoteCostRaw :: int
  fx_trades :: "fast_exit_trade list option"

definition ENVELOPE_STATES :: "string list" where
  "ENVELOPE_STATES = [''ACTIVE'', ''EXHAUSTED'', ''REVOKED'', ''EXPIRED'']"

definition FACT_KEYS :: "string list" where
  "FACT_KEYS = [''envelopeState'', ''creator'', ''walletPublicKey'', ''remainingBaseRaw'', ''quoteCostRaw'', ''trades'']"

definition EXIT_POLICY_KEYS :: "string list" where
  "EXIT_POLICY_KEYS = [''takeProfitBps'', ''externalBuyersTarget'', ''externalMinimumBuyRaw'']"

definition TRADE_KEYS :: "string list" where
  "TRADE_KEYS = [''eventId'', ''kind'', ''trader'', ''baseAmountRaw'', ''quoteAmountRaw'', ''slot'', ''transactionIndex'',
     ''instructionIndex'', ''innerInstructionIndex'']"

subsection \<open>Validation\<close>

definition publicKey :: "js \<Rightarrow> string option" where
  "publicKey v = string_matching isCanonicalSolanaPublicKey v"

definition index_field :: "js \<Rightarrow> int option" where
  "index_field v = boundedInteger 0 INT32_MAX v"

definition tradeFrom :: "js \<Rightarrow> fast_exit_trade option" where
  "tradeFrom v = do {
     record \<leftarrow> exactFrozenRecord TRADE_KEYS v;
     eventId \<leftarrow> text_field 256 (fld record ''eventId'');
     kind \<leftarrow> enumValue SIDES (fld record ''kind'');
     trader \<leftarrow> nullable publicKey (fld record ''trader'');
     base \<leftarrow> unsignedBigint (fld record ''baseAmountRaw'');
     quote \<leftarrow> unsignedBigint (fld record ''quoteAmountRaw'');
     slot \<leftarrow> unsignedBigint (fld record ''slot'');
     transactionIndex \<leftarrow> index_field (fld record ''transactionIndex'');
     instructionIndex \<leftarrow> index_field (fld record ''instructionIndex'');
     inner \<leftarrow> nullable index_field (fld record ''innerInstructionIndex'');
     Some \<lparr>fx_eventId = eventId, fx_kind = kind, fx_trader = trader, fx_baseAmountRaw = base,
       fx_quoteAmountRaw = quote, fx_slot = slot, fx_transactionIndex = transactionIndex,
       fx_instructionIndex = instructionIndex, fx_innerInstructionIndex = inner\<rparr>
   }"

definition tradesFrom :: "js \<Rightarrow> fast_exit_trade list option" where
  "tradesFrom v = (case v of
     JArr proxy frozen elems \<Rightarrow>
       if proxy \<or> \<not> frozen \<or> length elems > 100000 then None
       else those (map (\<lambda>e. case e of Some (DataProp _ x) \<Rightarrow> tradeFrom x | _ \<Rightarrow> None) elems)
   | _ \<Rightarrow> None)"

definition exitPolicyFrom :: "js \<Rightarrow> fast_exit_policy option" where
  "exitPolicyFrom v = do {
     record \<leftarrow> exactFrozenRecord EXIT_POLICY_KEYS v;
     profit \<leftarrow> boundedBigint 10001 100000 (fld record ''takeProfitBps'');
     target \<leftarrow> boundedInteger 1 1000 (fld record ''externalBuyersTarget'');
     minimumBuy \<leftarrow> unsignedBigint (fld record ''externalMinimumBuyRaw'');
     (if minimumBuy < 1 then None
      else Some \<lparr>takeProfitBps = profit, externalBuyersTarget = target, externalMinimumBuyRaw = minimumBuy\<rparr>)
   }"

text \<open>A malformed creator counts as unknown, a malformed trade list as unreadable.\<close>

definition factsFrom :: "js_record \<Rightarrow> string \<Rightarrow> fast_exit_facts option" where
  "factsFrom record envelopeState = do {
     wallet \<leftarrow> publicKey (fld record ''walletPublicKey'');
     remaining \<leftarrow> unsignedBigint (fld record ''remainingBaseRaw'');
     cost \<leftarrow> unsignedBigint (fld record ''quoteCostRaw'');
     Some \<lparr>fx_envelopeState = envelopeState, fx_creator = publicKey (fld record ''creator''),
       fx_walletPublicKey = wallet, fx_remainingBaseRaw = remaining, fx_quoteCostRaw = cost,
       fx_trades = tradesFrom (fld record ''trades'')\<rparr>
   }"

subsection \<open>Decision\<close>

definition compareCursor :: "fast_exit_trade \<Rightarrow> fast_exit_trade \<Rightarrow> int" where
  "compareCursor left right =
     (if fx_slot left \<noteq> fx_slot right then if fx_slot left > fx_slot right then 1 else - 1
      else if fx_transactionIndex left \<noteq> fx_transactionIndex right
        then fx_transactionIndex left - fx_transactionIndex right
      else if fx_instructionIndex left \<noteq> fx_instructionIndex right
        then fx_instructionIndex left - fx_instructionIndex right
      else let leftInner = (case fx_innerInstructionIndex left of None \<Rightarrow> - 1 | Some i \<Rightarrow> i);
               rightInner = (case fx_innerInstructionIndex right of None \<Rightarrow> - 1 | Some i \<Rightarrow> i)
           in if leftInner \<noteq> rightInner then leftInner - rightInner
              else if fx_eventId left = fx_eventId right then 0
              else if fx_eventId left > fx_eventId right then 1 else - 1)"

definition lastExternalTrade :: "string \<Rightarrow> fast_exit_trade list \<Rightarrow> fast_exit_trade option" where
  "lastExternalTrade wallet trades = foldl (\<lambda>last trade.
     if fx_trader trade = Some wallet \<or> fx_baseAmountRaw trade \<le> 0 then last
     else case last of None \<Rightarrow> Some trade | Some l \<Rightarrow> if compareCursor trade l > 0 then Some trade else last) None trades"

definition externalBuyers :: "fast_exit_policy \<Rightarrow> fast_exit_facts \<Rightarrow> fast_exit_trade list \<Rightarrow> string list" where
  "externalBuyers rules input trades = remdups (map (\<lambda>t. the (fx_trader t)) (filter (\<lambda>t.
     \<not> (fx_kind t \<noteq> BUY \<or> fx_trader t = None \<or> fx_trader t = fx_creator input
        \<or> fx_trader t = Some (fx_walletPublicKey input) \<or> fx_quoteAmountRaw t < externalMinimumBuyRaw rules)) trades))"

definition exitRules :: "fast_exit_policy \<Rightarrow> fast_exit_facts \<Rightarrow> fast_exit_reason option" where
  "exitRules rules input = (case fx_trades input of
     None \<Rightarrow> None
   | Some trades \<Rightarrow>
       if fx_creator input \<noteq> None
         \<and> list_ex (\<lambda>t. fx_kind t = SELL \<and> fx_trader t = fx_creator input) trades then Some CREATOR_SOLD
       else if fx_quoteCostRaw input > 0
         \<and> (case lastExternalTrade (fx_walletPublicKey input) trades of None \<Rightarrow> False
            | Some l \<Rightarrow> fx_remainingBaseRaw input * fx_quoteAmountRaw l * 10000
                \<ge> fx_quoteCostRaw input * takeProfitBps rules * fx_baseAmountRaw l) then Some TAKE_PROFIT
       else if int (length (externalBuyers rules input trades)) \<ge> externalBuyersTarget rules then Some EXTERNAL_BUYERS
       else None)"

text \<open>\<open>None\<close> is the thrown error, \<open>Some None\<close> no early exit.\<close>

definition decideFastExit :: "js \<Rightarrow> js \<Rightarrow> fast_exit_reason option option" where
  "decideFastExit facts policy = do {
     rules \<leftarrow> exitPolicyFrom policy;
     record \<leftarrow> exactFrozenRecord FACT_KEYS facts;
     envelopeState \<leftarrow> string_matching (\<lambda>s. s \<in> set ENVELOPE_STATES) (fld record ''envelopeState'');
     (if envelopeState = ''REVOKED'' then Some (Some ENVELOPE_REVOKED)
      else do {
        input \<leftarrow> factsFrom record envelopeState;
        Some (exitRules rules input)
      })
   }"

subsection \<open>Logical keys\<close>

definition is_position_id :: "string \<Rightarrow> bool" where
  "is_position_id s = is_prefixed_hex64 ''execution_live_position_'' s"

definition fastExitLogicalCommandId :: "js \<Rightarrow> js \<Rightarrow> string option" where
  "fastExitLogicalCommandId reason positionId = do {
     r \<leftarrow> enumValue FAST_EXIT_REASONS reason;
     p \<leftarrow> string_matching is_position_id positionId;
     Some (''fast-exit:'' @ literal_of FAST_EXIT_REASONS r @ '':'' @ p)
   }"

definition strip_prefix :: "string \<Rightarrow> string \<Rightarrow> string option" where
  "strip_prefix p s = (if take (length p) s = p then Some (drop (length p) s) else None)"

definition is_reason_char :: "char \<Rightarrow> bool" where
  "is_reason_char c = (65 \<le> code_unit c \<and> code_unit c \<le> 90 \<or> c = CHR ''_'')"

text \<open>The groups of \<open>LOGICAL_KEY_PATTERN\<close>: the text before the position, the reason group, the
  position, and the retry group. Every part ends at a character its class excludes or has a fixed
  length, so the match is unique.\<close>

definition matchHead :: "string \<Rightarrow> (string \<times> string option \<times> string) option" where
  "matchHead s = (case strip_prefix ''maximum-holding:'' s of
     Some rest \<Rightarrow> Some (''maximum-holding:'', None, rest)
   | None \<Rightarrow> do {
       rest \<leftarrow> strip_prefix ''fast-exit:'' s;
       (let reason = takeWhile is_reason_char rest in
        if reason = [] then None
        else do {
          rest' \<leftarrow> strip_prefix '':'' (dropWhile is_reason_char rest);
          Some (''fast-exit:'' @ reason @ '':'', Some reason, rest')
        })
     })"

definition matchRetry :: "string \<Rightarrow> string option option" where
  "matchRetry s = (if s = [] then Some None
     else do {
       digits \<leftarrow> strip_prefix '':retry-'' s;
       (if digits \<noteq> [] \<and> list_all is_digit digits \<and> hd digits \<noteq> CHR ''0'' then Some (Some digits) else None)
     })"

definition matchLogicalKey :: "string \<Rightarrow> (string \<times> string option \<times> string option) option" where
  "matchLogicalKey s = do {
     (prefix, reason, rest) \<leftarrow> matchHead s;
     (let position = take 88 rest in
      if \<not> is_position_id position then None
      else do {
        retry \<leftarrow> matchRetry (drop 88 rest);
        Some (prefix @ position, reason, retry)
      })
   }"

definition parseLogicalKey :: "js \<Rightarrow> (string \<times> exit_reason \<times> nat) option" where
  "parseLogicalKey key = (case key of
     JStr s \<Rightarrow>
       if length s > 256 then None
       else do {
         (keyRoot, reasonText, retryText) \<leftarrow> matchLogicalKey s;
         (let retry = (case retryText of None \<Rightarrow> 0 | Some ds \<Rightarrow> dec_value ds 0) in
          if retry > MAXIMUM_RE_EXITS then None
          else case reasonText of
            None \<Rightarrow> Some (keyRoot, DEADLINE, retry)
          | Some r \<Rightarrow> (case map_of FAST_EXIT_REASONS r of
              None \<Rightarrow> None | Some reason \<Rightarrow> Some (keyRoot, FastReason reason, retry)))
       }
   | _ \<Rightarrow> None)"

definition exitReasonOfLogicalKey :: "js \<Rightarrow> exit_reason option" where
  "exitReasonOfLogicalKey key = map_option (\<lambda>(_, reason, _). reason) (parseLogicalKey key)"

definition reExitLogicalCommandId :: "js \<Rightarrow> string option" where
  "reExitLogicalCommandId key = (case parseLogicalKey key of
     None \<Rightarrow> None
   | Some (keyRoot, _, retry) \<Rightarrow>
       if retry + 1 > MAXIMUM_RE_EXITS then None else Some (keyRoot @ '':retry-'' @ dec_nat (retry + 1)))"

text \<open>\<open>REEXIT_ELIGIBLE_LOGICAL_KEY_SQL_PATTERN\<close>, the pattern the repository's query uses: a known
  exit of one position with no retry, or retry 1 or 2.\<close>

definition reExitEligibleSqlPattern :: "string \<Rightarrow> bool" where
  "reExitEligibleSqlPattern s =
     list_ex (\<lambda>prefix. case strip_prefix (prefix @ '':'') s of None \<Rightarrow> False
       | Some rest \<Rightarrow> is_position_id (take 88 rest) \<and> drop 88 rest \<in> {[], '':retry-1'', '':retry-2''})
     (''maximum-holding'' # map (\<lambda>(r, _). ''fast-exit:'' @ r) FAST_EXIT_REASONS)"

subsection \<open>Trades are totally ordered by position\<close>

text \<open>What \<open>compareCursor\<close> looks at.\<close>

record trade_key =
  tk_slot :: int
  tk_transactionIndex :: int
  tk_instructionIndex :: int
  tk_inner :: "int option"
  tk_eventId :: string

definition tradeKey :: "fast_exit_trade \<Rightarrow> trade_key" where
  "tradeKey t = \<lparr>tk_slot = fx_slot t, tk_transactionIndex = fx_transactionIndex t,
     tk_instructionIndex = fx_instructionIndex t, tk_inner = fx_innerInstructionIndex t, tk_eventId = fx_eventId t\<rparr>"

definition keyTrade :: "trade_key \<Rightarrow> fast_exit_trade" where
  "keyTrade k = \<lparr>fx_eventId = tk_eventId k, fx_kind = BUY, fx_trader = None, fx_baseAmountRaw = 0, fx_quoteAmountRaw = 0,
     fx_slot = tk_slot k, fx_transactionIndex = tk_transactionIndex k, fx_instructionIndex = tk_instructionIndex k,
     fx_innerInstructionIndex = tk_inner k\<rparr>"

definition keyOrder :: "trade_key \<Rightarrow> trade_key \<Rightarrow> int" where
  "keyOrder a b = compareCursor (keyTrade a) (keyTrade b)"

definition validKey :: "trade_key \<Rightarrow> bool" where
  "validKey k = (case tk_inner k of None \<Rightarrow> True | Some i \<Rightarrow> 0 \<le> i)"

lemma compareCursor_key: "compareCursor a b = keyOrder (tradeKey a) (tradeKey b)"
  by (simp add: keyOrder_def compareCursor_def tradeKey_def keyTrade_def)

abbreviation innerRank :: "trade_key \<Rightarrow> int" where
  "innerRank k \<equiv> (case tk_inner k of None \<Rightarrow> - 1 | Some i \<Rightarrow> i)"

lemma keyOrder_less:
  "keyOrder a b < 0 \<longleftrightarrow> tk_slot a < tk_slot b \<or> tk_slot a = tk_slot b \<and>
     (tk_transactionIndex a < tk_transactionIndex b \<or> tk_transactionIndex a = tk_transactionIndex b \<and>
       (tk_instructionIndex a < tk_instructionIndex b \<or> tk_instructionIndex a = tk_instructionIndex b \<and>
         (innerRank a < innerRank b \<or> innerRank a = innerRank b \<and> tk_eventId a < tk_eventId b)))"
  by (auto simp: keyOrder_def compareCursor_def keyTrade_def Let_def)

lemma keyOrder_greater: "keyOrder a b > 0 \<longleftrightarrow> keyOrder b a < 0"
  unfolding keyOrder_less by (auto simp: keyOrder_def compareCursor_def keyTrade_def Let_def)

lemma keyOrder_zero: "validKey a \<Longrightarrow> validKey b \<Longrightarrow> keyOrder a b = 0 \<longleftrightarrow> a = b"
  by (cases a; cases b)
     (auto simp: keyOrder_def compareCursor_def keyTrade_def Let_def validKey_def split: option.splits)

interpretation trade_position: three_way_order keyOrder validKey
proof unfold_locales
  show "keyOrder a b = 0 \<longleftrightarrow> a = b" if "validKey a" "validKey b" for a b using that by (rule keyOrder_zero)
  show "keyOrder a b < 0 \<longleftrightarrow> keyOrder b a > 0" for a b by (simp add: keyOrder_greater)
  show "keyOrder a c < 0" if "keyOrder a b < 0" "keyOrder b c < 0" for a b c
    using that unfolding keyOrder_less by (elim disjE conjE) auto
qed

definition validTrade :: "fast_exit_trade \<Rightarrow> bool" where
  "validTrade t = (validKey (tradeKey t) \<and> 0 \<le> fx_baseAmountRaw t \<and> 0 \<le> fx_quoteAmountRaw t)"

definition eligible :: "string \<Rightarrow> fast_exit_trade \<Rightarrow> bool" where
  "eligible wallet t = (fx_trader t \<noteq> Some wallet \<and> fx_baseAmountRaw t > 0)"

lemma lastExternalTrade_snoc:
  "lastExternalTrade w (ts @ [t]) =
     (if \<not> eligible w t then lastExternalTrade w ts
      else case lastExternalTrade w ts of None \<Rightarrow> Some t
        | Some l \<Rightarrow> if keyOrder (tradeKey l) (tradeKey t) < 0 then Some t else Some l)"
  by (auto simp: lastExternalTrade_def eligible_def compareCursor_key keyOrder_greater split: option.split)

lemma lastExternalTrade_spec:
  "list_all validTrade ts \<Longrightarrow> (case lastExternalTrade w ts of
     None \<Rightarrow> \<forall>t \<in> set ts. \<not> eligible w t
   | Some l \<Rightarrow> l \<in> set ts \<and> eligible w l
       \<and> (\<forall>t \<in> set ts. eligible w t \<longrightarrow> \<not> keyOrder (tradeKey l) (tradeKey t) < 0))"
proof (induction ts rule: rev_induct)
  case Nil
  then show ?case by (simp add: lastExternalTrade_def)
next
  case (snoc t ts)
  show ?case
  proof (cases "eligible w t")
    case False
    with snoc show ?thesis by (auto simp: lastExternalTrade_snoc split: option.splits)
  next
    case True
    show ?thesis
    proof (cases "lastExternalTrade w ts")
      case None
      with snoc True show ?thesis
        using trade_position.irreflexive [of "tradeKey t"] by (auto simp: lastExternalTrade_snoc validTrade_def)
    next
      case (Some l)
      with snoc have l: "l \<in> set ts" "eligible w l" "\<forall>u \<in> set ts. eligible w u \<longrightarrow> \<not> keyOrder (tradeKey l) (tradeKey u) < 0"
        by simp_all
      have valid: "validKey (tradeKey u)" if "u \<in> set (ts @ [t])" for u
        using snoc.prems that by (auto simp: list_all_iff validTrade_def)
      show ?thesis
      proof (cases "keyOrder (tradeKey l) (tradeKey t) < 0")
        case True
        have "\<not> keyOrder (tradeKey t) (tradeKey u) < 0" if "u \<in> set (ts @ [t])" "eligible w u" for u
          using that l True valid trade_position.irreflexive [of "tradeKey t"]
            trade_position.cmp_trans [of "tradeKey l" "tradeKey t" "tradeKey u"] by auto
        with True \<open>eligible w t\<close> Some show ?thesis by (simp add: lastExternalTrade_snoc)
      next
        case False
        with l \<open>eligible w t\<close> Some show ?thesis by (simp add: lastExternalTrade_snoc)
      qed
    qed
  qed
qed

lemma lastExternalTrade_set_cong:
  assumes "list_all validTrade xs" and "set xs = set ys" and "inj_on tradeKey (set xs)"
  shows "lastExternalTrade w xs = lastExternalTrade w ys"
proof -
  have valid: "list_all validTrade ys" using assms(1,2) by (simp add: list_all_iff)
  note x = lastExternalTrade_spec [OF assms(1), of w] and y = lastExternalTrade_spec [OF valid, of w]
  show ?thesis
  proof (cases "lastExternalTrade w xs")
    case None
    with x y assms(2) show ?thesis by (auto split: option.splits)
  next
    case (Some l)
    with x y assms(2) obtain m where m: "lastExternalTrade w ys = Some m" by (cases "lastExternalTrade w ys") auto
    have "l \<in> set xs" "m \<in> set xs" "\<not> keyOrder (tradeKey l) (tradeKey m) < 0" "\<not> keyOrder (tradeKey m) (tradeKey l) < 0"
      using x y Some m assms(2) by auto
    then have "tradeKey l = tradeKey m"
      using trade_position.total [of "tradeKey l" "tradeKey m"] assms(1) by (auto simp: list_all_iff validTrade_def)
    with assms(3) \<open>l \<in> set xs\<close> \<open>m \<in> set xs\<close> show ?thesis using Some m by (auto dest: inj_onD)
  qed
qed

lemma nullable_index: "nullable index_field v = Some x \<Longrightarrow> case x of None \<Rightarrow> True | Some i \<Rightarrow> 0 \<le> i"
  by (cases x) (auto simp: nullable_def index_field_def field_iffs split: if_splits)

lemma tradeFrom_valid: "tradeFrom v = Some t \<Longrightarrow> validTrade t"
  unfolding tradeFrom_def result_simps validTrade_def validKey_def tradeKey_def
  apply (elim exE conjE)
  apply (drule nullable_index)
  apply (clarsimp simp: field_iffs)
  done

lemma those_map: "those (map f xs) = Some ys \<Longrightarrow> list_all2 (\<lambda>x y. f x = Some y) xs ys"
  by (induction xs arbitrary: ys) (auto split: option.splits)

lemma tradesFrom_valid:
  assumes "tradesFrom v = Some ts"
  shows "list_all validTrade ts"
proof -
  obtain es where "those (map (\<lambda>e. case e of Some (DataProp _ x) \<Rightarrow> tradeFrom x | _ \<Rightarrow> None) es) = Some ts"
    using assms by (auto simp: tradesFrom_def split: js.splits if_splits)
  from those_map [OF this] show ?thesis
    by (induction rule: list_all2_induct)
       (auto split: option.splits js_prop.splits dest: tradeFrom_valid)
qed

lemma exitPolicyFrom_valid:
  "exitPolicyFrom v = Some p \<Longrightarrow> 10001 \<le> takeProfitBps p \<and> 1 \<le> externalBuyersTarget p \<and> 1 \<le> externalMinimumBuyRaw p"
  unfolding exitPolicyFrom_def result_simps by (auto simp: field_iffs split: if_splits)

lemma factsFrom_valid:
  "factsFrom r s = Some f \<Longrightarrow> 0 \<le> fx_remainingBaseRaw f \<and> 0 \<le> fx_quoteCostRaw f
     \<and> (case fx_trades f of None \<Rightarrow> True | Some ts \<Rightarrow> list_all validTrade ts)"
  unfolding factsFrom_def result_simps
  by (auto simp: field_iffs dest: tradesFrom_valid split: option.split)

subsection \<open>Properties of the decision\<close>

text \<open>What each rule asks of the trades seen. Prices and proceeds are rational numbers here, and a place on the chain
  is slot, transaction, instruction and inner instruction, compared in this order.\<close>

definition creator_sold :: "fast_exit_facts \<Rightarrow> fast_exit_trade list \<Rightarrow> bool" where
  "creator_sold f ts = (\<exists>t \<in> set ts. fx_kind t = SELL \<and> fx_trader t \<noteq> None \<and> fx_trader t = fx_creator f)"

definition chain_place :: "fast_exit_trade \<Rightarrow> int list" where
  "chain_place t = [fx_slot t, fx_transactionIndex t, fx_instructionIndex t,
     (case fx_innerInstructionIndex t of None \<Rightarrow> - 1 | Some i \<Rightarrow> i)]"

definition latest_external :: "fast_exit_facts \<Rightarrow> fast_exit_trade list \<Rightarrow> fast_exit_trade \<Rightarrow> bool" where
  "latest_external f ts t = (t \<in> set ts \<and> eligible (fx_walletPublicKey f) t
     \<and> (\<forall>u \<in> set ts. eligible (fx_walletPublicKey f) u \<longrightarrow> chain_place u \<le> chain_place t))"

definition reaches_target :: "fast_exit_policy \<Rightarrow> fast_exit_facts \<Rightarrow> fast_exit_trade \<Rightarrow> bool" where
  "reaches_target p f t = (0 < fx_quoteCostRaw f
     \<and> of_int (fx_quoteCostRaw f) * (of_int (takeProfitBps p) / 10000)
       \<le> (of_int (fx_remainingBaseRaw f) * (of_int (fx_quoteAmountRaw t) / of_int (fx_baseAmountRaw t)) :: rat))"

definition buyers_reached :: "fast_exit_policy \<Rightarrow> fast_exit_facts \<Rightarrow> fast_exit_trade list \<Rightarrow> bool" where
  "buyers_reached p f ts = (externalBuyersTarget p \<le> int (card {w. w \<noteq> fx_walletPublicKey f \<and> Some w \<noteq> fx_creator f
     \<and> (\<exists>t \<in> set ts. fx_kind t = BUY \<and> fx_trader t = Some w \<and> externalMinimumBuyRaw p \<le> fx_quoteAmountRaw t)}))"

lemma latest_external_spec:
  assumes "list_all validTrade ts"
  shows "case lastExternalTrade (fx_walletPublicKey f) ts of
      None \<Rightarrow> \<forall>t. \<not> latest_external f ts t | Some l \<Rightarrow> latest_external f ts l"
proof -
  have "chain_place u \<le> chain_place l" if "\<not> keyOrder (tradeKey l) (tradeKey u) < 0" for l u
    using that unfolding keyOrder_less by (auto simp: chain_place_def tradeKey_def le_less)
  then show ?thesis
    using lastExternalTrade_spec [OF assms, of "fx_walletPublicKey f"]
    by (auto simp: latest_external_def split: option.splits)
qed

lemma reaches_target_iff:
  assumes "0 < fx_baseAmountRaw t" and "0 < fx_quoteCostRaw f"
  shows "fx_remainingBaseRaw f * fx_quoteAmountRaw t * 10000 \<ge> fx_quoteCostRaw f * takeProfitBps p * fx_baseAmountRaw t
    \<longleftrightarrow> reaches_target p f t"
proof -
  have "fx_quoteCostRaw f * takeProfitBps p * fx_baseAmountRaw t \<le> fx_remainingBaseRaw f * fx_quoteAmountRaw t * 10000
    \<longleftrightarrow> (of_int (fx_quoteCostRaw f * takeProfitBps p * fx_baseAmountRaw t) :: rat) \<le> of_int (fx_remainingBaseRaw f * fx_quoteAmountRaw t * 10000)"
    by (rule of_int_le_iff [symmetric])
  also have "\<dots> \<longleftrightarrow> reaches_target p f t" using assms by (simp add: reaches_target_def field_simps)
  finally show ?thesis .
qed

lemma externalBuyers_reached: "int (length (externalBuyers p f ts)) \<ge> externalBuyersTarget p \<longleftrightarrow> buyers_reached p f ts"
proof -
  have "set (externalBuyers p f ts) = {w. w \<noteq> fx_walletPublicKey f \<and> Some w \<noteq> fx_creator f
      \<and> (\<exists>t \<in> set ts. fx_kind t = BUY \<and> fx_trader t = Some w \<and> externalMinimumBuyRaw p \<le> fx_quoteAmountRaw t)}"
    by (force simp: externalBuyers_def)
  moreover have "length (externalBuyers p f ts) = card (set (externalBuyers p f ts))"
    by (simp add: externalBuyers_def length_remdups_card_conv)
  ultimately show ?thesis by (simp add: buyers_reached_def)
qed

lemma creator_sold_iff:
  "fx_creator f \<noteq> None \<and> list_ex (\<lambda>t. fx_kind t = SELL \<and> fx_trader t = fx_creator f) ts \<longleftrightarrow> creator_sold f ts"
  by (cases "fx_creator f") (auto simp: creator_sold_def list_ex_iff)

lemma exitRules_spec:
  assumes "fx_trades f = Some ts" and "list_all validTrade ts"
  shows "(exitRules p f = Some CREATOR_SOLD \<longleftrightarrow> creator_sold f ts)
    \<and> (exitRules p f = Some TAKE_PROFIT \<longrightarrow> (\<exists>t. latest_external f ts t \<and> reaches_target p f t))
    \<and> (exitRules p f = Some EXTERNAL_BUYERS \<longrightarrow> buyers_reached p f ts)
    \<and> (exitRules p f = None \<longrightarrow> \<not> buyers_reached p f ts)
    \<and> (exitRules p f \<in> {None, Some EXTERNAL_BUYERS} \<longrightarrow>
        (\<forall>t. \<not> latest_external f ts t) \<or> (\<exists>t. latest_external f ts t \<and> \<not> reaches_target p f t))
    \<and> exitRules p f \<noteq> Some ENVELOPE_REVOKED"
proof -
  let ?last = "lastExternalTrade (fx_walletPublicKey f) ts"
  have rules: "exitRules p f = (if creator_sold f ts then Some CREATOR_SOLD
      else if fx_quoteCostRaw f > 0 \<and> (case ?last of None \<Rightarrow> False
         | Some l \<Rightarrow> fx_remainingBaseRaw f * fx_quoteAmountRaw l * 10000 \<ge> fx_quoteCostRaw f * takeProfitBps p * fx_baseAmountRaw l)
      then Some TAKE_PROFIT
      else if buyers_reached p f ts then Some EXTERNAL_BUYERS else None)"
    unfolding exitRules_def assms(1) option.case creator_sold_iff externalBuyers_reached ..
  show ?thesis
  proof (cases ?last)
    case None
    then show ?thesis using latest_external_spec [OF assms(2), of f] by (simp add: rules)
  next
    case (Some l)
    then have l: "latest_external f ts l" using latest_external_spec [OF assms(2), of f] by simp
    then have "0 < fx_baseAmountRaw l" by (simp add: latest_external_def eligible_def)
    from reaches_target_iff [OF this, of f p] l show ?thesis
      by (cases "fx_quoteCostRaw f > 0") (auto simp: rules Some reaches_target_def [of p f])
  qed
qed

text \<open>
  C32. Early exits are justified by what the chain shows, and none is missed. ENVELOPE_REVOKED is returned exactly
  for a revoked envelope. Otherwise, when the trades can be read: CREATOR_SOLD is returned exactly
  when a sell by the known creator was seen; TAKE_PROFIT only when selling everything at the price of the
  latest trade of someone else brings in at least the configured multiple of the cost; EXTERNAL_BUYERS
  only when at least the target number of distinct buyers, neither the creator nor the wallet itself, bought for
  at least the minimum. A position is kept only when none of this holds, where of several latest trades at one place
  of the chain one is looked at; when the trades cannot be read it is kept.
\<close>

theorem fast_exit_justified:
  assumes "decideFastExit facts policy = Some d" and "exitPolicyFrom policy = Some p"
    and "exactFrozenRecord FACT_KEYS facts = Some r"
  shows "(d = Some ENVELOPE_REVOKED \<longleftrightarrow> fld r ''envelopeState'' = JStr ''REVOKED'')
    \<and> (d \<noteq> Some ENVELOPE_REVOKED \<longrightarrow> (\<exists>s f. factsFrom r s = Some f \<and> (case fx_trades f of
          None \<Rightarrow> d = None
        | Some ts \<Rightarrow> (d = Some CREATOR_SOLD \<longleftrightarrow> creator_sold f ts)
            \<and> (d = Some TAKE_PROFIT \<longrightarrow> (\<exists>t. latest_external f ts t \<and> reaches_target p f t))
            \<and> (d = Some EXTERNAL_BUYERS \<longrightarrow> buyers_reached p f ts)
            \<and> (d = None \<longrightarrow> \<not> buyers_reached p f ts)
            \<and> (d \<in> {None, Some EXTERNAL_BUYERS} \<longrightarrow>
                (\<forall>t. \<not> latest_external f ts t) \<or> (\<exists>t. latest_external f ts t \<and> \<not> reaches_target p f t)))))"
proof -
  obtain s where s: "fld r ''envelopeState'' = JStr s"
    and decision: "(if s = ''REVOKED'' then Some (Some ENVELOPE_REVOKED)
      else factsFrom r s \<bind> (\<lambda>f. Some (exitRules p f))) = Some d"
    using assms unfolding decideFastExit_def result_simps by (auto simp: string_matching_def split: js.splits if_splits)
  show ?thesis
  proof (cases "s = ''REVOKED''")
    case True
    then show ?thesis using s decision by simp
  next
    case False
    then obtain f where f: "factsFrom r s = Some f" "d = exitRules p f" using decision by (auto simp: bind_eq_Some_conv)
    have trades: "case fx_trades f of None \<Rightarrow> True | Some ts \<Rightarrow> list_all validTrade ts" using factsFrom_valid [OF f(1)] by blast
    show ?thesis
    proof (cases "fx_trades f")
      case None
      then have "d = None" by (simp add: f(2) exitRules_def)
      with None f(1) s False show ?thesis by (intro conjI impI exI [of _ s] exI [of _ f]) simp_all
    next
      case (Some ts)
      with trades have "list_all validTrade ts" by simp
      note spec = exitRules_spec [OF Some this, of p, folded f(2)]
      then have "d \<noteq> Some ENVELOPE_REVOKED" by blast
      moreover have "fld r ''envelopeState'' \<noteq> JStr ''REVOKED''" using s False by simp
      ultimately show ?thesis using spec f(1) Some by (intro conjI impI exI [of _ s] exI [of _ f]) simp_all
    qed
  qed
qed

text \<open>
  C33. The decision does not depend on the order in which trades were read: two validated fact sets
  that differ only in the order or repetition of trades, no two of which share a position and
  event, get the same answer.
\<close>

theorem fast_exit_order_independent:
  assumes "list_all validTrade xs" and "set xs = set ys" and "inj_on tradeKey (set xs)"
  shows "exitRules p (f\<lparr>fx_trades := Some xs\<rparr>) = exitRules p (f\<lparr>fx_trades := Some ys\<rparr>)"
proof -
  have rules: "exitRules p (f\<lparr>fx_trades := Some ts\<rparr>) =
      (if fx_creator f \<noteq> None \<and> list_ex (\<lambda>t. fx_kind t = SELL \<and> fx_trader t = fx_creator f) ts then Some CREATOR_SOLD
       else if fx_quoteCostRaw f > 0 \<and> (case lastExternalTrade (fx_walletPublicKey f) ts of None \<Rightarrow> False
            | Some l \<Rightarrow> fx_remainingBaseRaw f * fx_quoteAmountRaw l * 10000
                \<ge> fx_quoteCostRaw f * takeProfitBps p * fx_baseAmountRaw l) then Some TAKE_PROFIT
       else if int (length (externalBuyers p f ts)) \<ge> externalBuyersTarget p then Some EXTERNAL_BUYERS
       else None)" for ts
    by (cases f) (simp only: exitRules_def externalBuyers_def fast_exit_facts.select_convs fast_exit_facts.update_convs option.case)
  have "list_ex (\<lambda>t. fx_kind t = SELL \<and> fx_trader t = fx_creator f) xs
      = list_ex (\<lambda>t. fx_kind t = SELL \<and> fx_trader t = fx_creator f) ys"
    using assms(2) by (simp only: list_ex_iff)
  moreover have "length (externalBuyers p f xs) = length (externalBuyers p f ys)"
    using assms(2) by (simp add: externalBuyers_def length_remdups_card_conv)
  moreover note lastExternalTrade_set_cong [OF assms, of "fx_walletPublicKey f"]
  ultimately show ?thesis by (simp only: rules)
qed

text \<open>
  C34. A revoked envelope always exits: with a valid policy and the six expected fields, the answer
  is ENVELOPE_REVOKED however malformed the wallet, the amounts, the creator and the trades are. The
  comment above \<open>decideFastExit\<close> says that a malformed wallet or amount throws; for a revoked
  envelope the code returns before it reads them.
\<close>

theorem revoked_envelope_always_exits:
  assumes "exitPolicyFrom policy = Some p" and "exactFrozenRecord FACT_KEYS facts = Some r"
    and "fld r ''envelopeState'' = JStr ''REVOKED''"
  shows "decideFastExit facts policy = Some (Some ENVELOPE_REVOKED)"
  using assms by (simp add: decideFastExit_def string_matching_def ENVELOPE_STATES_def)

subsection \<open>Logical keys: parsing and printing\<close>

definition rootText :: "exit_reason \<Rightarrow> string \<Rightarrow> string" where
  "rootText reason position = (case reason of
     DEADLINE \<Rightarrow> ''maximum-holding:'' @ position
   | FastReason r \<Rightarrow> ''fast-exit:'' @ literal_of FAST_EXIT_REASONS r @ '':'' @ position)"

definition keyText :: "exit_reason \<Rightarrow> string \<Rightarrow> nat \<Rightarrow> string" where
  "keyText reason position retry = rootText reason position @ (if retry = 0 then [] else '':retry-'' @ dec_nat retry)"

lemma strip_prefix_append [simp]: "strip_prefix p (p @ s) = Some s"
  by (simp add: strip_prefix_def)

lemma strip_prefix_Some: "strip_prefix p s = Some t \<longleftrightarrow> s = p @ t"
  by (auto simp: strip_prefix_def) (metis append_take_drop_id)

lemma position_length: "is_position_id p \<Longrightarrow> length p = 88"
proof -
  assume "is_position_id p"
  then have "length (take 24 p) = 24" "length (drop 24 p) = 64"
    by (auto simp: is_position_id_def is_prefixed_hex64_def is_hex64_def)
  then show ?thesis by simp
qed

lemma reason_text:
  "list_all is_reason_char (literal_of FAST_EXIT_REASONS r) \<and> literal_of FAST_EXIT_REASONS r \<noteq> []
   \<and> map_of FAST_EXIT_REASONS (literal_of FAST_EXIT_REASONS r) = Some r \<and> length (literal_of FAST_EXIT_REASONS r) \<le> 16"
  by (cases r) (simp_all add: literal_of_def FAST_EXIT_REASONS_def is_reason_char_def code_unit_def)

lemma takeWhile_reason:
  "list_all is_reason_char xs \<Longrightarrow> takeWhile is_reason_char (xs @ '':'' @ ys) = xs
     \<and> dropWhile is_reason_char (xs @ '':'' @ ys) = '':'' @ ys"
  by (induction xs) (auto simp: is_reason_char_def code_unit_def)

lemma matchHead_deadline: "matchHead (''maximum-holding:'' @ rest) = Some (''maximum-holding:'', None, rest)"
  by (simp add: matchHead_def del: append_Cons)

lemma matchHead_fast:
  assumes "list_all is_reason_char r" and "r \<noteq> []"
  shows "matchHead (''fast-exit:'' @ r @ '':'' @ rest) = Some (''fast-exit:'' @ r @ '':'', Some r, rest)"
proof -
  have "strip_prefix ''maximum-holding:'' (''fast-exit:'' @ s) = None" for s
    by (simp add: strip_prefix_def)
  then show ?thesis
    using takeWhile_reason [OF assms(1), of rest] assms(2) unfolding matchHead_def
    by (simp add: Let_def del: append_Cons append.simps)
qed

lemma matchHead_Some:
  assumes "matchHead s = Some (prefix, reason, rest)"
  shows "s = prefix @ rest \<and> (case reason of None \<Rightarrow> prefix = ''maximum-holding:''
    | Some r \<Rightarrow> prefix = ''fast-exit:'' @ r @ '':'')"
proof (cases "strip_prefix ''maximum-holding:'' s")
  case (Some rest')
  with assms show ?thesis by (auto simp: matchHead_def strip_prefix_Some)
next
  case None
  with assms obtain t u where t: "strip_prefix ''fast-exit:'' s = Some t" "strip_prefix '':'' (dropWhile is_reason_char t) = Some u"
    and out: "prefix = ''fast-exit:'' @ takeWhile is_reason_char t @ '':''" "reason = Some (takeWhile is_reason_char t)" "rest = u"
    by (auto simp: matchHead_def Let_def result_simps split: if_splits)
  define w where "w = takeWhile is_reason_char t"
  have "t = w @ dropWhile is_reason_char t" by (simp add: w_def)
  also have "dropWhile is_reason_char t = '':'' @ u" using t(2) by (simp only: strip_prefix_Some)
  finally have "s = ''fast-exit:'' @ w @ '':'' @ u" using t(1) by (simp only: strip_prefix_Some)
  moreover have "prefix = ''fast-exit:'' @ w @ '':''" "reason = Some w" "rest = u" using out by (simp_all only: w_def)
  ultimately show ?thesis by simp
qed

definition retryText :: "nat \<Rightarrow> string" where
  "retryText n = (if n = 0 then [] else '':retry-'' @ dec_nat n)"

lemma dec_nat_digit: "n < 10 \<Longrightarrow> dec_nat n = [dec_digit n]"
  by (simp add: dec_nat.simps)

lemma matchRetry_text:
  assumes "n \<le> 3"
  shows "matchRetry (retryText n) = Some (if n = 0 then None else Some (dec_nat n))"
proof -
  have "matchRetry (retryText 0) = Some None" "matchRetry (retryText 1) = Some (Some (dec_nat 1))"
    "matchRetry (retryText 2) = Some (Some (dec_nat 2))" "matchRetry (retryText 3) = Some (Some (dec_nat 3))"
    by code_simp+
  moreover have "n = 0 \<or> n = 1 \<or> n = 2 \<or> n = 3" using assms by auto
  ultimately show ?thesis by (elim disjE) simp_all
qed

lemma small_digits:
  assumes "list_all is_digit ds" and "ds \<noteq> []" and "hd ds \<noteq> CHR ''0''" and "dec_value ds 0 \<le> 3"
  shows "ds = dec_nat (dec_value ds 0) \<and> dec_value ds 0 \<noteq> 0"
proof -
  obtain c cs where ds: "ds = c # cs" using assms(2) by (cases ds) auto
  have grow: "acc \<le> dec_value xs acc" for xs acc
  proof (induction xs arbitrary: acc)
    case (Cons a xs)
    have "acc \<le> acc * 10 + (code_unit a - 48)" by simp
    with Cons.IH [of "acc * 10 + (code_unit a - 48)"] show ?case by simp
  qed simp
  have digit: "48 \<le> code_unit c" "code_unit c \<le> 57" using assms(1) by (auto simp: ds is_digit_def)
  have "code_unit c \<noteq> 48"
  proof
    assume "code_unit c = 48"
    moreover have "of_char CHR ''0'' = (48 :: nat)" by simp
    ultimately have "(of_char c :: nat) = of_char CHR ''0''" by (simp add: code_unit_def)
    with assms(3) ds show False by (simp only: of_char_eq_iff list.sel)
  qed
  then have pos: "1 \<le> code_unit c - 48" using digit by simp
  have "cs = []"
  proof (rule ccontr)
    assume "cs \<noteq> []"
    then obtain d es where "cs = d # es" by (cases cs) auto
    then have "10 \<le> dec_value ds 0" using grow [of "(code_unit c - 48) * 10 + (code_unit d - 48)" es] pos by (simp add: ds)
    with assms(4) show False by simp
  qed
  moreover have "dec_digit (code_unit c - 48) = c"
    using digit by (simp add: dec_digit_def code_unit_def)
  ultimately show ?thesis using pos digit by (simp add: ds dec_nat_digit)
qed

lemma matchRetry_Some:
  assumes "matchRetry s = Some retry" and "(case retry of None \<Rightarrow> 0 | Some ds \<Rightarrow> dec_value ds 0) \<le> 3"
  shows "s = retryText (case retry of None \<Rightarrow> 0 | Some ds \<Rightarrow> dec_value ds 0)"
proof (cases retry)
  case None
  with assms show ?thesis by (auto simp: matchRetry_def retryText_def result_simps split: if_splits)
next
  case (Some ds)
  with assms(1) have ds: "strip_prefix '':retry-'' s = Some ds" "ds \<noteq> []" "list_all is_digit ds" "hd ds \<noteq> CHR ''0''"
    by (auto simp: matchRetry_def result_simps split: if_splits)
  with small_digits [OF ds(3,2,4)] assms(2) Some show ?thesis
    unfolding strip_prefix_Some retryText_def by simp
qed

lemma keyText_retry: "keyText reason position n = rootText reason position @ retryText n"
  by (simp add: keyText_def retryText_def)

lemma matchLogicalKey_key:
  assumes "is_position_id position" and "n \<le> 3"
  shows "matchLogicalKey (keyText reason position n) = Some (rootText reason position,
     (case reason of DEADLINE \<Rightarrow> None | FastReason r \<Rightarrow> Some (literal_of FAST_EXIT_REASONS r)),
     (if n = 0 then None else Some (dec_nat n)))"
proof -
  have tail: "take 88 (position @ retryText n) = position" "drop 88 (position @ retryText n) = retryText n"
    using position_length [OF assms(1)] by simp_all
  show ?thesis
  proof (cases reason)
    case DEADLINE
    then have "matchHead (keyText reason position n) = Some (''maximum-holding:'', None, position @ retryText n)"
      using matchHead_deadline [of "position @ retryText n"] by (simp add: keyText_retry rootText_def)
    then show ?thesis using DEADLINE tail assms matchRetry_text [OF assms(2)]
      by (simp add: matchLogicalKey_def rootText_def Let_def)
  next
    case (FastReason r)
    then have "matchHead (keyText reason position n)
        = Some (''fast-exit:'' @ literal_of FAST_EXIT_REASONS r @ '':'', Some (literal_of FAST_EXIT_REASONS r), position @ retryText n)"
      using matchHead_fast [of "literal_of FAST_EXIT_REASONS r" "position @ retryText n"] reason_text [of r]
      by (simp add: keyText_retry rootText_def)
    then show ?thesis using FastReason tail assms matchRetry_text [OF assms(2)]
      by (simp add: matchLogicalKey_def rootText_def Let_def)
  qed
qed

lemma keyText_length: "is_position_id position \<Longrightarrow> n \<le> 3 \<Longrightarrow> length (keyText reason position n) \<le> 256"
proof -
  assume p: "is_position_id position" and n: "n \<le> 3"
  have "length (retryText n) \<le> 8" using n by (simp add: retryText_def dec_nat_digit)
  moreover have "length (rootText reason position) \<le> 16 + 11 + 88"
    using position_length [OF p] reason_text by (cases reason) (auto simp: rootText_def)
  ultimately show ?thesis by (simp add: keyText_retry)
qed

lemma parse_keyText:
  assumes "is_position_id position" and "n \<le> 3"
  shows "parseLogicalKey (JStr (keyText reason position n)) = Some (rootText reason position, reason, n)"
  using matchLogicalKey_key [OF assms, of reason] keyText_length [OF assms, of reason] assms(2) reason_text
  by (cases reason) (auto simp: parseLogicalKey_def dec_value_dec_nat)

lemma parse_Some:
  assumes "parseLogicalKey key = Some (keyRoot, reason, n)"
  shows "\<exists>position. is_position_id position \<and> n \<le> 3 \<and> keyRoot = rootText reason position
    \<and> key = JStr (keyText reason position n)"
proof -
  obtain s where key: "key = JStr s" using assms by (auto simp: parseLogicalKey_def split: js.splits)
  then obtain q where q: "matchLogicalKey s = Some q" and rest: "(case q of (keyRoot', rt, ty) \<Rightarrow>
      (let retry = (case ty of None \<Rightarrow> 0 | Some ds \<Rightarrow> dec_value ds 0) in
          if retry > MAXIMUM_RE_EXITS then None
          else case rt of
            None \<Rightarrow> Some (keyRoot', DEADLINE, retry)
          | Some r \<Rightarrow> (case map_of FAST_EXIT_REASONS r of
              None \<Rightarrow> None | Some x \<Rightarrow> Some (keyRoot', FastReason x, retry)))) = Some (keyRoot, reason, n)"
    using assms by (auto simp: parseLogicalKey_def result_simps split: if_splits)
  obtain keyRoot' rt ty where qq: "q = (keyRoot', rt, ty)" by (cases q)
  have m: "matchLogicalKey s = Some (keyRoot, rt, ty)"
    and n: "n = (case ty of None \<Rightarrow> 0 | Some ds \<Rightarrow> dec_value ds 0)" "n \<le> 3"
    and r: "case rt of None \<Rightarrow> reason = DEADLINE | Some t \<Rightarrow> \<exists>x. map_of FAST_EXIT_REASONS t = Some x \<and> reason = FastReason x"
    using q rest by (cases rt; auto simp: qq Let_def split: if_splits option.splits)+
  from m obtain prefix rest where head: "matchHead s = Some (prefix, rt, rest)" and pos: "is_position_id (take 88 rest)"
    and ret: "matchRetry (drop 88 rest) = Some ty" and keyRoot: "keyRoot = prefix @ take 88 rest"
    by (auto simp: matchLogicalKey_def Let_def result_simps split: if_splits)
  have retry: "drop 88 rest = retryText n" using matchRetry_Some [OF ret] n by simp
  have "literal_of FAST_EXIT_REASONS x = t" if "map_of FAST_EXIT_REASONS t = Some x" for t x
    using that by (auto simp: FAST_EXIT_REASONS_def literal_of_def split: if_splits)
  then have prefix: "prefix @ take 88 rest = rootText reason (take 88 rest)"
    using matchHead_Some [OF head] r by (auto simp: rootText_def split: option.splits)
  have "s = prefix @ take 88 rest @ drop 88 rest" using matchHead_Some [OF head] by simp
  then have "s = rootText reason (take 88 rest) @ retryText n" using prefix retry by (metis append.assoc)
  then show ?thesis using pos n(2) keyRoot prefix key by (auto simp: keyText_retry)
qed

text \<open>
  The keys of exit orders parse exactly as they print: a text is recognised with a given
  reason and retry number exactly when it is the key of that reason for some live position, at
  most the cap. In particular the key of a fresh exit order is recognised with its own reason.
\<close>

theorem exit_key_round_trip:
  "(parseLogicalKey key = Some (keyRoot, reason, n) \<longleftrightarrow>
      (\<exists>position. is_position_id position \<and> n \<le> 3 \<and> keyRoot = rootText reason position
         \<and> key = JStr (keyText reason position n)))
   \<and> (fastExitLogicalCommandId (JStr r) (JStr p) = Some k \<longrightarrow>
      exitReasonOfLogicalKey (JStr k) = map_option FastReason (map_of FAST_EXIT_REASONS r))"
proof -
  have "exitReasonOfLogicalKey (JStr k) = map_option FastReason (map_of FAST_EXIT_REASONS r)"
    if "fastExitLogicalCommandId (JStr r) (JStr p) = Some k"
  proof -
    from that obtain x where x: "map_of FAST_EXIT_REASONS r = Some x" "is_position_id p" "k = keyText (FastReason x) p 0"
      by (auto simp: fastExitLogicalCommandId_def result_simps enumValue_def field_iffs keyText_def rootText_def)
    with parse_keyText [of p 0 "FastReason x"] show ?thesis by (simp add: exitReasonOfLogicalKey_def)
  qed
  then show ?thesis using parse_Some parse_keyText by blast
qed

subsection \<open>Re-exits\<close>

lemma reExit_keyText:
  assumes "is_position_id position" and "n \<le> 3"
  shows "reExitLogicalCommandId (JStr (keyText reason position n))
     = (if n = 3 then None else Some (keyText reason position (Suc n)))"
  unfolding reExitLogicalCommandId_def parse_keyText [OF assms] using assms(2) by (simp add: keyText_def)

lemma reExit_Some:
  assumes "reExitLogicalCommandId (JStr s) = Some t"
  shows "\<exists>reason position n. is_position_id position \<and> n < 3 \<and> s = keyText reason position n
     \<and> t = keyText reason position (Suc n)"
proof -
  obtain keyRoot reason n where "parseLogicalKey (JStr s) = Some (keyRoot, reason, n)"
    using assms by (auto simp: reExitLogicalCommandId_def split: option.splits)
  from parse_Some [OF this] obtain position
    where p: "is_position_id position" "n \<le> 3" "s = keyText reason position n" by auto
  moreover have "n \<noteq> 3" "t = keyText reason position (Suc n)"
    using assms reExit_keyText [OF p(1,2), of reason] unfolding p(3) by (simp_all split: if_splits)
  ultimately show ?thesis using p(2) by (intro exI conjI) auto
qed

text \<open>The key after a number of re-exits, \<open>None\<close> once one is refused.\<close>

primrec reExitChain :: "nat \<Rightarrow> string \<Rightarrow> string option" where
  "reExitChain 0 key = Some key"
| "reExitChain (Suc i) key = reExitChain i key \<bind> (\<lambda>k. reExitLogicalCommandId (JStr k))"

lemma reExitChain_keyText:
  assumes "is_position_id position" and "n \<le> 3"
  shows "reExitChain i (keyText reason position n)
     = (if n + i \<le> 3 then Some (keyText reason position (n + i)) else None)"
  using assms by (induction i) (auto simp: reExit_keyText)

lemma reExitChain_start:
  "reExitChain (Suc i) s = Some t \<Longrightarrow> \<exists>reason position n. is_position_id position \<and> n \<le> 3 \<and> s = keyText reason position n"
proof (induction i arbitrary: t)
  case 0
  then show ?case using reExit_Some [of s t] by (auto intro: less_imp_le)
next
  case (Suc i)
  then obtain k where "reExitChain (Suc i) s = Some k" by (auto simp: bind_eq_Some_conv)
  with Suc.IH show ?case by blast
qed

text \<open>
  C35. Re-exits are capped: whatever key one starts from, at most three re-exits are granted, each
  with the reason of the first order; and a fresh exit order is granted exactly three.
\<close>

theorem re_exit_capped:
  "(reExitChain i key \<noteq> None \<and> i > 0 \<longrightarrow> i \<le> 3
      \<and> map_option (exitReasonOfLogicalKey \<circ> JStr) (reExitChain i key) = Some (exitReasonOfLogicalKey (JStr key)))
   \<and> (fastExitLogicalCommandId r p = Some key \<longrightarrow> (reExitChain i key \<noteq> None \<longleftrightarrow> i \<le> 3))"
proof -
  have "i \<le> 3 \<and> map_option (exitReasonOfLogicalKey \<circ> JStr) (reExitChain i key) = Some (exitReasonOfLogicalKey (JStr key))"
    if granted: "reExitChain i key = Some t" "i > 0" for t
  proof -
    obtain j where "i = Suc j" using granted(2) by (cases i) auto
    then obtain reason position n where k: "is_position_id position" "n \<le> 3" "key = keyText reason position n"
      using reExitChain_start granted(1) by blast
    then show ?thesis
      using granted(1) reExitChain_keyText [OF k(1,2), of i reason]
      by (auto simp: exitReasonOfLogicalKey_def parse_keyText split: if_splits)
  qed
  moreover have "reExitChain i key \<noteq> None \<longleftrightarrow> i \<le> 3" if fresh: "fastExitLogicalCommandId r p = Some key"
  proof -
    from fresh obtain x q where "is_position_id q" "key = keyText (FastReason x) q 0"
      by (auto simp: fastExitLogicalCommandId_def result_simps field_iffs keyText_def rootText_def)
    with reExitChain_keyText [of q 0 i] show ?thesis by simp
  qed
  ultimately show ?thesis by blast
qed

lemma sql_prefixes:
  "(''maximum-holding'' # map (\<lambda>(r, _). ''fast-exit:'' @ r) FAST_EXIT_REASONS)
     = map (\<lambda>r. butlast (rootText r [])) [DEADLINE, FastReason ENVELOPE_REVOKED, FastReason CREATOR_SOLD,
         FastReason TAKE_PROFIT, FastReason EXTERNAL_BUYERS]"
  by code_simp

lemma rootText_split: "rootText r position = butlast (rootText r []) @ '':'' @ position"
proof (cases r)
  case (FastReason x)
  have "butlast (xs @ [c]) = xs" for xs :: string and c by simp
  from this [of "''fast-exit:'' @ literal_of FAST_EXIT_REASONS x" "CHR '':''"] show ?thesis
    by (simp add: FastReason rootText_def butlast_append)
qed (simp add: rootText_def)

lemma all_reasons: "r \<in> set [DEADLINE, FastReason ENVELOPE_REVOKED, FastReason CREATOR_SOLD, FastReason TAKE_PROFIT, FastReason EXTERNAL_BUYERS]"
proof (cases r)
  case (FastReason x)
  then show ?thesis by (cases x) simp_all
qed simp

lemma retryTexts: "{retryText 0, retryText 1, retryText 2} = {[], '':retry-1'', '':retry-2''}"
proof -
  have "retryText 0 = []" "retryText 1 = '':retry-1''" "retryText 2 = '':retry-2''" by code_simp+
  then show ?thesis by simp
qed

lemma sql_pattern_iff:
  "reExitEligibleSqlPattern s \<longleftrightarrow> (\<exists>reason position n. is_position_id position \<and> n < 3 \<and> s = keyText reason position n)"
proof
  assume "reExitEligibleSqlPattern s"
  then obtain r rest where r: "strip_prefix (butlast (rootText r []) @ '':'') s = Some rest" "is_position_id (take 88 rest)"
    and "drop 88 rest \<in> {[], '':retry-1'', '':retry-2''}"
    unfolding reExitEligibleSqlPattern_def sql_prefixes list_ex_iff set_map
    by (auto split: option.splits simp del: insert_iff)
  then have "drop 88 rest \<in> {retryText 0, retryText 1, retryText 2}" unfolding retryTexts by simp
  then have "drop 88 rest = retryText 0 \<or> drop 88 rest = retryText 1 \<or> drop 88 rest = retryText 2" by simp
  then have "\<exists>n<3. drop 88 rest = retryText n" by (auto intro: exI [of _ 0] exI [of _ 1] exI [of _ 2])
  then obtain n where n: "n < 3" "drop 88 rest = retryText n" by blast
  have "s = butlast (rootText r []) @ '':'' @ take 88 rest @ drop 88 rest"
    using r(1) unfolding strip_prefix_Some by simp
  then have "s = keyText r (take 88 rest) n" by (simp add: keyText_retry rootText_split [of r "take 88 rest"] n)
  with r n show "\<exists>reason position n. is_position_id position \<and> n < 3 \<and> s = keyText reason position n" by blast
next
  assume "\<exists>reason position n. is_position_id position \<and> n < 3 \<and> s = keyText reason position n"
  then obtain r position n where p: "is_position_id position" "n < 3" "s = keyText r position n" by blast
  have s: "s = (butlast (rootText r []) @ '':'') @ position @ retryText n"
    using p(3) rootText_split [of r position] by (simp add: keyText_retry)
  have strip: "strip_prefix (butlast (rootText r []) @ '':'') s = Some (position @ retryText n)"
    unfolding strip_prefix_Some by (rule s)
  have "retryText n \<in> {retryText 0, retryText 1, retryText 2}" using p(2) by (auto simp: less_Suc_eq numeral_3_eq_3 numeral_2_eq_2)
  then show "reExitEligibleSqlPattern s"
    unfolding reExitEligibleSqlPattern_def sql_prefixes list_ex_iff set_map retryTexts [symmetric]
    using all_reasons [of r] strip p(1) position_length [OF p(1)]
    by (intro bexI [of _ "butlast (rootText r [])"]) (auto simp: retryTexts)
qed

text \<open>
  The query and the code agree on what may be re-exited: the pattern the repository puts into
  SQL selects exactly the logical keys for which the code grants another re-exit.
\<close>

theorem sql_pattern_agrees:
  "reExitEligibleSqlPattern s \<longleftrightarrow> reExitLogicalCommandId (JStr s) \<noteq> None"
proof
  assume "reExitEligibleSqlPattern s"
  then show "reExitLogicalCommandId (JStr s) \<noteq> None" unfolding sql_pattern_iff using reExit_keyText by fastforce
next
  assume "reExitLogicalCommandId (JStr s) \<noteq> None"
  then show "reExitEligibleSqlPattern s" unfolding sql_pattern_iff using reExit_Some by blast
qed

subsection \<open>Concrete runs\<close>

definition example_exit_policy :: js where
  "example_exit_policy = frozen_object [(''takeProfitBps'', JBig 15000), (''externalBuyersTarget'', JNum (JInt 3)),
     (''externalMinimumBuyRaw'', JBig 1)]"

definition example_trade_object :: js where
  "example_trade_object = frozen_object [(''eventId'', JStr ''e1''), (''kind'', JStr ''SELL''), (''trader'', JNull),
     (''baseAmountRaw'', JBig 10), (''quoteAmountRaw'', JBig 40), (''slot'', JBig 7), (''transactionIndex'', JNum (JInt 0)),
     (''instructionIndex'', JNum (JInt 1)), (''innerInstructionIndex'', JNull)]"

definition example_facts_record :: "js \<Rightarrow> js_record" where
  "example_facts_record state = [(''envelopeState'', state), (''creator'', JNull),
     (''walletPublicKey'', JStr (replicate 32 CHR ''1'')), (''remainingBaseRaw'', JBig 100), (''quoteCostRaw'', JBig 200),
     (''trades'', JArr False True [Some (DataProp True example_trade_object)])]"

definition example_trade :: fast_exit_trade where
  "example_trade = \<lparr>fx_eventId = ''e1'', fx_kind = SELL, fx_trader = None, fx_baseAmountRaw = 10, fx_quoteAmountRaw = 40,
     fx_slot = 7, fx_transactionIndex = 0, fx_instructionIndex = 1, fx_innerInstructionIndex = None\<rparr>"

definition example_facts :: fast_exit_facts where
  "example_facts = \<lparr>fx_envelopeState = ''ACTIVE'', fx_creator = None, fx_walletPublicKey = replicate 32 CHR ''1'',
     fx_remainingBaseRaw = 100, fx_quoteCostRaw = 200, fx_trades = Some [example_trade]\<rparr>"

definition example_exit_rules :: fast_exit_policy where
  "example_exit_rules = \<lparr>takeProfitBps = 15000, externalBuyersTarget = 3, externalMinimumBuyRaw = 1\<rparr>"

lemma example_trade_read: "tradeFrom example_trade_object = Some example_trade"
  by code_simp

lemma example_wallet_read: "publicKey (JStr (replicate 32 CHR ''1'')) = Some (replicate 32 CHR ''1'')"
  by code_simp

lemma example_facts_read:
  "factsFrom (example_facts_record (JStr ''ACTIVE'')) ''ACTIVE'' = Some example_facts"
proof -
  have "publicKey JNull = None" by code_simp
  moreover have "unsignedBigint (JBig 100) = Some 100" "unsignedBigint (JBig 200) = Some 200" by code_simp+
  moreover have "tradesFrom (JArr False True [Some (DataProp True example_trade_object)]) = Some [example_trade]"
    by (simp add: tradesFrom_def example_trade_read)
  ultimately show ?thesis
    using example_wallet_read by (simp add: factsFrom_def example_facts_record_def fld_def example_facts_def)
qed

lemma example_exit_read:
  "exitPolicyFrom example_exit_policy = Some example_exit_rules"
  "exitRules example_exit_rules example_facts = Some TAKE_PROFIT"
  "exactFrozenRecord FACT_KEYS (frozen_object (example_facts_record (JStr ''REVOKED''))) = Some (example_facts_record (JStr ''REVOKED''))"
  "is_position_id (''execution_live_position_'' @ zero_digest ())"
  by code_simp+

lemma example_exit_decided:
  "exactFrozenRecord FACT_KEYS (frozen_object (example_facts_record (JStr ''ACTIVE''))) = Some (example_facts_record (JStr ''ACTIVE''))"
  "decideFastExit (frozen_object (example_facts_record (JStr ''ACTIVE''))) example_exit_policy = Some (Some TAKE_PROFIT)"
proof -
  show read: "exactFrozenRecord FACT_KEYS (frozen_object (example_facts_record (JStr ''ACTIVE''))) = Some (example_facts_record (JStr ''ACTIVE''))"
    by code_simp
  have "string_matching (\<lambda>s. s \<in> set ENVELOPE_STATES) (fld (example_facts_record (JStr ''ACTIVE'')) ''envelopeState'') = Some ''ACTIVE''"
    by (simp add: example_facts_record_def fld_def string_matching_def ENVELOPE_STATES_def)
  then show "decideFastExit (frozen_object (example_facts_record (JStr ''ACTIVE''))) example_exit_policy = Some (Some TAKE_PROFIT)"
    by (simp add: decideFastExit_def read example_exit_read example_facts_read)
qed

theorem fast_exit_justified_witness:
  "\<exists>s f. factsFrom (example_facts_record (JStr ''ACTIVE'')) s = Some f
     \<and> (case fx_trades f of None \<Rightarrow> False | Some ts \<Rightarrow> \<exists>t. latest_external f ts t \<and> reaches_target example_exit_rules f t)"
  using fast_exit_justified [OF example_exit_decided(2) example_exit_read(1) example_exit_decided(1)]
  by (auto split: option.splits)

theorem fast_exit_order_independent_witness:
  "exitRules example_exit_rules (example_facts\<lparr>fx_trades := Some [example_trade, example_trade\<lparr>fx_slot := 8\<rparr>]\<rparr>)
     = exitRules example_exit_rules (example_facts\<lparr>fx_trades := Some [example_trade\<lparr>fx_slot := 8\<rparr>, example_trade, example_trade]\<rparr>)"
  by (rule fast_exit_order_independent)
     (auto simp: validTrade_def validKey_def tradeKey_def example_trade_def inj_on_def)

theorem revoked_envelope_always_exits_witness:
  "decideFastExit (frozen_object (example_facts_record (JStr ''REVOKED''))) example_exit_policy = Some (Some ENVELOPE_REVOKED)"
  using revoked_envelope_always_exits [OF example_exit_read(1,3)] by (simp add: example_facts_record_def fld_def)

theorem exit_key_round_trip_witness:
  "\<exists>k. fastExitLogicalCommandId (JStr ''TAKE_PROFIT'') (JStr (''execution_live_position_'' @ zero_digest ())) = Some k
     \<and> exitReasonOfLogicalKey (JStr k) = Some (FastReason TAKE_PROFIT)"
proof -
  have "fastExitLogicalCommandId (JStr ''TAKE_PROFIT'') (JStr (''execution_live_position_'' @ zero_digest ()))
      = Some (''fast-exit:TAKE_PROFIT:execution_live_position_'' @ zero_digest ())"
    and "map_of FAST_EXIT_REASONS ''TAKE_PROFIT'' = Some TAKE_PROFIT" by code_simp+
  then show ?thesis using exit_key_round_trip by fastforce
qed

theorem re_exit_capped_witness:
  "\<exists>k. fastExitLogicalCommandId (JStr ''CREATOR_SOLD'') (JStr (''execution_live_position_'' @ zero_digest ())) = Some k
     \<and> reExitChain 3 k \<noteq> None \<and> reExitChain 4 k = None"
proof -
  have "fastExitLogicalCommandId (JStr ''CREATOR_SOLD'') (JStr (''execution_live_position_'' @ zero_digest ()))
      = Some (''fast-exit:CREATOR_SOLD:execution_live_position_'' @ zero_digest ())" by code_simp
  then show ?thesis
    using re_exit_capped [of 3 "''fast-exit:CREATOR_SOLD:execution_live_position_'' @ zero_digest ()"]
      re_exit_capped [of 4 "''fast-exit:CREATOR_SOLD:execution_live_position_'' @ zero_digest ()"] by fastforce
qed

end
