(* ===== verification/Plain_Json.thy ===== *)
theory Plain_Json
  imports Json_Text "HOL-Library.Multiset" "HOL-Library.Finite_Map" "HOL-Library.List_Lexorder" "HOL-Library.Char_ord"
begin

text \<open>
  The JSON helpers of \<open>src/src/utils/json.ts\<close> on plain data: \<open>null\<close>, booleans, safe integers, bigints,
  strings, arrays and objects whose members are own enumerable data properties. A bigint is written
  as an object with one reserved key; an object of that shape in the input is refused, so reading
  back is exact. \<open>canonicalStringifyJson\<close> sorts the members of every object and bounds depth, nodes
  and text. \<open>None\<close> is a thrown error. Values with other shapes (cycles, symbols, accessors, foreign
  prototypes) do not occur in this type; the markers that earlier calls produced and still trust are
  objects, and are not modelled either.
\<close>

subsection \<open>Data\<close>

datatype data =
    DNull
  | DBool bool
  | DInt int
  | DBig int
  | DStr string
  | DArr "data list"
  | DObj "(string \<times> data) list"

definition BIGINT_JSON_MARKER :: string where
  "BIGINT_JSON_MARKER = ''$solTokenListenerBigInt''"

abbreviation MAX_SERIALIZED_BIGINT_DIGITS :: nat where "MAX_SERIALIZED_BIGINT_DIGITS \<equiv> 78"

fun isReservedBigIntMarker :: "data \<Rightarrow> bool" where
  "isReservedBigIntMarker (DObj [(k, v)]) = (k = BIGINT_JSON_MARKER)"
| "isReservedBigIntMarker _ = False"

fun rejectReservedBigIntMarkers :: "data \<Rightarrow> bool" where
  "rejectReservedBigIntMarkers (DArr vs) = list_ex rejectReservedBigIntMarkers vs"
| "rejectReservedBigIntMarkers (DObj ms) =
     (isReservedBigIntMarker (DObj ms) \<or> list_ex (\<lambda>(k, v). rejectReservedBigIntMarkers v) ms)"
| "rejectReservedBigIntMarkers _ = False"

subsection \<open>Writing\<close>

text \<open>\<open>decimal.replace(/^-/, '')\<close>\<close>

definition unsigned_text :: "string \<Rightarrow> string" where
  "unsigned_text s = (case s of c # cs \<Rightarrow> if c = CHR ''-'' then cs else s | [] \<Rightarrow> [])"

definition encodeBigInt :: "int \<Rightarrow> json option" where
  "encodeBigInt n = (let decimal = dec_int n in
     if length (unsigned_text decimal) > MAX_SERIALIZED_BIGINT_DIGITS then None
     else Some (JsonObj [(BIGINT_JSON_MARKER, JsonStr decimal)]))"

fun encodeJson :: "data \<Rightarrow> json option" where
  "encodeJson DNull = Some JsonNull"
| "encodeJson (DBool b) = Some (JsonBool b)"
| "encodeJson (DInt i) = Some (JsonInt i)"
| "encodeJson (DBig n) = encodeBigInt n"
| "encodeJson (DStr s) = Some (JsonStr s)"
| "encodeJson (DArr vs) = map_option JsonArr (those (map encodeJson vs))"
| "encodeJson (DObj ms) = map_option JsonObj (those (map (\<lambda>(k, v). map_option (Pair k) (encodeJson v)) ms))"

text \<open>The JSON value of \<open>toJsonValue\<close>, and the text of \<open>stringifyJson\<close>.\<close>

definition toJsonValue :: "data \<Rightarrow> json option" where
  "toJsonValue v = (if rejectReservedBigIntMarkers v then None else encodeJson v)"

definition stringifyJson :: "data \<Rightarrow> string option" where
  "stringifyJson v = map_option stringify (toJsonValue v)"

subsection \<open>Reading\<close>

text \<open>\<open>/^(?:0|-?[1-9]\d*)$/u\<close>\<close>

definition is_canonical_integer :: "string \<Rightarrow> bool" where
  "is_canonical_integer s = (s = ''0'' \<or>
     (let digits = unsigned_text s in
      digits \<noteq> [] \<and> hd digits \<noteq> CHR ''0'' \<and> list_all is_digit digits))"

definition parseBigInt :: "string \<Rightarrow> int" where
  "parseBigInt s = (case s of
     c # cs \<Rightarrow> if c = CHR ''-'' then - int (dec_value cs 0) else int (dec_value s 0)
   | [] \<Rightarrow> 0)"

definition isBigIntMarker :: "string \<Rightarrow> json \<Rightarrow> bool" where
  "isBigIntMarker k j = (k = BIGINT_JSON_MARKER \<and> (case j of
     JsonStr s \<Rightarrow> is_canonical_integer s \<and> length (unsigned_text s) \<le> MAX_SERIALIZED_BIGINT_DIGITS
   | _ \<Rightarrow> False))"

fun fromJsonValue :: "json \<Rightarrow> data" where
  "fromJsonValue JsonNull = DNull"
| "fromJsonValue (JsonBool b) = DBool b"
| "fromJsonValue (JsonInt i) = DInt i"
| "fromJsonValue (JsonStr s) = DStr s"
| "fromJsonValue (JsonArr js) = DArr (map fromJsonValue js)"
| "fromJsonValue (JsonObj ms) = (case ms of
     [(k, JsonStr s)] \<Rightarrow> if isBigIntMarker k (JsonStr s) then DBig (parseBigInt s) else DObj [(k, DStr s)]
   | _ \<Rightarrow> DObj (map (\<lambda>(k, j). (k, fromJsonValue j)) ms))"

subsection \<open>Canonical text\<close>

abbreviation MAX_CANONICAL_JSON_DEPTH :: int where "MAX_CANONICAL_JSON_DEPTH \<equiv> 64"
abbreviation MAX_CANONICAL_JSON_NODES :: int where "MAX_CANONICAL_JSON_NODES \<equiv> 10000"
abbreviation MAX_CANONICAL_JSON_STRING_BYTES :: int where "MAX_CANONICAL_JSON_STRING_BYTES \<equiv> 16384"
abbreviation MAX_CANONICAL_JSON_TEXT_BYTES :: int where "MAX_CANONICAL_JSON_TEXT_BYTES \<equiv> 1048576"

record canonical_state =
  cs_nodes :: int
  cs_textBytes :: int

definition accountCanonicalText :: "string \<Rightarrow> canonical_state \<Rightarrow> canonical_state option" where
  "accountCanonicalText s state = (let bytes = int (utf8_length s) in
     if bytes > MAX_CANONICAL_JSON_STRING_BYTES \<or> cs_textBytes state + bytes > MAX_CANONICAL_JSON_TEXT_BYTES then None
     else Some (state\<lparr>cs_textBytes := cs_textBytes state + bytes\<rparr>))"

primrec accountKeys :: "string list \<Rightarrow> canonical_state \<Rightarrow> canonical_state option" where
  "accountKeys [] state = Some state"
| "accountKeys (k # ks) state = accountCanonicalText k state \<bind> accountKeys ks"

text \<open>The members of an object are visited in the order of their sorted keys.\<close>

definition sorted_members :: "(string \<times> 'a) list \<Rightarrow> (string \<times> 'a) list" where
  "sorted_members ms = sort_key fst ms"

lemma set_sorted_members [simp]: "set (sorted_members ms) = set ms"
  by (simp add: sorted_members_def)

lemma size_sorted_members [simp]: "size_list f (sorted_members ms) = size_list f ms"
proof -
  have "sum_list (map f xs) = sum_mset (image_mset f (mset xs))" for xs by (induction xs) simp_all
  then have "sum_list (map f (sorted_members ms)) = sum_list (map f ms)" by (simp add: sorted_members_def)
  then show ?thesis by (simp add: size_list_conv_sum_list sorted_members_def)
qed

function (sequential) canonicalJsonValue :: "int \<Rightarrow> data \<Rightarrow> canonical_state \<Rightarrow> (data \<times> canonical_state) option"
  and canonicalElements :: "int \<Rightarrow> nat \<Rightarrow> data list \<Rightarrow> canonical_state \<Rightarrow> (data list \<times> canonical_state) option"
  and canonicalMembers :: "int \<Rightarrow> (string \<times> data) list \<Rightarrow> canonical_state \<Rightarrow> ((string \<times> data) list \<times> canonical_state) option"
where
  "canonicalJsonValue depth v state =
     (if depth > MAX_CANONICAL_JSON_DEPTH then None
      else let state = state\<lparr>cs_nodes := cs_nodes state + 1\<rparr> in
        if cs_nodes state > MAX_CANONICAL_JSON_NODES then None
        else case v of
          DStr s \<Rightarrow> map_option (Pair v) (accountCanonicalText s state)
        | DArr vs \<Rightarrow> map_option (apfst DArr) (canonicalElements depth 0 vs state)
        | DObj ms \<Rightarrow> accountKeys (map fst ms) state \<bind>
            (\<lambda>state. map_option (apfst DObj) (canonicalMembers depth (sorted_members ms) state))
        | DInt i \<Rightarrow> if \<bar>i\<bar> > MAX_SAFE_INTEGER then None else Some (v, state)
        | _ \<Rightarrow> Some (v, state))"
| "canonicalElements depth index [] state = Some ([], state)"
| "canonicalElements depth index (v # vs) state = do {
     state \<leftarrow> accountCanonicalText (dec_nat index) state;
     (w, state) \<leftarrow> canonicalJsonValue (depth + 1) v state;
     (ws, state) \<leftarrow> canonicalElements depth (Suc index) vs state;
     Some (w # ws, state)
   }"
| "canonicalMembers depth [] state = Some ([], state)"
| "canonicalMembers depth ((k, v) # ms) state = do {
     (w, state) \<leftarrow> canonicalJsonValue (depth + 1) v state;
     (ns, state) \<leftarrow> canonicalMembers depth ms state;
     Some ((k, w) # ns, state)
   }"
  by pat_completeness auto

termination
  by (relation "measure (case_sum (\<lambda>(_, v, _). size v) (case_sum (\<lambda>(_, _, vs, _). size_list size vs)
        (\<lambda>(_, ms, _). size_list (size_prod (\<lambda>_. 0) size) ms)))") auto

text \<open>The keys of an object appear in sorted order. A JavaScript object lists keys that are array indices
  first, in numeric order; this difference is not represented, and either order is canonical.\<close>

definition canonicalStringifyJson :: "data \<Rightarrow> string option" where
  "canonicalStringifyJson v = do {
     (w, _) \<leftarrow> canonicalJsonValue 0 v \<lparr>cs_nodes = 0, cs_textBytes = 0\<rparr>;
     serialized \<leftarrow> stringifyJson w;
     (if int (utf8_length serialized) > MAX_CANONICAL_JSON_TEXT_BYTES then None else Some serialized)
   }"

subsection \<open>Reading back what was written\<close>

lemma dec_nat_zero_iff: "dec_nat n = ''0'' \<longleftrightarrow> n = 0"
proof
  assume "dec_nat n = ''0''"
  then have "dec_value ''0'' 0 = n" using dec_value_dec_nat [of n] by simp
  then show "n = 0" by (simp add: code_unit_def)
next
  have "dec_nat 0 = ''0''" by code_simp
  then show "dec_nat n = ''0''" if "n = 0" using that by simp
qed

lemma dec_digit_zero: "d < 10 \<Longrightarrow> dec_digit d = CHR ''0'' \<Longrightarrow> d = 0"
  using code_unit_dec_digit [of d] by (simp add: code_unit_def)

lemma dec_nat_hd: "0 < n \<Longrightarrow> hd (dec_nat n) \<noteq> CHR ''0''"
proof (induction n rule: less_induct)
  case (less n)
  show ?case
  proof (cases "n < 10")
    case True
    with less.prems dec_digit_zero [of n] show ?thesis by (auto simp: dec_nat.simps [of n])
  next
    case False
    then have "hd (dec_nat (n div 10)) \<noteq> CHR ''0''" using less.IH [of "n div 10"] by simp
    with False show ?thesis by (simp add: dec_nat.simps [of n])
  qed
qed

lemma dec_nat_is_digit: "list_all is_digit (dec_nat n)"
  using dec_nat_digits by (auto simp: list_all_iff is_digit_def)

lemma dec_nat_hd_minus: "hd (dec_nat n) \<noteq> CHR ''-''"
proof -
  have "is_digit (hd (dec_nat n))" using dec_nat_is_digit [of n] by (cases "dec_nat n") auto
  then show ?thesis by (auto simp: is_digit_def code_unit_def)
qed

lemma unsigned_text_dec_int: "unsigned_text (dec_int n) = dec_nat (nat \<bar>n\<bar>)"
  using dec_nat_hd_minus [of "nat n"] by (cases "dec_nat (nat n)") (auto simp: unsigned_text_def dec_int_def)

lemma is_canonical_integerI:
  "s = ''0'' \<or> hd (unsigned_text s) \<noteq> CHR ''0'' \<Longrightarrow> unsigned_text s \<noteq> [] \<Longrightarrow> list_all is_digit (unsigned_text s)
     \<Longrightarrow> is_canonical_integer s"
  unfolding is_canonical_integer_def Let_def by blast

lemma dec_int_canonical: "is_canonical_integer (dec_int n)"
proof (rule is_canonical_integerI)
  show "dec_int n = ''0'' \<or> hd (unsigned_text (dec_int n)) \<noteq> CHR ''0''"
  proof (cases "n = 0")
    case True
    with dec_nat_zero_iff [of 0] show ?thesis by (simp only: dec_int_def) simp
  next
    case False
    then show ?thesis unfolding unsigned_text_dec_int using dec_nat_hd [of "nat \<bar>n\<bar>"] by simp
  qed
qed (simp_all only: unsigned_text_dec_int dec_nat_is_digit dec_nat_nonempty not_False_eq_True)

lemma parseBigInt_dec_int: "parseBigInt (dec_int n) = n"
proof (cases "n < 0")
  case True
  then show ?thesis by (simp add: parseBigInt_def dec_int_def dec_value_dec_nat)
next
  case False
  then obtain c cs where c: "dec_int n = c # cs" "c \<noteq> CHR ''-''"
    using dec_nat_hd_minus [of "nat n"] by (cases "dec_nat (nat n)") (auto simp: dec_int_def)
  then have "parseBigInt (dec_int n) = int (dec_value (dec_int n) 0)" by (simp add: parseBigInt_def)
  then show ?thesis using False by (simp add: dec_int_def dec_value_dec_nat)
qed

lemma encodeBigInt_back: "encodeBigInt n = Some j \<Longrightarrow> fromJsonValue j = DBig n"
  by (auto simp: encodeBigInt_def Let_def isBigIntMarker_def dec_int_canonical unsigned_text_dec_int
      parseBigInt_dec_int split: if_splits)

lemma those_SomeD: "those (map f xs) = Some ys \<Longrightarrow> list_all2 (\<lambda>x y. f x = Some y) xs ys"
  by (induction xs arbitrary: ys) (auto split: option.splits)

lemma fromJsonValue_obj:
  assumes "\<nexists>k s. ns = [(k, JsonStr s)]"
  shows "fromJsonValue (JsonObj ns) = DObj (map (\<lambda>(k, j). (k, fromJsonValue j)) ns)"
proof (cases ns)
  case (Cons m rest)
  obtain k j where m: "m = (k, j)" by (cases m)
  show ?thesis
  proof (cases rest)
    case Nil
    then show ?thesis using assms Cons m by (cases j) simp_all
  next
    case (Cons n more)
    then show ?thesis using \<open>ns = m # rest\<close> m by (cases j) simp_all
  qed
qed simp

lemma encodeJson_back:
  "encodeJson v = Some j \<Longrightarrow> \<not> rejectReservedBigIntMarkers v \<Longrightarrow> fromJsonValue j = v"
proof (induction v arbitrary: j)
  case (DBig n)
  then show ?case by (simp add: encodeBigInt_back)
next
  case (DArr vs)
  from DArr.prems obtain js where js: "j = JsonArr js" "list_all2 (\<lambda>v j. encodeJson v = Some j) vs js"
    by (auto dest: those_SomeD)
  from js(2) DArr.IH DArr.prems(2) have "map fromJsonValue js = vs"
    by (induction rule: list_all2_induct) auto
  with js show ?case by simp
next
  case (DObj ms)
  from DObj.prems obtain ns where ns: "j = JsonObj ns"
    "list_all2 (\<lambda>m n. (case m of (k, v) \<Rightarrow> map_option (Pair k) (encodeJson v)) = Some n) ms ns"
    by (auto dest: those_SomeD)
  have member: "(case n of (k, j) \<Rightarrow> (k, fromJsonValue j)) = m"
    if "m \<in> set ms" "(case m of (k, v) \<Rightarrow> map_option (Pair k) (encodeJson v)) = Some n" for m n
  proof -
    obtain k v where m: "m = (k, v)" by (cases m)
    with that(2) obtain j where j: "n = (k, j)" "encodeJson v = Some j" by auto
    have "\<not> rejectReservedBigIntMarkers v" using DObj.prems(2) that(1) m by (auto simp: list_ex_iff)
    with DObj.IH [OF that(1), of v] j m show ?thesis by (simp add: snds.simps)
  qed
  have members: "map (\<lambda>(k, j). (k, fromJsonValue j)) ns = ms"
    using ns(2) member by (induction rule: list_all2_induct) simp_all
  have "fromJsonValue (JsonObj ns) = DObj (map (\<lambda>(k, j). (k, fromJsonValue j)) ns)"
  proof (cases "\<exists>k s. ns = [(k, JsonStr s)]")
    case True
    then obtain k s where "ns = [(k, JsonStr s)]" by blast
    moreover from this members have "ms = [(k, DStr s)]" by auto
    ultimately show ?thesis using DObj.prems(2) by (simp add: isBigIntMarker_def)
  next
    case False
    then show ?thesis by (rule fromJsonValue_obj)
  qed
  with members ns show ?case by simp
qed auto

lemma toJsonValue_back: "toJsonValue v = Some j \<Longrightarrow> fromJsonValue j = v"
  using encodeJson_back by (auto simp: toJsonValue_def split: if_splits)

text \<open>
  What is written is read back: a value the encoder accepts, bigints inside it included, is
  decoded to the same value. No object that merely looks like an encoded bigint is accepted.
\<close>

theorem json_round_trip:
  "toJsonValue v = Some j \<Longrightarrow> fromJsonValue j = v"
  by (rule toJsonValue_back)

subsection \<open>Canonical text is the meaning of the value\<close>

fun canonicalForm :: "data \<Rightarrow> data" where
  "canonicalForm (DArr vs) = DArr (map canonicalForm vs)"
| "canonicalForm (DObj ms) = DObj (sorted_members (map (\<lambda>(k, v). (k, canonicalForm v)) ms))"
| "canonicalForm v = v"

lemma sorted_members_map:
  fixes f :: "'a \<Rightarrow> 'b"
  shows "sorted_members (map (\<lambda>(k, v). (k, f v)) ms) = map (\<lambda>(k, v). (k, f v)) (sorted_members ms)"
proof -
  have "insort_key fst (case m of (k, v) \<Rightarrow> (k, f v)) (map (\<lambda>(k, v). (k, f v)) ns)
      = map (\<lambda>(k, v). (k, f v)) (insort_key fst m ns)" for m :: "string \<times> 'a" and ns
    by (induction ns) (auto split: prod.splits)
  then show ?thesis unfolding sorted_members_def by (induction ms) simp_all
qed

lemma canonicalJsonValue_form:
  "canonicalJsonValue depth v state = Some (w, state') \<Longrightarrow> w = canonicalForm v"
  "canonicalElements depth index vs state = Some (ws, state') \<Longrightarrow> ws = map canonicalForm vs"
  "canonicalMembers depth ms state = Some (ns, state') \<Longrightarrow> ns = map (\<lambda>(k, v). (k, canonicalForm v)) ms"
proof (induction depth v state and depth index vs state and depth ms state
    arbitrary: w state' and ws state' and ns state'
    rule: canonicalJsonValue_canonicalElements_canonicalMembers.induct)
  case (1 depth v state)
  then show ?case
    by (cases v) (auto simp: Let_def sorted_members_map bind_eq_Some_conv split: if_splits)
qed (auto simp: bind_eq_Some_conv)

text \<open>What a value means: an object is a finite map from keys to meanings.\<close>

datatype meaning =
    MNull
  | MBool bool
  | MInt int
  | MBig int
  | MStr string
  | MArr "meaning list"
  | MObj "(string, meaning) fmap"

fun meaning_of :: "data \<Rightarrow> meaning" where
  "meaning_of DNull = MNull"
| "meaning_of (DBool b) = MBool b"
| "meaning_of (DInt i) = MInt i"
| "meaning_of (DBig n) = MBig n"
| "meaning_of (DStr s) = MStr s"
| "meaning_of (DArr vs) = MArr (map meaning_of vs)"
| "meaning_of (DObj ms) = MObj (fmap_of_list (map (\<lambda>(k, v). (k, meaning_of v)) ms))"

text \<open>The keys of an object are distinct.\<close>

fun distinct_keys :: "data \<Rightarrow> bool" where
  "distinct_keys (DArr vs) = list_all distinct_keys vs"
| "distinct_keys (DObj ms) = (distinct (map fst ms) \<and> list_all (\<lambda>(k, v). distinct_keys v) ms)"
| "distinct_keys v = True"

lemma map_fst_member [simp]: "map fst (map (\<lambda>(k, v). (k, f v)) ms) = map fst ms"
  by (induction ms) auto

lemma map_of_member: "map_of (map (\<lambda>(k, v). (k, f v)) ms) k = map_option f (map_of ms k)"
  by (induction ms) auto

lemma sorted_members_eq_iff:
  assumes "distinct (map fst ms)" and "distinct (map fst ns)"
  shows "sorted_members ms = sorted_members ns \<longleftrightarrow> map_of ms = map_of ns"
proof
  assume "map_of ms = map_of ns"
  then have "set ms = set ns" using assms map_of_inject_set by blast
  then have "mset ms = mset ns" using assms by (metis distinct_map set_eq_iff_mset_eq_distinct)
  moreover have "inj_on fst (set ms)" using assms(1) by (simp add: distinct_map)
  ultimately show "sorted_members ms = sorted_members ns"
    unfolding sorted_members_def by (intro sort_key_inj_key_eq) auto
next
  assume "sorted_members ms = sorted_members ns"
  then have "set ms = set ns" by (metis set_sorted_members)
  then show "map_of ms = map_of ns" using assms map_of_inject_set by blast
qed

lemma fmap_of_list_eq_iff: "fmap_of_list xs = fmap_of_list ys \<longleftrightarrow> map_of xs = map_of ys"
  by (metis fmap_of_list.rep_eq fmlookup_inject)

lemma map_option_eq_cong:
  "(\<And>x y. a = Some x \<Longrightarrow> b = Some y \<Longrightarrow> f x = f y \<longleftrightarrow> g x = g y) \<Longrightarrow>
     map_option f a = map_option f b \<longleftrightarrow> map_option g a = map_option g b"
  by (cases a; cases b) auto

lemma canonicalForm_meaning:
  "distinct_keys v \<Longrightarrow> distinct_keys w \<Longrightarrow> canonicalForm v = canonicalForm w \<longleftrightarrow> meaning_of v = meaning_of w"
proof (induction v arbitrary: w)
  case (DArr vs)
  show ?case
  proof (cases w)
    case (DArr ws)
    have "map canonicalForm vs = map canonicalForm ws \<longleftrightarrow> map meaning_of vs = map meaning_of ws"
      using DArr.IH DArr.prems DArr
      by (auto simp: list_eq_iff_nth_eq list_all_length)
    with DArr show ?thesis by simp
  qed auto
next
  case (DObj ms)
  show ?case
  proof (cases w)
    case (DObj ns)
    have "map_option canonicalForm (map_of ms k) = map_option canonicalForm (map_of ns k)
        \<longleftrightarrow> map_option meaning_of (map_of ms k) = map_option meaning_of (map_of ns k)" for k
    proof (rule map_option_eq_cong)
      fix x y assume xy: "map_of ms k = Some x" "map_of ns k = Some y"
      then have mem: "(k, x) \<in> set ms" "(k, y) \<in> set ns" by (auto dest: map_of_SomeD)
      then have "distinct_keys x" "distinct_keys y" using DObj.prems DObj by (auto simp: list_all_iff)
      then show "canonicalForm x = canonicalForm y \<longleftrightarrow> meaning_of x = meaning_of y"
        using DObj.IH [OF mem(1), of x y] by (simp add: snds.simps)
    qed
    moreover have "sorted_members (map (\<lambda>(k, v). (k, canonicalForm v)) ms) = sorted_members (map (\<lambda>(k, v). (k, canonicalForm v)) ns)
        \<longleftrightarrow> map_of (map (\<lambda>(k, v). (k, canonicalForm v)) ms) = map_of (map (\<lambda>(k, v). (k, canonicalForm v)) ns)"
      using DObj.prems DObj by (intro sorted_members_eq_iff) (simp_all only: map_fst_member distinct_keys.simps)
    ultimately show ?thesis
      unfolding DObj by (simp add: fmap_of_list_eq_iff map_of_member fun_eq_iff)
  qed auto
qed (case_tac [!] w, auto)

lemma stringifyJson_inj: "stringifyJson v = Some t \<Longrightarrow> stringifyJson w = Some t \<Longrightarrow> v = w"
  unfolding stringifyJson_def by (auto dest!: stringify_inj dest!: toJsonValue_back)

lemma canonicalStringify_meaning:
  assumes "canonicalStringifyJson v = Some s" and "canonicalStringifyJson w = Some t"
    and "distinct_keys v" and "distinct_keys w"
  shows "s = t \<longleftrightarrow> meaning_of v = meaning_of w"
proof -
  have form: "stringifyJson (canonicalForm u) = Some r" if "canonicalStringifyJson u = Some r" for u r
    using that by (auto simp: canonicalStringifyJson_def bind_eq_Some_conv 
        simp del: canonicalJsonValue.simps split: if_splits dest: canonicalJsonValue_form(1))
  show ?thesis
    using form [OF assms(1)] form [OF assms(2)] stringifyJson_inj canonicalForm_meaning [OF assms(3,4)]
    by (metis option.inject)
qed

text \<open>
  The canonical text of a value is its meaning: two values with distinct keys that can be
  written have the same canonical text exactly when they are equal up to the order of the members
  of their objects. A fingerprint over canonical text therefore depends on the content alone.
\<close>

theorem canonical_text_exact:
  assumes "canonicalStringifyJson v = Some s" and "canonicalStringifyJson w = Some t"
    and "distinct_keys v" and "distinct_keys w"
  shows "s = t \<longleftrightarrow> meaning_of v = meaning_of w"
  using assms by (rule canonicalStringify_meaning)

subsection \<open>Concrete runs\<close>

definition example_data :: data where
  "example_data = DObj [(''b'', DBig 12), (''a'', DArr [DStr ''x'', DNull])]"

definition example_data_swapped :: data where
  "example_data_swapped = DObj [(''a'', DArr [DStr ''x'', DNull]), (''b'', DBig 12)]"

theorem json_round_trip_witness:
  "\<exists>j. toJsonValue example_data = Some j \<and> fromJsonValue j = example_data"
proof -
  have "toJsonValue example_data \<noteq> None" by code_simp
  then show ?thesis using json_round_trip by blast
qed

theorem canonical_text_exact_witness:
  "\<exists>t. canonicalStringifyJson example_data = Some t \<and> canonicalStringifyJson example_data_swapped = Some t"
proof -
  have "canonicalStringifyJson example_data \<noteq> None" "canonicalStringifyJson example_data_swapped \<noteq> None"
    "distinct_keys example_data" "distinct_keys example_data_swapped"
    by code_simp+
  moreover have "meaning_of example_data = meaning_of example_data_swapped"
    by (simp add: example_data_def example_data_swapped_def) (rule fmap_ext, auto)
  ultimately show ?thesis using canonical_text_exact by blast
qed

end
