(* ===== verification/Qualification.thy ===== *)
theory Qualification
  imports Chain_Model Plain_Json
begin

text \<open>
  Qualification of a launch: the vocabulary and the validation of the observed facts
  (\<open>src/src/domain/qualification.ts\<close>, \<open>src/src/domain/qualification-reasons.ts\<close>), the profile of rules and
  condition policies (\<open>src/src/qualification/qualification-profile.ts\<close>), the evaluation of the
  conditions (\<open>src/src/qualification/qualification-policy-evaluator.ts\<close>) and the engine that scores a
  launch and decides (\<open>src/src/qualification/qualification-engine.ts\<close>).

  Validators return \<open>None\<close> where the code throws. Arrays have the standard prototype and no
  properties besides their elements. Signals are compared with \<open>localeCompare\<close>, which on the seven
  signal names, all starting with different lower-case letters, is alphabetical order.
\<close>

subsection \<open>Vocabulary\<close>

datatype qualification_dimension = Preparation | SocialAuthenticity | OnchainHealth

definition QUALIFICATION_DIMENSIONS :: "(string \<times> qualification_dimension) list" where
  "QUALIFICATION_DIMENSIONS = [(''preparation'', Preparation), (''socialAuthenticity'', SocialAuthenticity),
     (''onchainHealth'', OnchainHealth)]"

datatype qualification_verdict = QUALIFIED | WATCHLISTED | REJECTED

datatype evidence_status = SATISFIED | NOT_SATISFIED | EVIDENCE_UNKNOWN

datatype condition_mode = MODE_DISABLED | REPORT_ONLY | ENFORCED

definition QUALIFICATION_CONDITION_MODES :: "(string \<times> condition_mode) list" where
  "QUALIFICATION_CONDITION_MODES = [(''DISABLED'', MODE_DISABLED), (''REPORT_ONLY'', REPORT_ONLY), (''ENFORCED'', ENFORCED)]"

datatype condition_status = PASSED | TRIGGERED | CONDITION_UNKNOWN | NOT_CONFIGURED | CONDITION_DISABLED

datatype signal_key =
    ImageValid | DescriptionAvailable | LinksReachable | SocialCrossLinkConfirmed | CreatorHasNotSold
  | ReverseQuoteAvailable | ExternalBuyersObserved

definition QUALIFICATION_SIGNAL_KEYS :: "(string \<times> signal_key) list" where
  "QUALIFICATION_SIGNAL_KEYS = [(''imageValid'', ImageValid), (''descriptionAvailable'', DescriptionAvailable),
     (''linksReachable'', LinksReachable), (''socialCrossLinkConfirmed'', SocialCrossLinkConfirmed),
     (''creatorHasNotSold'', CreatorHasNotSold), (''reverseQuoteAvailable'', ReverseQuoteAvailable),
     (''externalBuyersObserved'', ExternalBuyersObserved)]"

datatype qualification_reason =
    CREATOR_EARLY_SELL | CREATOR_REPEAT_DUMPER | MINT_SOCIAL_MISMATCH | IMPERSONATION_SUSPECTED
  | HOLDER_CONCENTRATION_EXCEEDED | RELATED_WALLET_CLUSTER_EXCEEDED | SHARED_FUNDER_CLUSTER
  | BUY_SIMULATION_FAILED | SELL_QUOTE_UNAVAILABLE | ROUND_TRIP_LOSS_EXCEEDED_reason | STALE_DATA
  | UNSUPPORTED_TOKEN_EXTENSION | METADATA_FETCH_FAILED | UNSUPPORTED_QUOTE_MINT_reason

definition REASON_LITERALS :: "(string \<times> qualification_reason) list" where
  "REASON_LITERALS = [(''CREATOR_EARLY_SELL'', CREATOR_EARLY_SELL), (''CREATOR_REPEAT_DUMPER'', CREATOR_REPEAT_DUMPER),
     (''MINT_SOCIAL_MISMATCH'', MINT_SOCIAL_MISMATCH), (''IMPERSONATION_SUSPECTED'', IMPERSONATION_SUSPECTED),
     (''HOLDER_CONCENTRATION_EXCEEDED'', HOLDER_CONCENTRATION_EXCEEDED),
     (''RELATED_WALLET_CLUSTER_EXCEEDED'', RELATED_WALLET_CLUSTER_EXCEEDED),
     (''SHARED_FUNDER_CLUSTER'', SHARED_FUNDER_CLUSTER), (''BUY_SIMULATION_FAILED'', BUY_SIMULATION_FAILED),
     (''SELL_QUOTE_UNAVAILABLE'', SELL_QUOTE_UNAVAILABLE), (''ROUND_TRIP_LOSS_EXCEEDED'', ROUND_TRIP_LOSS_EXCEEDED_reason),
     (''STALE_DATA'', STALE_DATA), (''UNSUPPORTED_TOKEN_EXTENSION'', UNSUPPORTED_TOKEN_EXTENSION),
     (''METADATA_FETCH_FAILED'', METADATA_FETCH_FAILED), (''UNSUPPORTED_QUOTE_MINT'', UNSUPPORTED_QUOTE_MINT_reason)]"

definition QUALIFICATION_REASON_CODES :: "qualification_reason list" where
  "QUALIFICATION_REASON_CODES = map snd REASON_LITERALS"

subsection \<open>Facts\<close>

record quote_observation =
  qo_quoteId :: string
  qo_observedSlot :: int
  qo_observedAtMs :: int

record quote_lineage =
  ql_buy :: "quote_observation option"
  ql_reverseSell :: "quote_observation option"

record qualification_facts =
  qf_top1HolderBps :: "int option"
  qf_top5HoldersBps :: "int option"
  qf_top10HoldersBps :: "int option"
  qf_maximumRelatedClusterBps :: "int option"
  qf_maximumSharedFunderCount :: "int option"
  qf_buySimulationSucceeded :: "bool option"
  qf_sellQuoteAvailable :: "bool option"
  qf_roundTripLossBps :: "int option"
  qf_upstreamConditions :: "(qualification_reason \<times> bool) list"
  qf_quoteLineage :: "quote_lineage option"

definition QUALIFICATION_FACT_FIELDS :: "string list" where
  "QUALIFICATION_FACT_FIELDS = [''top1HolderBps'', ''top5HoldersBps'', ''top10HoldersBps'', ''maximumRelatedClusterBps'',
     ''maximumSharedFunderCount'', ''buySimulationSucceeded'', ''sellQuoteAvailable'', ''roundTripLossBps'',
     ''upstreamConditions'']"

text \<open>A number that is a safe integer, not negative zero, and within the bounds.\<close>

definition safeInteger :: "int \<Rightarrow> int \<Rightarrow> js \<Rightarrow> int option" where
  "safeInteger minimumValue maximumValue v = (case v of
     JNum (JInt n) \<Rightarrow> if \<bar>n\<bar> > MAX_SAFE_INTEGER \<or> n < minimumValue \<or> n > maximumValue then None else Some n
   | _ \<Rightarrow> None)"

definition assertNullableBasisPoints :: "js \<Rightarrow> int option option" where
  "assertNullableBasisPoints v = nullable (boundedBigint 0 10000) v"

definition assertNullableSharedFunderCount :: "js \<Rightarrow> int option option" where
  "assertNullableSharedFunderCount v = nullable (safeInteger 0 MAX_SAFE_INTEGER) v"

definition assertNullableBoolean :: "js \<Rightarrow> bool option option" where
  "assertNullableBoolean v = nullable booleanValue v"

text \<open>The elements of a dense array, all own enumerable data properties.\<close>

definition denseElements :: "js js_prop option list \<Rightarrow> js list option" where
  "denseElements elems = those (map (\<lambda>e. case e of Some (DataProp True x) \<Rightarrow> Some x | _ \<Rightarrow> None) elems)"

primrec upstreamConditionsFrom ::
  "js list \<Rightarrow> qualification_reason list \<Rightarrow> (qualification_reason \<times> bool) list option" where
  "upstreamConditionsFrom [] codes = Some []"
| "upstreamConditionsFrom (condition # rest) codes = do {
     fields \<leftarrow> exactFrozenRecord [''code'', ''triggered''] condition;
     code \<leftarrow> enumValue REASON_LITERALS (fld fields ''code'');
     triggered \<leftarrow> booleanValue (fld fields ''triggered'');
     (if code \<in> set codes then None
      else map_option (Cons (code, triggered)) (upstreamConditionsFrom rest (code # codes)))
   }"

definition assertValidUpstreamConditions :: "js \<Rightarrow> (qualification_reason \<times> bool) list option" where
  "assertValidUpstreamConditions v = (case v of
     JArr proxy frozen elems \<Rightarrow>
       if proxy \<or> \<not> frozen \<or> length elems > length QUALIFICATION_REASON_CODES then None
       else denseElements elems \<bind> (\<lambda>conditions. upstreamConditionsFrom conditions [])
   | _ \<Rightarrow> None)"

definition assertValidQuoteObservation :: "js \<Rightarrow> quote_observation option option" where
  "assertValidQuoteObservation v = (if v = JNull then Some None else do {
     fields \<leftarrow> exactFrozenRecord [''quoteId'', ''observedSlot'', ''observedAtMs''] v;
     quoteId \<leftarrow> string_matching (\<lambda>s. trim s \<noteq> []) (fld fields ''quoteId'');
     slot \<leftarrow> (case fld fields ''observedSlot'' of JBig n \<Rightarrow> if n < 0 then None else Some n | _ \<Rightarrow> None);
     at \<leftarrow> safeInteger 0 MAX_SAFE_INTEGER (fld fields ''observedAtMs'');
     Some (Some \<lparr>qo_quoteId = quoteId, qo_observedSlot = slot, qo_observedAtMs = at\<rparr>)
   })"

definition assertValidQuoteLineage :: "js \<Rightarrow> quote_lineage option" where
  "assertValidQuoteLineage v = do {
     fields \<leftarrow> exactFrozenRecord [''schemaVersion'', ''buy'', ''reverseSell''] v;
     (if fld fields ''schemaVersion'' \<noteq> JNum (JInt 1) then None
      else do {
        buy \<leftarrow> assertValidQuoteObservation (fld fields ''buy'');
        reverseSell \<leftarrow> assertValidQuoteObservation (fld fields ''reverseSell'');
        Some \<lparr>ql_buy = buy, ql_reverseSell = reverseSell\<rparr>
      })
   }"

definition hasOwn :: "js \<Rightarrow> string \<Rightarrow> bool" where
  "hasOwn v k = (KStr k \<in> set (map fst (ownProps v)))"

definition assertValidQualificationFacts :: "js \<Rightarrow> qualification_facts option" where
  "assertValidQualificationFacts facts = (let includesQuoteLineage = hasOwn facts ''quoteLineage'' in do {
     values \<leftarrow> exactFrozenRecord
       (if includesQuoteLineage then QUALIFICATION_FACT_FIELDS @ [''quoteLineage''] else QUALIFICATION_FACT_FIELDS) facts;
     top1 \<leftarrow> assertNullableBasisPoints (fld values ''top1HolderBps'');
     top5 \<leftarrow> assertNullableBasisPoints (fld values ''top5HoldersBps'');
     top10 \<leftarrow> assertNullableBasisPoints (fld values ''top10HoldersBps'');
     cluster \<leftarrow> assertNullableBasisPoints (fld values ''maximumRelatedClusterBps'');
     loss \<leftarrow> assertNullableBasisPoints (fld values ''roundTripLossBps'');
     funders \<leftarrow> assertNullableSharedFunderCount (fld values ''maximumSharedFunderCount'');
     buy \<leftarrow> assertNullableBoolean (fld values ''buySimulationSucceeded'');
     sell \<leftarrow> assertNullableBoolean (fld values ''sellQuoteAvailable'');
     upstream \<leftarrow> assertValidUpstreamConditions (fld values ''upstreamConditions'');
     lineage \<leftarrow> (if includesQuoteLineage then map_option Some (assertValidQuoteLineage (fld values ''quoteLineage''))
       else Some None);
     Some \<lparr>qf_top1HolderBps = top1, qf_top5HoldersBps = top5, qf_top10HoldersBps = top10,
       qf_maximumRelatedClusterBps = cluster, qf_maximumSharedFunderCount = funders,
       qf_buySimulationSucceeded = buy, qf_sellQuoteAvailable = sell, qf_roundTripLossBps = loss,
       qf_upstreamConditions = upstream, qf_quoteLineage = lineage\<rparr>
   })"

subsection \<open>Profile\<close>

record qualification_rule =
  ru_signal :: signal_key
  ru_dimension :: qualification_dimension
  ru_weight :: int
  ru_required :: bool
  ru_message :: string

record condition_policy =
  cp_code :: qualification_reason
  cp_mode :: condition_mode
  cp_maximumTop1Bps :: "int option"
  cp_maximumTop5Bps :: "int option"
  cp_maximumTop10Bps :: "int option"
  cp_maximumClusterBps :: "int option"
  cp_minimumSharedFunders :: "int option"
  cp_maximumRoundTripLossBps :: "int option"

text \<open>The parts a fingerprint covers; schema version and status are constants.\<close>

record profile_fields =
  qp_id :: string
  qp_version :: int
  qp_minimumTotalScore :: int
  qp_dimensionMaximums :: "qualification_dimension \<Rightarrow> int"
  qp_rules :: "qualification_rule list"
  qp_conditionPolicies :: "condition_policy list"

record qualification_profile =
  qp_fields :: profile_fields
  qp_fingerprint :: string

definition TOP_LEVEL_FIELDS :: "string list" where
  "TOP_LEVEL_FIELDS = [''schemaVersion'', ''id'', ''version'', ''status'', ''minimumTotalScore'', ''dimensionMaximums'',
     ''rules'', ''conditionPolicies'']"

definition EFFECTIVE_PROFILE_FIELDS :: "string list" where
  "EFFECTIVE_PROFILE_FIELDS = [''schemaVersion'', ''fingerprint'', ''id'', ''version'', ''status'', ''minimumTotalScore'',
     ''dimensionMaximums'', ''rules'', ''conditionPolicies'']"

definition RULE_FIELDS :: "string list" where
  "RULE_FIELDS = [''signal'', ''dimension'', ''weight'', ''required'', ''message'']"

definition POLICY_FIELDS :: "string list" where
  "POLICY_FIELDS = [''code'', ''mode'', ''maximumTop1Bps'', ''maximumTop5Bps'', ''maximumTop10Bps'', ''maximumClusterBps'',
     ''minimumSharedFunders'', ''maximumRoundTripLossBps'']"

definition hasControlCharacter :: "string \<Rightarrow> bool" where
  "hasControlCharacter s = list_ex (\<lambda>c. code_unit c \<le> 31 \<or> code_unit c = 127) s"

definition bounded_text :: "nat \<Rightarrow> nat \<Rightarrow> string \<Rightarrow> bool" where
  "bounded_text minimumLength maximumLength s =
     (minimumLength \<le> length s \<and> length s \<le> maximumLength \<and> trim s = s \<and> \<not> hasControlCharacter s)"

definition boundedString :: "nat \<Rightarrow> nat \<Rightarrow> js \<Rightarrow> string option" where
  "boundedString minimumLength maximumLength v = string_matching (bounded_text minimumLength maximumLength) v"

definition nullableBps :: "js \<Rightarrow> int option option" where
  "nullableBps v = nullable (safeInteger 0 10000) v"

definition nullablePositive :: "js \<Rightarrow> int option option" where
  "nullablePositive v = nullable (safeInteger 1 10000) v"

definition exactArray :: "js \<Rightarrow> js list option" where
  "exactArray v = (case v of
     JArr proxy frozen elems \<Rightarrow> if proxy \<or> \<not> frozen then None else denseElements elems
   | _ \<Rightarrow> None)"

definition parseMaximums :: "js \<Rightarrow> (qualification_dimension \<Rightarrow> int) option" where
  "parseMaximums v = do {
     fields \<leftarrow> exactFrozenRecord (map fst QUALIFICATION_DIMENSIONS) v;
     preparation \<leftarrow> safeInteger 15 15 (fld fields ''preparation'');
     socialAuthenticity \<leftarrow> safeInteger 25 25 (fld fields ''socialAuthenticity'');
     onchainHealth \<leftarrow> safeInteger 60 60 (fld fields ''onchainHealth'');
     Some (\<lambda>d. case d of Preparation \<Rightarrow> preparation | SocialAuthenticity \<Rightarrow> socialAuthenticity
       | OnchainHealth \<Rightarrow> onchainHealth)
   }"

text \<open>The rules in the order given, with the signals seen so far; the totals per dimension are
  compared with the maxima afterwards.\<close>

primrec ruleEntries :: "js list \<Rightarrow> signal_key list \<Rightarrow> qualification_rule list option" where
  "ruleEntries [] signals = Some []"
| "ruleEntries (entry # rest) signals = do {
     fields \<leftarrow> exactFrozenRecord RULE_FIELDS entry;
     signal \<leftarrow> enumValue QUALIFICATION_SIGNAL_KEYS (fld fields ''signal'');
     (if signal \<in> set signals then None
      else do {
        dimension \<leftarrow> enumValue QUALIFICATION_DIMENSIONS (fld fields ''dimension'');
        weight \<leftarrow> safeInteger 0 100 (fld fields ''weight'');
        required \<leftarrow> booleanValue (fld fields ''required'');
        message \<leftarrow> boundedString 1 280 (fld fields ''message'');
        map_option (Cons \<lparr>ru_signal = signal, ru_dimension = dimension, ru_weight = weight, ru_required = required,
          ru_message = message\<rparr>) (ruleEntries rest (signal # signals))
      })
   }"

definition ruleTotal :: "qualification_rule list \<Rightarrow> qualification_dimension \<Rightarrow> int" where
  "ruleTotal rules d = sum_list (map ru_weight (filter (\<lambda>r. ru_dimension r = d) rules))"

definition readRules :: "js \<Rightarrow> (qualification_dimension \<Rightarrow> int) \<Rightarrow> qualification_rule list option" where
  "readRules v maxima = do {
     entries \<leftarrow> exactArray v;
     rules \<leftarrow> ruleEntries entries [];
     (if list_ex (\<lambda>(_, d). ruleTotal rules d \<noteq> maxima d) QUALIFICATION_DIMENSIONS then None else Some rules)
   }"

definition signalRank :: "signal_key \<Rightarrow> nat" where
  "signalRank s = (case s of CreatorHasNotSold \<Rightarrow> 0 | DescriptionAvailable \<Rightarrow> 1 | ExternalBuyersObserved \<Rightarrow> 2
     | ImageValid \<Rightarrow> 3 | LinksReachable \<Rightarrow> 4 | ReverseQuoteAvailable \<Rightarrow> 5 | SocialCrossLinkConfirmed \<Rightarrow> 6)"

definition sortRules :: "qualification_rule list \<Rightarrow> qualification_rule list" where
  "sortRules rules = sort_key (\<lambda>r. signalRank (ru_signal r)) rules"

definition validatePolicyThresholds :: "condition_policy \<Rightarrow> bool" where
  "validatePolicyThresholds p =
     (let holder = (cp_code p = HOLDER_CONCENTRATION_EXCEEDED);
          related = (cp_code p = RELATED_WALLET_CLUSTER_EXCEEDED);
          shared = (cp_code p = SHARED_FUNDER_CLUSTER);
          loss = (cp_code p = ROUND_TRIP_LOSS_EXCEEDED_reason)
      in \<not> (\<not> holder \<and> (cp_maximumTop1Bps p \<noteq> None \<or> cp_maximumTop5Bps p \<noteq> None \<or> cp_maximumTop10Bps p \<noteq> None)
          \<or> \<not> related \<and> cp_maximumClusterBps p \<noteq> None
          \<or> \<not> shared \<and> cp_minimumSharedFunders p \<noteq> None
          \<or> \<not> loss \<and> cp_maximumRoundTripLossBps p \<noteq> None
          \<or> shared \<and> cp_minimumSharedFunders p = None
          \<or> loss \<and> cp_maximumRoundTripLossBps p = None))"

primrec policyEntries :: "js list \<Rightarrow> qualification_reason list \<Rightarrow> condition_policy list option" where
  "policyEntries [] seen = Some []"
| "policyEntries (entry # rest) seen = do {
     fields \<leftarrow> exactFrozenRecord POLICY_FIELDS entry;
     code \<leftarrow> enumValue REASON_LITERALS (fld fields ''code'');
     (if code \<in> set seen then None
      else do {
        mode \<leftarrow> enumValue QUALIFICATION_CONDITION_MODES (fld fields ''mode'');
        top1 \<leftarrow> nullableBps (fld fields ''maximumTop1Bps'');
        top5 \<leftarrow> nullableBps (fld fields ''maximumTop5Bps'');
        top10 \<leftarrow> nullableBps (fld fields ''maximumTop10Bps'');
        cluster \<leftarrow> nullableBps (fld fields ''maximumClusterBps'');
        funders \<leftarrow> nullablePositive (fld fields ''minimumSharedFunders'');
        loss \<leftarrow> nullableBps (fld fields ''maximumRoundTripLossBps'');
        (let policy = \<lparr>cp_code = code, cp_mode = mode, cp_maximumTop1Bps = top1, cp_maximumTop5Bps = top5,
               cp_maximumTop10Bps = top10, cp_maximumClusterBps = cluster, cp_minimumSharedFunders = funders,
               cp_maximumRoundTripLossBps = loss\<rparr>
         in if \<not> validatePolicyThresholds policy then None
            else map_option (Cons policy) (policyEntries rest (code # seen)))
      })
   }"

definition readPolicies :: "js \<Rightarrow> condition_policy list option" where
  "readPolicies v = do {
     entries \<leftarrow> exactArray v;
     (if length entries \<noteq> length QUALIFICATION_REASON_CODES then None else policyEntries entries [])
   }"

definition reasonIndex :: "qualification_reason \<Rightarrow> nat" where
  "reasonIndex c = length (takeWhile (\<lambda>x. x \<noteq> c) QUALIFICATION_REASON_CODES)"

definition sortPolicies :: "condition_policy list \<Rightarrow> condition_policy list" where
  "sortPolicies policies = sort_key (\<lambda>p. reasonIndex (cp_code p)) policies"

definition nullableInt :: "int option \<Rightarrow> data" where
  "nullableInt v = (case v of None \<Rightarrow> DNull | Some n \<Rightarrow> DInt n)"

definition ruleData :: "qualification_rule \<Rightarrow> data" where
  "ruleData r = DObj [(''signal'', DStr (literal_of QUALIFICATION_SIGNAL_KEYS (ru_signal r))),
     (''dimension'', DStr (literal_of QUALIFICATION_DIMENSIONS (ru_dimension r))), (''weight'', DInt (ru_weight r)),
     (''required'', DBool (ru_required r)), (''message'', DStr (ru_message r))]"

definition policyData :: "condition_policy \<Rightarrow> data" where
  "policyData p = DObj [(''code'', DStr (literal_of REASON_LITERALS (cp_code p))),
     (''mode'', DStr (literal_of QUALIFICATION_CONDITION_MODES (cp_mode p))),
     (''maximumTop1Bps'', nullableInt (cp_maximumTop1Bps p)), (''maximumTop5Bps'', nullableInt (cp_maximumTop5Bps p)),
     (''maximumTop10Bps'', nullableInt (cp_maximumTop10Bps p)), (''maximumClusterBps'', nullableInt (cp_maximumClusterBps p)),
     (''minimumSharedFunders'', nullableInt (cp_minimumSharedFunders p)),
     (''maximumRoundTripLossBps'', nullableInt (cp_maximumRoundTripLossBps p))]"

definition profileData :: "profile_fields \<Rightarrow> data" where
  "profileData f = DObj [(''schemaVersion'', DInt 1), (''id'', DStr (qp_id f)), (''version'', DInt (qp_version f)),
     (''status'', DStr ''UNVALIDATED_RULE_SET''), (''minimumTotalScore'', DInt (qp_minimumTotalScore f)),
     (''dimensionMaximums'', DObj (map (\<lambda>(s, d). (s, DInt (qp_dimensionMaximums f d))) QUALIFICATION_DIMENSIONS)),
     (''rules'', DArr (map ruleData (qp_rules f))), (''conditionPolicies'', DArr (map policyData (qp_conditionPolicies f)))]"

text \<open>The canonical form of a profile has its rules and policies sorted.\<close>

definition sortedFields :: "profile_fields \<Rightarrow> profile_fields" where
  "sortedFields f = f\<lparr>qp_rules := sortRules (qp_rules f), qp_conditionPolicies := sortPolicies (qp_conditionPolicies f)\<rparr>"

definition profileFingerprint :: "(string \<Rightarrow> string) \<Rightarrow> profile_fields \<Rightarrow> string option" where
  "profileFingerprint sha256 f = map_option sha256 (canonicalStringifyJson (profileData (sortedFields f)))"

text \<open>The fields both readers validate alike.\<close>

definition profileFieldsFrom :: "js_record \<Rightarrow> js \<Rightarrow> profile_fields option" where
  "profileFieldsFrom raw minimumScore =
     (if fld raw ''schemaVersion'' \<noteq> JNum (JInt 1) \<or> fld raw ''status'' \<noteq> JStr ''UNVALIDATED_RULE_SET'' then None
      else do {
        ident \<leftarrow> boundedString 1 160 (fld raw ''id'');
        version \<leftarrow> safeInteger 1 MAX_SAFE_INTEGER (fld raw ''version'');
        minimumTotalScore \<leftarrow> safeInteger 0 100 minimumScore;
        maxima \<leftarrow> parseMaximums (fld raw ''dimensionMaximums'');
        rules \<leftarrow> readRules (fld raw ''rules'') maxima;
        policies \<leftarrow> readPolicies (fld raw ''conditionPolicies'');
        Some \<lparr>qp_id = ident, qp_version = version, qp_minimumTotalScore = minimumTotalScore,
          qp_dimensionMaximums = maxima, qp_rules = rules, qp_conditionPolicies = policies\<rparr>
      })"

definition parseQualificationProfile :: "(string \<Rightarrow> string) \<Rightarrow> js \<Rightarrow> js \<Rightarrow> qualification_profile option" where
  "parseQualificationProfile sha256 rawProfile minimumScoreOverride = do {
     raw \<leftarrow> exactFrozenRecord TOP_LEVEL_FIELDS rawProfile;
     f \<leftarrow> profileFieldsFrom raw
       (if minimumScoreOverride = JNull then fld raw ''minimumTotalScore'' else minimumScoreOverride);
     fingerprint \<leftarrow> profileFingerprint sha256 f;
     Some \<lparr>qp_fields = sortedFields f, qp_fingerprint = fingerprint\<rparr>
   }"

text \<open>The profile a consumer goes on with is the validated object itself, so its rules and policies
  keep the order they have there.\<close>

definition assertValidEffectiveQualificationProfile :: "(string \<Rightarrow> string) \<Rightarrow> js \<Rightarrow> qualification_profile option" where
  "assertValidEffectiveQualificationProfile sha256 profile = do {
     raw \<leftarrow> exactFrozenRecord EFFECTIVE_PROFILE_FIELDS profile;
     f \<leftarrow> profileFieldsFrom raw (fld raw ''minimumTotalScore'');
     claimed \<leftarrow> string_matching is_hex64 (fld raw ''fingerprint'');
     fingerprint \<leftarrow> profileFingerprint sha256 f;
     (if claimed \<noteq> fingerprint then None else Some \<lparr>qp_fields = f, qp_fingerprint = fingerprint\<rparr>)
   }"

subsection \<open>Conditions\<close>

record condition_evidence =
  ce_code :: qualification_reason
  ce_mode :: condition_mode
  ce_status :: condition_status
  ce_observed :: "(string \<times> data) list"
  ce_thresholds :: "(string \<times> data) list"
  ce_message :: string

definition nullableBig :: "int option \<Rightarrow> data" where
  "nullableBig v = (case v of None \<Rightarrow> DNull | Some n \<Rightarrow> DBig n)"

definition nullableBool :: "bool option \<Rightarrow> data" where
  "nullableBool v = (case v of None \<Rightarrow> DNull | Some b \<Rightarrow> DBool b)"

definition evidence :: "qualification_reason \<Rightarrow> condition_mode \<Rightarrow> condition_status \<Rightarrow> (string \<times> data) list
    \<Rightarrow> (string \<times> data) list \<Rightarrow> string \<Rightarrow> condition_evidence" where
  "evidence code mode status observed thresholds message =
     \<lparr>ce_code = code, ce_mode = mode, ce_status = status, ce_observed = observed, ce_thresholds = thresholds,
      ce_message = message\<rparr>"

definition holderPairs :: "condition_policy \<Rightarrow> qualification_facts \<Rightarrow> (int option \<times> int option) list" where
  "holderPairs policy facts = [(qf_top1HolderBps facts, cp_maximumTop1Bps policy),
     (qf_top5HoldersBps facts, cp_maximumTop5Bps policy), (qf_top10HoldersBps facts, cp_maximumTop10Bps policy)]"

definition holder :: "condition_policy \<Rightarrow> qualification_facts \<Rightarrow> condition_evidence" where
  "holder policy facts =
     (let pairs = holderPairs policy facts;
          configured = filter (\<lambda>(_, threshold). threshold \<noteq> None) pairs;
          observed = [(''top1HolderBps'', nullableBig (qf_top1HolderBps facts)),
            (''top5HoldersBps'', nullableBig (qf_top5HoldersBps facts)),
            (''top10HoldersBps'', nullableBig (qf_top10HoldersBps facts))];
          thresholds = [(''maximumTop1Bps'', nullableBig (cp_maximumTop1Bps policy)),
            (''maximumTop5Bps'', nullableBig (cp_maximumTop5Bps policy)),
            (''maximumTop10Bps'', nullableBig (cp_maximumTop10Bps policy))]
      in if list_ex (\<lambda>(v, threshold). v \<noteq> None \<and> threshold \<noteq> None \<and> the v > the threshold) configured
         then evidence HOLDER_CONCENTRATION_EXCEEDED (cp_mode policy) TRIGGERED observed thresholds
           ''Holder concentration exceeds the configured threshold.''
         else if list_ex (\<lambda>(v, _). v = None) configured
         then evidence HOLDER_CONCENTRATION_EXCEEDED (cp_mode policy) CONDITION_UNKNOWN observed thresholds
           ''Holder concentration is unavailable.''
         else if list_ex (\<lambda>(_, threshold). threshold = None) pairs
         then evidence HOLDER_CONCENTRATION_EXCEEDED (cp_mode policy) NOT_CONFIGURED observed thresholds
           ''Holder concentration is not fully configured.''
         else evidence HOLDER_CONCENTRATION_EXCEEDED (cp_mode policy) PASSED observed thresholds
           ''Holder concentration passed.'')"

definition maximum :: "qualification_reason \<Rightarrow> condition_mode \<Rightarrow> int option \<Rightarrow> int option \<Rightarrow> string \<Rightarrow> string \<Rightarrow> string
    \<Rightarrow> condition_evidence" where
  "maximum code mode observedValue thresholdValue observedKey thresholdKey triggeredMessage =
     (let observed = [(observedKey, nullableBig observedValue)]; thresholds = [(thresholdKey, nullableBig thresholdValue)]
      in case thresholdValue of
           None \<Rightarrow> evidence code mode NOT_CONFIGURED observed thresholds ''Condition is not configured.''
         | Some threshold \<Rightarrow> (case observedValue of
             None \<Rightarrow> evidence code mode CONDITION_UNKNOWN observed thresholds ''Condition observation is unavailable.''
           | Some v \<Rightarrow> evidence code mode (if v > threshold then TRIGGERED else PASSED) observed thresholds
               (if v > threshold then triggeredMessage else ''Condition passed.'')))"

definition minimum :: "condition_policy \<Rightarrow> int option \<Rightarrow> condition_evidence" where
  "minimum policy observedValue =
     (let observed = [(''maximumSharedFunderCount'', nullableInt observedValue)];
          thresholds = [(''minimumSharedFunders'', nullableInt (cp_minimumSharedFunders policy))]
      in case cp_minimumSharedFunders policy of
           None \<Rightarrow> evidence SHARED_FUNDER_CLUSTER (cp_mode policy) NOT_CONFIGURED observed thresholds
             ''Shared funder cluster is not configured.''
         | Some threshold \<Rightarrow> (case observedValue of
             None \<Rightarrow> evidence SHARED_FUNDER_CLUSTER (cp_mode policy) CONDITION_UNKNOWN observed thresholds
               ''Shared funder observation is unavailable.''
           | Some v \<Rightarrow> evidence SHARED_FUNDER_CLUSTER (cp_mode policy) (if v \<ge> threshold then TRIGGERED else PASSED)
               observed thresholds
               (if v \<ge> threshold then ''Shared funder cluster meets the configured minimum.''
                else ''Shared funder cluster passed.'')))"

definition booleanCondition :: "qualification_reason \<Rightarrow> condition_mode \<Rightarrow> bool option \<Rightarrow> string \<Rightarrow> string
    \<Rightarrow> condition_evidence" where
  "booleanCondition code mode observedValue observedKey triggeredMessage =
     (let observed = [(observedKey, nullableBool observedValue)]
      in case observedValue of
           None \<Rightarrow> evidence code mode CONDITION_UNKNOWN observed [] ''Condition observation is unavailable.''
         | Some v \<Rightarrow> evidence code mode (if v then PASSED else TRIGGERED) observed []
             (if v then ''Condition passed.'' else triggeredMessage))"

definition triggeredByTrustedSource :: "condition_evidence \<Rightarrow> bool option \<Rightarrow> bool \<Rightarrow> condition_evidence" where
  "triggeredByTrustedSource condition upstream legacy =
     (if upstream = Some True
      then evidence (ce_code condition) (ce_mode condition) TRIGGERED (ce_observed condition) (ce_thresholds condition)
        ''Upstream condition triggered.''
      else if legacy
      then evidence (ce_code condition) (ce_mode condition) TRIGGERED (ce_observed condition) (ce_thresholds condition)
        ''Legacy condition triggered.''
      else condition)"

definition evaluateCondition :: "qualification_reason \<Rightarrow> condition_policy \<Rightarrow> qualification_facts
    \<Rightarrow> (qualification_reason \<rightharpoonup> bool) \<Rightarrow> qualification_reason list \<Rightarrow> condition_evidence" where
  "evaluateCondition code policy facts upstream legacy =
     (if cp_mode policy = MODE_DISABLED
      then evidence code (cp_mode policy) CONDITION_DISABLED [] [] ''Condition disabled.''
      else let trusted = (\<lambda>c. triggeredByTrustedSource c (upstream code) (code \<in> set legacy)) in case code of
        HOLDER_CONCENTRATION_EXCEEDED \<Rightarrow> trusted (holder policy facts)
      | RELATED_WALLET_CLUSTER_EXCEEDED \<Rightarrow> trusted (maximum code (cp_mode policy) (qf_maximumRelatedClusterBps facts)
          (cp_maximumClusterBps policy) ''maximumRelatedClusterBps'' ''maximumClusterBps''
          ''Related wallet cluster exceeds the configured threshold.'')
      | SHARED_FUNDER_CLUSTER \<Rightarrow> trusted (minimum policy (qf_maximumSharedFunderCount facts))
      | BUY_SIMULATION_FAILED \<Rightarrow> trusted (booleanCondition code (cp_mode policy) (qf_buySimulationSucceeded facts)
          ''buySimulationSucceeded'' ''Buy simulation failed.'')
      | SELL_QUOTE_UNAVAILABLE \<Rightarrow> trusted (booleanCondition code (cp_mode policy) (qf_sellQuoteAvailable facts)
          ''sellQuoteAvailable'' ''Sell quote is unavailable.'')
      | ROUND_TRIP_LOSS_EXCEEDED_reason \<Rightarrow> trusted (maximum code (cp_mode policy) (qf_roundTripLossBps facts)
          (cp_maximumRoundTripLossBps policy) ''roundTripLossBps'' ''maximumRoundTripLossBps''
          (''Perte aller-retour sup'' @ [CHR 0xE9] @ ''rieure au seuil configur'' @ [CHR 0xE9] @ ''.''))
      | _ \<Rightarrow> (let triggered = (if code \<in> set legacy then Some True else upstream code) in
          evidence code (cp_mode policy)
            (case triggered of Some True \<Rightarrow> TRIGGERED | Some False \<Rightarrow> PASSED | None \<Rightarrow> CONDITION_UNKNOWN) [] []
            (case triggered of Some True \<Rightarrow> ''Upstream condition triggered.''
              | Some False \<Rightarrow> ''Upstream condition passed.'' | None \<Rightarrow> ''Upstream condition is unavailable.'')))"

text \<open>\<open>new Map(entries)\<close>: the last entry of a key wins.\<close>

definition policyMap :: "condition_policy list \<Rightarrow> (qualification_reason \<rightharpoonup> condition_policy)" where
  "policyMap policies = map_of (rev (map (\<lambda>p. (cp_code p, p)) policies))"

text \<open>The code first validates the profile and the facts again; here they are the results of that
  validation already, on which it succeeds.\<close>

definition evaluateQualificationConditions :: "profile_fields \<Rightarrow> qualification_facts \<Rightarrow> qualification_reason list
    \<Rightarrow> (condition_evidence list \<times> qualification_reason list) option" where
  "evaluateQualificationConditions profile facts legacy = do {
     conditions \<leftarrow> those (map (\<lambda>code. map_option (\<lambda>policy.
       evaluateCondition code policy facts (map_of (rev (qf_upstreamConditions facts))) legacy)
       (policyMap (qp_conditionPolicies profile) code)) QUALIFICATION_REASON_CODES);
     Some (conditions, map ce_code (filter (\<lambda>c. ce_status c = TRIGGERED \<and> ce_mode c = ENFORCED) conditions))
   }"

subsection \<open>Engine\<close>

record qualification_evidence =
  ev_signal :: signal_key
  ev_dimension :: qualification_dimension
  ev_status :: evidence_status
  ev_required :: bool
  ev_weight :: int
  ev_message :: string

record qualification_score =
  sc_score :: int
  sc_maximum :: int

record qualification_scores =
  sc_preparation :: qualification_score
  sc_socialAuthenticity :: qualification_score
  sc_onchainHealth :: qualification_score
  sc_total :: qualification_score

record report_rule_set =
  rs_id :: string
  rs_version :: int
  rs_fingerprint :: string
  rs_minimumTotalScore :: int

record qualification_report =
  qr_ruleSet :: report_rule_set
  qr_scores :: qualification_scores
  qr_evidence :: "qualification_evidence list"
  qr_conditions :: "condition_evidence list"
  qr_blockers :: "(qualification_reason \<times> string) list"
  qr_verdict :: qualification_verdict
  qr_evaluatedAtMs :: int

record evaluation_input =
  ei_evaluatedAtMs :: js
  ei_signals :: "(signal_key \<times> bool) list"
  ei_blockers :: "qualification_reason list"
  ei_calibrationFacts :: "qualification_facts option"

definition dataObjectFields :: "js \<Rightarrow> js_record option" where
  "dataObjectFields v = (if \<not> isPlainObject v then None
     else those (map (\<lambda>p. case p of (KStr k, DataProp True x) \<Rightarrow> Some (k, x) | _ \<Rightarrow> None) (ownProps v)))"

definition exactDataObject :: "string list \<Rightarrow> js \<Rightarrow> js_record option" where
  "exactDataObject expected v = do {
     entries \<leftarrow> dataObjectFields v;
     (if length entries \<noteq> length expected \<or> list_ex (\<lambda>f. f \<notin> set (map fst entries)) expected then None else Some entries)
   }"

definition snapshotSignals :: "js \<Rightarrow> (signal_key \<times> bool) list option" where
  "snapshotSignals v = do {
     fields \<leftarrow> dataObjectFields v;
     those (map (\<lambda>(k, x). case map_of QUALIFICATION_SIGNAL_KEYS k of
       None \<Rightarrow> None | Some s \<Rightarrow> map_option (Pair s) (booleanValue x)) fields)
   }"

definition snapshotBlockers :: "js \<Rightarrow> qualification_reason list option" where
  "snapshotBlockers v = (case v of
     JArr proxy frozen elems \<Rightarrow>
       if proxy \<or> length elems > length QUALIFICATION_REASON_CODES then None
       else denseElements elems \<bind> (\<lambda>xs. those (map (enumValue REASON_LITERALS) xs))
   | _ \<Rightarrow> None)"

definition snapshotCalibrationFacts :: "js \<Rightarrow> qualification_facts option option" where
  "snapshotCalibrationFacts v = nullable assertValidQualificationFacts v"

definition snapshotEvaluationInput :: "js \<Rightarrow> evaluation_input option" where
  "snapshotEvaluationInput input = do {
     fields \<leftarrow> exactDataObject [''evaluatedAtMs'', ''signals'', ''blockers'', ''calibrationFacts''] input;
     (case fld fields ''evaluatedAtMs'' of JNum _ \<Rightarrow> do {
        signals \<leftarrow> snapshotSignals (fld fields ''signals'');
        blockers \<leftarrow> snapshotBlockers (fld fields ''blockers'');
        facts \<leftarrow> snapshotCalibrationFacts (fld fields ''calibrationFacts'');
        Some \<lparr>ei_evaluatedAtMs = fld fields ''evaluatedAtMs'', ei_signals = signals, ei_blockers = blockers,
          ei_calibrationFacts = facts\<rparr>
      } | _ \<Rightarrow> None)
   }"

definition evidenceFor :: "(signal_key \<rightharpoonup> bool) \<Rightarrow> qualification_rule \<Rightarrow> qualification_evidence" where
  "evidenceFor signals rule = \<lparr>ev_signal = ru_signal rule, ev_dimension = ru_dimension rule,
     ev_status = (case signals (ru_signal rule) of Some True \<Rightarrow> SATISFIED | Some False \<Rightarrow> NOT_SATISFIED
       | None \<Rightarrow> EVIDENCE_UNKNOWN),
     ev_required = ru_required rule, ev_weight = ru_weight rule, ev_message = ru_message rule\<rparr>"

definition dimensionScore :: "qualification_evidence list \<Rightarrow> qualification_dimension \<Rightarrow> int" where
  "dimensionScore items d =
     foldl (\<lambda>total item. if ev_status item = SATISFIED \<and> ev_dimension item = d then total + ev_weight item else total) 0 items"

definition calculateScores :: "qualification_evidence list \<Rightarrow> (qualification_dimension \<Rightarrow> int) \<Rightarrow> qualification_scores" where
  "calculateScores items maximums =
     (let preparation = dimensionScore items Preparation;
          socialAuthenticity = dimensionScore items SocialAuthenticity;
          onchainHealth = dimensionScore items OnchainHealth
      in \<lparr>sc_preparation = \<lparr>sc_score = preparation, sc_maximum = maximums Preparation\<rparr>,
          sc_socialAuthenticity = \<lparr>sc_score = socialAuthenticity, sc_maximum = maximums SocialAuthenticity\<rparr>,
          sc_onchainHealth = \<lparr>sc_score = onchainHealth, sc_maximum = maximums OnchainHealth\<rparr>,
          sc_total = \<lparr>sc_score = preparation + socialAuthenticity + onchainHealth, sc_maximum = 100\<rparr>\<rparr>)"

definition createBlockers :: "qualification_reason list \<Rightarrow> (qualification_reason \<times> string) list" where
  "createBlockers codes = map (\<lambda>code. (code, ''Condition '' @ [CHR 0xE9] @ ''liminatoire active: ''
     @ literal_of REASON_LITERALS code @ ''.'')) (rev (remdups (rev codes)))"

definition EMPTY_CALIBRATION_FACTS :: qualification_facts where
  "EMPTY_CALIBRATION_FACTS = \<lparr>qf_top1HolderBps = None, qf_top5HoldersBps = None, qf_top10HoldersBps = None,
     qf_maximumRelatedClusterBps = None, qf_maximumSharedFunderCount = None, qf_buySimulationSucceeded = None,
     qf_sellQuoteAvailable = None, qf_roundTripLossBps = None, qf_upstreamConditions = [], qf_quoteLineage = None\<rparr>"

definition reportOf :: "qualification_profile \<Rightarrow> evaluation_input \<Rightarrow> int \<Rightarrow> qualification_report option" where
  "reportOf profile snapshot evaluatedAtMs =
     (let fields = qp_fields profile;
          items = map (evidenceFor (map_of (rev (ei_signals snapshot)))) (qp_rules fields);
          scores = calculateScores items (qp_dimensionMaximums fields)
      in do {
        (conditions, codes) \<leftarrow> evaluateQualificationConditions fields
          (case ei_calibrationFacts snapshot of Some facts \<Rightarrow> facts | None \<Rightarrow> EMPTY_CALIBRATION_FACTS)
          (ei_blockers snapshot);
        (let blockers = createBlockers codes;
             missingRequiredEvidence = list_ex (\<lambda>item. ev_required item \<and> ev_status item \<noteq> SATISFIED) items;
             verdict = (if blockers \<noteq> [] then REJECTED
               else if missingRequiredEvidence \<or> sc_score (sc_total scores) < qp_minimumTotalScore fields then WATCHLISTED
               else QUALIFIED)
         in Some \<lparr>qr_ruleSet = \<lparr>rs_id = qp_id fields, rs_version = qp_version fields,
              rs_fingerprint = qp_fingerprint profile, rs_minimumTotalScore = qp_minimumTotalScore fields\<rparr>,
            qr_scores = scores, qr_evidence = items, qr_conditions = conditions, qr_blockers = blockers,
            qr_verdict = verdict, qr_evaluatedAtMs = evaluatedAtMs\<rparr>)
      })"

definition evaluateReport :: "qualification_profile \<Rightarrow> js \<Rightarrow> qualification_report option" where
  "evaluateReport profile input = do {
     snapshot \<leftarrow> snapshotEvaluationInput input;
     (case assertValidTimestampMs EvaluatedAtMs (ei_evaluatedAtMs snapshot) of
        Inl _ \<Rightarrow> None
      | Inr evaluatedAtMs \<Rightarrow> reportOf profile snapshot evaluatedAtMs)
   }"

subsection \<open>Authority over reports\<close>

text \<open>The engine remembers, by object identity, the reports it issued for a subject. A report object
  is its handle, a number no earlier report has.\<close>

record report_subject =
  rp_mint :: string
  rp_triggerEventId :: string

record qualification_engine =
  eg_profile :: qualification_profile
  eg_nextReport :: nat
  eg_authorizedReports :: "nat \<rightharpoonup> report_subject"

definition newQualificationEngine :: "(string \<Rightarrow> string) \<Rightarrow> js \<Rightarrow> qualification_engine option" where
  "newQualificationEngine sha256 profile = map_option (\<lambda>p.
     \<lparr>eg_profile = p, eg_nextReport = 0, eg_authorizedReports = Map.empty\<rparr>)
     (assertValidEffectiveQualificationProfile sha256 profile)"

definition snapshotReportSubject :: "js \<Rightarrow> js \<Rightarrow> report_subject option" where
  "snapshotReportSubject mint triggerEventId = do {
     m \<leftarrow> string_matching (\<lambda>s. trim s \<noteq> []) mint;
     t \<leftarrow> string_matching (\<lambda>s. trim s \<noteq> []) triggerEventId;
     Some \<lparr>rp_mint = m, rp_triggerEventId = t\<rparr>
   }"

definition evaluate :: "qualification_engine \<Rightarrow> js \<Rightarrow> (nat \<times> qualification_report \<times> qualification_engine) option" where
  "evaluate engine input = map_option (\<lambda>report.
     (eg_nextReport engine, report, engine\<lparr>eg_nextReport := eg_nextReport engine + 1\<rparr>))
     (evaluateReport (eg_profile engine) input)"

definition evaluateAuthorized ::
  "qualification_engine \<Rightarrow> js \<Rightarrow> js \<Rightarrow> js \<Rightarrow> (nat \<times> qualification_report \<times> qualification_engine) option" where
  "evaluateAuthorized engine mint triggerEventId input = do {
     subject \<leftarrow> snapshotReportSubject mint triggerEventId;
     (handle, report, engine) \<leftarrow> evaluate engine input;
     Some (handle, report, engine\<lparr>eg_authorizedReports := (eg_authorizedReports engine)(handle \<mapsto> subject)\<rparr>)
   }"

text \<open>A report without authority is refused whatever the subject. In the code the comparison of an unknown
  report with an undefined mint would throw instead; the callers pass a text.\<close>

definition isAuthorized :: "qualification_engine \<Rightarrow> nat \<Rightarrow> js \<Rightarrow> js \<Rightarrow> bool" where
  "isAuthorized engine handle mint triggerEventId = (case eg_authorizedReports engine handle of
     None \<Rightarrow> False
   | Some subject \<Rightarrow> mint = JStr (rp_mint subject) \<and> triggerEventId = JStr (rp_triggerEventId subject))"

subsection \<open>What a validated profile satisfies\<close>

definition valid_rule :: "qualification_rule \<Rightarrow> bool" where
  "valid_rule r = (0 \<le> ru_weight r \<and> ru_weight r \<le> 100 \<and> bounded_text 1 280 (ru_message r))"

definition valid_bps :: "int option \<Rightarrow> bool" where
  "valid_bps v = (case v of None \<Rightarrow> True | Some n \<Rightarrow> 0 \<le> n \<and> n \<le> 10000)"

definition valid_policy :: "condition_policy \<Rightarrow> bool" where
  "valid_policy p = (validatePolicyThresholds p \<and> valid_bps (cp_maximumTop1Bps p) \<and> valid_bps (cp_maximumTop5Bps p)
     \<and> valid_bps (cp_maximumTop10Bps p) \<and> valid_bps (cp_maximumClusterBps p) \<and> valid_bps (cp_maximumRoundTripLossBps p)
     \<and> (case cp_minimumSharedFunders p of None \<Rightarrow> True | Some n \<Rightarrow> 1 \<le> n \<and> n \<le> 10000))"

definition dimensionMaximum :: "qualification_dimension \<Rightarrow> int" where
  "dimensionMaximum d = (case d of Preparation \<Rightarrow> 15 | SocialAuthenticity \<Rightarrow> 25 | OnchainHealth \<Rightarrow> 60)"

definition valid_profile :: "profile_fields \<Rightarrow> bool" where
  "valid_profile f = (bounded_text 1 160 (qp_id f)
     \<and> 1 \<le> qp_version f \<and> qp_version f \<le> MAX_SAFE_INTEGER
     \<and> 0 \<le> qp_minimumTotalScore f \<and> qp_minimumTotalScore f \<le> 100
     \<and> qp_dimensionMaximums f = dimensionMaximum
     \<and> distinct (map ru_signal (qp_rules f)) \<and> list_all valid_rule (qp_rules f)
     \<and> (\<forall>d. ruleTotal (qp_rules f) d = dimensionMaximum d)
     \<and> length (qp_conditionPolicies f) = length QUALIFICATION_REASON_CODES
     \<and> distinct (map cp_code (qp_conditionPolicies f)) \<and> list_all valid_policy (qp_conditionPolicies f))"

lemma safeInteger_iff [field_iffs]:
  "safeInteger lo hi v = Some n \<longleftrightarrow> v = JNum (JInt n) \<and> \<bar>n\<bar> \<le> MAX_SAFE_INTEGER \<and> lo \<le> n \<and> n \<le> hi"
  by (auto simp: safeInteger_def split: js.splits js_num.splits)

lemma boundedString_iff [field_iffs]: "boundedString lo hi v = Some s \<longleftrightarrow> v = JStr s \<and> bounded_text lo hi s"
  by (simp add: boundedString_def string_matching_iff)

lemma nullableBps_valid: "nullableBps v = Some x \<Longrightarrow> valid_bps x"
  by (cases x) (auto simp: nullableBps_def nullable_def valid_bps_def field_iffs split: if_splits)

lemma nullablePositive_valid: "nullablePositive v = Some x \<Longrightarrow> case x of None \<Rightarrow> True | Some n \<Rightarrow> 1 \<le> n \<and> n \<le> 10000"
  by (cases x) (auto simp: nullablePositive_def nullable_def field_iffs split: if_splits)

lemma parseMaximums_valid: "parseMaximums v = Some m \<Longrightarrow> m = dimensionMaximum"
  unfolding parseMaximums_def result_simps
  by (clarsimp simp: field_iffs fun_eq_iff dimensionMaximum_def split: qualification_dimension.splits)

lemma ruleEntries_valid:
  "ruleEntries es seen = Some rs \<Longrightarrow>
     distinct (map ru_signal rs) \<and> set (map ru_signal rs) \<inter> set seen = {} \<and> list_all valid_rule rs"
proof (induction es arbitrary: seen rs)
  case (Cons e es)
  from Cons.prems obtain r rest where rs: "rs = r # rest" and rest: "ruleEntries es (ru_signal r # seen) = Some rest"
    and r: "valid_rule r" "ru_signal r \<notin> set seen"
    unfolding ruleEntries.simps result_simps by (clarsimp simp: field_iffs valid_rule_def)
  from Cons.IH [OF rest] rs r show ?case by auto
qed simp

lemma policyEntries_valid:
  "policyEntries es seen = Some ps \<Longrightarrow>
     distinct (map cp_code ps) \<and> set (map cp_code ps) \<inter> set seen = {} \<and> list_all valid_policy ps \<and> length ps = length es"
proof (induction es arbitrary: seen ps)
  case (Cons e es)
  from Cons.prems obtain p rest where ps: "ps = p # rest" and rest: "policyEntries es (cp_code p # seen) = Some rest"
    and p: "valid_policy p" "cp_code p \<notin> set seen"
    unfolding policyEntries.simps result_simps Let_def
    by (clarsimp simp: valid_policy_def dest!: nullableBps_valid nullablePositive_valid)
  from Cons.IH [OF rest] ps p show ?case by auto
qed simp

lemma profileFieldsFrom_valid:
  assumes "profileFieldsFrom raw m = Some f"
  shows "valid_profile f"
proof -
  have totals: "\<forall>d. ruleTotal rs d = t d"
    if "\<not> list_ex (\<lambda>(_, d). ruleTotal rs d \<noteq> t d) QUALIFICATION_DIMENSIONS" for rs t
  proof
    show "ruleTotal rs d = t d" for d using that by (cases d) (simp_all add: QUALIFICATION_DIMENSIONS_def)
  qed
  from assms show ?thesis
    unfolding profileFieldsFrom_def readRules_def readPolicies_def result_simps valid_profile_def
    by (clarsimp simp: field_iffs dest!: parseMaximums_valid ruleEntries_valid policyEntries_valid totals)
qed

subsection \<open>Conditions: when one is triggered\<close>

text \<open>A measured value on the wrong side of a configured threshold.\<close>

definition breached :: "condition_policy \<Rightarrow> qualification_facts \<Rightarrow> bool" where
  "breached p facts = (case cp_code p of
     HOLDER_CONCENTRATION_EXCEEDED \<Rightarrow> (\<exists>v t. (Some v, Some t) \<in> {(qf_top1HolderBps facts, cp_maximumTop1Bps p),
        (qf_top5HoldersBps facts, cp_maximumTop5Bps p), (qf_top10HoldersBps facts, cp_maximumTop10Bps p)} \<and> v > t)
   | RELATED_WALLET_CLUSTER_EXCEEDED \<Rightarrow>
       (\<exists>v t. qf_maximumRelatedClusterBps facts = Some v \<and> cp_maximumClusterBps p = Some t \<and> v > t)
   | SHARED_FUNDER_CLUSTER \<Rightarrow>
       (\<exists>v t. qf_maximumSharedFunderCount facts = Some v \<and> cp_minimumSharedFunders p = Some t \<and> v \<ge> t)
   | BUY_SIMULATION_FAILED \<Rightarrow> qf_buySimulationSucceeded facts = Some False
   | SELL_QUOTE_UNAVAILABLE \<Rightarrow> qf_sellQuoteAvailable facts = Some False
   | ROUND_TRIP_LOSS_EXCEEDED_reason \<Rightarrow>
       (\<exists>v t. qf_roundTripLossBps facts = Some v \<and> cp_maximumRoundTripLossBps p = Some t \<and> v > t)
   | _ \<Rightarrow> False)"

lemma evidence_simps [simp]:
  "ce_code (evidence c m st ob th msg) = c" "ce_mode (evidence c m st ob th msg) = m"
  "ce_status (evidence c m st ob th msg) = st" "ce_observed (evidence c m st ob th msg) = ob"
  "ce_thresholds (evidence c m st ob th msg) = th"
  by (simp_all add: evidence_def)

lemma trusted_code [simp]:
  "ce_code (triggeredByTrustedSource c u l) = ce_code c" "ce_mode (triggeredByTrustedSource c u l) = ce_mode c"
  "ce_observed (triggeredByTrustedSource c u l) = ce_observed c" "ce_thresholds (triggeredByTrustedSource c u l) = ce_thresholds c"
  by (simp_all add: triggeredByTrustedSource_def)

lemma trusted_triggered:
  "ce_status (triggeredByTrustedSource c u l) = TRIGGERED \<longleftrightarrow> u = Some True \<or> l \<or> ce_status c = TRIGGERED"
  by (simp add: triggeredByTrustedSource_def)

lemma holder_simps [simp]:
  "ce_code (holder p facts) = HOLDER_CONCENTRATION_EXCEEDED" "ce_mode (holder p facts) = cp_mode p"
  by (simp_all add: holder_def Let_def)

lemma maximum_simps [simp]:
  "ce_code (maximum c m v t k k' msg) = c" "ce_mode (maximum c m v t k k' msg) = m"
  by (cases t; cases v; simp add: maximum_def)+

lemma minimum_simps [simp]:
  "ce_code (minimum p v) = SHARED_FUNDER_CLUSTER" "ce_mode (minimum p v) = cp_mode p"
  by (cases "cp_minimumSharedFunders p"; cases v; simp add: minimum_def)+

lemma boolean_simps [simp]:
  "ce_code (booleanCondition c m v k msg) = c" "ce_mode (booleanCondition c m v k msg) = m"
  by (cases v; simp add: booleanCondition_def)+

lemma holder_triggered:
  "ce_status (holder p facts) = TRIGGERED \<longleftrightarrow>
     (\<exists>v t. (Some v, Some t) \<in> {(qf_top1HolderBps facts, cp_maximumTop1Bps p),
        (qf_top5HoldersBps facts, cp_maximumTop5Bps p), (qf_top10HoldersBps facts, cp_maximumTop10Bps p)} \<and> v > t)"
proof -
  let ?pairs = "holderPairs p facts"
  have "ce_status (holder p facts) = TRIGGERED \<longleftrightarrow>
      list_ex (\<lambda>(v, t). v \<noteq> None \<and> t \<noteq> None \<and> the v > the t) (filter (\<lambda>(_, t). t \<noteq> None) ?pairs)"
    unfolding holder_def Let_def by (simp only: evidence_simps condition_status.distinct if_distrib [of ce_status] if_bool_eq_conj) simp
  also have "\<dots> \<longleftrightarrow> (\<exists>v t. (Some v, Some t) \<in> set ?pairs \<and> v > t)"
    unfolding list_ex_iff by (force split: prod.splits)
  also have "set ?pairs = {(qf_top1HolderBps facts, cp_maximumTop1Bps p),
        (qf_top5HoldersBps facts, cp_maximumTop5Bps p), (qf_top10HoldersBps facts, cp_maximumTop10Bps p)}"
    by (simp add: holderPairs_def)
  finally show ?thesis .
qed

lemma maximum_triggered:
  "ce_status (maximum c m v t k k' msg) = TRIGGERED \<longleftrightarrow> (\<exists>x y. v = Some x \<and> t = Some y \<and> x > y)"
  by (cases t; cases v; simp add: maximum_def)

lemma minimum_triggered:
  "ce_status (minimum p v) = TRIGGERED \<longleftrightarrow> (\<exists>x y. v = Some x \<and> cp_minimumSharedFunders p = Some y \<and> x \<ge> y)"
  by (cases "cp_minimumSharedFunders p"; cases v; simp add: minimum_def)

lemma boolean_triggered: "ce_status (booleanCondition c m v k msg) = TRIGGERED \<longleftrightarrow> v = Some False"
  by (cases v; simp add: booleanCondition_def)

lemma evaluateCondition_code:
  "ce_code (evaluateCondition code p facts up legacy) = code" "ce_mode (evaluateCondition code p facts up legacy) = cp_mode p"
  by (cases code; simp add: evaluateCondition_def Let_def)+

lemma evaluateCondition_triggered:
  assumes "cp_code p = code"
  shows "ce_status (evaluateCondition code p facts up legacy) = TRIGGERED \<longleftrightarrow>
     cp_mode p \<noteq> MODE_DISABLED \<and> (code \<in> set legacy \<or> up code = Some True \<or> breached p facts)"
  using assms
  by (cases code; simp add: evaluateCondition_def Let_def trusted_triggered holder_triggered maximum_triggered
      minimum_triggered boolean_triggered breached_def split: option.split bool.split; blast)

subsection \<open>The policies of a validated profile\<close>

lemma reason_codes_all: "set QUALIFICATION_REASON_CODES = UNIV"
proof -
  have "c \<in> set QUALIFICATION_REASON_CODES" for c
    by (cases c) (simp_all add: QUALIFICATION_REASON_CODES_def REASON_LITERALS_def)
  then show ?thesis by blast
qed

lemma reason_codes_distinct: "distinct QUALIFICATION_REASON_CODES"
  by (simp add: QUALIFICATION_REASON_CODES_def REASON_LITERALS_def)

lemma distinct_full:
  fixes xs :: "qualification_reason list"
  assumes "distinct xs" and "length xs = length QUALIFICATION_REASON_CODES"
  shows "set xs = UNIV"
proof -
  have "finite (UNIV :: qualification_reason set)" unfolding reason_codes_all [symmetric] by simp
  moreover have "card (set xs) = card (UNIV :: qualification_reason set)"
    using assms reason_codes_distinct unfolding reason_codes_all [symmetric] by (simp add: distinct_card)
  ultimately show ?thesis by (rule card_subset_eq [OF _ subset_UNIV])
qed

lemma policyMap_iff:
  assumes "distinct (map cp_code ps)"
  shows "policyMap ps code = Some p \<longleftrightarrow> p \<in> set ps \<and> cp_code p = code"
proof -
  have "map fst (map (\<lambda>p. (cp_code p, p)) ps) = map cp_code ps" by simp
  with assms have "distinct (map fst (rev (map (\<lambda>p. (cp_code p, p)) ps)))" by (simp add: rev_map [symmetric] comp_def)
  then show ?thesis unfolding policyMap_def by (auto simp: map_of_eq_Some_iff)
qed

lemma valid_profile_policy:
  assumes "valid_profile f"
  shows "\<exists>p. policyMap (qp_conditionPolicies f) code = Some p \<and> p \<in> set (qp_conditionPolicies f) \<and> cp_code p = code"
proof -
  have d: "distinct (map cp_code (qp_conditionPolicies f))" using assms by (simp add: valid_profile_def)
  have "set (map cp_code (qp_conditionPolicies f)) = UNIV"
    using assms d by (intro distinct_full) (simp_all add: valid_profile_def)
  then obtain p where "p \<in> set (qp_conditionPolicies f)" "cp_code p = code" by (metis UNIV_I image_iff set_map)
  then show ?thesis using policyMap_iff [OF d] by blast
qed

definition conditionsOf :: "profile_fields \<Rightarrow> qualification_facts \<Rightarrow> qualification_reason list \<Rightarrow> condition_evidence list" where
  "conditionsOf f facts legacy = map (\<lambda>code. evaluateCondition code (the (policyMap (qp_conditionPolicies f) code)) facts
     (map_of (rev (qf_upstreamConditions facts))) legacy) QUALIFICATION_REASON_CODES"

lemma those_map_Some: "(\<And>x. x \<in> set xs \<Longrightarrow> f x = Some (g x)) \<Longrightarrow> those (map f xs) = Some (map g xs)"
  by (induction xs) auto

lemma evaluate_total:
  assumes "valid_profile f"
  shows "evaluateQualificationConditions f facts legacy = Some (conditionsOf f facts legacy,
     map ce_code (filter (\<lambda>c. ce_status c = TRIGGERED \<and> ce_mode c = ENFORCED) (conditionsOf f facts legacy)))"
proof -
  have "map_option g (policyMap (qp_conditionPolicies f) code) = Some (g (the (policyMap (qp_conditionPolicies f) code)))"
    for g :: "condition_policy \<Rightarrow> condition_evidence" and code
    using valid_profile_policy [OF assms, of code] by auto
  then show ?thesis
    unfolding evaluateQualificationConditions_def conditionsOf_def by (subst those_map_Some) auto
qed

text \<open>A policy rejects a launch: it is enforced, and a caller, an upstream source or a measurement
  triggers it.\<close>

definition rejecting :: "qualification_facts \<Rightarrow> qualification_reason list \<Rightarrow> condition_policy \<Rightarrow> bool" where
  "rejecting facts legacy p = (cp_mode p = ENFORCED \<and> (cp_code p \<in> set legacy
     \<or> map_of (rev (qf_upstreamConditions facts)) (cp_code p) = Some True \<or> breached p facts))"

lemma blocking_codes:
  assumes "valid_profile f"
  shows "filter (\<lambda>c. ce_status c = TRIGGERED \<and> ce_mode c = ENFORCED) (conditionsOf f facts legacy) = []
     \<longleftrightarrow> (\<forall>p \<in> set (qp_conditionPolicies f). \<not> rejecting facts legacy p)"
proof -
  let ?pol = "\<lambda>code. the (policyMap (qp_conditionPolicies f) code)"
  have pol: "cp_code (?pol code) = code \<and> ?pol code \<in> set (qp_conditionPolicies f)" for code
    using valid_profile_policy [OF assms, of code] by auto
  have self: "?pol (cp_code p) = p" if "p \<in> set (qp_conditionPolicies f)" for p
    using that assms policyMap_iff [of "qp_conditionPolicies f" "cp_code p" p] by (simp add: valid_profile_def)
  have "(ce_status c = TRIGGERED \<and> ce_mode c = ENFORCED) = rejecting facts legacy (?pol code)"
    if "c = evaluateCondition code (?pol code) facts (map_of (rev (qf_upstreamConditions facts))) legacy" for c code
    using pol [of code] evaluateCondition_triggered [of "?pol code" code] evaluateCondition_code(2)
    unfolding that rejecting_def by auto
  then have "filter (\<lambda>c. ce_status c = TRIGGERED \<and> ce_mode c = ENFORCED) (conditionsOf f facts legacy) = []
      \<longleftrightarrow> (\<forall>code. \<not> rejecting facts legacy (?pol code))"
    by (auto simp: conditionsOf_def filter_empty_conv reason_codes_all)
  then show ?thesis using pol self by metis
qed

subsection \<open>Scores\<close>

lemma dimensionScore_sum:
  "dimensionScore items d = sum_list (map ev_weight (filter (\<lambda>i. ev_status i = SATISFIED \<and> ev_dimension i = d) items))"
proof -
  have "foldl (\<lambda>total i. if ev_status i = SATISFIED \<and> ev_dimension i = d then total + ev_weight i else total) a items
      = a + sum_list (map ev_weight (filter (\<lambda>i. ev_status i = SATISFIED \<and> ev_dimension i = d) items))" for a
    by (induction items arbitrary: a) auto
  then show ?thesis by (simp add: dimensionScore_def)
qed

definition satisfiedWeight :: "(signal_key \<rightharpoonup> bool) \<Rightarrow> qualification_rule list \<Rightarrow> int" where
  "satisfiedWeight signals rules = sum_list (map ru_weight (filter (\<lambda>r. signals (ru_signal r) = Some True) rules))"

lemma evidenceFor_satisfied: "ev_status (evidenceFor signals r) = SATISFIED \<longleftrightarrow> signals (ru_signal r) = Some True"
  by (auto simp: evidenceFor_def split: option.split bool.split)

lemma evidenceFor_simps [simp]:
  "ev_weight (evidenceFor signals r) = ru_weight r" "ev_dimension (evidenceFor signals r) = ru_dimension r"
  "ev_required (evidenceFor signals r) = ru_required r"
  by (simp_all add: evidenceFor_def)

lemma dimensionScore_rules:
  "dimensionScore (map (evidenceFor signals) rules) d
     = sum_list (map ru_weight (filter (\<lambda>r. signals (ru_signal r) = Some True \<and> ru_dimension r = d) rules))"
  by (simp add: dimensionScore_sum filter_map comp_def evidenceFor_satisfied)

lemma total_score:
  "sc_score (sc_total (calculateScores (map (evidenceFor signals) rules) m)) = satisfiedWeight signals rules"
proof -
  have "satisfiedWeight signals rules = (\<Sum>d \<in> {Preparation, SocialAuthenticity, OnchainHealth}.
      sum_list (map ru_weight (filter (\<lambda>r. signals (ru_signal r) = Some True \<and> ru_dimension r = d) rules)))"
    unfolding satisfiedWeight_def
  proof (induction rules)
    case (Cons r rs)
    then show ?case by (cases "ru_dimension r") auto
  qed simp
  then show ?thesis by (simp add: calculateScores_def Let_def dimensionScore_rules)
qed

lemma filtered_sum_bound:
  assumes "list_all valid_rule rules" and "\<And>r. P r \<Longrightarrow> Q r"
  shows "0 \<le> sum_list (map ru_weight (filter P rules))
     \<and> sum_list (map ru_weight (filter P rules)) \<le> sum_list (map ru_weight (filter Q rules))"
  using assms(1) by (induction rules) (auto simp: valid_rule_def dest: assms(2))

subsection \<open>Properties of the engine\<close>

text \<open>The facts an evaluation works with.\<close>

definition evaluatedFacts :: "evaluation_input \<Rightarrow> qualification_facts" where
  "evaluatedFacts snapshot = (case ei_calibrationFacts snapshot of Some facts \<Rightarrow> facts | None \<Rightarrow> EMPTY_CALIBRATION_FACTS)"

lemma createBlockers_empty: "createBlockers codes = [] \<longleftrightarrow> codes = []"
  by (simp add: createBlockers_def)

lemma reportOf_valid:
  assumes "valid_profile (qp_fields profile)"
  shows "\<exists>r. reportOf profile snapshot t = Some r
     \<and> qr_scores r = calculateScores (map (evidenceFor (map_of (rev (ei_signals snapshot)))) (qp_rules (qp_fields profile)))
         (qp_dimensionMaximums (qp_fields profile))
     \<and> qr_verdict r = (if \<exists>p \<in> set (qp_conditionPolicies (qp_fields profile)).
           rejecting (evaluatedFacts snapshot) (ei_blockers snapshot) p then REJECTED
         else if (\<exists>x \<in> set (qp_rules (qp_fields profile)). ru_required x \<and> map_of (rev (ei_signals snapshot)) (ru_signal x) \<noteq> Some True)
           \<or> satisfiedWeight (map_of (rev (ei_signals snapshot))) (qp_rules (qp_fields profile))
               < qp_minimumTotalScore (qp_fields profile) then WATCHLISTED
         else QUALIFIED)"
proof -
  let ?rules = "qp_rules (qp_fields profile)" and ?signals = "map_of (rev (ei_signals snapshot))"
  have missing: "list_ex (\<lambda>item. ev_required item \<and> ev_status item \<noteq> SATISFIED) (map (evidenceFor ?signals) ?rules)
      \<longleftrightarrow> (\<exists>x \<in> set ?rules. ru_required x \<and> ?signals (ru_signal x) \<noteq> Some True)"
    by (auto simp: list_ex_iff evidenceFor_satisfied)
  show ?thesis
    unfolding reportOf_def Let_def evaluate_total [OF assms] bind.bind_lunit prod.case evaluatedFacts_def [symmetric]
      createBlockers_empty map_is_Nil_conv blocking_codes [OF assms] missing total_score
    by simp
qed

text \<open>
  C36. The verdict says exactly what the profile asks for. For a validated profile, an evaluation of a
  readable input with a valid time always yields a report; it is REJECTED exactly when some enforced
  condition is triggered (by the caller, by an upstream source, or because a measured value breaks
  its threshold), and QUALIFIED exactly when none is, every required signal was observed true, and
  the weights of the true signals reach the minimum score.
\<close>

theorem qualification_verdict_exact:
  assumes "assertValidEffectiveQualificationProfile sha256 v = Some profile"
    and "snapshotEvaluationInput input = Some snapshot"
    and "assertValidTimestampMs EvaluatedAtMs (ei_evaluatedAtMs snapshot) = Inr t"
  shows "\<exists>r. evaluateReport profile input = Some r
     \<and> (qr_verdict r = REJECTED \<longleftrightarrow>
          (\<exists>p \<in> set (qp_conditionPolicies (qp_fields profile)). rejecting (evaluatedFacts snapshot) (ei_blockers snapshot) p))
     \<and> (qr_verdict r = QUALIFIED \<longleftrightarrow>
          (\<forall>p \<in> set (qp_conditionPolicies (qp_fields profile)). \<not> rejecting (evaluatedFacts snapshot) (ei_blockers snapshot) p)
          \<and> (\<forall>x \<in> set (qp_rules (qp_fields profile)). ru_required x \<longrightarrow> map_of (rev (ei_signals snapshot)) (ru_signal x) = Some True)
          \<and> qp_minimumTotalScore (qp_fields profile)
              \<le> satisfiedWeight (map_of (rev (ei_signals snapshot))) (qp_rules (qp_fields profile)))"
proof -
  have "valid_profile (qp_fields profile)"
    using assms(1) profileFieldsFrom_valid
    by (auto simp: assertValidEffectiveQualificationProfile_def result_simps)
  from reportOf_valid [OF this, of snapshot t] obtain r where "reportOf profile snapshot t = Some r"
    and v: "qr_verdict r = (if \<exists>p \<in> set (qp_conditionPolicies (qp_fields profile)).
           rejecting (evaluatedFacts snapshot) (ei_blockers snapshot) p then REJECTED
         else if (\<exists>x \<in> set (qp_rules (qp_fields profile)). ru_required x \<and> map_of (rev (ei_signals snapshot)) (ru_signal x) \<noteq> Some True)
           \<or> satisfiedWeight (map_of (rev (ei_signals snapshot))) (qp_rules (qp_fields profile))
               < qp_minimumTotalScore (qp_fields profile) then WATCHLISTED
         else QUALIFIED)" by blast
  then have "evaluateReport profile input = Some r" using assms(2,3) by (simp add: evaluateReport_def)
  moreover have "qr_verdict r = REJECTED \<longleftrightarrow>
      (\<exists>p \<in> set (qp_conditionPolicies (qp_fields profile)). rejecting (evaluatedFacts snapshot) (ei_blockers snapshot) p)"
    unfolding v by simp
  moreover have "qr_verdict r = QUALIFIED \<longleftrightarrow>
      (\<forall>p \<in> set (qp_conditionPolicies (qp_fields profile)). \<not> rejecting (evaluatedFacts snapshot) (ei_blockers snapshot) p)
      \<and> (\<forall>x \<in> set (qp_rules (qp_fields profile)). ru_required x \<longrightarrow> map_of (rev (ei_signals snapshot)) (ru_signal x) = Some True)
      \<and> qp_minimumTotalScore (qp_fields profile)
          \<le> satisfiedWeight (map_of (rev (ei_signals snapshot))) (qp_rules (qp_fields profile))"
    unfolding v by (auto simp: not_less)
  ultimately show ?thesis by blast
qed

text \<open>
  Scores stay within their scale: in every report of a validated profile each dimension's score is
  between zero and its maximum, and the total is their sum, between 0 and 100.
\<close>

theorem qualification_scores_bounded:
  assumes "assertValidEffectiveQualificationProfile sha256 v = Some profile" and "evaluateReport profile input = Some r"
  shows "(\<forall>s \<in> {sc_preparation (qr_scores r), sc_socialAuthenticity (qr_scores r), sc_onchainHealth (qr_scores r),
        sc_total (qr_scores r)}. 0 \<le> sc_score s \<and> sc_score s \<le> sc_maximum s)
     \<and> sc_maximum (sc_total (qr_scores r)) = 100"
proof -
  have valid: "valid_profile (qp_fields profile)"
    using assms(1) profileFieldsFrom_valid
    by (auto simp: assertValidEffectiveQualificationProfile_def result_simps)
  obtain snapshot where "(case assertValidTimestampMs EvaluatedAtMs (ei_evaluatedAtMs snapshot) of Inl _ \<Rightarrow> None
      | Inr t \<Rightarrow> reportOf profile snapshot t) = Some r"
    using assms(2) by (auto simp: evaluateReport_def bind_eq_Some_conv)
  then obtain t where "reportOf profile snapshot t = Some r"
    by (cases "assertValidTimestampMs EvaluatedAtMs (ei_evaluatedAtMs snapshot)") auto
  with reportOf_valid [OF valid, of snapshot t]
  have r: "qr_scores r = calculateScores (map (evidenceFor (map_of (rev (ei_signals snapshot)))) (qp_rules (qp_fields profile)))
         (qp_dimensionMaximums (qp_fields profile))" by auto
  have "0 \<le> dimensionScore (map (evidenceFor g) (qp_rules (qp_fields profile))) d
      \<and> dimensionScore (map (evidenceFor g) (qp_rules (qp_fields profile))) d \<le> dimensionMaximum d" for g d
    using valid filtered_sum_bound [of "qp_rules (qp_fields profile)" "\<lambda>r. g (ru_signal r) = Some True \<and> ru_dimension r = d" "\<lambda>r. ru_dimension r = d"]
    by (simp add: valid_profile_def dimensionScore_rules ruleTotal_def)
  note this [of "map_of (rev (ei_signals snapshot))" Preparation]
    this [of "map_of (rev (ei_signals snapshot))" SocialAuthenticity] this [of "map_of (rev (ei_signals snapshot))" OnchainHealth]
  moreover have "qp_dimensionMaximums (qp_fields profile) = dimensionMaximum" using valid by (simp add: valid_profile_def)
  ultimately show ?thesis
    unfolding r calculateScores_def Let_def by (simp add: dimensionMaximum_def)
qed

subsection \<open>Authority\<close>

datatype engine_call = Evaluate js | EvaluateAuthorized js js js

text \<open>One call, with the handle it returned, or \<open>None\<close> where it threw and left the engine unchanged.\<close>

fun engineCall :: "engine_call \<Rightarrow> qualification_engine \<Rightarrow> nat option \<times> qualification_engine" where
  "engineCall (Evaluate input) engine = (case evaluate engine input of
     None \<Rightarrow> (None, engine) | Some (h, _, e) \<Rightarrow> (Some h, e))"
| "engineCall (EvaluateAuthorized m t input) engine = (case evaluateAuthorized engine m t input of
     None \<Rightarrow> (None, engine) | Some (h, _, e) \<Rightarrow> (Some h, e))"

primrec engineCalls :: "engine_call list \<Rightarrow> qualification_engine \<Rightarrow> (engine_call \<times> nat option) list \<times> qualification_engine" where
  "engineCalls [] engine = ([], engine)"
| "engineCalls (c # cs) engine = (let (h, e) = engineCall c engine; (log, e') = engineCalls cs e in ((c, h) # log, e'))"

lemma engineCall_step:
  assumes "engineCall c e = (r, e')" and "\<forall>h \<in> dom (eg_authorizedReports e). h < eg_nextReport e"
  shows "(\<forall>h \<in> dom (eg_authorizedReports e'). h < eg_nextReport e')
     \<and> (isAuthorized e' h m t \<longleftrightarrow> isAuthorized e h m t \<or> (r = Some h \<and> (\<exists>input. c = EvaluateAuthorized m t input)))"
proof (cases c)
  case (Evaluate input)
  with assms show ?thesis
    by (cases "evaluateReport (eg_profile e) input")
       (auto simp: evaluate_def isAuthorized_def less_Suc_eq split: option.split)
next
  case (EvaluateAuthorized m' t' input)
  show ?thesis
  proof (cases "evaluateAuthorized e m' t' input")
    case None
    with assms EvaluateAuthorized show ?thesis by (auto simp: isAuthorized_def)
  next
    case (Some x)
    then obtain subj report where s: "snapshotReportSubject m' t' = Some subj" "evaluateReport (eg_profile e) input = Some report"
      and x: "x = (eg_nextReport e, report, e\<lparr>eg_nextReport := eg_nextReport e + 1,
        eg_authorizedReports := (eg_authorizedReports e)(eg_nextReport e \<mapsto> subj)\<rparr>)"
      by (auto simp: evaluateAuthorized_def evaluate_def bind_eq_Some_conv)
    have subj: "m' = JStr (rp_mint subj)" "t' = JStr (rp_triggerEventId subj)"
      using s(1) unfolding snapshotReportSubject_def result_simps by (auto simp: field_iffs)
    have fresh: "eg_authorizedReports e (eg_nextReport e) = None" using assms(2) by (auto simp: dom_def)
    from assms(1) Some x EvaluateAuthorized
    have e': "r = Some (eg_nextReport e)" "e' = e\<lparr>eg_nextReport := eg_nextReport e + 1,
        eg_authorizedReports := (eg_authorizedReports e)(eg_nextReport e \<mapsto> subj)\<rparr>" by simp_all
    then show ?thesis
      using assms(2) fresh EvaluateAuthorized subj by (auto simp: isAuthorized_def less_Suc_eq)
  qed
qed

lemma engineCalls_authorized:
  assumes "\<forall>h \<in> dom (eg_authorizedReports e). h < eg_nextReport e"
  shows "isAuthorized (snd (engineCalls cs e)) h m t \<longleftrightarrow>
     isAuthorized e h m t \<or> (\<exists>input. (EvaluateAuthorized m t input, Some h) \<in> set (fst (engineCalls cs e)))"
  using assms
proof (induction cs arbitrary: e)
  case (Cons c cs)
  obtain r e' where step: "engineCall c e = (r, e')" by (cases "engineCall c e")
  note inv = engineCall_step [OF step Cons.prems, of h m t]
  have "isAuthorized (snd (engineCalls cs e')) h m t \<longleftrightarrow>
      isAuthorized e' h m t \<or> (\<exists>input. (EvaluateAuthorized m t input, Some h) \<in> set (fst (engineCalls cs e')))"
    using inv by (intro Cons.IH) blast
  then show ?case using inv step by (auto simp: Let_def split: prod.splits)
qed simp

text \<open>
  C37. Only the engine vouches for a report, and only for its own subject. After any sequence of
  evaluations, a report is authorised for a mint and a trigger exactly when it is the object an
  authorised evaluation for that mint and trigger returned: plain evaluations, failed calls and
  other subjects never authorise anything.
\<close>

theorem report_authority_exact:
  assumes "newQualificationEngine sha256 profile = Some engine"
  shows "isAuthorized (snd (engineCalls calls engine)) h m t \<longleftrightarrow>
     (\<exists>input. (EvaluateAuthorized m t input, Some h) \<in> set (fst (engineCalls calls engine)))"
proof -
  have "eg_authorizedReports engine = Map.empty" using assms by (auto simp: newQualificationEngine_def)
  then show ?thesis using engineCalls_authorized [of engine calls h m t] by (simp add: isAuthorized_def)
qed

end
