(* ===== verification/Profile_Identity.thy ===== *)
theory Profile_Identity
  imports Qualification
begin

text \<open>
  Identity of a qualification profile: the object the loader returns is accepted unchanged by every
  consumer, and its fingerprint stands for its content.
\<close>

subsection \<open>Frozen plain objects\<close>

fun js_of_data :: "data \<Rightarrow> js" where
  "js_of_data DNull = JNull"
| "js_of_data (DBool b) = JBool b"
| "js_of_data (DInt i) = JNum (JInt i)"
| "js_of_data (DBig n) = JBig n"
| "js_of_data (DStr s) = JStr s"
| "js_of_data (DArr vs) = JArr False True (map (\<lambda>v. Some (DataProp True (js_of_data v))) vs)"
| "js_of_data (DObj ms) = frozen_object (map (\<lambda>(k, v). (k, js_of_data v)) ms)"

lemma exactFrozenRecord_frozen_object:
  assumes "distinct (map fst r)" and "distinct keys" and "set (map fst r) = set keys"
  shows "exactFrozenRecord keys (frozen_object r) = Some (pick r keys)"
proof -
  have own: "map fst (ownProps (frozen_object r)) = map KStr (map fst r)"
    by (auto simp: frozen_object_def)
  have "length (map fst r) = length keys"
    using assms by (metis distinct_card)
  moreover have "\<not> list_ex (\<lambda>k. case k of KStr s \<Rightarrow> s \<notin> set keys | KSym _ \<Rightarrow> True) (map KStr (map fst r))"
    using assms(3) by (auto simp: list_ex_iff)
  moreover have "readKeys keys (frozen_object r) = Some (pick r keys)"
    unfolding pick_def using assms(1,3) by (intro readKeys_frozen_object) auto
  moreover have "isPlainObject (frozen_object r)" "isFrozen (frozen_object r)" by (simp_all add: frozen_object_def)
  ultimately show ?thesis
    unfolding exactFrozenRecord_def exactRecord_def Let_def own by simp
qed

lemma fld_pick [simp]: "fld (pick r keys) k = (if k \<in> set keys then fld r k else JUndefined)"
  by (induction keys) (auto simp: pick_def fld_def)

lemma exactArray_elements [simp]: "exactArray (JArr False True (map (\<lambda>x. Some (DataProp True (f x))) xs)) = Some (map f xs)"
  by (simp add: exactArray_def denseElements_def comp_def) (induction xs, auto)

subsection \<open>Reading a profile back\<close>

lemma literal_read:
  "enumValue QUALIFICATION_SIGNAL_KEYS (JStr (literal_of QUALIFICATION_SIGNAL_KEYS s)) = Some s"
  "enumValue QUALIFICATION_DIMENSIONS (JStr (literal_of QUALIFICATION_DIMENSIONS d)) = Some d"
  "enumValue QUALIFICATION_CONDITION_MODES (JStr (literal_of QUALIFICATION_CONDITION_MODES m)) = Some m"
  "enumValue REASON_LITERALS (JStr (literal_of REASON_LITERALS c)) = Some c"
  subgoal by (cases s) (simp_all add: enumValue_def literal_of_def QUALIFICATION_SIGNAL_KEYS_def)
  subgoal by (cases d) (simp_all add: enumValue_def literal_of_def QUALIFICATION_DIMENSIONS_def)
  subgoal by (cases m) (simp_all add: enumValue_def literal_of_def QUALIFICATION_CONDITION_MODES_def)
  subgoal by (cases c) (simp_all add: enumValue_def literal_of_def REASON_LITERALS_def)
  done

lemma nullable_read:
  "valid_bps x \<Longrightarrow> nullableBps (js_of_data (nullableInt x)) = Some x"
  "(case y of None \<Rightarrow> True | Some n \<Rightarrow> 1 \<le> n \<and> n \<le> 10000) \<Longrightarrow> nullablePositive (js_of_data (nullableInt y)) = Some y"
  subgoal by (cases x) (simp_all add: nullableBps_def nullable_def nullableInt_def valid_bps_def safeInteger_def)
  subgoal by (cases y) (simp_all add: nullablePositive_def nullable_def nullableInt_def safeInteger_def)
  done

lemma ruleEntries_read:
  assumes "list_all valid_rule rs" and "distinct (map ru_signal rs)" and "set (map ru_signal rs) \<inter> set seen = {}"
  shows "ruleEntries (map (\<lambda>r. js_of_data (ruleData r)) rs) seen = Some rs"
  using assms
proof (induction rs arbitrary: seen)
  case (Cons r rs)
  have read: "exactFrozenRecord RULE_FIELDS (js_of_data (ruleData r)) = Some (pick (map (\<lambda>(k, v). (k, js_of_data v))
      [(''signal'', DStr (literal_of QUALIFICATION_SIGNAL_KEYS (ru_signal r))),
     (''dimension'', DStr (literal_of QUALIFICATION_DIMENSIONS (ru_dimension r))), (''weight'', DInt (ru_weight r)),
     (''required'', DBool (ru_required r)), (''message'', DStr (ru_message r))]) RULE_FIELDS)"
    unfolding ruleData_def js_of_data.simps by (rule exactFrozenRecord_frozen_object) (simp_all add: RULE_FIELDS_def)
  have r: "0 \<le> ru_weight r" "ru_weight r \<le> 100" "bounded_text 1 280 (ru_message r)"
    using Cons.prems(1) by (simp_all add: valid_rule_def)
  have "safeInteger 0 100 (JNum (JInt (ru_weight r))) = Some (ru_weight r)"
    "boundedString 1 280 (JStr (ru_message r)) = Some (ru_message r)"
    using r by (simp_all add: field_iffs)
  moreover have "ruleEntries (map (\<lambda>r. js_of_data (ruleData r)) rs) (ru_signal r # seen) = Some rs"
    using Cons.prems by (intro Cons.IH) auto
  moreover have "ru_signal r \<notin> set seen" using Cons.prems(3) by simp
  ultimately show ?case
    using read by (simp add: RULE_FIELDS_def literal_read booleanValue_def)
qed simp

lemma policyEntries_read:
  assumes "list_all valid_policy ps" and "distinct (map cp_code ps)" and "set (map cp_code ps) \<inter> set seen = {}"
  shows "policyEntries (map (\<lambda>p. js_of_data (policyData p)) ps) seen = Some ps"
  using assms
proof (induction ps arbitrary: seen)
  case (Cons p ps)
  have read: "exactFrozenRecord POLICY_FIELDS (js_of_data (policyData p)) = Some (pick (map (\<lambda>(k, v). (k, js_of_data v))
      [(''code'', DStr (literal_of REASON_LITERALS (cp_code p))),
     (''mode'', DStr (literal_of QUALIFICATION_CONDITION_MODES (cp_mode p))),
     (''maximumTop1Bps'', nullableInt (cp_maximumTop1Bps p)), (''maximumTop5Bps'', nullableInt (cp_maximumTop5Bps p)),
     (''maximumTop10Bps'', nullableInt (cp_maximumTop10Bps p)), (''maximumClusterBps'', nullableInt (cp_maximumClusterBps p)),
     (''minimumSharedFunders'', nullableInt (cp_minimumSharedFunders p)),
     (''maximumRoundTripLossBps'', nullableInt (cp_maximumRoundTripLossBps p))]) POLICY_FIELDS)"
    unfolding policyData_def js_of_data.simps by (rule exactFrozenRecord_frozen_object) (simp_all add: POLICY_FIELDS_def)
  let ?fields = "pick (map (\<lambda>(k, v). (k, js_of_data v))
      [(''code'', DStr (literal_of REASON_LITERALS (cp_code p))),
     (''mode'', DStr (literal_of QUALIFICATION_CONDITION_MODES (cp_mode p))),
     (''maximumTop1Bps'', nullableInt (cp_maximumTop1Bps p)), (''maximumTop5Bps'', nullableInt (cp_maximumTop5Bps p)),
     (''maximumTop10Bps'', nullableInt (cp_maximumTop10Bps p)), (''maximumClusterBps'', nullableInt (cp_maximumClusterBps p)),
     (''minimumSharedFunders'', nullableInt (cp_minimumSharedFunders p)),
     (''maximumRoundTripLossBps'', nullableInt (cp_maximumRoundTripLossBps p))]) POLICY_FIELDS"
  have flds: "fld ?fields ''code'' = JStr (literal_of REASON_LITERALS (cp_code p))"
    "fld ?fields ''mode'' = JStr (literal_of QUALIFICATION_CONDITION_MODES (cp_mode p))"
    "fld ?fields ''maximumTop1Bps'' = js_of_data (nullableInt (cp_maximumTop1Bps p))"
    "fld ?fields ''maximumTop5Bps'' = js_of_data (nullableInt (cp_maximumTop5Bps p))"
    "fld ?fields ''maximumTop10Bps'' = js_of_data (nullableInt (cp_maximumTop10Bps p))"
    "fld ?fields ''maximumClusterBps'' = js_of_data (nullableInt (cp_maximumClusterBps p))"
    "fld ?fields ''minimumSharedFunders'' = js_of_data (nullableInt (cp_minimumSharedFunders p))"
    "fld ?fields ''maximumRoundTripLossBps'' = js_of_data (nullableInt (cp_maximumRoundTripLossBps p))"
    by (simp_all add: POLICY_FIELDS_def)
  have valid: "validatePolicyThresholds p" "valid_bps (cp_maximumTop1Bps p)" "valid_bps (cp_maximumTop5Bps p)"
    "valid_bps (cp_maximumTop10Bps p)" "valid_bps (cp_maximumClusterBps p)" "valid_bps (cp_maximumRoundTripLossBps p)"
    "case cp_minimumSharedFunders p of None \<Rightarrow> True | Some n \<Rightarrow> 1 \<le> n \<and> n \<le> 10000"
    using Cons.prems(1) by (simp_all add: valid_policy_def)
  have rest: "policyEntries (map (\<lambda>p. js_of_data (policyData p)) ps) (cp_code p # seen) = Some ps"
    using Cons.prems by (intro Cons.IH) auto
  have fresh: "cp_code p \<notin> set seen" using Cons.prems(3) by simp
  have same: "\<lparr>cp_code = cp_code p, cp_mode = cp_mode p, cp_maximumTop1Bps = cp_maximumTop1Bps p,
      cp_maximumTop5Bps = cp_maximumTop5Bps p, cp_maximumTop10Bps = cp_maximumTop10Bps p,
      cp_maximumClusterBps = cp_maximumClusterBps p, cp_minimumSharedFunders = cp_minimumSharedFunders p,
      cp_maximumRoundTripLossBps = cp_maximumRoundTripLossBps p\<rparr> = p" by simp
  have "policyEntries (js_of_data (policyData p) # map (\<lambda>p. js_of_data (policyData p)) ps) seen = Some (p # ps)"
    unfolding policyEntries.simps read bind.bind_lunit flds literal_read nullable_read(1) [OF valid(2)]
      nullable_read(1) [OF valid(3)] nullable_read(1) [OF valid(4)] nullable_read(1) [OF valid(5)]
      nullable_read(1) [OF valid(6)] nullable_read(2) [OF valid(7)] Let_def same
    using valid(1) fresh rest by simp
  then show ?case by (simp only: list.map)
qed simp

text \<open>The profile as the frozen object the loader returns, with its fingerprint last.\<close>

definition profileObject :: "qualification_profile \<Rightarrow> js" where
  "profileObject p = (case profileData (qp_fields p) of
     DObj ms \<Rightarrow> js_of_data (DObj (ms @ [(''fingerprint'', DStr (qp_fingerprint p))])) | _ \<Rightarrow> JUndefined)"

lemma parseMaximums_read:
  "parseMaximums (js_of_data (DObj (map (\<lambda>(s, d). (s, DInt (dimensionMaximum d))) QUALIFICATION_DIMENSIONS))) = Some dimensionMaximum"
proof -
  let ?members = "[(''preparation'', JNum (JInt 15)), (''socialAuthenticity'', JNum (JInt 25)), (''onchainHealth'', JNum (JInt 60))]"
  have object: "js_of_data (DObj (map (\<lambda>(s, d). (s, DInt (dimensionMaximum d))) QUALIFICATION_DIMENSIONS)) = frozen_object ?members"
    by (simp add: QUALIFICATION_DIMENSIONS_def dimensionMaximum_def)
  have read: "exactFrozenRecord (map fst QUALIFICATION_DIMENSIONS) (frozen_object ?members)
      = Some (pick ?members (map fst QUALIFICATION_DIMENSIONS))"
    by (rule exactFrozenRecord_frozen_object) (simp_all add: QUALIFICATION_DIMENSIONS_def)
  have flds: "fld (pick ?members (map fst QUALIFICATION_DIMENSIONS)) ''preparation'' = JNum (JInt 15)"
    "fld (pick ?members (map fst QUALIFICATION_DIMENSIONS)) ''socialAuthenticity'' = JNum (JInt 25)"
    "fld (pick ?members (map fst QUALIFICATION_DIMENSIONS)) ''onchainHealth'' = JNum (JInt 60)"
    by (simp_all add: QUALIFICATION_DIMENSIONS_def)
  have numbers: "safeInteger 15 15 (JNum (JInt 15)) = Some 15" "safeInteger 25 25 (JNum (JInt 25)) = Some 25"
    "safeInteger 60 60 (JNum (JInt 60)) = Some 60"
    by (simp_all add: safeInteger_def)
  show ?thesis
    unfolding parseMaximums_def object read bind.bind_lunit flds numbers option.inject
    by (rule ext) (simp add: dimensionMaximum_def)
qed

lemma profileFieldsFrom_read:
  assumes "valid_profile f"
    and "fld raw ''schemaVersion'' = JNum (JInt 1)" and "fld raw ''status'' = JStr ''UNVALIDATED_RULE_SET''"
    and "fld raw ''id'' = JStr (qp_id f)" and "fld raw ''version'' = JNum (JInt (qp_version f))"
    and "fld raw ''dimensionMaximums'' = js_of_data (DObj (map (\<lambda>(s, d). (s, DInt (dimensionMaximum d))) QUALIFICATION_DIMENSIONS))"
    and "fld raw ''rules'' = js_of_data (DArr (map ruleData (qp_rules f)))"
    and "fld raw ''conditionPolicies'' = js_of_data (DArr (map policyData (qp_conditionPolicies f)))"
  shows "profileFieldsFrom raw (JNum (JInt (qp_minimumTotalScore f))) = Some f"
proof -
  note valid = assms(1) [unfolded valid_profile_def]
  have "ruleEntries (map (\<lambda>r. js_of_data (ruleData r)) (qp_rules f)) [] = Some (qp_rules f)"
    using valid by (intro ruleEntries_read) simp_all
  then have rules: "readRules (fld raw ''rules'') dimensionMaximum = Some (qp_rules f)"
    unfolding readRules_def assms(7) using valid by (simp add: comp_def list_ex_iff)
  have "policyEntries (map (\<lambda>p. js_of_data (policyData p)) (qp_conditionPolicies f)) [] = Some (qp_conditionPolicies f)"
    using valid by (intro policyEntries_read) simp_all
  then have policies: "readPolicies (fld raw ''conditionPolicies'') = Some (qp_conditionPolicies f)"
    unfolding readPolicies_def assms(8) using valid by (simp add: comp_def)
  have "boundedString 1 160 (JStr (qp_id f)) = Some (qp_id f)"
    "safeInteger 1 MAX_SAFE_INTEGER (JNum (JInt (qp_version f))) = Some (qp_version f)"
    "safeInteger 0 100 (JNum (JInt (qp_minimumTotalScore f))) = Some (qp_minimumTotalScore f)"
    using valid by (auto simp: field_iffs)
  then show ?thesis
    unfolding profileFieldsFrom_def using assms(2-5) rules policies valid
    by (simp add: parseMaximums_read assms(6) del: js_of_data.simps)
qed

subsection \<open>Sorting\<close>

lemma distinct_map_sort_key: "distinct (map g (sort_key k xs)) \<longleftrightarrow> distinct (map g xs)"
proof -
  have "mset (map g (sort_key k xs)) = mset (map g xs)" by simp
  then show ?thesis by (metis mset_eq_imp_distinct_iff)
qed

lemma sum_filter_sort_key: "sum_list (map g (filter P (sort_key k xs))) = (sum_list (map g (filter P xs)) :: int)"
proof -
  have "mset (map g (filter P (sort_key k xs))) = mset (map g (filter P xs))" by simp
  then show ?thesis by (metis sum_mset_sum_list)
qed

lemma sortedFields_valid: "valid_profile f \<Longrightarrow> valid_profile (sortedFields f)"
  by (simp add: valid_profile_def sortedFields_def sortRules_def sortPolicies_def distinct_map_sort_key ruleTotal_def
      sum_filter_sort_key list_all_iff)

lemma sortedFields_idem: "sortedFields (sortedFields f) = sortedFields f"
  by (simp add: sortedFields_def sortRules_def sortPolicies_def sort_key_id_if_sorted)

subsection \<open>Properties\<close>

lemma profileObject_accepted:
  assumes "valid_profile (qp_fields p)" and "\<And>x. is_hex64 (sha256 x)"
    and "profileFingerprint sha256 (qp_fields p) = Some (qp_fingerprint p)"
  shows "assertValidEffectiveQualificationProfile sha256 (profileObject p) = Some p"
proof -
  let ?f = "qp_fields p"
  let ?members = "map (\<lambda>(k, v). (k, js_of_data v))
     [(''schemaVersion'', DInt 1), (''id'', DStr (qp_id ?f)), (''version'', DInt (qp_version ?f)),
     (''status'', DStr ''UNVALIDATED_RULE_SET''), (''minimumTotalScore'', DInt (qp_minimumTotalScore ?f)),
     (''dimensionMaximums'', DObj (map (\<lambda>(s, d). (s, DInt (qp_dimensionMaximums ?f d))) QUALIFICATION_DIMENSIONS)),
     (''rules'', DArr (map ruleData (qp_rules ?f))), (''conditionPolicies'', DArr (map policyData (qp_conditionPolicies ?f))),
     (''fingerprint'', DStr (qp_fingerprint p))]"
  let ?raw = "pick ?members EFFECTIVE_PROFILE_FIELDS"
  have object: "profileObject p = frozen_object ?members"
    by (simp add: profileObject_def profileData_def)
  have read: "exactFrozenRecord EFFECTIVE_PROFILE_FIELDS (frozen_object ?members) = Some ?raw"
  proof (rule exactFrozenRecord_frozen_object)
    have keys: "map fst ?members = [''schemaVersion'', ''id'', ''version'', ''status'', ''minimumTotalScore'',
        ''dimensionMaximums'', ''rules'', ''conditionPolicies'', ''fingerprint'']" by simp
    show "distinct (map fst ?members)" unfolding keys by simp
    show "distinct EFFECTIVE_PROFILE_FIELDS" by (simp add: EFFECTIVE_PROFILE_FIELDS_def)
    show "set (map fst ?members) = set EFFECTIVE_PROFILE_FIELDS" unfolding keys by code_simp
  qed
  have maxima: "qp_dimensionMaximums ?f = dimensionMaximum" using assms(1) by (simp add: valid_profile_def)
  have fields: "profileFieldsFrom ?raw (JNum (JInt (qp_minimumTotalScore ?f))) = Some ?f"
    by (rule profileFieldsFrom_read [OF assms(1)])
       (simp_all add: EFFECTIVE_PROFILE_FIELDS_def maxima del: js_of_data.simps(6,7))
  have flds: "fld ?raw ''minimumTotalScore'' = JNum (JInt (qp_minimumTotalScore ?f))"
    "fld ?raw ''fingerprint'' = JStr (qp_fingerprint p)"
    by (simp_all add: EFFECTIVE_PROFILE_FIELDS_def)
  have "is_hex64 (qp_fingerprint p)" using assms(3) assms(2) by (auto simp: profileFingerprint_def) metis
  then have claimed: "string_matching is_hex64 (JStr (qp_fingerprint p)) = Some (qp_fingerprint p)" by (simp add: field_iffs)
  show ?thesis
    unfolding assertValidEffectiveQualificationProfile_def object read bind.bind_lunit flds fields claimed assms(3)
    by simp
qed

lemma profile_parsed:
  assumes "valid_profile f" and "profileFingerprint sha256 f = Some fp"
  shows "parseQualificationProfile sha256 (js_of_data (profileData f)) JNull
     = Some \<lparr>qp_fields = sortedFields f, qp_fingerprint = fp\<rparr>"
proof -
  let ?members = "map (\<lambda>(k, v). (k, js_of_data v))
     [(''schemaVersion'', DInt 1), (''id'', DStr (qp_id f)), (''version'', DInt (qp_version f)),
     (''status'', DStr ''UNVALIDATED_RULE_SET''), (''minimumTotalScore'', DInt (qp_minimumTotalScore f)),
     (''dimensionMaximums'', DObj (map (\<lambda>(s, d). (s, DInt (qp_dimensionMaximums f d))) QUALIFICATION_DIMENSIONS)),
     (''rules'', DArr (map ruleData (qp_rules f))), (''conditionPolicies'', DArr (map policyData (qp_conditionPolicies f)))]"
  let ?raw = "pick ?members TOP_LEVEL_FIELDS"
  have keys: "map fst ?members = TOP_LEVEL_FIELDS" by (simp add: TOP_LEVEL_FIELDS_def)
  have "distinct TOP_LEVEL_FIELDS" by (simp add: TOP_LEVEL_FIELDS_def)
  then have read: "exactFrozenRecord TOP_LEVEL_FIELDS (frozen_object ?members) = Some ?raw"
    by (intro exactFrozenRecord_frozen_object) (simp_all only: keys)
  have object: "js_of_data (profileData f) = frozen_object ?members" by (simp only: profileData_def js_of_data.simps)
  have maxima: "qp_dimensionMaximums f = dimensionMaximum" using assms(1) by (simp add: valid_profile_def)
  have "profileFieldsFrom ?raw (JNum (JInt (qp_minimumTotalScore f))) = Some f"
    by (rule profileFieldsFrom_read [OF assms(1)])
       (simp_all add: TOP_LEVEL_FIELDS_def maxima del: js_of_data.simps(6,7))
  moreover have "fld ?raw ''minimumTotalScore'' = JNum (JInt (qp_minimumTotalScore f))"
    by (simp add: TOP_LEVEL_FIELDS_def)
  ultimately show ?thesis
    unfolding parseQualificationProfile_def object read bind.bind_lunit using assms(2) by simp
qed

text \<open>
  C38. A loaded profile is usable: whatever the loader returns, sorted and fingerprinted, passes the
  validation every consumer performs, and is read there as exactly the same profile.
\<close>

theorem profile_round_trip:
  assumes "\<And>x. is_hex64 (sha256 x)" and "parseQualificationProfile sha256 raw minimumScoreOverride = Some p"
  shows "assertValidEffectiveQualificationProfile sha256 (profileObject p) = Some p"
proof -
  from assms(2) obtain r f where f: "profileFieldsFrom r
      (if minimumScoreOverride = JNull then fld r ''minimumTotalScore'' else minimumScoreOverride) = Some f"
    and p: "profileFingerprint sha256 f = Some (qp_fingerprint p)" "qp_fields p = sortedFields f"
    unfolding parseQualificationProfile_def result_simps by (elim exE conjE) auto
  have "profileFingerprint sha256 (qp_fields p) = Some (qp_fingerprint p)"
    using p(1) unfolding profileFingerprint_def p(2) sortedFields_idem .
  moreover have "valid_profile (qp_fields p)"
    unfolding p(2) by (rule sortedFields_valid [OF profileFieldsFrom_valid [OF f]])
  ultimately show ?thesis by (intro profileObject_accepted assms(1))
qed

subsubsection \<open>The fingerprint stands for the content\<close>

lemma distinct_keys_profile: "distinct_keys (profileData f)"
  by (auto simp: profileData_def ruleData_def policyData_def nullableInt_def QUALIFICATION_DIMENSIONS_def list_all_iff split: option.split)

lemma fmap_of_list_same_keys:
  assumes "map fst ms = map fst ns" and "distinct (map fst ms)"
  shows "fmap_of_list ms = fmap_of_list ns \<longleftrightarrow> map snd ms = map snd ns"
proof
  assume "fmap_of_list ms = fmap_of_list ns"
  then have m: "map_of ms = map_of ns" by (simp add: fmap_of_list_eq_iff)
  have "snd (ms ! i) = snd (ns ! i)" if "i < length ms" for i
  proof -
    have len: "length ms = length ns" using assms(1) by (metis length_map)
    have "map_of ms (fst (ms ! i)) = Some (snd (ms ! i))"
      using assms(2) that by (simp add: map_of_is_SomeI)
    moreover have "map_of ns (fst (ns ! i)) = Some (snd (ns ! i))"
      using assms that len by (simp add: map_of_is_SomeI)
    moreover have "fst (ms ! i) = fst (ns ! i)" using assms(1) that len by (metis nth_map)
    ultimately show ?thesis using m by simp
  qed
  then show "map snd ms = map snd ns" using assms(1) by (auto simp: list_eq_iff_nth_eq)
next
  assume "map snd ms = map snd ns"
  with assms(1) have "ms = ns" by (metis zip_map_fst_snd)
  then show "fmap_of_list ms = fmap_of_list ns" by simp
qed

lemma meaning_literal:
  "literal_of QUALIFICATION_SIGNAL_KEYS a = literal_of QUALIFICATION_SIGNAL_KEYS b \<longleftrightarrow> a = b"
  "literal_of QUALIFICATION_DIMENSIONS c = literal_of QUALIFICATION_DIMENSIONS d \<longleftrightarrow> c = d"
  "literal_of QUALIFICATION_CONDITION_MODES m = literal_of QUALIFICATION_CONDITION_MODES n \<longleftrightarrow> m = n"
  "literal_of REASON_LITERALS x = literal_of REASON_LITERALS y \<longleftrightarrow> x = y"
  using literal_read by (metis option.inject)+

lemma meaning_nullable: "meaning_of (nullableInt x) = meaning_of (nullableInt y) \<longleftrightarrow> x = y"
  by (auto simp: nullableInt_def split: option.splits)

lemma meaning_rule: "meaning_of (ruleData r) = meaning_of (ruleData q) \<longleftrightarrow> r = q"
proof -
  have "meaning_of (ruleData r) = meaning_of (ruleData q) \<longleftrightarrow>
      ru_signal r = ru_signal q \<and> ru_dimension r = ru_dimension q \<and> ru_weight r = ru_weight q
      \<and> ru_required r = ru_required q \<and> ru_message r = ru_message q"
    unfolding ruleData_def meaning_of.simps meaning.inject
    by (subst fmap_of_list_same_keys) (simp_all add: meaning_literal)
  then show ?thesis by (metis qualification_rule.equality old.unit.exhaust)
qed

lemma meaning_policy: "meaning_of (policyData p) = meaning_of (policyData q) \<longleftrightarrow> p = q"
proof -
  have "meaning_of (policyData p) = meaning_of (policyData q) \<longleftrightarrow>
      cp_code p = cp_code q \<and> cp_mode p = cp_mode q \<and> cp_maximumTop1Bps p = cp_maximumTop1Bps q
      \<and> cp_maximumTop5Bps p = cp_maximumTop5Bps q \<and> cp_maximumTop10Bps p = cp_maximumTop10Bps q
      \<and> cp_maximumClusterBps p = cp_maximumClusterBps q \<and> cp_minimumSharedFunders p = cp_minimumSharedFunders q
      \<and> cp_maximumRoundTripLossBps p = cp_maximumRoundTripLossBps q"
    unfolding policyData_def meaning_of.simps meaning.inject
    by (subst fmap_of_list_same_keys) (simp_all add: meaning_literal meaning_nullable)
  then show ?thesis by (metis condition_policy.equality old.unit.exhaust)
qed

lemma map_inj_eq: "(\<And>x y. f x = f y \<longleftrightarrow> x = y) \<Longrightarrow> map f xs = map f ys \<longleftrightarrow> xs = ys"
  using inj_map_eq_map [of f] by (auto simp: inj_def)

lemma meaning_profile:
  assumes "qp_dimensionMaximums f = qp_dimensionMaximums g"
  shows "meaning_of (profileData f) = meaning_of (profileData g) \<longleftrightarrow> f = g"
proof -
  have "meaning_of (profileData f) = meaning_of (profileData g) \<longleftrightarrow>
      qp_id f = qp_id g \<and> qp_version f = qp_version g \<and> qp_minimumTotalScore f = qp_minimumTotalScore g
      \<and> qp_rules f = qp_rules g \<and> qp_conditionPolicies f = qp_conditionPolicies g"
    unfolding profileData_def meaning_of.simps meaning.inject
    by (subst fmap_of_list_same_keys)
       (simp_all add: assms comp_def map_inj_eq [of "\<lambda>r. meaning_of (ruleData r)", OF meaning_rule]
          map_inj_eq [of "\<lambda>p. meaning_of (policyData p)", OF meaning_policy])
  then show ?thesis using assms by (metis profile_fields.equality old.unit.exhaust)
qed

text \<open>
  C39. The fingerprint identifies the profile: where SHA-256 separates the two canonical texts, two
  accepted profiles have the same fingerprint exactly when all their rules, weights, thresholds and
  modes agree, whatever order the rules and policies are listed in.
\<close>

theorem profile_fingerprint_binds:
  assumes "assertValidEffectiveQualificationProfile sha256 v = Some p"
    and "assertValidEffectiveQualificationProfile sha256 w = Some q"
    and "inj_on sha256 {the (canonicalStringifyJson (profileData (sortedFields (qp_fields p)))),
           the (canonicalStringifyJson (profileData (sortedFields (qp_fields q))))}"
  shows "qp_fingerprint p = qp_fingerprint q \<longleftrightarrow> sortedFields (qp_fields p) = sortedFields (qp_fields q)"
proof -
  have txt_of: "\<exists>t. canonicalStringifyJson (profileData (sortedFields (qp_fields x))) = Some t \<and> qp_fingerprint x = sha256 t
      \<and> valid_profile (qp_fields x)"
    if "assertValidEffectiveQualificationProfile sha256 u = Some x" for u x
    using that unfolding assertValidEffectiveQualificationProfile_def result_simps
    by (elim exE conjE) (auto simp: profileFingerprint_def dest: profileFieldsFrom_valid)
  obtain s t where s: "canonicalStringifyJson (profileData (sortedFields (qp_fields p))) = Some s" "qp_fingerprint p = sha256 s"
    "valid_profile (qp_fields p)"
    and t: "canonicalStringifyJson (profileData (sortedFields (qp_fields q))) = Some t" "qp_fingerprint q = sha256 t"
    "valid_profile (qp_fields q)"
    using txt_of [OF assms(1)] txt_of [OF assms(2)] by blast
  have "qp_fingerprint p = qp_fingerprint q \<longleftrightarrow> s = t"
    using assms(3) s t by (auto dest: inj_onD)
  also have "\<dots> \<longleftrightarrow> meaning_of (profileData (sortedFields (qp_fields p))) = meaning_of (profileData (sortedFields (qp_fields q)))"
    by (rule canonicalStringify_meaning [OF s(1) t(1) distinct_keys_profile distinct_keys_profile])
  also have "\<dots> \<longleftrightarrow> sortedFields (qp_fields p) = sortedFields (qp_fields q)"
    using s(3) t(3) by (intro meaning_profile) (simp add: sortedFields_def valid_profile_def)
  finally show ?thesis .
qed

subsection \<open>Concrete runs\<close>

definition example_rules :: "qualification_rule list" where
  "example_rules = [
     \<lparr>ru_signal = ImageValid, ru_dimension = Preparation, ru_weight = 15, ru_required = False, ru_message = ''i''\<rparr>,
     \<lparr>ru_signal = SocialCrossLinkConfirmed, ru_dimension = SocialAuthenticity, ru_weight = 25, ru_required = False, ru_message = ''s''\<rparr>,
     \<lparr>ru_signal = CreatorHasNotSold, ru_dimension = OnchainHealth, ru_weight = 60, ru_required = True, ru_message = ''c''\<rparr>]"

definition example_condition_policy :: "qualification_reason \<Rightarrow> condition_policy" where
  "example_condition_policy c = \<lparr>cp_code = c, cp_mode = ENFORCED, cp_maximumTop1Bps = None, cp_maximumTop5Bps = None,
     cp_maximumTop10Bps = None, cp_maximumClusterBps = None,
     cp_minimumSharedFunders = (if c = SHARED_FUNDER_CLUSTER then Some 3 else None),
     cp_maximumRoundTripLossBps = (if c = ROUND_TRIP_LOSS_EXCEEDED_reason then Some 500 else None)\<rparr>"

definition example_profile :: "int \<Rightarrow> profile_fields" where
  "example_profile score = \<lparr>qp_id = ''p'', qp_version = 1, qp_minimumTotalScore = score, qp_dimensionMaximums = dimensionMaximum,
     qp_rules = example_rules, qp_conditionPolicies = map example_condition_policy QUALIFICATION_REASON_CODES\<rparr>"

lemma example_profile_valid: "0 \<le> score \<Longrightarrow> score \<le> 100 \<Longrightarrow> valid_profile (example_profile score)"
proof -
  have "bounded_text 1 160 ''p''" "list_all valid_rule example_rules" by code_simp+
  moreover have "\<forall>d. ruleTotal example_rules d = dimensionMaximum d"
  proof
    show "ruleTotal example_rules d = dimensionMaximum d" for d
      by (cases d) (simp_all add: ruleTotal_def example_rules_def dimensionMaximum_def)
  qed
  moreover have "distinct (map ru_signal example_rules)" by (simp add: example_rules_def)
  moreover have "distinct (map cp_code (map example_condition_policy QUALIFICATION_REASON_CODES))"
    using reason_codes_distinct by (simp add: comp_def example_condition_policy_def)
  moreover have "list_all valid_policy (map example_condition_policy QUALIFICATION_REASON_CODES)"
    by (auto simp: list_all_iff valid_policy_def example_condition_policy_def validatePolicyThresholds_def valid_bps_def)
  ultimately show "0 \<le> score \<Longrightarrow> score \<le> 100 \<Longrightarrow> valid_profile (example_profile score)"
    by (simp add: valid_profile_def example_profile_def)
qed

lemma example_profile_text: "canonicalStringifyJson (profileData (sortedFields (example_profile 50))) \<noteq> None"
  by code_simp

lemma example_fingerprint:
  "profileFingerprint zero_digest (example_profile 50) = Some (zero_digest ())"
  using example_profile_text by (auto simp: profileFingerprint_def zero_digest_def)

theorem profile_round_trip_witness:
  "\<exists>p. parseQualificationProfile zero_digest (js_of_data (profileData (example_profile 50))) JNull = Some p
     \<and> assertValidEffectiveQualificationProfile zero_digest (profileObject p) = Some p"
  using profile_parsed [OF example_profile_valid [of 50] example_fingerprint]
    profile_round_trip [of zero_digest, OF zero_digest_hex] by simp

text \<open>The same profile with its rules listed in the other order.\<close>

definition reordered_profile :: profile_fields where
  "reordered_profile = (example_profile 50)\<lparr>qp_rules := rev example_rules\<rparr>"

lemma reordered_sorted: "sortedFields reordered_profile = sortedFields (example_profile 50)"
proof -
  have "sortRules (rev example_rules) = sortRules example_rules"
    by (simp add: sortRules_def example_rules_def signalRank_def)
  then show ?thesis by (simp add: sortedFields_def reordered_profile_def example_profile_def)
qed

lemma ruleTotal_rev: "ruleTotal (rev rules) d = ruleTotal rules d"
  by (simp add: ruleTotal_def rev_filter [symmetric] rev_map [symmetric])

lemma reordered_valid: "valid_profile reordered_profile"
  using example_profile_valid [of 50]
  by (simp add: valid_profile_def reordered_profile_def example_profile_def ruleTotal_rev rev_map [symmetric] list_all_iff)

theorem profile_fingerprint_binds_witness:
  "\<exists>(p :: qualification_profile) (q :: qualification_profile). qp_rules (qp_fields p) = example_rules \<and> qp_rules (qp_fields q) = rev example_rules
     \<and> sortedFields (qp_fields p) = sortedFields (qp_fields q) \<and> qp_fingerprint p = qp_fingerprint q"
proof -
  let ?p = "\<lparr>qp_fields = example_profile 50, qp_fingerprint = zero_digest ()\<rparr>"
  let ?q = "\<lparr>qp_fields = reordered_profile, qp_fingerprint = zero_digest ()\<rparr>"
  have "profileFingerprint zero_digest reordered_profile = Some (zero_digest ())"
    using example_fingerprint by (simp add: profileFingerprint_def reordered_sorted)
  then have accepted: "assertValidEffectiveQualificationProfile zero_digest (profileObject ?p) = Some ?p"
    "assertValidEffectiveQualificationProfile zero_digest (profileObject ?q) = Some ?q"
    using example_fingerprint example_profile_valid [of 50] reordered_valid by (simp_all add: profileObject_accepted)
  have "qp_fingerprint ?p = qp_fingerprint ?q \<longleftrightarrow> sortedFields (qp_fields ?p) = sortedFields (qp_fields ?q)"
    by (rule profile_fingerprint_binds [OF accepted]) (simp add: reordered_sorted)
  then have "qp_rules (qp_fields ?p) = example_rules \<and> qp_rules (qp_fields ?q) = rev example_rules
      \<and> sortedFields (qp_fields ?p) = sortedFields (qp_fields ?q) \<and> qp_fingerprint ?p = qp_fingerprint ?q"
    using reordered_sorted by (simp add: example_profile_def reordered_profile_def)
  then show ?thesis by blast
qed

definition example_evaluation :: js where
  "example_evaluation = frozen_object [(''evaluatedAtMs'', JNum (JInt 7)),
     (''signals'', frozen_object [(''creatorHasNotSold'', JBool True), (''imageValid'', JBool False)]),
     (''blockers'', JArr False True []), (''calibrationFacts'', JNull)]"

definition example_snapshot :: evaluation_input where
  "example_snapshot = \<lparr>ei_evaluatedAtMs = JNum (JInt 7), ei_signals = [(CreatorHasNotSold, True), (ImageValid, False)],
     ei_blockers = [], ei_calibrationFacts = None\<rparr>"

lemma example_snapshot_read:
  "snapshotEvaluationInput example_evaluation = Some example_snapshot"
  "assertValidTimestampMs EvaluatedAtMs (ei_evaluatedAtMs example_snapshot) = Inr 7"
  by code_simp+

lemma example_profile_accepted:
  "assertValidEffectiveQualificationProfile zero_digest
     (profileObject \<lparr>qp_fields = example_profile 50, qp_fingerprint = zero_digest ()\<rparr>)
   = Some \<lparr>qp_fields = example_profile 50, qp_fingerprint = zero_digest ()\<rparr>"
  using example_fingerprint example_profile_valid [of 50] by (simp add: profileObject_accepted)

lemma example_not_rejecting: "\<not> rejecting (evaluatedFacts example_snapshot) (ei_blockers example_snapshot) p"
  by (cases "cp_code p") (simp_all add: rejecting_def evaluatedFacts_def example_snapshot_def EMPTY_CALIBRATION_FACTS_def breached_def)

theorem qualification_verdict_exact_witness:
  "\<exists>r. evaluateReport \<lparr>qp_fields = example_profile 50, qp_fingerprint = zero_digest ()\<rparr> example_evaluation = Some r
     \<and> qr_verdict r = QUALIFIED"
  using qualification_verdict_exact [OF example_profile_accepted example_snapshot_read] example_not_rejecting
  by (simp add: example_profile_def example_rules_def example_snapshot_def satisfiedWeight_def) blast

theorem qualification_scores_bounded_witness:
  "\<exists>r. evaluateReport \<lparr>qp_fields = example_profile 50, qp_fingerprint = zero_digest ()\<rparr> example_evaluation = Some r
     \<and> sc_score (sc_total (qr_scores r)) \<le> 100"
proof -
  obtain r where r: "evaluateReport \<lparr>qp_fields = example_profile 50, qp_fingerprint = zero_digest ()\<rparr> example_evaluation = Some r"
    using reportOf_valid [of "\<lparr>qp_fields = example_profile 50, qp_fingerprint = zero_digest ()\<rparr>" example_snapshot 7]
      example_profile_valid [of 50] by (auto simp: evaluateReport_def example_snapshot_read)
  with qualification_scores_bounded [OF example_profile_accepted r] show ?thesis by force
qed

theorem report_authority_exact_witness:
  "\<exists>engine. newQualificationEngine zero_digest
       (profileObject \<lparr>qp_fields = example_profile 50, qp_fingerprint = zero_digest ()\<rparr>) = Some engine
     \<and> isAuthorized (snd (engineCalls [Evaluate example_evaluation,
          EvaluateAuthorized (JStr ''m'') (JStr ''t'') example_evaluation] engine)) 1 (JStr ''m'') (JStr ''t'')
     \<and> \<not> isAuthorized (snd (engineCalls [Evaluate example_evaluation,
          EvaluateAuthorized (JStr ''m'') (JStr ''t'') example_evaluation] engine)) 0 (JStr ''m'') (JStr ''t'')"
proof -
  let ?p = "\<lparr>qp_fields = example_profile 50, qp_fingerprint = zero_digest ()\<rparr>"
  let ?engine = "\<lparr>eg_profile = ?p, eg_nextReport = 0, eg_authorizedReports = Map.empty\<rparr>"
  have engine: "newQualificationEngine zero_digest (profileObject ?p) = Some ?engine"
    by (simp add: newQualificationEngine_def example_profile_accepted)
  obtain r where r: "evaluateReport ?p example_evaluation = Some r"
    using reportOf_valid [of ?p example_snapshot 7] example_profile_valid [of 50]
    by (auto simp: evaluateReport_def example_snapshot_read)
  have "snapshotReportSubject (JStr ''m'') (JStr ''t'') \<noteq> None" by code_simp
  then obtain subj where "snapshotReportSubject (JStr ''m'') (JStr ''t'') = Some subj" by blast
  then have calls: "fst (engineCalls [Evaluate example_evaluation,
      EvaluateAuthorized (JStr ''m'') (JStr ''t'') example_evaluation] ?engine)
    = [(Evaluate example_evaluation, Some 0), (EvaluateAuthorized (JStr ''m'') (JStr ''t'') example_evaluation, Some 1)]"
    by (simp add: evaluate_def evaluateAuthorized_def r)
  note exact = report_authority_exact [OF engine, of "[Evaluate example_evaluation,
    EvaluateAuthorized (JStr ''m'') (JStr ''t'') example_evaluation]"]
  show ?thesis using engine exact [of 1 "JStr ''m''" "JStr ''t''"] exact [of 0 "JStr ''m''" "JStr ''t''"] calls
    by (intro exI [of _ ?engine] conjI) auto
qed

end
