(* ===== verification/Paper_Report.thy ===== *)
theory Paper_Report
  imports Paper_Math Profile_Identity
begin

text \<open>
  The part of the paper trading engine (src/paper/paper-trading-engine.ts) that reads a
  qualification report: the snapshot it takes of a report, whose condition records are untyped, the
  comparison of the snapshot with the profile the engine was built with, and the facts an execution
  must agree with. The fields TypeScript types are typed here as well; the condition records are
  values of \<^typ>\<open>js\<close>. \<open>None\<close> is a thrown \<open>TypeError\<close>.
\<close>

subsection \<open>Errors\<close>

text \<open>The codes of \<open>PaperTradingErrorCode\<close>, an error of another class, a refused time or cursor or
  confirmation, and a statement the database refuses.\<close>

datatype paper_error =
    PAPER_MODE_DISABLED | QUALIFICATION_INVALID | QUALIFICATION_NOT_ACCEPTED | QUALIFICATION_BLOCKED
  | QUALIFICATION_NOT_CURRENT | QUOTE_MINT_NOT_ALLOWED_error | QUOTE_INVALID_error string
  | ROUND_TRIP_LOSS_EXCEEDED_error int | TRIGGER_ORPHANED | POSITION_NOT_FOUND | POSITION_NOT_OPEN
  | POSITION_CONFLICT | CLOSE_TRIGGER_MISMATCH
  | TypeError | ChainError chain_error | DatabaseError

subsection \<open>Snapshot of a report\<close>

record raw_condition =
  rc_code :: qualification_reason
  rc_mode :: condition_mode
  rc_status :: condition_status
  rc_observed :: js
  rc_thresholds :: js
  rc_message :: string

record raw_report =
  rr_ruleSet :: report_rule_set
  rr_scores :: qualification_scores
  rr_evidence :: "qualification_evidence list"
  rr_conditions :: "raw_condition list"
  rr_blockers :: "(qualification_reason \<times> string) list"
  rr_verdict :: qualification_verdict
  rr_evaluatedAtMs :: int

definition isNullableBasisPoints :: "js \<Rightarrow> bool" where
  "isNullableBasisPoints v = (v = JNull \<or> (case v of JBig n \<Rightarrow> n \<ge> 0 \<and> n \<le> 10000 | _ \<Rightarrow> False))"

definition isSafeInteger :: "int \<Rightarrow> int \<Rightarrow> js \<Rightarrow> bool" where
  "isSafeInteger minimumValue maximumValue v = (case v of
     JNum (JInt n) \<Rightarrow> \<bar>n\<bar> \<le> MAX_SAFE_INTEGER \<and> n \<ge> minimumValue \<and> n \<le> maximumValue | _ \<Rightarrow> False)"

definition isNullableSharedFunderCount :: "js \<Rightarrow> bool" where
  "isNullableSharedFunderCount v = (v = JNull \<or> isSafeInteger 0 MAX_SAFE_INTEGER v)"

definition isNullableMinimumSharedFunders :: "js \<Rightarrow> bool" where
  "isNullableMinimumSharedFunders v = (v = JNull \<or> isSafeInteger 1 10000 v)"

definition isNullableBoolean :: "js \<Rightarrow> bool" where
  "isNullableBoolean v = (v = JNull \<or> (case v of JBool b \<Rightarrow> True | _ \<Rightarrow> False))"

definition OBSERVED_CONDITION_VALUE_VALIDATORS :: "(string \<times> (js \<Rightarrow> bool)) list" where
  "OBSERVED_CONDITION_VALUE_VALIDATORS = [(''top1HolderBps'', isNullableBasisPoints),
     (''top5HoldersBps'', isNullableBasisPoints), (''top10HoldersBps'', isNullableBasisPoints),
     (''maximumRelatedClusterBps'', isNullableBasisPoints), (''maximumSharedFunderCount'', isNullableSharedFunderCount),
     (''buySimulationSucceeded'', isNullableBoolean), (''sellQuoteAvailable'', isNullableBoolean),
     (''roundTripLossBps'', isNullableBasisPoints)]"

definition THRESHOLD_CONDITION_VALUE_VALIDATORS :: "(string \<times> (js \<Rightarrow> bool)) list" where
  "THRESHOLD_CONDITION_VALUE_VALIDATORS = [(''maximumTop1Bps'', isNullableBasisPoints),
     (''maximumTop5Bps'', isNullableBasisPoints), (''maximumTop10Bps'', isNullableBasisPoints),
     (''maximumClusterBps'', isNullableBasisPoints), (''minimumSharedFunders'', isNullableMinimumSharedFunders),
     (''maximumRoundTripLossBps'', isNullableBasisPoints)]"

definition observedConditionValueIsValid :: "string \<Rightarrow> js \<Rightarrow> bool" where
  "observedConditionValueIsValid key v =
     (case map_of OBSERVED_CONDITION_VALUE_VALIDATORS key of None \<Rightarrow> False | Some test \<Rightarrow> test v)"

definition thresholdConditionValueIsValid :: "string \<Rightarrow> js \<Rightarrow> bool" where
  "thresholdConditionValueIsValid key v =
     (case map_of THRESHOLD_CONDITION_VALUE_VALIDATORS key of None \<Rightarrow> False | Some test \<Rightarrow> test v)"

datatype condition_record_kind = ObservedRecord | ThresholdRecord

definition conditionRecordKeys :: "qualification_reason \<Rightarrow> condition_status \<Rightarrow> condition_record_kind \<Rightarrow> string list" where
  "conditionRecordKeys code status kind =
     (if status = CONDITION_DISABLED then []
      else case code of
        HOLDER_CONCENTRATION_EXCEEDED \<Rightarrow> (case kind of
            ObservedRecord \<Rightarrow> [''top1HolderBps'', ''top5HoldersBps'', ''top10HoldersBps'']
          | ThresholdRecord \<Rightarrow> [''maximumTop1Bps'', ''maximumTop5Bps'', ''maximumTop10Bps''])
      | RELATED_WALLET_CLUSTER_EXCEEDED \<Rightarrow> (case kind of
            ObservedRecord \<Rightarrow> [''maximumRelatedClusterBps''] | ThresholdRecord \<Rightarrow> [''maximumClusterBps''])
      | SHARED_FUNDER_CLUSTER \<Rightarrow> (case kind of
            ObservedRecord \<Rightarrow> [''maximumSharedFunderCount''] | ThresholdRecord \<Rightarrow> [''minimumSharedFunders''])
      | BUY_SIMULATION_FAILED \<Rightarrow> (case kind of ObservedRecord \<Rightarrow> [''buySimulationSucceeded''] | ThresholdRecord \<Rightarrow> [])
      | SELL_QUOTE_UNAVAILABLE \<Rightarrow> (case kind of ObservedRecord \<Rightarrow> [''sellQuoteAvailable''] | ThresholdRecord \<Rightarrow> [])
      | ROUND_TRIP_LOSS_EXCEEDED_reason \<Rightarrow> (case kind of
            ObservedRecord \<Rightarrow> [''roundTripLossBps''] | ThresholdRecord \<Rightarrow> [''maximumRoundTripLossBps''])
      | _ \<Rightarrow> [])"

text \<open>A value that passed its validator, as plain data.\<close>

definition scalarData :: "js \<Rightarrow> data option" where
  "scalarData v = (case v of JNull \<Rightarrow> Some DNull | JBool b \<Rightarrow> Some (DBool b) | JBig n \<Rightarrow> Some (DBig n)
     | JNum (JInt n) \<Rightarrow> Some (DInt n) | _ \<Rightarrow> None)"

definition snapshotConditionRecord :: "js \<Rightarrow> string list \<Rightarrow> (string \<Rightarrow> js \<Rightarrow> bool) \<Rightarrow> (string \<times> data) list option" where
  "snapshotConditionRecord v expectedKeys validValue =
     (if \<not> isPlainObject v \<or> list_ex (\<lambda>k. case k of KSym _ \<Rightarrow> True | KStr _ \<Rightarrow> False) (map fst (ownProps v)) then None
      else if length (ownProps v) \<noteq> length expectedKeys \<or> list_ex (\<lambda>k. \<not> hasOwn v k) expectedKeys then None
      else those (map (\<lambda>key. do {
        x \<leftarrow> enumerableDataProp v key;
        (if \<not> validValue key x then None else map_option (Pair key) (scalarData x))
      }) expectedKeys))"

definition snapshotCondition :: "raw_condition \<Rightarrow> condition_evidence option" where
  "snapshotCondition item = do {
     observed \<leftarrow> snapshotConditionRecord (rc_observed item)
       (conditionRecordKeys (rc_code item) (rc_status item) ObservedRecord) observedConditionValueIsValid;
     thresholds \<leftarrow> snapshotConditionRecord (rc_thresholds item)
       (conditionRecordKeys (rc_code item) (rc_status item) ThresholdRecord) thresholdConditionValueIsValid;
     Some \<lparr>ce_code = rc_code item, ce_mode = rc_mode item, ce_status = rc_status item, ce_observed = observed,
       ce_thresholds = thresholds, ce_message = rc_message item\<rparr>
   }"

definition snapshotQualification :: "raw_report \<Rightarrow> qualification_report option" where
  "snapshotQualification report = map_option (\<lambda>conditions.
     \<lparr>qr_ruleSet = rr_ruleSet report, qr_scores = rr_scores report, qr_evidence = rr_evidence report,
      qr_conditions = conditions, qr_blockers = rr_blockers report, qr_verdict = rr_verdict report,
      qr_evaluatedAtMs = rr_evaluatedAtMs report\<rparr>) (those (map snapshotCondition (rr_conditions report)))"

subsection \<open>The report against the profile\<close>

definition QUALIFICATION_CONDITION_STATUSES :: "(string \<times> condition_status) list" where
  "QUALIFICATION_CONDITION_STATUSES = [(''PASSED'', PASSED), (''TRIGGERED'', TRIGGERED), (''UNKNOWN'', CONDITION_UNKNOWN),
     (''NOT_CONFIGURED'', NOT_CONFIGURED), (''DISABLED'', CONDITION_DISABLED)]"

definition expectedPolicyThresholds :: "condition_policy \<Rightarrow> (string \<times> data) list" where
  "expectedPolicyThresholds policy =
     (if cp_mode policy = MODE_DISABLED then []
      else case cp_code policy of
        HOLDER_CONCENTRATION_EXCEEDED \<Rightarrow> [(''maximumTop1Bps'', nullableBig (cp_maximumTop1Bps policy)),
          (''maximumTop5Bps'', nullableBig (cp_maximumTop5Bps policy)),
          (''maximumTop10Bps'', nullableBig (cp_maximumTop10Bps policy))]
      | RELATED_WALLET_CLUSTER_EXCEEDED \<Rightarrow> [(''maximumClusterBps'', nullableBig (cp_maximumClusterBps policy))]
      | SHARED_FUNDER_CLUSTER \<Rightarrow> [(''minimumSharedFunders'', nullableInt (cp_minimumSharedFunders policy))]
      | ROUND_TRIP_LOSS_EXCEEDED_reason \<Rightarrow>
          [(''maximumRoundTripLossBps'', nullableBig (cp_maximumRoundTripLossBps policy))]
      | _ \<Rightarrow> [])"

definition matchesPolicyThresholds :: "condition_evidence \<Rightarrow> condition_policy \<Rightarrow> bool" where
  "matchesPolicyThresholds condition policy =
     (let expected = expectedPolicyThresholds policy in
      length (ce_thresholds condition) = length expected
      \<and> list_all (\<lambda>(key, v). map_of (ce_thresholds condition) key = Some v) expected)"

text \<open>One turn of the loop over the reason codes.\<close>

definition conditionMatches :: "(qualification_reason \<rightharpoonup> condition_policy) \<Rightarrow> qualification_reason
    \<Rightarrow> condition_evidence \<Rightarrow> bool" where
  "conditionMatches policies code condition = (case policies (ce_code condition) of
     None \<Rightarrow> False
   | Some policy \<Rightarrow> ce_code condition = code
       \<and> ce_mode condition \<in> set (map snd QUALIFICATION_CONDITION_MODES)
       \<and> ce_status condition \<in> set (map snd QUALIFICATION_CONDITION_STATUSES)
       \<and> (ce_mode condition = MODE_DISABLED) = (ce_status condition = CONDITION_DISABLED)
       \<and> ce_mode condition = cp_mode policy
       \<and> matchesPolicyThresholds condition policy)"

definition validateQualificationReport :: "qualification_report \<Rightarrow> qualification_profile \<Rightarrow> bool" where
  "validateQualificationReport report profile =
     (let f = qp_fields profile; rules = qr_ruleSet report;
          enforcedTriggers = map ce_code
            (filter (\<lambda>c. ce_mode c = ENFORCED \<and> ce_status c = TRIGGERED) (qr_conditions report))
      in rs_id rules = qp_id f \<and> rs_version rules = qp_version f
       \<and> rs_fingerprint rules = qp_fingerprint profile
       \<and> rs_minimumTotalScore rules = qp_minimumTotalScore f
       \<and> length (qr_conditions report) = length QUALIFICATION_REASON_CODES
       \<and> list_all2 (conditionMatches (policyMap (qp_conditionPolicies f)))
           QUALIFICATION_REASON_CODES (qr_conditions report)
       \<and> map fst (qr_blockers report) = enforcedTriggers
       \<and> (qr_verdict report = REJECTED) = (enforcedTriggers \<noteq> []))"

definition conditionMap :: "condition_evidence list \<Rightarrow> (qualification_reason \<rightharpoonup> condition_evidence)" where
  "conditionMap conditions = map_of (rev (map (\<lambda>c. (ce_code c, c)) conditions))"

definition observedFact :: "condition_evidence option \<Rightarrow> string \<Rightarrow> data option" where
  "observedFact condition key = condition \<bind> (\<lambda>c. map_of (ce_observed c) key)"

definition validateQualificationExecutionFacts ::
  "qualification_report \<Rightarrow> int \<Rightarrow> qualification_profile \<Rightarrow> paper_error + unit" where
  "validateQualificationExecutionFacts report roundTripLossBps profile =
     (let conditions = conditionMap (qr_conditions report);
          policies = policyMap (qp_conditionPolicies (qp_fields profile))
      in case (policies BUY_SIMULATION_FAILED, policies SELL_QUOTE_UNAVAILABLE, policies ROUND_TRIP_LOSS_EXCEEDED_reason) of
        (Some buyPolicy, Some sellPolicy, Some roundTripPolicy) \<Rightarrow>
          if cp_mode buyPolicy = ENFORCED
            \<and> observedFact (conditions BUY_SIMULATION_FAILED) ''buySimulationSucceeded'' \<noteq> Some (DBool True)
          then Inl QUALIFICATION_INVALID
          else if cp_mode sellPolicy = ENFORCED
            \<and> observedFact (conditions SELL_QUOTE_UNAVAILABLE) ''sellQuoteAvailable'' \<noteq> Some (DBool True)
          then Inl QUALIFICATION_INVALID
          else if cp_mode roundTripPolicy = ENFORCED then
            (if observedFact (conditions ROUND_TRIP_LOSS_EXCEEDED_reason) ''roundTripLossBps'' \<noteq> Some (DBig roundTripLossBps)
             then Inl QUALIFICATION_INVALID
             else case cp_maximumRoundTripLossBps roundTripPolicy of
               None \<Rightarrow> Inl QUALIFICATION_INVALID
             | Some limit \<Rightarrow> if roundTripLossBps > limit then Inl (ROUND_TRIP_LOSS_EXCEEDED_error roundTripLossBps) else Inr ())
          else Inr ()
      | _ \<Rightarrow> Inl QUALIFICATION_INVALID)"

subsection \<open>The report as JSON\<close>

definition QUALIFICATION_EVIDENCE_STATUSES :: "(string \<times> evidence_status) list" where
  "QUALIFICATION_EVIDENCE_STATUSES = [(''SATISFIED'', SATISFIED), (''NOT_SATISFIED'', NOT_SATISFIED),
     (''UNKNOWN'', EVIDENCE_UNKNOWN)]"

definition QUALIFICATION_VERDICTS :: "(string \<times> qualification_verdict) list" where
  "QUALIFICATION_VERDICTS = [(''QUALIFIED'', QUALIFIED), (''WATCHLISTED'', WATCHLISTED), (''REJECTED'', REJECTED)]"

definition scoreData :: "qualification_score \<Rightarrow> data" where
  "scoreData s = DObj [(''score'', DInt (sc_score s)), (''maximum'', DInt (sc_maximum s))]"

definition scoresData :: "qualification_scores \<Rightarrow> data" where
  "scoresData s = DObj [(''preparation'', scoreData (sc_preparation s)),
     (''socialAuthenticity'', scoreData (sc_socialAuthenticity s)), (''onchainHealth'', scoreData (sc_onchainHealth s)),
     (''total'', scoreData (sc_total s))]"

definition evidenceData :: "qualification_evidence \<Rightarrow> data" where
  "evidenceData e = DObj [(''signal'', DStr (literal_of QUALIFICATION_SIGNAL_KEYS (ev_signal e))),
     (''dimension'', DStr (literal_of QUALIFICATION_DIMENSIONS (ev_dimension e))),
     (''status'', DStr (literal_of QUALIFICATION_EVIDENCE_STATUSES (ev_status e))), (''required'', DBool (ev_required e)),
     (''weight'', DInt (ev_weight e)), (''message'', DStr (ev_message e))]"

definition conditionData :: "condition_evidence \<Rightarrow> data" where
  "conditionData c = DObj [(''code'', DStr (literal_of REASON_LITERALS (ce_code c))),
     (''mode'', DStr (literal_of QUALIFICATION_CONDITION_MODES (ce_mode c))),
     (''status'', DStr (literal_of QUALIFICATION_CONDITION_STATUSES (ce_status c))),
     (''observed'', DObj (ce_observed c)), (''thresholds'', DObj (ce_thresholds c)), (''message'', DStr (ce_message c))]"

definition blockerData :: "qualification_reason \<times> string \<Rightarrow> data" where
  "blockerData b = DObj [(''code'', DStr (literal_of REASON_LITERALS (fst b))), (''message'', DStr (snd b))]"

text \<open>The snapshot of a report, with its keys in the order of \<open>snapshotQualification\<close>.\<close>

definition reportData :: "qualification_report \<Rightarrow> data" where
  "reportData r = DObj [
     (''ruleSet'', DObj [(''id'', DStr (rs_id (qr_ruleSet r))), (''version'', DInt (rs_version (qr_ruleSet r))),
        (''status'', DStr ''UNVALIDATED_RULE_SET''), (''fingerprint'', DStr (rs_fingerprint (qr_ruleSet r))),
        (''minimumTotalScore'', DInt (rs_minimumTotalScore (qr_ruleSet r)))]),
     (''scores'', scoresData (qr_scores r)), (''evidence'', DArr (map evidenceData (qr_evidence r))),
     (''conditions'', DArr (map conditionData (qr_conditions r))), (''blockers'', DArr (map blockerData (qr_blockers r))),
     (''verdict'', DStr (literal_of QUALIFICATION_VERDICTS (qr_verdict r))), (''evaluatedAtMs'', DInt (qr_evaluatedAtMs r))]"

definition LEGACY_QUALIFICATION_EVIDENCE_ORDER :: "signal_key list" where
  "LEGACY_QUALIFICATION_EVIDENCE_ORDER =
     [ImageValid, SocialCrossLinkConfirmed, CreatorHasNotSold, ReverseQuoteAvailable, ExternalBuyersObserved]"

definition LEGACY_QUALIFICATION_EVIDENCE_MESSAGES :: "(signal_key \<times> string) list" where
  "LEGACY_QUALIFICATION_EVIDENCE_MESSAGES = [
     (ImageValid, ''Pr'' @ [CHR 0xE9] @ ''paration visuelle du lancement valide.''),
     (SocialCrossLinkConfirmed, ''Liens sociaux coh'' @ [CHR 0xE9] @ ''rents.''),
     (CreatorHasNotSold, ''Aucune vente pr'' @ [CHR 0xE9] @ ''coce du cr'' @ [CHR 0xE9] @ ''ateur.''),
     (ReverseQuoteAvailable, ''Cotation inverse disponible.''),
     (ExternalBuyersObserved, ''Acheteurs externes observ'' @ [CHR 0xE9] @ ''s.'')]"

text \<open>\<open>indexOf\<close>, or the length of the list where the signal does not occur.\<close>

definition legacyEvidenceIndex :: "signal_key \<Rightarrow> nat" where
  "legacyEvidenceIndex signal = length (takeWhile (\<lambda>s. s \<noteq> signal) LEGACY_QUALIFICATION_EVIDENCE_ORDER)"

definition legacyEvidence :: "qualification_evidence \<Rightarrow> qualification_evidence" where
  "legacyEvidence item = item\<lparr>ev_message := (case map_of LEGACY_QUALIFICATION_EVIDENCE_MESSAGES (ev_signal item) of
     Some message \<Rightarrow> message | None \<Rightarrow> ev_message item)\<rparr>"

definition legacyQualificationSnapshot :: "qualification_report \<Rightarrow> data" where
  "legacyQualificationSnapshot r = DObj [
     (''ruleSet'', DObj [(''id'', DStr (rs_id (qr_ruleSet r))), (''version'', DInt (rs_version (qr_ruleSet r))),
        (''status'', DStr ''UNVALIDATED_RULE_SET''), (''minimumTotalScore'', DInt (rs_minimumTotalScore (qr_ruleSet r)))]),
     (''scores'', scoresData (qr_scores r)),
     (''evidence'', DArr (map (evidenceData \<circ> legacyEvidence)
        (sort_key (\<lambda>item. legacyEvidenceIndex (ev_signal item)) (qr_evidence r)))),
     (''blockers'', DArr (map blockerData (qr_blockers r))),
     (''verdict'', DStr (literal_of QUALIFICATION_VERDICTS (qr_verdict r))), (''evaluatedAtMs'', DInt (qr_evaluatedAtMs r))]"

subsection \<open>Reports of the qualification engine\<close>

text \<open>A report as the qualification engine hands it out: its condition records are frozen plain
  objects.\<close>

fun dataScalar :: "data \<Rightarrow> js" where
  "dataScalar DNull = JNull"
| "dataScalar (DBool b) = JBool b"
| "dataScalar (DInt n) = JNum (JInt n)"
| "dataScalar (DBig n) = JBig n"
| "dataScalar _ = JUndefined"

definition recordObject :: "(string \<times> data) list \<Rightarrow> js" where
  "recordObject r = frozen_object (map (\<lambda>(k, v). (k, dataScalar v)) r)"

definition rawCondition :: "condition_evidence \<Rightarrow> raw_condition" where
  "rawCondition c = \<lparr>rc_code = ce_code c, rc_mode = ce_mode c, rc_status = ce_status c,
     rc_observed = recordObject (ce_observed c), rc_thresholds = recordObject (ce_thresholds c),
     rc_message = ce_message c\<rparr>"

definition rawReport :: "qualification_report \<Rightarrow> raw_report" where
  "rawReport r = \<lparr>rr_ruleSet = qr_ruleSet r, rr_scores = qr_scores r, rr_evidence = qr_evidence r,
     rr_conditions = map rawCondition (qr_conditions r), rr_blockers = qr_blockers r, rr_verdict = qr_verdict r,
     rr_evaluatedAtMs = qr_evaluatedAtMs r\<rparr>"

lemma snapshotConditionRecord_object:
  assumes "map fst r = keys" and "distinct keys"
    and "list_all (\<lambda>(k, v). valid k (dataScalar v) \<and> scalarData (dataScalar v) = Some v) r"
  shows "snapshotConditionRecord (recordObject r) keys valid = Some r"
proof -
  let ?f = "\<lambda>key. enumerableDataProp (recordObject r) key
      \<bind> (\<lambda>x. if \<not> valid key x then None else map_option (Pair key) (scalarData x))"
  have own: "map fst (ownProps (recordObject r)) = map KStr keys"
    using assms(1) by (auto simp: recordObject_def frozen_object_def comp_def case_prod_beta)
  then have len: "length (ownProps (recordObject r)) = length keys" by (metis length_map)
  have "those (map ?f (map fst r)) = Some (map (\<lambda>k. (k, the (map_of r k))) (map fst r))"
  proof (rule those_map_Some)
    fix k assume "k \<in> set (map fst r)"
    then obtain v where v: "map_of r k = Some v" by (cases "map_of r k") (auto simp: map_of_eq_None_iff)
    then have "valid k (dataScalar v) \<and> scalarData (dataScalar v) = Some v"
      using assms(3) map_of_SomeD [OF v] by (auto simp: list_all_iff)
    with v show "?f k = Some (k, the (map_of r k))"
      by (simp add: recordObject_def map_of_member)
  qed
  also have "map (\<lambda>k. (k, the (map_of r k))) (map fst r) = r"
    using assms(1,2) by (simp add: comp_def) (auto intro!: map_idI)
  finally have "those (map ?f keys) = Some r" using assms(1) by simp
  moreover have "isPlainObject (recordObject r)" by (simp add: recordObject_def frozen_object_def)
  ultimately show ?thesis
    using own len unfolding snapshotConditionRecord_def hasOwn_def by (auto simp: list_ex_iff)
qed

text \<open>What validated facts satisfy.\<close>

definition valid_facts :: "qualification_facts \<Rightarrow> bool" where
  "valid_facts f = (valid_bps (qf_top1HolderBps f) \<and> valid_bps (qf_top5HoldersBps f) \<and> valid_bps (qf_top10HoldersBps f)
     \<and> valid_bps (qf_maximumRelatedClusterBps f) \<and> valid_bps (qf_roundTripLossBps f)
     \<and> (case qf_maximumSharedFunderCount f of None \<Rightarrow> True | Some n \<Rightarrow> 0 \<le> n \<and> n \<le> MAX_SAFE_INTEGER))"

lemma assertNullableBasisPoints_valid: "assertNullableBasisPoints v = Some x \<Longrightarrow> valid_bps x"
  by (cases x) (auto simp: assertNullableBasisPoints_def nullable_def valid_bps_def field_iffs split: if_splits)

lemma assertNullableSharedFunderCount_valid:
  "assertNullableSharedFunderCount v = Some x \<Longrightarrow> case x of None \<Rightarrow> True | Some n \<Rightarrow> 0 \<le> n \<and> n \<le> MAX_SAFE_INTEGER"
  by (cases x) (auto simp: assertNullableSharedFunderCount_def nullable_def field_iffs split: if_splits)

lemma assertValidQualificationFacts_valid: "assertValidQualificationFacts v = Some f \<Longrightarrow> valid_facts f"
  unfolding assertValidQualificationFacts_def Let_def result_simps valid_facts_def
  by (elim exE conjE, drule sym)
     (clarsimp simp del: split_paired_Ex, intro conjI;
      blast intro: assertNullableBasisPoints_valid assertNullableSharedFunderCount_valid)

lemma evaluatedFacts_valid:
  assumes "snapshotEvaluationInput input = Some snapshot"
  shows "valid_facts (evaluatedFacts snapshot)"
proof (cases "ei_calibrationFacts snapshot")
  case None
  then show ?thesis by (simp add: evaluatedFacts_def EMPTY_CALIBRATION_FACTS_def valid_facts_def valid_bps_def)
next
  case (Some f)
  then have "\<exists>v. assertValidQualificationFacts v = Some f"
  proof -
    from assms obtain r where "(case fld r ''evaluatedAtMs'' of JNum _ \<Rightarrow> do {
        signals \<leftarrow> snapshotSignals (fld r ''signals'');
        blockers \<leftarrow> snapshotBlockers (fld r ''blockers'');
        facts \<leftarrow> snapshotCalibrationFacts (fld r ''calibrationFacts'');
        Some \<lparr>ei_evaluatedAtMs = fld r ''evaluatedAtMs'', ei_signals = signals, ei_blockers = blockers,
          ei_calibrationFacts = facts\<rparr>
      } | _ \<Rightarrow> None) = Some snapshot"
      unfolding snapshotEvaluationInput_def result_simps by blast
    then have "snapshotCalibrationFacts (fld r ''calibrationFacts'') = Some (Some f)"
      using Some by (cases "fld r ''evaluatedAtMs''") (auto simp: result_simps)
    then show ?thesis unfolding snapshotCalibrationFacts_def by (blast dest: nullable_Some_Some)
  qed
  then show ?thesis using Some assertValidQualificationFacts_valid by (auto simp: evaluatedFacts_def)
qed

text \<open>The records the engine writes for a condition have the keys and the values the snapshot expects.\<close>

definition recordFits :: "string list \<Rightarrow> (string \<Rightarrow> js \<Rightarrow> bool) \<Rightarrow> (string \<times> data) list \<Rightarrow> bool" where
  "recordFits keys valid r = (map fst r = keys
     \<and> list_all (\<lambda>(k, v). valid k (dataScalar v) \<and> scalarData (dataScalar v) = Some v) r)"

lemma scalar_nullable [simp]:
  "scalarData (dataScalar (nullableBig v)) = Some (nullableBig v)"
  "scalarData (dataScalar (nullableInt w)) = Some (nullableInt w)"
  "scalarData (dataScalar (nullableBool b)) = Some (nullableBool b)"
  by (cases v; cases w; cases b; simp add: nullableBig_def nullableInt_def nullableBool_def scalarData_def)+

lemma nullable_validators [simp]:
  "isNullableBasisPoints (dataScalar (nullableBig v)) \<longleftrightarrow> valid_bps v"
  "isNullableBoolean (dataScalar (nullableBool b))"
  by (cases v; simp add: nullableBig_def isNullableBasisPoints_def valid_bps_def)
     (cases b; simp add: nullableBool_def isNullableBoolean_def)

lemma nullable_counts [simp]:
  "isNullableSharedFunderCount (dataScalar (nullableInt w))
     \<longleftrightarrow> (case w of None \<Rightarrow> True | Some n \<Rightarrow> 0 \<le> n \<and> n \<le> MAX_SAFE_INTEGER)"
  "isNullableMinimumSharedFunders (dataScalar (nullableInt w))
     \<longleftrightarrow> (case w of None \<Rightarrow> True | Some n \<Rightarrow> 1 \<le> n \<and> n \<le> 10000)"
  by (cases w; auto simp: nullableInt_def isNullableSharedFunderCount_def isNullableMinimumSharedFunders_def isSafeInteger_def)+

lemmas record_defs = recordFits_def conditionRecordKeys_def observedConditionValueIsValid_def
  thresholdConditionValueIsValid_def OBSERVED_CONDITION_VALUE_VALIDATORS_def THRESHOLD_CONDITION_VALUE_VALIDATORS_def

lemma holder_records [simp]:
  "ce_observed (holder p facts) = [(''top1HolderBps'', nullableBig (qf_top1HolderBps facts)),
     (''top5HoldersBps'', nullableBig (qf_top5HoldersBps facts)), (''top10HoldersBps'', nullableBig (qf_top10HoldersBps facts))]"
  "ce_thresholds (holder p facts) = [(''maximumTop1Bps'', nullableBig (cp_maximumTop1Bps p)),
     (''maximumTop5Bps'', nullableBig (cp_maximumTop5Bps p)), (''maximumTop10Bps'', nullableBig (cp_maximumTop10Bps p))]"
  "ce_status (holder p facts) \<noteq> CONDITION_DISABLED"
  by (simp_all add: holder_def Let_def)

lemma maximum_records [simp]:
  "ce_observed (maximum c m v t k k' msg) = [(k, nullableBig v)]"
  "ce_thresholds (maximum c m v t k k' msg) = [(k', nullableBig t)]"
  "ce_status (maximum c m v t k k' msg) \<noteq> CONDITION_DISABLED"
  by (cases t; cases v; simp add: maximum_def)+

lemma minimum_records [simp]:
  "ce_observed (minimum p v) = [(''maximumSharedFunderCount'', nullableInt v)]"
  "ce_thresholds (minimum p v) = [(''minimumSharedFunders'', nullableInt (cp_minimumSharedFunders p))]"
  "ce_status (minimum p v) \<noteq> CONDITION_DISABLED"
  by (cases "cp_minimumSharedFunders p"; cases v; simp add: minimum_def)+

lemma boolean_records [simp]:
  "ce_observed (booleanCondition c m v k msg) = [(k, nullableBool v)]"
  "ce_thresholds (booleanCondition c m v k msg) = []"
  "ce_status (booleanCondition c m v k msg) \<noteq> CONDITION_DISABLED"
  by (cases v; simp add: booleanCondition_def)+

lemma trusted_enabled [simp]:
  "ce_status (triggeredByTrustedSource c u l) = CONDITION_DISABLED \<longleftrightarrow> ce_status c = CONDITION_DISABLED \<and> u \<noteq> Some True \<and> \<not> l"
  by (simp add: triggeredByTrustedSource_def)

lemma evaluateCondition_disabled:
  "ce_status (evaluateCondition code p facts up legacy) = CONDITION_DISABLED \<longleftrightarrow> cp_mode p = MODE_DISABLED"
  by (cases code; simp add: evaluateCondition_def Let_def split: option.split bool.split)

lemma evaluateCondition_records:
  assumes "valid_facts facts" and "valid_policy p" and "cp_code p = code"
    and c_def: "c = evaluateCondition code p facts up legacy"
  shows "recordFits (conditionRecordKeys code (ce_status c) ObservedRecord) observedConditionValueIsValid (ce_observed c)
     \<and> recordFits (conditionRecordKeys code (ce_status c) ThresholdRecord) thresholdConditionValueIsValid (ce_thresholds c)
     \<and> matchesPolicyThresholds c p"
proof (cases "cp_mode p = MODE_DISABLED")
  case True
  then show ?thesis
    by (simp add: c_def evaluateCondition_def record_defs matchesPolicyThresholds_def expectedPolicyThresholds_def)
next
  case False
  then have "ce_status c \<noteq> CONDITION_DISABLED" by (simp add: c_def evaluateCondition_disabled)
  then have keys: "conditionRecordKeys code (ce_status c) = conditionRecordKeys code PASSED"
    by (simp add: conditionRecordKeys_def fun_eq_iff)
  show ?thesis unfolding keys
    using assms(1-3) False unfolding c_def
    by (cases code; simp add: evaluateCondition_def Let_def record_defs valid_facts_def valid_policy_def
        matchesPolicyThresholds_def expectedPolicyThresholds_def)
qed

lemma reportOf_parts:
  assumes "valid_profile (qp_fields profile)" and "reportOf profile snapshot t = Some r"
  shows "qr_ruleSet r = \<lparr>rs_id = qp_id (qp_fields profile), rs_version = qp_version (qp_fields profile),
       rs_fingerprint = qp_fingerprint profile, rs_minimumTotalScore = qp_minimumTotalScore (qp_fields profile)\<rparr>"
    and "qr_conditions r = conditionsOf (qp_fields profile) (evaluatedFacts snapshot) (ei_blockers snapshot)"
    and "qr_blockers r = createBlockers (map ce_code (filter (\<lambda>c. ce_status c = TRIGGERED \<and> ce_mode c = ENFORCED) (qr_conditions r)))"
    and "qr_verdict r = REJECTED \<longleftrightarrow> qr_blockers r \<noteq> []"
  using assms(2)
  unfolding reportOf_def Let_def evaluate_total [OF assms(1)] bind.bind_lunit prod.case evaluatedFacts_def [symmetric]
  by (auto split: if_splits)

lemma createBlockers_codes: "distinct codes \<Longrightarrow> map fst (createBlockers codes) = codes"
  by (simp add: createBlockers_def comp_def distinct_remdups_id)

lemma conditionsOf_codes: "map ce_code (conditionsOf f facts legacy) = QUALIFICATION_REASON_CODES"
  by (simp add: conditionsOf_def comp_def evaluateCondition_code)

lemma conditionsOf_fit:
  assumes "valid_profile f" and "valid_facts facts"
  shows "those (map (snapshotCondition \<circ> rawCondition) (conditionsOf f facts legacy)) = Some (conditionsOf f facts legacy)"
    and "list_all2 (conditionMatches (policyMap (qp_conditionPolicies f))) QUALIFICATION_REASON_CODES (conditionsOf f facts legacy)"
proof -
  have fits: "snapshotCondition (rawCondition c) = Some c \<and> conditionMatches (policyMap (qp_conditionPolicies f)) code c"
    if c: "c = evaluateCondition code (the (policyMap (qp_conditionPolicies f) code)) facts
         (map_of (rev (qf_upstreamConditions facts))) legacy" for c code
  proof -
    obtain p where p: "policyMap (qp_conditionPolicies f) code = Some p" "valid_policy p" "cp_code p = code"
      using valid_profile_policy [OF assms(1), of code] assms(1) by (auto simp: valid_profile_def list_all_iff)
    have c: "c = evaluateCondition code p facts (map_of (rev (qf_upstreamConditions facts))) legacy"
      using c p(1) by simp
    have code: "ce_code c = code" "ce_mode c = cp_mode p" by (simp_all add: c evaluateCondition_code)
    note records = evaluateCondition_records [OF assms(2) p(2,3) c]
    have keys: "distinct (conditionRecordKeys code st kind)" for st kind
      by (cases code; cases kind) (simp_all add: conditionRecordKeys_def)
    have "snapshotCondition (rawCondition c) = Some c"
      using records code(1) keys
      by (simp add: snapshotCondition_def rawCondition_def snapshotConditionRecord_object recordFits_def)
    moreover have "(ce_mode c = MODE_DISABLED) = (ce_status c = CONDITION_DISABLED)"
      using evaluateCondition_disabled [of code p facts] code(2) c by simp
    moreover have "ce_mode c \<in> set (map snd QUALIFICATION_CONDITION_MODES)"
      "ce_status c \<in> set (map snd QUALIFICATION_CONDITION_STATUSES)"
      by (cases "ce_mode c"; simp add: QUALIFICATION_CONDITION_MODES_def)
         (cases "ce_status c"; simp add: QUALIFICATION_CONDITION_STATUSES_def)
    ultimately show ?thesis using records code p(1) by (simp add: conditionMatches_def)
  qed
  then show "those (map (snapshotCondition \<circ> rawCondition) (conditionsOf f facts legacy)) = Some (conditionsOf f facts legacy)"
    using those_map_Some [of "conditionsOf f facts legacy" "snapshotCondition \<circ> rawCondition" id]
    by (auto simp: conditionsOf_def)
  show "list_all2 (conditionMatches (policyMap (qp_conditionPolicies f))) QUALIFICATION_REASON_CODES (conditionsOf f facts legacy)"
    using fits by (auto simp: conditionsOf_def list_all2_map2 list.rel_refl_strong)
qed

text \<open>
  C40. The two engines agree on what a report says. Every report the qualification engine issues for
  a validated profile is read back unchanged by the snapshot of the paper engine, its condition
  records included, and passes the paper engine's own comparison with that profile: rule set,
  fingerprint, the fourteen conditions in order with their modes and thresholds, the blockers, and
  the verdict.
\<close>

theorem engine_report_accepted:
  assumes "assertValidEffectiveQualificationProfile sha256 v = Some profile"
    and "evaluateReport profile input = Some r"
  shows "snapshotQualification (rawReport r) = Some r \<and> validateQualificationReport r profile"
proof -
  have valid: "valid_profile (qp_fields profile)"
    using assms(1) profileFieldsFrom_valid
    by (auto simp: assertValidEffectiveQualificationProfile_def result_simps)
  obtain snapshot t where snap: "snapshotEvaluationInput input = Some snapshot" and r: "reportOf profile snapshot t = Some r"
  proof -
    from assms(2) obtain y where y: "snapshotEvaluationInput input = Some y"
      "(case assertValidTimestampMs EvaluatedAtMs (ei_evaluatedAtMs y) of Inl _ \<Rightarrow> None
        | Inr t \<Rightarrow> reportOf profile y t) = Some r"
      unfolding evaluateReport_def result_simps by blast
    then show ?thesis using that by (cases "assertValidTimestampMs EvaluatedAtMs (ei_evaluatedAtMs y)") auto
  qed
  note parts = reportOf_parts [OF valid r]
  note fit = conditionsOf_fit [OF valid evaluatedFacts_valid [OF snap], of "ei_blockers snapshot", folded parts(2)]
  have codes: "map ce_code (qr_conditions r) = QUALIFICATION_REASON_CODES"
    unfolding parts(2) by (rule conditionsOf_codes)
  then have "distinct (map ce_code (filter P (qr_conditions r)))" for P
    using reason_codes_distinct distinct_map_filter by metis
  then have blockers: "map fst (qr_blockers r)
      = map ce_code (filter (\<lambda>c. ce_mode c = ENFORCED \<and> ce_status c = TRIGGERED) (qr_conditions r))"
    unfolding parts(3) by (simp add: createBlockers_codes conj_commute)
  have "validateQualificationReport r profile"
    using fit(2) blockers parts(1,4) arg_cong [OF codes, of length]
    by (auto simp: validateQualificationReport_def Let_def)
  moreover have "snapshotQualification (rawReport r) = Some r"
    using fit(1) by (simp add: snapshotQualification_def rawReport_def)
  ultimately show ?thesis by simp
qed

theorem engine_report_accepted_witness:
  "\<exists>r. evaluateReport \<lparr>qp_fields = example_profile 50, qp_fingerprint = zero_digest ()\<rparr> example_evaluation = Some r
     \<and> validateQualificationReport r \<lparr>qp_fields = example_profile 50, qp_fingerprint = zero_digest ()\<rparr>"
proof -
  obtain r where r: "evaluateReport \<lparr>qp_fields = example_profile 50, qp_fingerprint = zero_digest ()\<rparr> example_evaluation = Some r"
    using reportOf_valid [of "\<lparr>qp_fields = example_profile 50, qp_fingerprint = zero_digest ()\<rparr>" example_snapshot 7]
      example_profile_valid [of 50] by (auto simp: evaluateReport_def example_snapshot_read)
  with engine_report_accepted [OF example_profile_accepted r] show ?thesis by blast
qed

end
