(* ===== verification/Paper_Position.thy ===== *)
theory Paper_Position
  imports Paper_Report
begin

text \<open>
  Paper positions (src/domain/paper-trading.ts) and how the repository keeps them
  (src/storage/paper-trading.repository.ts): a position is a row of \<open>paper_positions\<close> with plain
  columns and a JSON payload. Reading a row decodes and validates the payload; \<open>None\<close> is the
  \<open>TypeError\<close> of an invalid payload. The theory proves that exactly the well-formed positions can be
  read, and that what was written is read back.
\<close>

subsection \<open>Positions and trades\<close>

datatype paper_status = PAPER_HOLDING | PAPER_CLOSED | PAPER_RETRACTED

definition PAPER_STATUSES :: "(string \<times> paper_status) list" where
  "PAPER_STATUSES = [(''PAPER_HOLDING'', PAPER_HOLDING), (''PAPER_CLOSED'', PAPER_CLOSED),
     (''PAPER_RETRACTED'', PAPER_RETRACTED)]"

datatype token_program = SPL_TOKEN | TOKEN_2022

definition TOKEN_PROGRAMS :: "(string \<times> token_program) list" where
  "TOKEN_PROGRAMS = [(''SPL_TOKEN'', SPL_TOKEN), (''TOKEN_2022'', TOKEN_2022)]"

record quote_asset =
  qa_mint :: string
  qa_decimals :: int
  qa_tokenProgram :: token_program

record paper_strategy =
  ps_id :: string
  ps_version :: int

record paper_lineage =
  pl_strategySessionId :: string
  pl_qualificationReportId :: string
  pl_candidateId :: string

record paper_position =
  pp_id :: string
  pp_mint :: string
  pp_quoteAsset :: quote_asset
  pp_strategy :: paper_strategy
  pp_status :: paper_status
  pp_baseFilledRaw :: int
  pp_remainingBaseRaw :: int
  pp_quoteCostRaw :: int
  pp_quoteProceedsRaw :: "int option"
  pp_grossPnlQuoteRaw :: "int option"
  pp_netPnlQuoteRaw :: "int option"
  pp_roundTripLossBps :: int
  pp_entryTradeId :: string
  pp_exitTradeId :: "string option"
  pp_openCommandHash :: string
  pp_closeCommandHash :: "string option"
  pp_triggerEventId :: string
  pp_entryDecisionAtMs :: "int option"
  pp_entryDecisionJobId :: "string option"
  pp_closeEventId :: "string option"
  pp_exitTriggerAtMs :: "int option"
  pp_lineage :: "paper_lineage option"
  pp_openedAtMs :: int
  pp_closedAtMs :: "int option"
  pp_purgeAfterMs :: "int option"

datatype paper_side = PAPER_BUY | PAPER_SELL

record paper_trade =
  pt_id :: string
  pt_positionId :: string
  pt_side :: paper_side
  pt_quote :: paper_quote
  pt_fillAmountOutRaw :: int
  pt_reason :: string
  pt_createdAtMs :: int

subsection \<open>Payloads\<close>

definition nullableStr :: "string option \<Rightarrow> data" where
  "nullableStr v = (case v of None \<Rightarrow> DNull | Some s \<Rightarrow> DStr s)"

definition quoteAssetMembers :: "quote_asset \<Rightarrow> (string \<times> data) list" where
  "quoteAssetMembers a = [(''mint'', DStr (qa_mint a)), (''decimals'', DInt (qa_decimals a)),
     (''tokenProgram'', DStr (literal_of TOKEN_PROGRAMS (qa_tokenProgram a)))]"

definition strategyMembers :: "paper_strategy \<Rightarrow> (string \<times> data) list" where
  "strategyMembers s = [(''id'', DStr (ps_id s)), (''version'', DInt (ps_version s))]"

definition lineageMembers :: "paper_lineage option \<Rightarrow> (string \<times> data) list" where
  "lineageMembers l = (case l of None \<Rightarrow> [] | Some x \<Rightarrow>
     [(''strategySessionId'', DStr (pl_strategySessionId x)),
      (''qualificationReportId'', DStr (pl_qualificationReportId x)), (''candidateId'', DStr (pl_candidateId x))])"

definition positionMembers :: "paper_position \<Rightarrow> (string \<times> data) list" where
  "positionMembers p = [(''id'', DStr (pp_id p)), (''mint'', DStr (pp_mint p)),
     (''quoteAsset'', DObj (quoteAssetMembers (pp_quoteAsset p))), (''strategy'', DObj (strategyMembers (pp_strategy p))),
     (''status'', DStr (literal_of PAPER_STATUSES (pp_status p))),
     (''baseFilledRaw'', DBig (pp_baseFilledRaw p)), (''remainingBaseRaw'', DBig (pp_remainingBaseRaw p)),
     (''quoteCostRaw'', DBig (pp_quoteCostRaw p)), (''quoteProceedsRaw'', nullableBig (pp_quoteProceedsRaw p)),
     (''grossPnlQuoteRaw'', nullableBig (pp_grossPnlQuoteRaw p)), (''netPnlQuoteRaw'', nullableBig (pp_netPnlQuoteRaw p)),
     (''roundTripLossBps'', DBig (pp_roundTripLossBps p)), (''entryTradeId'', DStr (pp_entryTradeId p)),
     (''exitTradeId'', nullableStr (pp_exitTradeId p)), (''openCommandHash'', DStr (pp_openCommandHash p)),
     (''closeCommandHash'', nullableStr (pp_closeCommandHash p)), (''triggerEventId'', DStr (pp_triggerEventId p)),
     (''entryDecisionAtMs'', nullableInt (pp_entryDecisionAtMs p)),
     (''entryDecisionJobId'', nullableStr (pp_entryDecisionJobId p)), (''closeEventId'', nullableStr (pp_closeEventId p)),
     (''exitTriggerAtMs'', nullableInt (pp_exitTriggerAtMs p))]
   @ lineageMembers (pp_lineage p)
   @ [(''openedAtMs'', DInt (pp_openedAtMs p)), (''closedAtMs'', nullableInt (pp_closedAtMs p)),
     (''purgeAfterMs'', nullableInt (pp_purgeAfterMs p)), (''payloadVersion'', DInt 1)]"

definition positionData :: "paper_position \<Rightarrow> data" where
  "positionData p = DObj (positionMembers p)"

subsection \<open>Rows\<close>

record position_row =
  pr_positionId :: string
  pr_mint :: string
  pr_strategyId :: string
  pr_strategyVersion :: int
  pr_status :: paper_status
  pr_payload :: json
  pr_openedAt :: int
  pr_closedAt :: "int option"
  pr_purgeAfter :: "int option"
  pr_strategySessionId :: "string option"
  pr_entryDecisionAt :: "int option"
  pr_entryDecisionJobId :: "string option"
  pr_closeEventId :: "string option"
  pr_exitTriggerAt :: "int option"

text \<open>The readers of a payload member; \<open>None\<close> as the member is \<open>undefined\<close>.\<close>

definition payloadRecord :: "data option \<Rightarrow> (string \<times> data) list option" where
  "payloadRecord v = (case v of Some (DObj ms) \<Rightarrow> Some ms | _ \<Rightarrow> None)"

definition payloadText :: "data option \<Rightarrow> string option" where
  "payloadText v = (case v of Some (DStr s) \<Rightarrow> if s = [] then None else Some s | _ \<Rightarrow> None)"

definition nullablePayload :: "(data option \<Rightarrow> 'a option) \<Rightarrow> data option \<Rightarrow> 'a option option" where
  "nullablePayload f v = (if v = Some DNull then Some None else map_option Some (f v))"

definition payloadInteger :: "data option \<Rightarrow> int option" where
  "payloadInteger v = (case v of
     Some (DInt n) \<Rightarrow> if \<bar>n\<bar> > MAX_SAFE_INTEGER \<or> n < 0 then None else Some n | _ \<Rightarrow> None)"

definition payloadBoundedInteger :: "int \<Rightarrow> int \<Rightarrow> data option \<Rightarrow> int option" where
  "payloadBoundedInteger lo hi v = do {
     n \<leftarrow> payloadInteger v; (if n < lo \<or> n > hi then None else Some n) }"

definition payloadBigint :: "data option \<Rightarrow> int option" where
  "payloadBigint v = (case v of Some (DBig n) \<Rightarrow> Some n | _ \<Rightarrow> None)"

definition payloadPositiveBigint :: "data option \<Rightarrow> int option" where
  "payloadPositiveBigint v = do { n \<leftarrow> payloadBigint v; (if n \<le> 0 then None else Some n) }"

definition payloadNonNegativeBigint :: "data option \<Rightarrow> int option" where
  "payloadNonNegativeBigint v = do { n \<leftarrow> payloadBigint v; (if n < 0 then None else Some n) }"

definition payloadBoundedBigint :: "int \<Rightarrow> int \<Rightarrow> data option \<Rightarrow> int option" where
  "payloadBoundedBigint lo hi v = do { n \<leftarrow> payloadBigint v; (if n < lo \<or> n > hi then None else Some n) }"

definition payloadLiteral :: "(string \<times> 'a) list \<Rightarrow> data option \<Rightarrow> 'a option" where
  "payloadLiteral literals v = (case v of Some (DStr s) \<Rightarrow> map_of literals s | _ \<Rightarrow> None)"

definition nullableRowText :: "string option \<Rightarrow> string option option" where
  "nullableRowText v = (case v of None \<Rightarrow> Some None | Some s \<Rightarrow> if s = [] then None else Some (Some s))"

definition nullableRowDateMs :: "int option \<Rightarrow> int option option" where
  "nullableRowDateMs v = (case v of None \<Rightarrow> Some None
     | Some t \<Rightarrow> if \<bar>t\<bar> > MAX_SAFE_INTEGER then None else Some (Some t))"

definition validatePositionState :: "paper_position \<Rightarrow> bool" where
  "validatePositionState p =
     (\<not> pp_remainingBaseRaw p > pp_baseFilledRaw p
      \<and> (case pp_status p of
          PAPER_HOLDING \<Rightarrow> \<not> (pp_remainingBaseRaw p = 0 \<or> pp_quoteProceedsRaw p \<noteq> None \<or> pp_grossPnlQuoteRaw p \<noteq> None
            \<or> pp_netPnlQuoteRaw p \<noteq> None \<or> pp_exitTradeId p \<noteq> None \<or> pp_closeCommandHash p \<noteq> None
            \<or> pp_closedAtMs p \<noteq> None \<or> pp_purgeAfterMs p \<noteq> None)
        | PAPER_CLOSED \<Rightarrow> \<not> (pp_remainingBaseRaw p \<noteq> 0
            \<or> (case pp_quoteProceedsRaw p of None \<Rightarrow> True | Some n \<Rightarrow> n < 0)
            \<or> pp_grossPnlQuoteRaw p = None \<or> pp_netPnlQuoteRaw p = None \<or> pp_exitTradeId p = None
            \<or> pp_closeCommandHash p = None
            \<or> (case (pp_closedAtMs p, pp_purgeAfterMs p) of (Some c, Some g) \<Rightarrow> g < c | _ \<Rightarrow> True))
        | PAPER_RETRACTED \<Rightarrow>
            (case (pp_closedAtMs p, pp_purgeAfterMs p) of (Some c, Some g) \<Rightarrow> \<not> g < c | _ \<Rightarrow> False)
            \<and> (let retractedBeforeSell = pp_remainingBaseRaw p > 0 \<and> pp_quoteProceedsRaw p = None
                     \<and> pp_grossPnlQuoteRaw p = None \<and> pp_netPnlQuoteRaw p = None \<and> pp_exitTradeId p = None
                     \<and> pp_closeCommandHash p = None;
                   retractedAfterSell = pp_remainingBaseRaw p = 0
                     \<and> (case pp_quoteProceedsRaw p of None \<Rightarrow> False | Some n \<Rightarrow> n \<ge> 0)
                     \<and> pp_grossPnlQuoteRaw p \<noteq> None \<and> pp_netPnlQuoteRaw p \<noteq> None \<and> pp_exitTradeId p \<noteq> None
                     \<and> pp_closeCommandHash p \<noteq> None
               in retractedBeforeSell \<or> retractedAfterSell)))"

definition decodeLineage :: "(string \<times> data) list \<Rightarrow> paper_lineage option option" where
  "decodeLineage ms = (case map_of ms ''strategySessionId'' of
     None \<Rightarrow> Some None
   | session \<Rightarrow> do {
       s \<leftarrow> payloadText session;
       q \<leftarrow> payloadText (map_of ms ''qualificationReportId'');
       c \<leftarrow> payloadText (map_of ms ''candidateId'');
       Some (Some \<lparr>pl_strategySessionId = s, pl_qualificationReportId = q, pl_candidateId = c\<rparr>)
     })"

definition decodeQuoteAsset :: "(string \<times> data) list \<Rightarrow> quote_asset option" where
  "decodeQuoteAsset ms = do {
     mint \<leftarrow> payloadText (map_of ms ''mint'');
     decimals \<leftarrow> payloadBoundedInteger 0 255 (map_of ms ''decimals'');
     program \<leftarrow> payloadLiteral TOKEN_PROGRAMS (map_of ms ''tokenProgram'');
     Some \<lparr>qa_mint = mint, qa_decimals = decimals, qa_tokenProgram = program\<rparr>
   }"

definition decodeStrategy :: "(string \<times> data) list \<Rightarrow> paper_strategy option" where
  "decodeStrategy ms = do {
     i \<leftarrow> payloadText (map_of ms ''id'');
     version \<leftarrow> payloadBoundedInteger 1 MAX_SAFE_INTEGER (map_of ms ''version'');
     Some \<lparr>ps_id = i, ps_version = version\<rparr>
   }"

definition decodePosition :: "position_row \<Rightarrow> paper_position option" where
  "decodePosition row = do {
     ms \<leftarrow> payloadRecord (Some (fromJsonValue (pr_payload row)));
     quoteAsset \<leftarrow> payloadRecord (map_of ms ''quoteAsset'');
     strategy \<leftarrow> payloadRecord (map_of ms ''strategy'');
     status \<leftarrow> payloadLiteral PAPER_STATUSES (map_of ms ''status'');
     lineage \<leftarrow> decodeLineage ms;
     i \<leftarrow> payloadText (map_of ms ''id'');
     mint \<leftarrow> payloadText (map_of ms ''mint'');
     asset \<leftarrow> decodeQuoteAsset quoteAsset;
     strat \<leftarrow> decodeStrategy strategy;
     baseFilled \<leftarrow> payloadPositiveBigint (map_of ms ''baseFilledRaw'');
     remaining \<leftarrow> payloadNonNegativeBigint (map_of ms ''remainingBaseRaw'');
     cost \<leftarrow> payloadPositiveBigint (map_of ms ''quoteCostRaw'');
     proceeds \<leftarrow> nullablePayload payloadBigint (map_of ms ''quoteProceedsRaw'');
     gross \<leftarrow> nullablePayload payloadBigint (map_of ms ''grossPnlQuoteRaw'');
     net \<leftarrow> nullablePayload payloadBigint (map_of ms ''netPnlQuoteRaw'');
     loss \<leftarrow> payloadBoundedBigint 0 10000 (map_of ms ''roundTripLossBps'');
     entryTrade \<leftarrow> payloadText (map_of ms ''entryTradeId'');
     exitTrade \<leftarrow> nullablePayload payloadText (map_of ms ''exitTradeId'');
     openHash \<leftarrow> payloadText (map_of ms ''openCommandHash'');
     closeHash \<leftarrow> nullablePayload payloadText (map_of ms ''closeCommandHash'');
     trigger \<leftarrow> payloadText (map_of ms ''triggerEventId'');
     entryAt \<leftarrow> nullableRowDateMs (pr_entryDecisionAt row);
     entryJob \<leftarrow> nullableRowText (pr_entryDecisionJobId row);
     closeEvent \<leftarrow> nullableRowText (pr_closeEventId row);
     exitAt \<leftarrow> nullableRowDateMs (pr_exitTriggerAt row);
     opened \<leftarrow> payloadInteger (map_of ms ''openedAtMs'');
     closed \<leftarrow> nullablePayload payloadInteger (map_of ms ''closedAtMs'');
     purge \<leftarrow> nullablePayload payloadInteger (map_of ms ''purgeAfterMs'');
     (if map_of ms ''payloadVersion'' \<noteq> Some (DInt 1) then None
      else let p = \<lparr>pp_id = i, pp_mint = mint, pp_quoteAsset = asset, pp_strategy = strat, pp_status = status,
          pp_baseFilledRaw = baseFilled, pp_remainingBaseRaw = remaining, pp_quoteCostRaw = cost,
          pp_quoteProceedsRaw = proceeds, pp_grossPnlQuoteRaw = gross, pp_netPnlQuoteRaw = net,
          pp_roundTripLossBps = loss, pp_entryTradeId = entryTrade, pp_exitTradeId = exitTrade,
          pp_openCommandHash = openHash, pp_closeCommandHash = closeHash, pp_triggerEventId = trigger,
          pp_entryDecisionAtMs = entryAt, pp_entryDecisionJobId = entryJob, pp_closeEventId = closeEvent,
          pp_exitTriggerAtMs = exitAt, pp_lineage = lineage, pp_openedAtMs = opened, pp_closedAtMs = closed,
          pp_purgeAfterMs = purge\<rparr>
        in if validatePositionState p then Some p else None)
   }"

subsection \<open>Exactly the well-formed positions can be read\<close>

definition valid_asset :: "quote_asset \<Rightarrow> bool" where
  "valid_asset a = (qa_mint a \<noteq> [] \<and> 0 \<le> qa_decimals a \<and> qa_decimals a \<le> 255)"

definition valid_strategy :: "paper_strategy \<Rightarrow> bool" where
  "valid_strategy s = (ps_id s \<noteq> [] \<and> 1 \<le> ps_version s \<and> ps_version s \<le> MAX_SAFE_INTEGER)"

definition valid_lineage :: "paper_lineage option \<Rightarrow> bool" where
  "valid_lineage l = (case l of None \<Rightarrow> True | Some x \<Rightarrow> pl_strategySessionId x \<noteq> [] \<and> pl_qualificationReportId x \<noteq> []
     \<and> pl_candidateId x \<noteq> [])"

definition stored_time :: "int \<Rightarrow> bool" where
  "stored_time t = (0 \<le> t \<and> t \<le> MAX_SAFE_INTEGER)"

definition valid_opt_time :: "int option \<Rightarrow> bool" where
  "valid_opt_time v = (case v of None \<Rightarrow> True | Some t \<Rightarrow> stored_time t)"

definition valid_row_time :: "int option \<Rightarrow> bool" where
  "valid_row_time v = (case v of None \<Rightarrow> True | Some t \<Rightarrow> \<bar>t\<bar> \<le> MAX_SAFE_INTEGER)"

definition valid_position :: "paper_position \<Rightarrow> bool" where
  "valid_position p = (pp_id p \<noteq> [] \<and> pp_mint p \<noteq> [] \<and> valid_asset (pp_quoteAsset p) \<and> valid_strategy (pp_strategy p)
     \<and> 0 < pp_baseFilledRaw p \<and> 0 \<le> pp_remainingBaseRaw p \<and> 0 < pp_quoteCostRaw p
     \<and> 0 \<le> pp_roundTripLossBps p \<and> pp_roundTripLossBps p \<le> 10000
     \<and> pp_entryTradeId p \<noteq> [] \<and> pp_exitTradeId p \<noteq> Some [] \<and> pp_openCommandHash p \<noteq> []
     \<and> pp_closeCommandHash p \<noteq> Some [] \<and> pp_triggerEventId p \<noteq> []
     \<and> valid_row_time (pp_entryDecisionAtMs p) \<and> pp_entryDecisionJobId p \<noteq> Some []
     \<and> pp_closeEventId p \<noteq> Some [] \<and> valid_row_time (pp_exitTriggerAtMs p) \<and> valid_lineage (pp_lineage p)
     \<and> stored_time (pp_openedAtMs p) \<and> valid_opt_time (pp_closedAtMs p) \<and> valid_opt_time (pp_purgeAfterMs p)
     \<and> validatePositionState p)"

text \<open>A row that holds a position: the columns and the payload written for it.\<close>

definition rowHolds :: "position_row \<Rightarrow> paper_position \<Rightarrow> bool" where
  "rowHolds row p = (pr_positionId row = pp_id p \<and> pr_mint row = pp_mint p
     \<and> pr_strategyId row = ps_id (pp_strategy p) \<and> pr_strategyVersion row = ps_version (pp_strategy p)
     \<and> pr_status row = pp_status p \<and> toJsonValue (positionData p) = Some (pr_payload row)
     \<and> pr_openedAt row = pp_openedAtMs p \<and> pr_closedAt row = pp_closedAtMs p \<and> pr_purgeAfter row = pp_purgeAfterMs p
     \<and> pr_strategySessionId row = map_option pl_strategySessionId (pp_lineage p)
     \<and> pr_entryDecisionAt row = pp_entryDecisionAtMs p \<and> pr_entryDecisionJobId row = pp_entryDecisionJobId p
     \<and> pr_closeEventId row = pp_closeEventId p \<and> pr_exitTriggerAt row = pp_exitTriggerAtMs p)"

lemma text_iffs:
  "payloadText (Some (DStr x)) = Some y \<longleftrightarrow> y = x \<and> x \<noteq> []"
  "nullablePayload payloadText (Some (nullableStr ox)) = Some oy \<longleftrightarrow> oy = ox \<and> ox \<noteq> Some []"
  "nullableRowText ox = Some oy \<longleftrightarrow> oy = ox \<and> ox \<noteq> Some []"
  by (auto simp: payloadText_def nullablePayload_def nullableStr_def nullableRowText_def split: option.splits)

lemma bigint_iffs:
  "payloadPositiveBigint (Some (DBig n)) = Some m \<longleftrightarrow> m = n \<and> 0 < n"
  "payloadNonNegativeBigint (Some (DBig n)) = Some m \<longleftrightarrow> m = n \<and> 0 \<le> n"
  "payloadBoundedBigint lo hi (Some (DBig n)) = Some m \<longleftrightarrow> m = n \<and> lo \<le> n \<and> n \<le> hi"
  by (auto simp: payloadPositiveBigint_def payloadNonNegativeBigint_def payloadBoundedBigint_def payloadBigint_def)

lemma nullable_bigint_iff: "nullablePayload payloadBigint (Some (nullableBig v)) = Some w \<longleftrightarrow> w = v"
  by (cases v) (auto simp: nullablePayload_def nullableBig_def payloadBigint_def)

lemma integer_iffs:
  "payloadInteger (Some (DInt n)) = Some m \<longleftrightarrow> m = n \<and> stored_time n"
  "payloadBoundedInteger lo hi (Some (DInt n)) = Some m \<longleftrightarrow> m = n \<and> stored_time n \<and> lo \<le> n \<and> n \<le> hi"
  by (auto simp: payloadInteger_def payloadBoundedInteger_def stored_time_def)

lemma nullable_integer_iff:
  "nullablePayload payloadInteger (Some (nullableInt v)) = Some w \<longleftrightarrow> w = v \<and> valid_opt_time v"
  by (cases v) (auto simp: nullablePayload_def nullableInt_def payloadInteger_def valid_opt_time_def stored_time_def)

lemma row_date_iff: "nullableRowDateMs v = Some w \<longleftrightarrow> w = v \<and> valid_row_time v"
  by (cases v) (auto simp: nullableRowDateMs_def valid_row_time_def)

lemmas reader_iffs = text_iffs bigint_iffs nullable_bigint_iff integer_iffs nullable_integer_iff row_date_iff

lemma literal_iffs:
  "payloadLiteral PAPER_STATUSES (Some (DStr (literal_of PAPER_STATUSES st))) = Some st' \<longleftrightarrow> st' = st"
  "payloadLiteral TOKEN_PROGRAMS (Some (DStr (literal_of TOKEN_PROGRAMS tp))) = Some tp' \<longleftrightarrow> tp' = tp"
  by (cases st; auto simp: payloadLiteral_def literal_of_def PAPER_STATUSES_def)
     (cases tp; auto simp: payloadLiteral_def literal_of_def TOKEN_PROGRAMS_def)

lemma asset_iff: "decodeQuoteAsset (quoteAssetMembers a) = Some b \<longleftrightarrow> b = a \<and> valid_asset a"
  by (cases a) (auto simp: quoteAssetMembers_def decodeQuoteAsset_def result_simps reader_iffs literal_iffs
      valid_asset_def stored_time_def)

lemma strategy_iff: "decodeStrategy (strategyMembers s) = Some t \<longleftrightarrow> t = s \<and> valid_strategy s"
  by (cases s) (auto simp: strategyMembers_def decodeStrategy_def result_simps reader_iffs valid_strategy_def stored_time_def)

lemma position_lookup:
  "map_of (positionMembers p) ''id'' = Some (DStr (pp_id p))"
  "map_of (positionMembers p) ''mint'' = Some (DStr (pp_mint p))"
  "map_of (positionMembers p) ''quoteAsset'' = Some (DObj (quoteAssetMembers (pp_quoteAsset p)))"
  "map_of (positionMembers p) ''strategy'' = Some (DObj (strategyMembers (pp_strategy p)))"
  "map_of (positionMembers p) ''status'' = Some (DStr (literal_of PAPER_STATUSES (pp_status p)))"
  "map_of (positionMembers p) ''baseFilledRaw'' = Some (DBig (pp_baseFilledRaw p))"
  "map_of (positionMembers p) ''remainingBaseRaw'' = Some (DBig (pp_remainingBaseRaw p))"
  "map_of (positionMembers p) ''quoteCostRaw'' = Some (DBig (pp_quoteCostRaw p))"
  "map_of (positionMembers p) ''quoteProceedsRaw'' = Some (nullableBig (pp_quoteProceedsRaw p))"
  "map_of (positionMembers p) ''grossPnlQuoteRaw'' = Some (nullableBig (pp_grossPnlQuoteRaw p))"
  "map_of (positionMembers p) ''netPnlQuoteRaw'' = Some (nullableBig (pp_netPnlQuoteRaw p))"
  "map_of (positionMembers p) ''roundTripLossBps'' = Some (DBig (pp_roundTripLossBps p))"
  "map_of (positionMembers p) ''entryTradeId'' = Some (DStr (pp_entryTradeId p))"
  "map_of (positionMembers p) ''exitTradeId'' = Some (nullableStr (pp_exitTradeId p))"
  "map_of (positionMembers p) ''openCommandHash'' = Some (DStr (pp_openCommandHash p))"
  "map_of (positionMembers p) ''closeCommandHash'' = Some (nullableStr (pp_closeCommandHash p))"
  "map_of (positionMembers p) ''triggerEventId'' = Some (DStr (pp_triggerEventId p))"
  "map_of (positionMembers p) ''openedAtMs'' = Some (DInt (pp_openedAtMs p))"
  "map_of (positionMembers p) ''closedAtMs'' = Some (nullableInt (pp_closedAtMs p))"
  "map_of (positionMembers p) ''purgeAfterMs'' = Some (nullableInt (pp_purgeAfterMs p))"
  "map_of (positionMembers p) ''payloadVersion'' = Some (DInt 1)"
  by (cases "pp_lineage p"; simp add: positionMembers_def lineageMembers_def)+

lemma lineage_iff: "decodeLineage (positionMembers p) = Some l \<longleftrightarrow> l = pp_lineage p \<and> valid_lineage (pp_lineage p)"
  by (cases "pp_lineage p")
     (auto simp: decodeLineage_def positionMembers_def lineageMembers_def valid_lineage_def result_simps reader_iffs)

lemma decodePosition_iff:
  assumes "rowHolds row p"
  shows "decodePosition row = Some q \<longleftrightarrow> q = p \<and> valid_position p"
proof -
  have payload: "fromJsonValue (pr_payload row) = DObj (positionMembers p)"
    using assms toJsonValue_back by (auto simp: rowHolds_def positionData_def)
  have cols: "pr_entryDecisionAt row = pp_entryDecisionAtMs p" "pr_entryDecisionJobId row = pp_entryDecisionJobId p"
    "pr_closeEventId row = pp_closeEventId p" "pr_exitTriggerAt row = pp_exitTriggerAtMs p"
    using assms by (simp_all add: rowHolds_def)
  have rec: "payloadRecord (Some (DObj ms)) = Some ms" for ms
    by (simp add: payloadRecord_def)
  have eta: "\<lparr>pp_id = pp_id p, pp_mint = pp_mint p,
      pp_quoteAsset = pp_quoteAsset p, pp_strategy = pp_strategy p, pp_status = pp_status p,
      pp_baseFilledRaw = pp_baseFilledRaw p, pp_remainingBaseRaw = pp_remainingBaseRaw p, pp_quoteCostRaw = pp_quoteCostRaw p,
      pp_quoteProceedsRaw = pp_quoteProceedsRaw p, pp_grossPnlQuoteRaw = pp_grossPnlQuoteRaw p,
      pp_netPnlQuoteRaw = pp_netPnlQuoteRaw p, pp_roundTripLossBps = pp_roundTripLossBps p,
      pp_entryTradeId = pp_entryTradeId p, pp_exitTradeId = pp_exitTradeId p, pp_openCommandHash = pp_openCommandHash p,
      pp_closeCommandHash = pp_closeCommandHash p, pp_triggerEventId = pp_triggerEventId p,
      pp_entryDecisionAtMs = pp_entryDecisionAtMs p, pp_entryDecisionJobId = pp_entryDecisionJobId p,
      pp_closeEventId = pp_closeEventId p, pp_exitTriggerAtMs = pp_exitTriggerAtMs p, pp_lineage = pp_lineage p,
      pp_openedAtMs = pp_openedAtMs p, pp_closedAtMs = pp_closedAtMs p, pp_purgeAfterMs = pp_purgeAfterMs p\<rparr> = p"
    by simp
  show ?thesis
    unfolding decodePosition_def payload cols rec bind.bind_lunit position_lookup result_simps lineage_iff reader_iffs
      literal_iffs asset_iff strategy_iff Let_def valid_position_def
    by (auto simp: eta)
qed

end
