(* ===== verification/Paper_Engine.thy ===== *)
theory Paper_Engine
  imports Paper_Position
begin

text \<open>
  The paper trading engine (src/paper/paper-trading-engine.ts): its commands, and the operations
  open, reconcileOpen, close, reconcileClose and retract. As in the code, the engine is given its
  repository, the port of src/ports/paper-trading-repository.ts: a record of operations over some
  type of databases. An operation of a transaction is a function from the database to an error or to
  a result and the next database.
\<close>

subsection \<open>Transactions\<close>

type_synonym ('db, 'a) tx = "'db \<Rightarrow> paper_error + 'a \<times> 'db"

definition returnT :: "'a \<Rightarrow> ('db, 'a) tx" where
  "returnT x db = Inr (x, db)"

definition failT :: "paper_error \<Rightarrow> ('db, 'a) tx" where
  "failT e db = Inl e"

definition bindT :: "('db, 'a) tx \<Rightarrow> ('a \<Rightarrow> ('db, 'b) tx) \<Rightarrow> ('db, 'b) tx" where
  "bindT m f db = bindE (m db) (\<lambda>(x, db'). f x db')"

text \<open>A computation that does not touch the database.\<close>

definition liftT :: "paper_error + 'a \<Rightarrow> ('db, 'a) tx" where
  "liftT r db = map_sum id (\<lambda>x. (x, db)) r"

text \<open>\<open>BEGIN\<close>, then \<open>COMMIT\<close> or, on any error, \<open>ROLLBACK\<close>.\<close>

definition transact :: "('db, 'a) tx \<Rightarrow> 'db \<Rightarrow> (paper_error + 'a) \<times> 'db" where
  "transact operation db = (case operation db of Inl e \<Rightarrow> (Inl e, db) | Inr (x, db') \<Rightarrow> (Inr x, db'))"

subsection \<open>Commands and events\<close>

record domain_event =
  dv_id :: string
  dv_mint :: string
  dv_program :: string
  dv_signature :: string
  dv_cursor :: raw_cursor
  dv_confirmationStatus :: confirmation_status
  dv_blockchainTimeMs :: js
  dv_observedAtMs :: js

record paper_trigger =
  tg_id :: string
  tg_mint :: string
  tg_program :: string
  tg_signature :: string
  tg_cursor :: chain_cursor
  tg_confirmationStatus :: confirmation_status
  tg_blockchainTimeMs :: "int option"
  tg_observedAtMs :: int

record current_qualification =
  cq_mint :: string
  cq_reportId :: string
  cq_qualificationEventId :: string

text \<open>A report is an object: \<open>oc_report\<close> is its identity and \<open>oc_qualification\<close> what it holds.
  \<open>JUndefined\<close> and \<open>None\<close> are absent optional members.\<close>

record open_command =
  oc_mint :: string
  oc_quoteAsset :: quote_asset
  oc_strategy :: paper_strategy
  oc_trigger :: domain_event
  oc_report :: nat
  oc_qualification :: raw_report
  oc_buyQuote :: paper_quote
  oc_reverseSellQuote :: paper_quote
  oc_maximumRoundTripLossBps :: int
  oc_strategySessionId :: "string option"
  oc_qualificationReportId :: "string option"
  oc_candidateId :: "string option"
  oc_expectedCurrentQualification :: "current_qualification option"
  oc_entryDecisionAtMs :: js
  oc_entryDecisionJobId :: "string option"

text \<open>The exit time of a closing command is absent or an integer; fractions and NaN,
  which \<open>assertValidTimestampMs\<close> refuses, are not represented.\<close>

record close_command =
  cc_positionId :: string
  cc_trigger :: domain_event
  cc_sellQuote :: paper_quote
  cc_reason :: string
  cc_exitTriggerAtMs :: "int option"

datatype paper_event_type = PaperPositionOpened | PaperPositionClosed

record paper_event =
  pe_id :: string
  pe_type :: paper_event_type
  pe_mint :: string
  pe_program :: string
  pe_signature :: string
  pe_cursor :: chain_cursor
  pe_confirmationStatus :: confirmation_status
  pe_blockchainTimeMs :: "int option"
  pe_observedAtMs :: int
  pe_position :: paper_position
  pe_trade :: paper_trade

record confirmation_observation =
  co_confirmationStatus :: confirmation_status
  co_blockchainTimeMs :: "int option"
  co_observedAtMs :: int

text \<open>\<open>new Date(ms)\<close> as a parameter: PostgreSQL refuses the text of an invalid date.\<close>

definition dateParam :: "int \<Rightarrow> bool" where
  "dateParam t = (\<bar>t\<bar> \<le> DATE_MAX_MS)"

definition optDateParam :: "int option \<Rightarrow> bool" where
  "optDateParam v = (case v of None \<Rightarrow> True | Some t \<Rightarrow> dateParam t)"

subsection \<open>The repository port\<close>

record 'db paper_repository =
  requireCurrentQualification :: "current_qualification \<Rightarrow> ('db, unit) tx"
  findPosition :: "string \<Rightarrow> ('db, paper_position option) tx"
  findActivePosition :: "string \<Rightarrow> paper_strategy \<Rightarrow> ('db, paper_position option) tx"
  insertOpened :: "paper_position \<Rightarrow> paper_trade \<Rightarrow> paper_event \<Rightarrow> int option \<Rightarrow> string option \<Rightarrow> ('db, unit) tx"
  updateClosed :: "paper_position \<Rightarrow> paper_trade \<Rightarrow> paper_event \<Rightarrow> int option \<Rightarrow> ('db, unit) tx"
  reconcileEventConfirmation :: "string \<Rightarrow> confirmation_observation \<Rightarrow> ('db, unit) tx"
  storeRetracted :: "paper_position \<Rightarrow> ('db, unit) tx"

subsection \<open>Snapshots\<close>

record open_snapshot =
  os_mint :: string
  os_quoteAsset :: quote_asset
  os_strategy :: paper_strategy
  os_trigger :: paper_trigger
  os_qualification :: qualification_report
  os_buyQuote :: paper_quote
  os_reverseSellQuote :: paper_quote
  os_maximumRoundTripLossBps :: int
  os_entryDecision :: "(js \<times> string) option"
  os_strategySessionId :: "string option"
  os_qualificationReportId :: "string option"
  os_candidateId :: "string option"
  os_expectedCurrentQualification :: "current_qualification option"

definition snapshotTrigger :: "domain_event \<Rightarrow> paper_error + paper_trigger" where
  "snapshotTrigger trigger =
     bindE (map_sum ChainError id (assertValidChainCursor (dv_cursor trigger))) (\<lambda>cursor.
     bindE (map_sum ChainError id (assertValidNullableTimestampMs BlockchainTimeMs (dv_blockchainTimeMs trigger))) (\<lambda>chain.
     bindE (map_sum ChainError id (assertValidTimestampMs ObservedAtMs (dv_observedAtMs trigger))) (\<lambda>observed.
       Inr \<lparr>tg_id = dv_id trigger, tg_mint = dv_mint trigger, tg_program = dv_program trigger,
         tg_signature = dv_signature trigger, tg_cursor = cursor, tg_confirmationStatus = dv_confirmationStatus trigger,
         tg_blockchainTimeMs = chain, tg_observedAtMs = observed\<rparr>)))"

definition snapshotOpenCommand :: "open_command \<Rightarrow> paper_trigger \<Rightarrow> paper_error + open_snapshot" where
  "snapshotOpenCommand command trigger = (case snapshotQualification (oc_qualification command) of
     None \<Rightarrow> Inl TypeError
   | Some qualification \<Rightarrow> Inr \<lparr>os_mint = oc_mint command, os_quoteAsset = oc_quoteAsset command,
       os_strategy = oc_strategy command, os_trigger = trigger, os_qualification = qualification,
       os_buyQuote = oc_buyQuote command, os_reverseSellQuote = oc_reverseSellQuote command,
       os_maximumRoundTripLossBps = oc_maximumRoundTripLossBps command,
       os_entryDecision = (if oc_entryDecisionAtMs command = JUndefined then None
         else Some (oc_entryDecisionAtMs command, case oc_entryDecisionJobId command of Some j \<Rightarrow> j | None \<Rightarrow> [])),
       os_strategySessionId = oc_strategySessionId command,
       os_qualificationReportId = (if oc_strategySessionId command = None then None else oc_qualificationReportId command),
       os_candidateId = (if oc_strategySessionId command = None then None else oc_candidateId command),
       os_expectedCurrentQualification = (if oc_strategySessionId command = None then None
         else Some (case oc_expectedCurrentQualification command of Some q \<Rightarrow> q
           | None \<Rightarrow> \<lparr>cq_mint = [], cq_reportId = [], cq_qualificationEventId = []\<rparr>))\<rparr>)"

subsection \<open>Identifiers and hashes\<close>

definition namespaced :: "string \<Rightarrow> string \<Rightarrow> string" where
  "namespaced namespace text = namespace @ [char_of (31 :: nat)] @ text"

definition hashValue :: "(string \<Rightarrow> string) \<Rightarrow> string \<Rightarrow> data \<Rightarrow> paper_error + string" where
  "hashValue sha256 namespace v = (case stringifyJson v of
     None \<Rightarrow> Inl TypeError
   | Some text \<Rightarrow> Inr (namespace @ ''_'' @ sha256 (namespaced namespace text)))"

text \<open>The hash of a list of strings and numbers, whose JSON text always exists.\<close>

definition hashId :: "(string \<Rightarrow> string) \<Rightarrow> string \<Rightarrow> json list \<Rightarrow> string" where
  "hashId sha256 namespace parts = namespace @ ''_'' @ sha256 (namespaced namespace (stringify (JsonArr parts)))"

definition PAPER_EVENT_TYPES :: "(string \<times> paper_event_type) list" where
  "PAPER_EVENT_TYPES = [(''PaperPositionOpened'', PaperPositionOpened), (''PaperPositionClosed'', PaperPositionClosed)]"

definition paperEventId :: "(string \<Rightarrow> string) \<Rightarrow> paper_event_type \<Rightarrow> string \<Rightarrow> string \<Rightarrow> string \<Rightarrow> string" where
  "paperEventId sha256 type positionId tradeId triggerId = hashId sha256 ''evt''
     [JsonStr (literal_of PAPER_EVENT_TYPES type), JsonStr positionId, JsonStr tradeId, JsonStr triggerId]"

definition paperPositionId :: "(string \<Rightarrow> string) \<Rightarrow> string \<Rightarrow> paper_strategy \<Rightarrow> string \<Rightarrow> string" where
  "paperPositionId sha256 mint strategy triggerId = hashId sha256 ''paper_position''
     [JsonStr mint, JsonStr (ps_id strategy), JsonInt (ps_version strategy), JsonStr triggerId]"

definition paperTradeId :: "(string \<Rightarrow> string) \<Rightarrow> string \<Rightarrow> paper_side \<Rightarrow> string" where
  "paperTradeId sha256 positionId side = hashId sha256 ''paper_trade''
     [JsonStr positionId, JsonStr (case side of PAPER_BUY \<Rightarrow> ''BUY'' | PAPER_SELL \<Rightarrow> ''SELL'')]"

definition numberData :: "js \<Rightarrow> data" where
  "numberData v = (case v of JNum (JInt n) \<Rightarrow> DInt n | JNum JNegZero \<Rightarrow> DInt 0 | _ \<Rightarrow> DNull)"

definition quoteData :: "paper_quote \<Rightarrow> data" where
  "quoteData q = DObj [(''id'', DStr (pq_id q)), (''inputMint'', DStr (pq_inputMint q)),
     (''outputMint'', DStr (pq_outputMint q)), (''amountInRaw'', DBig (pq_amountInRaw q)),
     (''amountOutRaw'', DBig (pq_amountOutRaw q)), (''minimumAmountOutRaw'', DBig (pq_minimumAmountOutRaw q)),
     (''feesRaw'', DBig (pq_feesRaw q)), (''slippageBps'', DBig (pq_slippageBps q)),
     (''priceImpactBps'', DBig (pq_priceImpactBps q)), (''observedAtMs'', numberData (pq_observedAtMs q)),
     (''observedSlot'', DBig (pq_observedSlot q))]"

text \<open>A member that is left out where its value is \<open>undefined\<close>.\<close>

definition optionalMember :: "string \<Rightarrow> string option \<Rightarrow> (string \<times> data) list" where
  "optionalMember key v = (case v of None \<Rightarrow> [] | Some s \<Rightarrow> [(key, DStr s)])"

definition openCommandData :: "open_snapshot \<Rightarrow> data \<Rightarrow> data" where
  "openCommandData command qualification = DObj ([(''mint'', DStr (os_mint command)),
     (''quoteAsset'', DObj (quoteAssetMembers (os_quoteAsset command))),
     (''strategy'', DObj (strategyMembers (os_strategy command))), (''trigger'', DStr (tg_id (os_trigger command))),
     (''qualification'', qualification), (''buyQuote'', quoteData (os_buyQuote command)),
     (''reverseSellQuote'', quoteData (os_reverseSellQuote command)),
     (''maximumRoundTripLossBps'', DBig (os_maximumRoundTripLossBps command))]
   @ optionalMember ''strategySessionId'' (os_strategySessionId command)
   @ optionalMember ''qualificationReportId'' (os_qualificationReportId command)
   @ optionalMember ''candidateId'' (os_candidateId command))"

record open_hashes =
  oh_current :: string
  oh_legacy :: string

definition hashOpenCommand :: "(string \<Rightarrow> string) \<Rightarrow> open_snapshot \<Rightarrow> paper_error + open_hashes" where
  "hashOpenCommand sha256 command =
     bindE (hashValue sha256 ''paper_open_command'' (openCommandData command (reportData (os_qualification command)))) (\<lambda>current.
     bindE (hashValue sha256 ''paper_open_command''
         (openCommandData command (legacyQualificationSnapshot (os_qualification command)))) (\<lambda>legacy.
       Inr \<lparr>oh_current = current, oh_legacy = legacy\<rparr>))"

definition closeCommandData :: "close_command \<Rightarrow> paper_trigger \<Rightarrow> data" where
  "closeCommandData command trigger = DObj [(''positionId'', DStr (cc_positionId command)),
     (''trigger'', DStr (tg_id trigger)), (''sellQuote'', quoteData (cc_sellQuote command)),
     (''reason'', DStr (cc_reason command))]"

definition matchesOpenCommandHash :: "paper_position \<Rightarrow> open_hashes \<Rightarrow> bool" where
  "matchesOpenCommandHash position hashes =
     (pp_openCommandHash position = oh_current hashes \<or> pp_openCommandHash position = oh_legacy hashes)"

subsection \<open>Validation of the commands\<close>

text \<open>\<open>left > right\<close> on numbers. A number that is no integer compares as \<open>NaN\<close>; a quote with such a
  time is refused by \<open>validatePaperQuote\<close> in any case.\<close>

fun numberOf :: "js \<Rightarrow> int option" where
  "numberOf (JNum (JInt n)) = Some n"
| "numberOf (JNum JNegZero) = Some 0"
| "numberOf _ = None"

definition numberGreater :: "js \<Rightarrow> js \<Rightarrow> bool" where
  "numberGreater left right = (case (numberOf left, numberOf right) of (Some l, Some r) \<Rightarrow> l > r | _ \<Rightarrow> False)"

definition CREATION_ENTRY :: string where
  "CREATION_ENTRY = ''creation-entry-v1''"

definition quoteError :: "quote_error \<Rightarrow> paper_error" where
  "quoteError e = (case e of QUOTE_INVALID field \<Rightarrow> QUOTE_INVALID_error field | QUOTE_TIMESTAMP c \<Rightarrow> ChainError c)"

definition require :: "bool \<Rightarrow> paper_error \<Rightarrow> paper_error + unit" where
  "require condition e = (if condition then Inr () else Inl e)"

definition validateEntryDecision :: "open_snapshot \<Rightarrow> js \<Rightarrow> paper_error + unit" where
  "validateEntryDecision command openedAtMs =
     (let creationEntry = ps_id (os_strategy command) = CREATION_ENTRY in
      bindE (require (\<not> (creationEntry \<and> os_entryDecision command = None)) (QUOTE_INVALID_error ''entryDecision'')) (\<lambda>_.
      bindE (case os_entryDecision command of
          None \<Rightarrow> Inr ()
        | Some (at, job) \<Rightarrow>
            bindE (map_sum ChainError id (assertValidTimestampMs OccurredAtMs at)) (\<lambda>_.
            bindE (require (\<not> numberGreater at (pq_observedAtMs (os_buyQuote command)))
              (QUOTE_INVALID_error ''buyQuote.observedAtMs'')) (\<lambda>_.
              require (trim job \<noteq> []) (QUOTE_INVALID_error ''entryDecisionJobId'')))) (\<lambda>_.
        require (\<not> (creationEntry \<and> numberGreater (pq_observedAtMs (os_buyQuote command)) openedAtMs))
          (QUOTE_INVALID_error ''buyQuote.observedAtMs''))))"

definition validateLineage :: "open_snapshot \<Rightarrow> paper_error + unit" where
  "validateLineage command =
     (let lineage = [os_strategySessionId command, os_qualificationReportId command, os_candidateId command] in
      bindE (require (\<not> (list_ex (\<lambda>v. v \<noteq> None) lineage
          \<and> (list_ex (\<lambda>v. v = None) lineage \<or> list_ex (\<lambda>v. map_option trim v = Some []) lineage)))
        (QUOTE_INVALID_error ''paper lineage'')) (\<lambda>_.
        require (os_strategySessionId command = None \<or>
            (case os_expectedCurrentQualification command of None \<Rightarrow> False
             | Some q \<Rightarrow> cq_mint q = os_mint command \<and> Some (cq_reportId q) = os_qualificationReportId command
                 \<and> cq_qualificationEventId q = tg_id (os_trigger command)))
          (QUOTE_INVALID_error ''current qualification'')))"

definition validateOpenCommand ::
  "open_snapshot \<Rightarrow> string list \<Rightarrow> qualification_profile \<Rightarrow> js \<Rightarrow> paper_error + unit" where
  "validateOpenCommand command allowlist profile openedAtMs =
     bindE (require (\<not> (trim (os_mint command) = [] \<or> tg_mint (os_trigger command) \<noteq> os_mint command))
       (QUOTE_INVALID_error ''mint'')) (\<lambda>_.
     bindE (validateEntryDecision command openedAtMs) (\<lambda>_.
     bindE (require (\<not> (trim (ps_id (os_strategy command)) = []
         \<or> \<bar>ps_version (os_strategy command)\<bar> > MAX_SAFE_INTEGER \<or> ps_version (os_strategy command) \<le> 0))
       (QUOTE_INVALID_error ''strategy'')) (\<lambda>_.
     bindE (validateLineage command) (\<lambda>_.
     bindE (require (validateQualificationReport (os_qualification command) profile) QUALIFICATION_INVALID) (\<lambda>_.
     bindE (require (qr_blockers (os_qualification command) = []) QUALIFICATION_BLOCKED) (\<lambda>_.
     bindE (require (qr_verdict (os_qualification command) = QUALIFIED) QUALIFICATION_NOT_ACCEPTED) (\<lambda>_.
     bindE (require (qa_mint (os_quoteAsset command) \<in> set allowlist) QUOTE_MINT_NOT_ALLOWED_error) (\<lambda>_.
     bindE (require (pq_inputMint (os_buyQuote command) = qa_mint (os_quoteAsset command)
         \<and> pq_outputMint (os_buyQuote command) = os_mint command) (QUOTE_INVALID_error ''buyQuote'')) (\<lambda>_.
       require (\<not> (os_maximumRoundTripLossBps command < 0 \<or> os_maximumRoundTripLossBps command > 10000))
         (QUOTE_INVALID_error ''maximumRoundTripLossBps''))))))))))"

definition rejectOrphanedTrigger :: "paper_trigger \<Rightarrow> paper_error + unit" where
  "rejectOrphanedTrigger trigger = require (tg_confirmationStatus trigger \<noteq> Orphaned) TRIGGER_ORPHANED"

definition validateCloseCommand :: "close_command \<Rightarrow> paper_trigger \<Rightarrow> paper_position \<Rightarrow> paper_error + unit" where
  "validateCloseCommand command trigger position =
     bindE (rejectOrphanedTrigger trigger) (\<lambda>_.
     bindE (if ps_id (pp_strategy position) = CREATION_ENTRY then
         (case cc_exitTriggerAtMs command of
            None \<Rightarrow> require (cc_reason command = ''MANUAL_KILL_SWITCH'') (QUOTE_INVALID_error ''exitTriggerAtMs'')
          | Some t \<Rightarrow> map_sum ChainError (\<lambda>_. ()) (assertValidTimestampMs OccurredAtMs (JNum (JInt t))))
       else Inr ()) (\<lambda>_.
     bindE (require (tg_mint trigger = pp_mint position) (QUOTE_INVALID_error ''trigger.mint'')) (\<lambda>_.
     bindE (require (trim (cc_reason command) \<noteq> []) (QUOTE_INVALID_error ''reason'')) (\<lambda>_.
       require (pq_inputMint (cc_sellQuote command) = pp_mint position
           \<and> pq_outputMint (cc_sellQuote command) = qa_mint (pp_quoteAsset position)
           \<and> pq_amountInRaw (cc_sellQuote command) = pp_remainingBaseRaw position) (QUOTE_INVALID_error ''sellQuote'')))))"

subsection \<open>The engine\<close>

datatype execution_mode = ObserveMode | PaperMode

record paper_engine =
  en_executionMode :: execution_mode
  en_quoteMintAllowlist :: "string list"
  en_dataRetentionHours :: int
  en_profile :: qualification_profile

definition newPaperTradingEngine ::
  "(string \<Rightarrow> string) \<Rightarrow> execution_mode \<Rightarrow> string list \<Rightarrow> js \<Rightarrow> js \<Rightarrow> paper_engine option" where
  "newPaperTradingEngine sha256 mode allowlist dataRetentionHours profile = do {
     hours \<leftarrow> js_safe_int dataRetentionHours;
     (if hours \<le> 0 then None else do {
        p \<leftarrow> assertValidEffectiveQualificationProfile sha256 profile;
        Some \<lparr>en_executionMode = mode, en_quoteMintAllowlist = allowlist, en_dataRetentionHours = hours, en_profile = p\<rparr>
      })
   }"

definition requirePaperMode :: "paper_engine \<Rightarrow> paper_error + unit" where
  "requirePaperMode engine = require (en_executionMode engine = PaperMode) PAPER_MODE_DISABLED"

definition retentionMs :: "paper_engine \<Rightarrow> int" where
  "retentionMs engine = en_dataRetentionHours engine * 60 * 60 * 1000"

definition createPaperEvent :: "(string \<Rightarrow> string) \<Rightarrow> paper_event_type \<Rightarrow> paper_position \<Rightarrow> paper_trade \<Rightarrow> paper_trigger
    \<Rightarrow> int option \<Rightarrow> paper_event" where
  "createPaperEvent sha256 type position trade trigger observedAtMs =
     \<lparr>pe_id = paperEventId sha256 type (pp_id position) (pt_id trade) (tg_id trigger), pe_type = type,
      pe_mint = pp_mint position, pe_program = tg_program trigger, pe_signature = tg_signature trigger,
      pe_cursor = tg_cursor trigger, pe_confirmationStatus = tg_confirmationStatus trigger,
      pe_blockchainTimeMs = tg_blockchainTimeMs trigger,
      pe_observedAtMs = (case observedAtMs of Some t \<Rightarrow> t | None \<Rightarrow> tg_observedAtMs trigger),
      pe_position = position, pe_trade = trade\<rparr>"

definition observationOf :: "paper_trigger \<Rightarrow> confirmation_observation" where
  "observationOf trigger = \<lparr>co_confirmationStatus = tg_confirmationStatus trigger,
     co_blockchainTimeMs = tg_blockchainTimeMs trigger, co_observedAtMs = tg_observedAtMs trigger\<rparr>"

text \<open>The argument \<open>later\<close> is what the clock says when a retraction reads it.\<close>

definition retractPosition :: "'db paper_repository \<Rightarrow> paper_engine \<Rightarrow> js \<Rightarrow> paper_position \<Rightarrow> ('db, paper_position) tx" where
  "retractPosition repo engine later current =
     (if pp_status current = PAPER_RETRACTED then returnT current
      else bindT (liftT (map_sum ChainError id (assertValidTimestampMs OccurredAtMs later))) (\<lambda>terminalAtMs.
        let position = current\<lparr>pp_status := PAPER_RETRACTED,
              pp_closedAtMs := Some (case pp_closedAtMs current of Some t \<Rightarrow> t | None \<Rightarrow> terminalAtMs),
              pp_purgeAfterMs := Some (terminalAtMs + retentionMs engine)\<rparr>
        in bindT (storeRetracted repo position) (\<lambda>_. returnT position)))"

definition reconcileOpenReplay :: "(string \<Rightarrow> string) \<Rightarrow> 'db paper_repository \<Rightarrow> paper_engine \<Rightarrow> js \<Rightarrow> paper_position
    \<Rightarrow> open_hashes \<Rightarrow> paper_trigger \<Rightarrow> (int \<times> string) option \<Rightarrow> ('db, paper_position) tx" where
  "reconcileOpenReplay sha256 repo engine later position hashes trigger entryDecision =
     (if \<not> matchesOpenCommandHash position hashes then failT POSITION_CONFLICT
      else if pp_entryDecisionAtMs position \<noteq> None
        \<and> (pp_entryDecisionAtMs position \<noteq> map_option fst entryDecision
           \<or> pp_entryDecisionJobId position \<noteq> map_option snd entryDecision) then failT POSITION_CONFLICT
      else bindT (reconcileEventConfirmation repo
          (paperEventId sha256 PaperPositionOpened (pp_id position) (pp_entryTradeId position) (tg_id trigger))
          (observationOf trigger)) (\<lambda>_.
        if tg_confirmationStatus trigger = Orphaned then retractPosition repo engine later position
        else returnT position))"

subsection \<open>Opening\<close>

text \<open>The checks \<open>open\<close> and \<open>reconcileOpen\<close> share.\<close>

definition checkOpen :: "(string \<Rightarrow> string) \<Rightarrow> paper_engine \<Rightarrow> open_snapshot \<Rightarrow> js \<Rightarrow> paper_error + paper_round_trip \<times> open_hashes" where
  "checkOpen sha256 engine snapshot now =
     bindE (validateOpenCommand snapshot (en_quoteMintAllowlist engine) (en_profile engine) now) (\<lambda>_.
     bindE (map_sum quoteError id (calculateRoundTrip (os_buyQuote snapshot) (os_reverseSellQuote snapshot))) (\<lambda>roundTrip.
     bindE (validateQualificationExecutionFacts (os_qualification snapshot) (rt_lossBps roundTrip) (en_profile engine)) (\<lambda>_.
     bindE (require (\<not> rt_lossBps roundTrip > os_maximumRoundTripLossBps snapshot)
       (ROUND_TRIP_LOSS_EXCEEDED_error (rt_lossBps roundTrip))) (\<lambda>_.
     bindE (hashOpenCommand sha256 snapshot) (\<lambda>hashes. Inr (roundTrip, hashes))))))"

definition entryDecisionOf :: "open_snapshot \<Rightarrow> (int \<times> string) option" where
  "entryDecisionOf snapshot = (case os_entryDecision snapshot of None \<Rightarrow> None
     | Some (at, job) \<Rightarrow> map_option (\<lambda>t. (t, job)) (numberOf at))"

definition lineageOf :: "open_snapshot \<Rightarrow> paper_lineage option" where
  "lineageOf snapshot = (case (os_strategySessionId snapshot, os_qualificationReportId snapshot, os_candidateId snapshot) of
     (Some s, Some r, Some c) \<Rightarrow> Some \<lparr>pl_strategySessionId = s, pl_qualificationReportId = r, pl_candidateId = c\<rparr>
   | _ \<Rightarrow> None)"

definition snapshotPositionId :: "(string \<Rightarrow> string) \<Rightarrow> open_snapshot \<Rightarrow> string" where
  "snapshotPositionId sha256 snapshot =
     paperPositionId sha256 (os_mint snapshot) (os_strategy snapshot) (tg_id (os_trigger snapshot))"

definition entryTrade :: "(string \<Rightarrow> string) \<Rightarrow> open_snapshot \<Rightarrow> int \<Rightarrow> paper_trade" where
  "entryTrade sha256 snapshot openedAtMs = (let positionId = snapshotPositionId sha256 snapshot in
     \<lparr>pt_id = paperTradeId sha256 positionId PAPER_BUY, pt_positionId = positionId, pt_side = PAPER_BUY,
      pt_quote = os_buyQuote snapshot, pt_fillAmountOutRaw = pq_minimumAmountOutRaw (os_buyQuote snapshot),
      pt_reason = ''QUALIFIED_ENTRY'', pt_createdAtMs = openedAtMs\<rparr>)"

definition newPosition :: "(string \<Rightarrow> string) \<Rightarrow> open_snapshot \<Rightarrow> paper_round_trip \<Rightarrow> open_hashes \<Rightarrow> int \<Rightarrow> paper_position" where
  "newPosition sha256 snapshot roundTrip hashes openedAtMs =
     \<lparr>pp_id = snapshotPositionId sha256 snapshot, pp_mint = os_mint snapshot, pp_quoteAsset = os_quoteAsset snapshot,
      pp_strategy = os_strategy snapshot, pp_status = PAPER_HOLDING, pp_baseFilledRaw = rt_baseFilledRaw roundTrip,
      pp_remainingBaseRaw = rt_baseFilledRaw roundTrip, pp_quoteCostRaw = rt_quoteCostRaw roundTrip,
      pp_quoteProceedsRaw = None, pp_grossPnlQuoteRaw = None, pp_netPnlQuoteRaw = None,
      pp_roundTripLossBps = rt_lossBps roundTrip, pp_entryTradeId = pt_id (entryTrade sha256 snapshot openedAtMs),
      pp_exitTradeId = None, pp_openCommandHash = oh_current hashes, pp_closeCommandHash = None,
      pp_triggerEventId = tg_id (os_trigger snapshot), pp_entryDecisionAtMs = map_option fst (entryDecisionOf snapshot),
      pp_entryDecisionJobId = map_option snd (entryDecisionOf snapshot), pp_closeEventId = None,
      pp_exitTriggerAtMs = None, pp_lineage = lineageOf snapshot, pp_openedAtMs = openedAtMs, pp_closedAtMs = None,
      pp_purgeAfterMs = None\<rparr>"

text \<open>The transaction of \<open>open\<close>, after the check of the current qualification.\<close>

definition openOrReplay :: "(string \<Rightarrow> string) \<Rightarrow> 'db paper_repository \<Rightarrow> paper_engine \<Rightarrow> js \<Rightarrow> open_snapshot
    \<Rightarrow> paper_round_trip \<Rightarrow> open_hashes \<Rightarrow> int \<Rightarrow> ('db, paper_position) tx" where
  "openOrReplay sha256 repo engine later snapshot roundTrip hashes openedAtMs =
     (let positionId = snapshotPositionId sha256 snapshot;
          replay = (\<lambda>position. reconcileOpenReplay sha256 repo engine later position hashes (os_trigger snapshot)
            (entryDecisionOf snapshot));
          trade = entryTrade sha256 snapshot openedAtMs;
          position = newPosition sha256 snapshot roundTrip hashes openedAtMs
      in bindT (findPosition repo positionId) (\<lambda>existing. case existing of
           Some found \<Rightarrow> replay found
         | None \<Rightarrow> bindT (findActivePosition repo (os_mint snapshot) (os_strategy snapshot)) (\<lambda>active. case active of
             Some found \<Rightarrow> if pp_id found = positionId \<and> matchesOpenCommandHash found hashes then replay found
               else failT POSITION_CONFLICT
           | None \<Rightarrow> bindT (findPosition repo positionId) (\<lambda>terminalReplay. case terminalReplay of
               Some found \<Rightarrow> replay found
             | None \<Rightarrow> bindT (liftT (rejectOrphanedTrigger (os_trigger snapshot))) (\<lambda>_.
                 bindT (insertOpened repo position trade
                   (createPaperEvent sha256 PaperPositionOpened position trade (os_trigger snapshot) None)
                   (map_option fst (entryDecisionOf snapshot)) (map_option snd (entryDecisionOf snapshot)))
                 (\<lambda>_. returnT position))))))"

definition openTransaction :: "(string \<Rightarrow> string) \<Rightarrow> 'db paper_repository \<Rightarrow> paper_engine \<Rightarrow> js \<Rightarrow> open_snapshot
    \<Rightarrow> paper_round_trip \<Rightarrow> open_hashes \<Rightarrow> int \<Rightarrow> ('db, paper_position) tx" where
  "openTransaction sha256 repo engine later snapshot roundTrip hashes openedAtMs =
     bindT (case os_expectedCurrentQualification snapshot of
         None \<Rightarrow> returnT () | Some q \<Rightarrow> requireCurrentQualification repo q) (\<lambda>_.
       openOrReplay sha256 repo engine later snapshot roundTrip hashes openedAtMs)"

definition preparedOpen :: "(string \<Rightarrow> string) \<Rightarrow> qualification_engine \<Rightarrow> paper_engine \<Rightarrow> open_command \<Rightarrow> js
    \<Rightarrow> paper_error + open_snapshot \<times> paper_round_trip \<times> open_hashes \<times> int" where
  "preparedOpen sha256 authority engine command now =
     bindE (requirePaperMode engine) (\<lambda>_.
     bindE (snapshotTrigger (oc_trigger command)) (\<lambda>trigger.
     bindE (require (isAuthorized authority (oc_report command) (JStr (oc_mint command)) (JStr (tg_id trigger)))
       QUALIFICATION_INVALID) (\<lambda>_.
     bindE (snapshotOpenCommand command trigger) (\<lambda>snapshot.
     bindE (map_sum ChainError id (assertValidTimestampMs OccurredAtMs now)) (\<lambda>openedAtMs.
     bindE (checkOpen sha256 engine snapshot now) (\<lambda>(roundTrip, hashes).
       Inr (snapshot, roundTrip, hashes, openedAtMs)))))))"

definition paperOpen :: "(string \<Rightarrow> string) \<Rightarrow> 'db paper_repository \<Rightarrow> qualification_engine \<Rightarrow> paper_engine
    \<Rightarrow> open_command \<Rightarrow> js \<Rightarrow> js \<Rightarrow> 'db \<Rightarrow> (paper_error + paper_position) \<times> 'db" where
  "paperOpen sha256 repo authority engine command now later db =
     (case preparedOpen sha256 authority engine command now of
        Inl e \<Rightarrow> (Inl e, db)
      | Inr (snapshot, roundTrip, hashes, openedAtMs) \<Rightarrow>
          transact (openTransaction sha256 repo engine later snapshot roundTrip hashes openedAtMs) db)"

definition paperReconcileOpen :: "(string \<Rightarrow> string) \<Rightarrow> 'db paper_repository \<Rightarrow> paper_engine
    \<Rightarrow> open_command \<Rightarrow> js \<Rightarrow> js \<Rightarrow> 'db \<Rightarrow> (paper_error + paper_position) \<times> 'db" where
  "paperReconcileOpen sha256 repo engine command now later db =
     (case bindE (requirePaperMode engine) (\<lambda>_.
        bindE (snapshotTrigger (oc_trigger command)) (\<lambda>trigger.
        bindE (snapshotOpenCommand command trigger) (\<lambda>snapshot.
        bindE (checkOpen sha256 engine snapshot now) (\<lambda>(roundTrip, hashes). Inr (snapshot, hashes))))) of
        Inl e \<Rightarrow> (Inl e, db)
      | Inr (snapshot, hashes) \<Rightarrow>
          transact (bindT (findPosition repo (snapshotPositionId sha256 snapshot)) (\<lambda>existing. case existing of
            None \<Rightarrow> failT POSITION_NOT_FOUND
          | Some found \<Rightarrow> reconcileOpenReplay sha256 repo engine later found hashes (os_trigger snapshot)
              (entryDecisionOf snapshot))) db)"

subsection \<open>Closing and retracting\<close>

definition exitTrade :: "(string \<Rightarrow> string) \<Rightarrow> close_command \<Rightarrow> paper_position \<Rightarrow> int \<Rightarrow> paper_trade" where
  "exitTrade sha256 command current closedAtMs =
     \<lparr>pt_id = paperTradeId sha256 (pp_id current) PAPER_SELL, pt_positionId = pp_id current, pt_side = PAPER_SELL,
      pt_quote = cc_sellQuote command, pt_fillAmountOutRaw = pq_minimumAmountOutRaw (cc_sellQuote command),
      pt_reason = cc_reason command, pt_createdAtMs = closedAtMs\<rparr>"

definition closedPosition :: "(string \<Rightarrow> string) \<Rightarrow> paper_engine \<Rightarrow> close_command \<Rightarrow> paper_trigger \<Rightarrow> string \<Rightarrow> paper_position
    \<Rightarrow> int \<Rightarrow> paper_position" where
  "closedPosition sha256 engine command trigger closeCommandHash current closedAtMs =
     (let trade = exitTrade sha256 command current closedAtMs; quote = cc_sellQuote command in
      current\<lparr>pp_status := PAPER_CLOSED, pp_remainingBaseRaw := 0,
        pp_quoteProceedsRaw := Some (pq_minimumAmountOutRaw quote),
        pp_grossPnlQuoteRaw := Some (pq_amountOutRaw quote - pp_quoteCostRaw current),
        pp_netPnlQuoteRaw := Some (pq_minimumAmountOutRaw quote - pp_quoteCostRaw current),
        pp_exitTradeId := Some (pt_id trade), pp_closeCommandHash := Some closeCommandHash,
        pp_closeEventId := Some (paperEventId sha256 PaperPositionClosed (pp_id current) (pt_id trade) (tg_id trigger)),
        pp_exitTriggerAtMs := cc_exitTriggerAtMs command, pp_closedAtMs := Some closedAtMs,
        pp_purgeAfterMs := Some (closedAtMs + retentionMs engine)\<rparr>)"

definition closeTransaction :: "(string \<Rightarrow> string) \<Rightarrow> 'db paper_repository \<Rightarrow> paper_engine \<Rightarrow> js \<Rightarrow> close_command
    \<Rightarrow> paper_trigger \<Rightarrow> string \<Rightarrow> int \<Rightarrow> ('db, paper_position) tx" where
  "closeTransaction sha256 repo engine later command trigger closeCommandHash closedAtMs =
     bindT (findPosition repo (cc_positionId command)) (\<lambda>found. case found of
       None \<Rightarrow> failT POSITION_NOT_FOUND
     | Some current \<Rightarrow>
         if pp_status current \<noteq> PAPER_HOLDING then
           (if pp_closeCommandHash current \<noteq> Some closeCommandHash then failT POSITION_CONFLICT
            else case pp_exitTradeId current of
              None \<Rightarrow> failT POSITION_CONFLICT
            | Some exitTradeId \<Rightarrow>
                if pp_exitTriggerAtMs current \<noteq> None \<and> pp_exitTriggerAtMs current \<noteq> cc_exitTriggerAtMs command
                then failT POSITION_CONFLICT
                else bindT (reconcileEventConfirmation repo
                    (case pp_closeEventId current of Some e \<Rightarrow> e
                     | None \<Rightarrow> paperEventId sha256 PaperPositionClosed (pp_id current) exitTradeId (tg_id trigger))
                    ((observationOf trigger)\<lparr>co_observedAtMs :=
                       (case pp_exitTriggerAtMs current of Some t \<Rightarrow> t | None \<Rightarrow> tg_observedAtMs trigger)\<rparr>)) (\<lambda>_.
                  if tg_confirmationStatus trigger = Orphaned then retractPosition repo engine later current
                  else returnT current))
         else bindT (liftT (validateCloseCommand command trigger current)) (\<lambda>_.
           let trade = exitTrade sha256 command current closedAtMs;
               position = closedPosition sha256 engine command trigger closeCommandHash current closedAtMs
           in bindT (updateClosed repo position trade
                (createPaperEvent sha256 PaperPositionClosed position trade trigger
                  (Some (case cc_exitTriggerAtMs command of Some t \<Rightarrow> t | None \<Rightarrow> tg_observedAtMs trigger)))
                (cc_exitTriggerAtMs command)) (\<lambda>_. returnT position)))"

definition preparedClose :: "(string \<Rightarrow> string) \<Rightarrow> paper_engine \<Rightarrow> close_command \<Rightarrow> js \<Rightarrow> paper_error + paper_trigger \<times> string \<times> int" where
  "preparedClose sha256 engine command now =
     bindE (requirePaperMode engine) (\<lambda>_.
     bindE (snapshotTrigger (cc_trigger command)) (\<lambda>trigger.
     bindE (map_sum quoteError id (validatePaperQuote (cc_sellQuote command))) (\<lambda>_.
     bindE (require (case cc_exitTriggerAtMs command of None \<Rightarrow> True
         | Some t \<Rightarrow> \<not> numberGreater (JNum (JInt t)) (pq_observedAtMs (cc_sellQuote command)))
       (QUOTE_INVALID_error ''sellQuote.observedAtMs'')) (\<lambda>_.
     bindE (hashValue sha256 ''paper_close_command'' (closeCommandData command trigger)) (\<lambda>closeCommandHash.
     bindE (map_sum ChainError id (assertValidTimestampMs OccurredAtMs now)) (\<lambda>closedAtMs.
       Inr (trigger, closeCommandHash, closedAtMs)))))))"

definition paperClose :: "(string \<Rightarrow> string) \<Rightarrow> 'db paper_repository \<Rightarrow> paper_engine \<Rightarrow> close_command \<Rightarrow> js \<Rightarrow> js
    \<Rightarrow> 'db \<Rightarrow> (paper_error + paper_position) \<times> 'db" where
  "paperClose sha256 repo engine command now later db =
     (case preparedClose sha256 engine command now of
        Inl e \<Rightarrow> (Inl e, db)
      | Inr (trigger, closeCommandHash, closedAtMs) \<Rightarrow>
          transact (closeTransaction sha256 repo engine later command trigger closeCommandHash closedAtMs) db)"

definition paperRetract :: "'db paper_repository \<Rightarrow> paper_engine \<Rightarrow> string \<Rightarrow> domain_event \<Rightarrow> js
    \<Rightarrow> 'db \<Rightarrow> (paper_error + paper_position) \<times> 'db" where
  "paperRetract repo engine positionId triggerEvent later db =
     (case bindE (requirePaperMode engine) (\<lambda>_.
        bindE (snapshotTrigger triggerEvent) (\<lambda>trigger.
          require (tg_confirmationStatus trigger = Orphaned) TRIGGER_ORPHANED)) of
        Inl e \<Rightarrow> (Inl e, db)
      | Inr _ \<Rightarrow> transact (bindT (findPosition repo positionId) (\<lambda>found. case found of
            None \<Rightarrow> failT POSITION_NOT_FOUND
          | Some current \<Rightarrow> retractPosition repo engine later current)) db)"

definition paperReconcileClose :: "(string \<Rightarrow> string) \<Rightarrow> 'db paper_repository \<Rightarrow> paper_engine \<Rightarrow> string \<Rightarrow> domain_event \<Rightarrow> js
    \<Rightarrow> 'db \<Rightarrow> (paper_error + paper_position) \<times> 'db" where
  "paperReconcileClose sha256 repo engine positionId triggerEvent later db =
     (case bindE (requirePaperMode engine) (\<lambda>_. snapshotTrigger triggerEvent) of
        Inl e \<Rightarrow> (Inl e, db)
      | Inr trigger \<Rightarrow> transact (bindT (findPosition repo positionId) (\<lambda>found. case found of
            None \<Rightarrow> failT POSITION_NOT_FOUND
          | Some current \<Rightarrow>
              if pp_status current = PAPER_RETRACTED then returnT current
              else case (pp_status current, pp_exitTradeId current, pp_closeEventId current) of
                (PAPER_CLOSED, Some exitTradeId, Some closeEventId) \<Rightarrow>
                  if closeEventId \<noteq> paperEventId sha256 PaperPositionClosed (pp_id current) exitTradeId (tg_id trigger)
                  then failT CLOSE_TRIGGER_MISMATCH
                  else bindT (reconcileEventConfirmation repo closeEventId (observationOf trigger)) (\<lambda>_.
                    if tg_confirmationStatus trigger = Orphaned then retractPosition repo engine later current
                    else returnT current)
              | _ \<Rightarrow> failT POSITION_CONFLICT)) db)"

subsection \<open>Computation rules\<close>

lemma returnT_eq [simp]: "returnT x db = Inr (y, db') \<longleftrightarrow> y = x \<and> db' = db"
  by (auto simp: returnT_def)

lemma failT_eq [simp]: "failT e db = Inr y \<longleftrightarrow> False"
  by (simp add: failT_def)

lemma bindT_eq_Inr [result_simps]:
  "bindT m f db = Inr y \<longleftrightarrow> (\<exists>x db'. m db = Inr (x, db') \<and> f x db' = Inr y)"
  by (auto simp: bindT_def result_simps)

lemma liftT_eq_Inr [result_simps]: "liftT r db = Inr (x, db') \<longleftrightarrow> r = Inr x \<and> db' = db"
  by (cases r) (auto simp: liftT_def)

lemma require_eq_Inr [result_simps]: "require c e = Inr x \<longleftrightarrow> c"
  by (auto simp: require_def)

lemma map_sum_id_eq_Inr [result_simps]: "map_sum f id r = Inr x \<longleftrightarrow> r = Inr x"
  by (cases r) auto

lemma transact_Inr: "transact m db = (Inr x, db') \<longleftrightarrow> m db = Inr (x, db')"
  by (auto simp: transact_def split: sum.splits)

lemma transact_Inl: "transact m db = (Inl e, db') \<longleftrightarrow> m db = Inl e \<and> db' = db"
  by (auto simp: transact_def split: sum.splits)

lemma trim_Nil [simp]: "trim [] = []"
  by (simp add: trim_def)

lemma trim_nonempty: "trim x \<noteq> [] \<Longrightarrow> x \<noteq> []"
  by auto

lemma hashId_nonempty [simp]: "namespace \<noteq> [] \<Longrightarrow> hashId sha256 namespace parts \<noteq> []"
  by (simp add: hashId_def)

lemma paper_ids_nonempty [simp]:
  "paperEventId sha256 type p t g \<noteq> []" "paperPositionId sha256 m s g \<noteq> []" "paperTradeId sha256 p side \<noteq> []"
  by (simp_all add: paperEventId_def paperPositionId_def paperTradeId_def)

lemma hashValue_nonempty: "hashValue sha256 namespace v = Inr h \<Longrightarrow> h \<noteq> []"
  by (auto simp: hashValue_def split: option.splits)

subsection \<open>What an accepted command satisfies\<close>

lemma validateEntryDecision_ok:
  assumes "validateEntryDecision snapshot now = Inr x"
  shows "case entryDecisionOf snapshot of None \<Rightarrow> os_entryDecision snapshot = None \<and> ps_id (os_strategy snapshot) \<noteq> CREATION_ENTRY
    | Some (t, job) \<Rightarrow> stored_time t \<and> job \<noteq> [] \<and> os_entryDecision snapshot = Some (JNum (JInt t), job)
        \<and> \<not> numberGreater (JNum (JInt t)) (pq_observedAtMs (os_buyQuote snapshot))"
proof (cases "os_entryDecision snapshot")
  case None
  with assms show ?thesis by (auto simp: validateEntryDecision_def entryDecisionOf_def Let_def result_simps)
next
  case (Some d)
  obtain v job where d: "d = (v, job)" by (cases d)
  from assms Some d obtain t where "assertValidTimestampMs OccurredAtMs v = Inr t" "trim job \<noteq> []"
    "\<not> numberGreater v (pq_observedAtMs (os_buyQuote snapshot))"
    unfolding validateEntryDecision_def Let_def result_simps by (auto simp: result_simps)
  then show ?thesis
    using Some d by (auto simp: entryDecisionOf_def assertValidTimestampMs_iff stored_time_def)
qed

lemma validateLineage_ok:
  assumes "validateLineage snapshot = Inr x"
  shows "valid_lineage (lineageOf snapshot)"
    and "os_strategySessionId snapshot = map_option pl_strategySessionId (lineageOf snapshot)"
    and "os_qualificationReportId snapshot = map_option pl_qualificationReportId (lineageOf snapshot)"
    and "os_candidateId snapshot = map_option pl_candidateId (lineageOf snapshot)"
  using assms
  by (cases "os_strategySessionId snapshot"; cases "os_qualificationReportId snapshot"; cases "os_candidateId snapshot";
      auto simp: validateLineage_def Let_def result_simps lineageOf_def valid_lineage_def)+

lemma calculateRoundTrip_Inr:
  assumes "calculateRoundTrip buy sell = Inr trip"
  shows "validatePaperQuote buy = Inr () \<and> validatePaperQuote sell = Inr () \<and> reverses sell buy
    \<and> rt_quoteCostRaw trip = pq_amountInRaw buy \<and> rt_baseFilledRaw trip = pq_minimumAmountOutRaw buy
    \<and> calculateLossBps (pq_amountInRaw buy) (pq_minimumAmountOutRaw sell) = Inr (rt_lossBps trip)"
  using assms unfolding calculateRoundTrip_def Let_def result_simps by (auto simp: reverses_def result_simps)

text \<open>The entry rule: what a command must satisfy to be opened.\<close>

definition entry_allowed :: "paper_engine \<Rightarrow> open_snapshot \<Rightarrow> paper_round_trip \<Rightarrow> bool" where
  "entry_allowed engine snapshot trip =
     (validateQualificationReport (os_qualification snapshot) (en_profile engine)
      \<and> qr_blockers (os_qualification snapshot) = [] \<and> qr_verdict (os_qualification snapshot) = QUALIFIED
      \<and> qa_mint (os_quoteAsset snapshot) \<in> set (en_quoteMintAllowlist engine)
      \<and> pq_inputMint (os_buyQuote snapshot) = qa_mint (os_quoteAsset snapshot)
      \<and> pq_outputMint (os_buyQuote snapshot) = os_mint snapshot \<and> tg_mint (os_trigger snapshot) = os_mint snapshot
      \<and> calculateRoundTrip (os_buyQuote snapshot) (os_reverseSellQuote snapshot) = Inr trip
      \<and> validateQualificationExecutionFacts (os_qualification snapshot) (rt_lossBps trip) (en_profile engine) = Inr ()
      \<and> rt_lossBps trip \<le> os_maximumRoundTripLossBps snapshot \<and> os_maximumRoundTripLossBps snapshot \<le> 10000)"

lemma checkOpen_ok:
  assumes "checkOpen sha256 engine snapshot now = Inr (trip, hashes)"
  shows "entry_allowed engine snapshot trip" "os_mint snapshot \<noteq> []" "valid_strategy (os_strategy snapshot)"
    "validateEntryDecision snapshot now = Inr ()" "validateLineage snapshot = Inr ()"
    "hashOpenCommand sha256 snapshot = Inr hashes"
  using assms unfolding checkOpen_def validateOpenCommand_def result_simps
  by (auto simp: entry_allowed_def valid_strategy_def result_simps)

text \<open>What the database itself checks of a position.\<close>

definition db_accepts :: "paper_position \<Rightarrow> bool" where
  "db_accepts p = (0 \<le> qa_decimals (pp_quoteAsset p) \<and> qa_decimals (pp_quoteAsset p) \<le> 255
     \<and> dateParam (pp_openedAtMs p) \<and> optDateParam (pp_closedAtMs p) \<and> optDateParam (pp_purgeAfterMs p)
     \<and> optDateParam (pp_exitTriggerAtMs p))"

lemma newPosition_valid:
  assumes "checkOpen sha256 engine snapshot now = Inr (trip, hashes)" and "tg_id (os_trigger snapshot) \<noteq> []"
    and "stored_time t" and "db_accepts (newPosition sha256 snapshot trip hashes t)"
  shows "valid_position (newPosition sha256 snapshot trip hashes t)"
proof -
  note ok = checkOpen_ok [OF assms(1)]
  note trip = calculateRoundTrip_Inr [of "os_buyQuote snapshot" "os_reverseSellQuote snapshot" trip]
  from ok(1) trip have buy: "validatePaperQuote (os_buyQuote snapshot) = Inr ()"
    and q: "rt_quoteCostRaw trip = pq_amountInRaw (os_buyQuote snapshot)"
      "rt_baseFilledRaw trip = pq_minimumAmountOutRaw (os_buyQuote snapshot)"
    and loss: "0 \<le> rt_lossBps trip" "rt_lossBps trip \<le> 10000" and asset: "qa_mint (os_quoteAsset snapshot) \<noteq> []"
    using calculateLossBps_ceiling by (fastforce simp: entry_allowed_def validatePaperQuote_ok)+
  have "oh_current hashes \<noteq> []"
    using ok(6) unfolding hashOpenCommand_def result_simps by (auto dest!: hashValue_nonempty)
  moreover have "pp_entryDecisionAtMs (newPosition sha256 snapshot trip hashes t) = map_option fst (entryDecisionOf snapshot)"
    by (simp add: newPosition_def)
  moreover have "valid_row_time (map_option fst (entryDecisionOf snapshot))" "map_option snd (entryDecisionOf snapshot) \<noteq> Some []"
    using validateEntryDecision_ok [OF ok(4)]
    by (auto simp: valid_row_time_def stored_time_def split: option.splits prod.splits)
  ultimately show ?thesis
    using assms(2-4) ok(2,3) buy q loss asset validateLineage_ok(1) [OF ok(5)]
    by (simp add: valid_position_def newPosition_def valid_asset_def db_accepts_def snapshotPositionId_def entryTrade_def
        validatePositionState_def validatePaperQuote_ok valid_opt_time_def valid_row_time_def Let_def)
qed

lemma closedPosition_valid:
  assumes "valid_position p" and "pp_status p = PAPER_HOLDING" and "validatePaperQuote (cc_sellQuote command) = Inr ()"
    and "stored_time t" and "h \<noteq> []" and "0 \<le> retentionMs engine"
    and "db_accepts (closedPosition sha256 engine command trigger h p t)"
  shows "valid_position (closedPosition sha256 engine command trigger h p t)"
  using assms
  by (auto simp: valid_position_def closedPosition_def db_accepts_def exitTrade_def validatePositionState_def
      validatePaperQuote_ok valid_opt_time_def valid_row_time_def stored_time_def optDateParam_def dateParam_def Let_def
      split: option.splits)

definition retracted :: "paper_engine \<Rightarrow> paper_position \<Rightarrow> int \<Rightarrow> paper_position" where
  "retracted engine p t = p\<lparr>pp_status := PAPER_RETRACTED,
     pp_closedAtMs := Some (case pp_closedAtMs p of Some c \<Rightarrow> c | None \<Rightarrow> t),
     pp_purgeAfterMs := Some (t + retentionMs engine)\<rparr>"

lemma retracted_valid:
  assumes "valid_position p" and "pp_status p \<noteq> PAPER_RETRACTED" and "stored_time t" and "0 \<le> retentionMs engine"
    and "\<forall>c. pp_closedAtMs p = Some c \<longrightarrow> c \<le> t + retentionMs engine" and "db_accepts (retracted engine p t)"
  shows "valid_position (retracted engine p t)"
  using assms
  by (cases "pp_status p")
     (auto simp: valid_position_def retracted_def db_accepts_def validatePositionState_def
      valid_opt_time_def valid_row_time_def stored_time_def optDateParam_def dateParam_def Let_def
      split: option.splits)

text \<open>A clock that is behind the closing time by more than the retention period makes the retraction
  write a position that no longer decodes.\<close>

lemma late_retraction_unreadable:
  assumes "pp_closedAtMs p = Some c" and "t + retentionMs engine < c"
  shows "\<not> valid_position (retracted engine p t)"
  using assms by (simp add: valid_position_def validatePositionState_def retracted_def)

subsection \<open>The ledger: an abstract specification of the engine\<close>

text \<open>What the engine promises, without rows, events or JSON: a map of positions and the list of the
  trades made. A step says how one successful call may change them and which position it returns.\<close>

type_synonym ledger = "(string \<Rightarrow> paper_position option) \<times> paper_trade list"

text \<open>What never changes after the entry, and what only the sale decides.\<close>

definition entry_terms where
  "entry_terms p = (pp_id p, pp_mint p, pp_quoteAsset p, pp_strategy p, pp_baseFilledRaw p, pp_quoteCostRaw p,
     pp_roundTripLossBps p, pp_entryTradeId p, pp_openCommandHash p, pp_triggerEventId p,
     (pp_entryDecisionAtMs p, pp_entryDecisionJobId p), pp_lineage p, pp_openedAtMs p)"

definition exit_terms where
  "exit_terms p = (pp_remainingBaseRaw p, pp_quoteProceedsRaw p, pp_grossPnlQuoteRaw p, pp_netPnlQuoteRaw p,
     pp_exitTradeId p, pp_closeCommandHash p, pp_closeEventId p, pp_exitTriggerAtMs p)"

definition holds_for :: "string \<Rightarrow> paper_strategy \<Rightarrow> paper_position \<Rightarrow> bool" where
  "holds_for mint strategy p = (pp_status p = PAPER_HOLDING \<and> pp_mint p = mint \<and> pp_strategy p = strategy)"

text \<open>The entry trade of a position bought all of its base for all of its cost; the exit trade sold
  all of its base, and the recorded result is what that sale guaranteed minus the cost.\<close>

definition bought_by :: "paper_position \<Rightarrow> paper_trade \<Rightarrow> bool" where
  "bought_by p t = (pt_id t = pp_entryTradeId p \<and> pt_positionId t = pp_id p \<and> pt_side t = PAPER_BUY
     \<and> pq_inputMint (pt_quote t) = qa_mint (pp_quoteAsset p) \<and> pq_outputMint (pt_quote t) = pp_mint p
     \<and> pq_amountInRaw (pt_quote t) = pp_quoteCostRaw p \<and> pt_fillAmountOutRaw t = pp_baseFilledRaw p)"

definition sold_by :: "paper_position \<Rightarrow> paper_trade \<Rightarrow> bool" where
  "sold_by p t = (pp_exitTradeId p = Some (pt_id t) \<and> pt_positionId t = pp_id p \<and> pt_side t = PAPER_SELL
     \<and> pq_inputMint (pt_quote t) = pp_mint p \<and> pq_outputMint (pt_quote t) = qa_mint (pp_quoteAsset p)
     \<and> pq_amountInRaw (pt_quote t) = pp_baseFilledRaw p
     \<and> pp_quoteProceedsRaw p = Some (pt_fillAmountOutRaw t)
     \<and> pp_netPnlQuoteRaw p = Some (pt_fillAmountOutRaw t - pp_quoteCostRaw p)
     \<and> pp_grossPnlQuoteRaw p = Some (pq_amountOutRaw (pt_quote t) - pp_quoteCostRaw p)
     \<and> 0 < pt_fillAmountOutRaw t \<and> pt_fillAmountOutRaw t \<le> pq_amountOutRaw (pt_quote t))"

inductive ledger_step :: "ledger \<Rightarrow> paper_position \<Rightarrow> ledger \<Rightarrow> bool" where
  keeps: "pos (pp_id q) = Some q \<Longrightarrow> ledger_step (pos, ts) q (pos, ts)"
| opens: "\<lbrakk>pos (pp_id q) = None; \<nexists>i p. pos i = Some p \<and> holds_for (pp_mint q) (pp_strategy q) p; valid_position q;
     pp_status q = PAPER_HOLDING; pp_remainingBaseRaw q = pp_baseFilledRaw q; bought_by q t\<rbrakk> \<Longrightarrow>
     ledger_step (pos, ts) q (pos(pp_id q \<mapsto> q), ts @ [t])"
| closes: "\<lbrakk>pos (pp_id q) = Some p; pp_status p = PAPER_HOLDING; valid_position q; pp_status q = PAPER_CLOSED;
     entry_terms q = entry_terms p; pq_amountInRaw (pt_quote t) = pp_remainingBaseRaw p;
     pp_remainingBaseRaw p = pp_baseFilledRaw p \<longrightarrow> sold_by q t; pt_side t = PAPER_SELL; pt_positionId t = pp_id q\<rbrakk> \<Longrightarrow>
     ledger_step (pos, ts) q (pos(pp_id q \<mapsto> q), ts @ [t])"
| retracts: "\<lbrakk>pos (pp_id q) = Some p; pp_status p \<noteq> PAPER_RETRACTED; valid_position q; pp_status q = PAPER_RETRACTED;
     entry_terms q = entry_terms p; exit_terms q = exit_terms p\<rbrakk> \<Longrightarrow>
     ledger_step (pos, ts) q (pos(pp_id q \<mapsto> q), ts)"

inductive_cases ledger_stepE: "ledger_step l q l'"

text \<open>The books of a ledger.\<close>

definition trades_of :: "string \<Rightarrow> paper_side \<Rightarrow> paper_trade list \<Rightarrow> paper_trade list" where
  "trades_of i side ts = filter (\<lambda>t. pt_positionId t = i \<and> pt_side t = side) ts"

definition books_balance :: "paper_position \<Rightarrow> paper_trade list \<Rightarrow> bool" where
  "books_balance p ts =
     ((\<exists>b. trades_of (pp_id p) PAPER_BUY ts = [b] \<and> bought_by p b)
      \<and> (case pp_exitTradeId p of
           None \<Rightarrow> trades_of (pp_id p) PAPER_SELL ts = [] \<and> pp_remainingBaseRaw p = pp_baseFilledRaw p
         | Some _ \<Rightarrow> pp_remainingBaseRaw p = 0 \<and> (\<exists>s. trades_of (pp_id p) PAPER_SELL ts = [s] \<and> sold_by p s)))"

fun ledger_ok :: "ledger \<Rightarrow> bool" where
  "ledger_ok (pos, ts) = ((\<forall>i p. pos i = Some p \<longrightarrow> pp_id p = i \<and> valid_position p \<and> books_balance p ts)
     \<and> (\<forall>i j p q. pos i = Some p \<longrightarrow> pos j = Some q \<longrightarrow> holds_for (pp_mint q) (pp_strategy q) p
          \<longrightarrow> pp_status q = PAPER_HOLDING \<longrightarrow> i = j)
     \<and> (\<forall>t \<in> set ts. pos (pt_positionId t) \<noteq> None))"

lemma trades_of_append:
  "trades_of i side (ts @ [t]) = trades_of i side ts @ (if pt_positionId t = i \<and> pt_side t = side then [t] else [])"
  by (simp add: trades_of_def)

lemma valid_position_exit:
  assumes "valid_position p"
  shows "pp_status p = PAPER_HOLDING \<Longrightarrow> pp_exitTradeId p = None"
    and "pp_status p = PAPER_CLOSED \<Longrightarrow> pp_exitTradeId p \<noteq> None \<and> pp_remainingBaseRaw p = 0"
  using assms by (auto simp: valid_position_def validatePositionState_def)

lemma books_other:
  "books_balance p ts \<Longrightarrow> pt_positionId t \<noteq> pp_id p \<Longrightarrow> books_balance p (ts @ [t])"
  by (cases "pp_exitTradeId p") (simp_all add: books_balance_def trades_of_append)

lemma books_same_terms:
  assumes "entry_terms q = entry_terms p" and "exit_terms q = exit_terms p"
  shows "books_balance q ts \<longleftrightarrow> books_balance p ts"
proof -
  have "bought_by q = bought_by p" "sold_by q = sold_by p"
    using assms by (simp_all add: fun_eq_iff bought_by_def sold_by_def entry_terms_def exit_terms_def)
  then show ?thesis
    using assms by (cases "pp_exitTradeId p") (simp_all add: books_balance_def entry_terms_def exit_terms_def)
qed

lemma ledger_step_ok:
  assumes "ledger_step l q l'" and "ledger_ok l"
  shows "ledger_ok l'"
  using assms(1)
proof (cases rule: ledger_step.cases)
  case (keeps pos ts)
  then show ?thesis using assms(2) by simp
next
  case (opens pos t ts)
  have none: "trades_of (pp_id q) side ts = []" for side
    using assms(2) opens by (auto simp: trades_of_def filter_empty_conv)
  have "books_balance q (ts @ [t])"
    using opens none valid_position_exit(1) [OF opens(5)] by (auto simp: books_balance_def trades_of_append bought_by_def)
  moreover have "\<not> (pp_status p = PAPER_HOLDING \<and> pp_mint q = pp_mint p \<and> pp_strategy q = pp_strategy p)" if "pos i = Some p" for i p
    using opens(4) that unfolding holds_for_def by metis
  ultimately show ?thesis
    using assms(2) opens books_other [of _ ts t] by (auto simp: holds_for_def bought_by_def)
next
  case (closes pos p t ts)
  have p: "books_balance p ts" "valid_position p" "pp_id p = pp_id q" using assms(2) closes by auto
  then have rest: "pp_remainingBaseRaw p = pp_baseFilledRaw p" "trades_of (pp_id q) PAPER_SELL ts = []"
    using valid_position_exit(1) closes by (auto simp: books_balance_def)
  have "books_balance q (ts @ [t])"
    using p closes rest valid_position_exit(2) [OF closes(5)]
    by (auto simp: books_balance_def trades_of_append bought_by_def entry_terms_def)
  then show ?thesis
    using assms(2) closes books_other [of _ ts t] by (auto simp: holds_for_def entry_terms_def)
next
  case (retracts pos p ts)
  have "books_balance q ts"
    using assms(2) retracts(1,3) books_same_terms [OF retracts(7,8), of ts] by simp
  then show ?thesis using assms(2) retracts by (auto simp: holds_for_def)
qed

lemma ledger_start: "ledger_ok (Map.empty, [])"
  by simp

subsection \<open>The contract of a repository, and the engine over it\<close>

text \<open>No position was closed later than the clock allows for its retention: what an engine whose
  clock does not run backwards by more than the retention period finds.\<close>

definition clock_ok :: "paper_engine \<Rightarrow> js \<Rightarrow> (string \<Rightarrow> paper_position option) \<Rightarrow> bool" where
  "clock_ok engine later pos = (\<forall>i p c t. pos i = Some p \<longrightarrow> pp_closedAtMs p = Some c
     \<longrightarrow> assertValidTimestampMs OccurredAtMs later = Inr t \<longrightarrow> c \<le> t + retentionMs engine)"

lemma assertValidTimestampMs_stored: "assertValidTimestampMs field v = Inr t \<Longrightarrow> stored_time t"
  by (auto simp: assertValidTimestampMs_iff stored_time_def)

locale paper_store =
  fixes repo :: "'db paper_repository"
    and inv :: "'db \<Rightarrow> bool"
    and pos :: "'db \<Rightarrow> string \<Rightarrow> paper_position option"
    and trades :: "'db \<Rightarrow> paper_trade list"
  assumes require_reads: "inv db \<Longrightarrow> requireCurrentQualification repo cq db = Inr (u, db') \<Longrightarrow> db' = db"
    and find_reads: "inv db \<Longrightarrow> findPosition repo i db = Inr (pos db i, db)"
    and stored_valid: "inv db \<Longrightarrow> pos db i = Some p \<Longrightarrow> pp_id p = i \<and> valid_position p"
    and active_reads: "inv db \<Longrightarrow> \<exists>r. findActivePosition repo m st db = Inr (r, db)
          \<and> (\<forall>p. r = Some p \<longleftrightarrow> (\<exists>i. pos db i = Some p \<and> holds_for m st p))"
    and insert_writes: "inv db \<Longrightarrow> insertOpened repo p t e (pp_entryDecisionAtMs p) (pp_entryDecisionJobId p) db = Inr (u, db')
          \<Longrightarrow> db_accepts p \<longrightarrow> valid_position p \<Longrightarrow> pp_status p = PAPER_HOLDING
          \<Longrightarrow> pp_closeEventId p = None \<Longrightarrow> pp_exitTriggerAtMs p = None
          \<Longrightarrow> inv db' \<and> valid_position p \<and> pos db' = (pos db)(pp_id p \<mapsto> p) \<and> trades db' = trades db @ [t]"
    and close_writes: "inv db \<Longrightarrow> updateClosed repo p t e (pp_exitTriggerAtMs p) db = Inr (u, db')
          \<Longrightarrow> pos db (pp_id p) = Some q \<Longrightarrow> pp_status q = PAPER_HOLDING \<Longrightarrow> pp_status p = PAPER_CLOSED
          \<Longrightarrow> entry_terms p = entry_terms q \<Longrightarrow> db_accepts p \<longrightarrow> valid_position p \<Longrightarrow> pp_closeEventId p = Some (pe_id e)
          \<Longrightarrow> inv db' \<and> valid_position p \<and> pos db' = (pos db)(pp_id p \<mapsto> p) \<and> trades db' = trades db @ [t]"
    and confirm_writes: "inv db \<Longrightarrow> reconcileEventConfirmation repo i ob db = Inr (u, db')
          \<Longrightarrow> inv db' \<and> pos db' = pos db \<and> trades db' = trades db"
    and retract_writes: "inv db \<Longrightarrow> storeRetracted repo p db = Inr (u, db')
          \<Longrightarrow> pos db (pp_id p) = Some q \<Longrightarrow> pp_status p = PAPER_RETRACTED \<Longrightarrow> entry_terms p = entry_terms q
          \<Longrightarrow> exit_terms p = exit_terms q \<Longrightarrow> db_accepts p \<longrightarrow> valid_position p
          \<Longrightarrow> inv db' \<and> valid_position p \<and> pos db' = (pos db)(pp_id p \<mapsto> p) \<and> trades db' = trades db"
begin

lemma retract_step:
  assumes "inv db" and "pos db (pp_id p) = Some p" and "0 \<le> retentionMs engine" and "clock_ok engine later (pos db)"
    and "retractPosition repo engine later p db = Inr (q, db')"
  shows "inv db' \<and> ledger_step (pos db, trades db) q (pos db', trades db')"
proof (cases "pp_status p = PAPER_RETRACTED")
  case True
  with assms show ?thesis by (auto simp: retractPosition_def intro: ledger_step.keeps)
next
  case False
  from assms(5) False obtain t u where t: "assertValidTimestampMs OccurredAtMs later = Inr t"
    and q: "q = retracted engine p t" and w: "storeRetracted repo q db = Inr (u, db')"
    by (auto simp: retractPosition_def retracted_def Let_def result_simps)
  have terms: "entry_terms q = entry_terms p" "exit_terms q = exit_terms p" "pp_status q = PAPER_RETRACTED"
    "pp_id q = pp_id p"
    by (simp_all add: q retracted_def entry_terms_def exit_terms_def)
  have "\<forall>c. pp_closedAtMs p = Some c \<longrightarrow> c \<le> t + retentionMs engine"
    using assms(2,4) t by (auto simp: clock_ok_def)
  then have "db_accepts q \<longrightarrow> valid_position q"
    using retracted_valid [of p t engine] stored_valid [OF assms(1,2)] False assms(3) assertValidTimestampMs_stored [OF t] q
    by blast
  with retract_writes [OF assms(1) w] assms(2) terms
  have "inv db'" "valid_position q" "pos db' = (pos db)(pp_id q \<mapsto> q)" "trades db' = trades db" by metis+
  then show ?thesis using ledger_step.retracts [of "pos db" q p] assms(2) False terms by simp
qed

lemma confirm_then_retract_step:
  assumes "inv db" and "pos db (pp_id p) = Some p" and "0 \<le> retentionMs engine" and "clock_ok engine later (pos db)"
    and "bindT (reconcileEventConfirmation repo i ob) (\<lambda>_. if orphaned then retractPosition repo engine later p else returnT p) db
      = Inr (q, db')"
  shows "inv db' \<and> ledger_step (pos db, trades db) q (pos db', trades db')"
proof -
  from assms(5) obtain u db1 where c: "reconcileEventConfirmation repo i ob db = Inr (u, db1)"
    and rest: "(if orphaned then retractPosition repo engine later p else returnT p) db1 = Inr (q, db')"
    by (auto simp: result_simps)
  from confirm_writes [OF assms(1) c] have db1: "inv db1" "pos db1 = pos db" "trades db1 = trades db" by auto
  show ?thesis
  proof (cases orphaned)
    case True
    then show ?thesis using retract_step [of db1 p engine later q db'] db1 assms(2-4) rest by simp
  next
    case False
    then show ?thesis using rest db1 assms(2) by (auto intro: ledger_step.keeps)
  qed
qed

lemma replay_step:
  assumes "inv db" and "pos db (pp_id p) = Some p" and "0 \<le> retentionMs engine" and "clock_ok engine later (pos db)"
    and "reconcileOpenReplay sha256 repo engine later p hashes trigger entry db = Inr (q, db')"
  shows "inv db' \<and> ledger_step (pos db, trades db) q (pos db', trades db')"
  using assms(5) confirm_then_retract_step [OF assms(1-4)] by (auto simp: reconcileOpenReplay_def split: if_splits)

lemma found_stored: "inv db \<Longrightarrow> pos db i = Some p \<Longrightarrow> pos db (pp_id p) = Some p"
  using stored_valid by blast

lemma insert_step:
  assumes "inv db" and "checkOpen sha256 engine snapshot now = Inr (trip, hashes)" and "tg_id (os_trigger snapshot) \<noteq> []"
    and "stored_time t" and "pos db (snapshotPositionId sha256 snapshot) = None"
    and "\<nexists>i p. pos db i = Some p \<and> holds_for (os_mint snapshot) (os_strategy snapshot) p"
    and "p = newPosition sha256 snapshot trip hashes t"
    and "insertOpened repo p (entryTrade sha256 snapshot t) e (pp_entryDecisionAtMs p) (pp_entryDecisionJobId p) db = Inr (u, db')"
  shows "inv db' \<and> ledger_step (pos db, trades db) p (pos db', trades db')"
proof -
  have p: "pp_id p = snapshotPositionId sha256 snapshot" "pp_mint p = os_mint snapshot" "pp_strategy p = os_strategy snapshot"
    "pp_status p = PAPER_HOLDING" "pp_closeEventId p = None" "pp_exitTriggerAtMs p = None"
    "pp_remainingBaseRaw p = pp_baseFilledRaw p"
    by (simp_all add: assms(7) newPosition_def)
  have "bought_by p (entryTrade sha256 snapshot t)"
    using checkOpen_ok(1) [OF assms(2)] calculateRoundTrip_Inr
    by (auto simp: bought_by_def assms(7) newPosition_def entryTrade_def entry_allowed_def Let_def)
  moreover have "db_accepts p \<longrightarrow> valid_position p"
    using newPosition_valid [OF assms(2-4)] assms(7) by blast
  with insert_writes [OF assms(1,8)] p have "inv db'" "valid_position p" "pos db' = (pos db)(pp_id p \<mapsto> p)"
    "trades db' = trades db @ [entryTrade sha256 snapshot t]" by blast+
  ultimately show ?thesis using ledger_step.opens [of "pos db" p] p assms(5,6) by simp
qed

lemma open_checked:
  assumes "inv db" and "openTransaction sha256 repo engine later snapshot trip hashes t db = Inr (q, db')"
  shows "openOrReplay sha256 repo engine later snapshot trip hashes t db = Inr (q, db')"
  using assms(2) require_reads [OF assms(1)] unfolding openTransaction_def
  by (cases "os_expectedCurrentQualification snapshot") (auto simp: bindT_eq_Inr)

lemma open_step:
  assumes "inv db" and "0 \<le> retentionMs engine" and "clock_ok engine later (pos db)"
    and "checkOpen sha256 engine snapshot now = Inr (trip, hashes)" and "tg_id (os_trigger snapshot) \<noteq> []" and "stored_time t"
    and "openTransaction sha256 repo engine later snapshot trip hashes t db = Inr (q, db')"
  shows "inv db' \<and> ledger_step (pos db, trades db) q (pos db', trades db')"
proof (cases "pos db (snapshotPositionId sha256 snapshot)")
  case (Some p)
  with open_checked [OF assms(1,7)]
  have "reconcileOpenReplay sha256 repo engine later p hashes (os_trigger snapshot) (entryDecisionOf snapshot) db = Inr (q, db')"
    by (simp add: openOrReplay_def Let_def result_simps find_reads [OF assms(1)])
  then show ?thesis using replay_step [OF assms(1) found_stored [OF assms(1) Some] assms(2,3)] by blast
next
  case None
  obtain r where r: "findActivePosition repo (os_mint snapshot) (os_strategy snapshot) db = Inr (r, db)"
    and active: "\<forall>p. r = Some p \<longleftrightarrow> (\<exists>i. pos db i = Some p \<and> holds_for (os_mint snapshot) (os_strategy snapshot) p)"
    using active_reads [OF assms(1)] by blast
  let ?p = "newPosition sha256 snapshot trip hashes t" and ?t = "entryTrade sha256 snapshot t"
  have no_id: "pp_id p \<noteq> snapshotPositionId sha256 snapshot" if "r = Some p" for p
    using active that found_stored [OF assms(1)] None by force
  have "r = None \<and> q = ?p \<and> (\<exists>u. insertOpened repo ?p ?t (createPaperEvent sha256 PaperPositionOpened ?p ?t (os_trigger snapshot) None)
      (pp_entryDecisionAtMs ?p) (pp_entryDecisionJobId ?p) db = Inr (u, db'))"
    using open_checked [OF assms(1,7)] no_id
    by (cases r) (auto simp: openOrReplay_def Let_def result_simps find_reads [OF assms(1)] None r newPosition_def)
  with insert_step [OF assms(1,4,5,6) None _ refl] active show ?thesis by auto
qed

lemma reconcile_open_step:
  assumes "inv db" and "0 \<le> retentionMs engine" and "clock_ok engine later (pos db)"
    and "paperReconcileOpen sha256 repo engine command now later db = (Inr q, db')"
  shows "inv db' \<and> ledger_step (pos db, trades db) q (pos db', trades db')"
proof -
  from assms(4) obtain snapshot hashes p where "pos db (snapshotPositionId sha256 snapshot) = Some p"
    and "reconcileOpenReplay sha256 repo engine later p hashes (os_trigger snapshot) (entryDecisionOf snapshot) db = Inr (q, db')"
    by (auto simp: paperReconcileOpen_def transact_Inr result_simps find_reads [OF assms(1)]
        split: sum.splits prod.splits option.splits)
  then show ?thesis using replay_step [OF assms(1) found_stored [OF assms(1)] assms(2,3)] by blast
qed

lemma retract_call_step:
  assumes "inv db" and "0 \<le> retentionMs engine" and "clock_ok engine later (pos db)"
    and "paperRetract repo engine i trigger later db = (Inr q, db')"
  shows "inv db' \<and> ledger_step (pos db, trades db) q (pos db', trades db')"
proof -
  from assms(4) obtain p where "pos db i = Some p" "retractPosition repo engine later p db = Inr (q, db')"
    by (auto simp: paperRetract_def transact_Inr result_simps find_reads [OF assms(1)] split: sum.splits option.splits)
  then show ?thesis using retract_step [OF assms(1) found_stored [OF assms(1)] assms(2,3)] by blast
qed

lemma reconcile_close_step:
  assumes "inv db" and "0 \<le> retentionMs engine" and "clock_ok engine later (pos db)"
    and "paperReconcileClose sha256 repo engine i trigger later db = (Inr q, db')"
  shows "inv db' \<and> ledger_step (pos db, trades db) q (pos db', trades db')"
proof -
  from assms(4) obtain p g where p: "pos db i = Some p" and rest: "(if pp_status p = PAPER_RETRACTED then returnT p
      else case (pp_status p, pp_exitTradeId p, pp_closeEventId p) of
        (PAPER_CLOSED, Some x, Some e) \<Rightarrow>
          if e \<noteq> paperEventId sha256 PaperPositionClosed (pp_id p) x (tg_id g) then failT CLOSE_TRIGGER_MISMATCH
          else bindT (reconcileEventConfirmation repo e (observationOf g)) (\<lambda>_.
            if tg_confirmationStatus g = Orphaned then retractPosition repo engine later p else returnT p)
      | _ \<Rightarrow> failT POSITION_CONFLICT) db = Inr (q, db')"
    by (auto simp: paperReconcileClose_def transact_Inr bindT_eq_Inr find_reads [OF assms(1)] split: sum.splits option.splits)
  note stored = found_stored [OF assms(1) p]
  show ?thesis
  proof (cases "pp_status p = PAPER_RETRACTED")
    case True
    with rest stored assms(1) show ?thesis by (auto intro: ledger_step.keeps)
  next
    case False
    with rest obtain e where "bindT (reconcileEventConfirmation repo e (observationOf g)) (\<lambda>_.
        if tg_confirmationStatus g = Orphaned then retractPosition repo engine later p else returnT p) db = Inr (q, db')"
      by (auto split: paper_status.splits option.splits if_splits)
    then show ?thesis by (rule confirm_then_retract_step [OF assms(1) stored assms(2,3)])
  qed
qed

lemma close_holding_step:
  assumes "inv db" and "pos db (pp_id p) = Some p" and "pp_status p = PAPER_HOLDING" and "0 \<le> retentionMs engine"
    and "validatePaperQuote (cc_sellQuote command) = Inr ()" and "stored_time t" and "h \<noteq> []"
    and "validateCloseCommand command trigger p = Inr ()"
    and "q = closedPosition sha256 engine command trigger h p t"
    and "updateClosed repo q (exitTrade sha256 command p t) (createPaperEvent sha256 PaperPositionClosed q (exitTrade sha256 command p t) trigger ob)
       (pp_exitTriggerAtMs q) db = Inr (u, db')"
  shows "inv db' \<and> ledger_step (pos db, trades db) q (pos db', trades db')"
proof -
  have q: "pp_id q = pp_id p" "pp_status q = PAPER_CLOSED" "entry_terms q = entry_terms p"
    "pp_closeEventId q = Some (pe_id (createPaperEvent sha256 PaperPositionClosed q (exitTrade sha256 command p t) trigger ob))"
    by (simp_all add: assms(9) closedPosition_def entry_terms_def createPaperEvent_def Let_def)
  have quote: "pq_inputMint (cc_sellQuote command) = pp_mint p" "pq_outputMint (cc_sellQuote command) = qa_mint (pp_quoteAsset p)"
    "pq_amountInRaw (cc_sellQuote command) = pp_remainingBaseRaw p"
    using assms(8) unfolding validateCloseCommand_def result_simps by blast+
  have sold: "pp_remainingBaseRaw p = pp_baseFilledRaw p \<longrightarrow> sold_by q (exitTrade sha256 command p t)"
    using assms(5) quote by (simp add: sold_by_def assms(9) closedPosition_def exitTrade_def validatePaperQuote_ok Let_def)
  have "db_accepts q \<longrightarrow> valid_position q"
    using closedPosition_valid [of p command t h engine sha256 trigger] stored_valid [OF assms(1,2)] assms(3-7,9) by blast
  with close_writes [OF assms(1,10), of p] assms(2,3) q
  have "inv db'" "valid_position q" "pos db' = (pos db)(pp_id q \<mapsto> q)"
    "trades db' = trades db @ [exitTrade sha256 command p t]" by auto
  then show ?thesis
    using ledger_step.closes [of "pos db" q p "exitTrade sha256 command p t"] assms(2,3) q quote sold
    by (simp add: exitTrade_def)
qed

lemma close_step:
  assumes "inv db" and "0 \<le> retentionMs engine" and "clock_ok engine later (pos db)"
    and "paperClose sha256 repo engine command now later db = (Inr q, db')"
  shows "inv db' \<and> ledger_step (pos db, trades db) q (pos db', trades db')"
proof -
  from assms(4) obtain g h t where prep: "preparedClose sha256 engine command now = Inr (g, h, t)"
    and tx: "closeTransaction sha256 repo engine later command g h t db = Inr (q, db')"
    by (auto simp: paperClose_def transact_Inr split: sum.splits prod.splits)
  from prep have quote: "validatePaperQuote (cc_sellQuote command) = Inr ()" and h: "h \<noteq> []" and t: "stored_time t"
    unfolding preparedClose_def result_simps by (auto dest: hashValue_nonempty assertValidTimestampMs_stored)
  from tx obtain p where found: "pos db (cc_positionId command) = Some p"
    by (cases "pos db (cc_positionId command)") (auto simp: closeTransaction_def result_simps find_reads [OF assms(1)])
  note stored = found_stored [OF assms(1) found]
  show ?thesis
  proof (cases "pp_status p = PAPER_HOLDING")
    case True
    let ?t = "exitTrade sha256 command p t" and ?q = "closedPosition sha256 engine command g h p t"
    from tx found True have "validateCloseCommand command g p = Inr ()" and "q = ?q"
      and "\<exists>u ob. updateClosed repo ?q ?t (createPaperEvent sha256 PaperPositionClosed ?q ?t g ob) (pp_exitTriggerAtMs ?q) db = Inr (u, db')"
      by (auto simp: closeTransaction_def result_simps find_reads [OF assms(1)] Let_def closedPosition_def)
    then show ?thesis using close_holding_step [OF assms(1) stored True assms(2) quote t h] by blast
  next
    case False
    with tx found obtain e ob where "bindT (reconcileEventConfirmation repo e ob) (\<lambda>_.
        if tg_confirmationStatus g = Orphaned then retractPosition repo engine later p else returnT p) db = Inr (q, db')"
      by (auto simp: closeTransaction_def bindT_eq_Inr [of "findPosition repo (cc_positionId command)"] find_reads [OF assms(1)]
          split: if_splits option.splits)
    then show ?thesis by (rule confirm_then_retract_step [OF assms(1) stored assms(2,3)])
  qed
qed

end

subsection \<open>Calls\<close>

datatype paper_call =
    OpenCall open_command | ReconcileOpenCall open_command | CloseCall close_command
  | ReconcileCloseCall string domain_event | RetractCall string domain_event

definition paperCall :: "(string \<Rightarrow> string) \<Rightarrow> 'db paper_repository \<Rightarrow> qualification_engine \<Rightarrow> paper_engine \<Rightarrow> paper_call \<Rightarrow> js \<Rightarrow> js
    \<Rightarrow> 'db \<Rightarrow> (paper_error + paper_position) \<times> 'db" where
  "paperCall sha256 repo authority engine call now later db = (case call of
     OpenCall command \<Rightarrow> paperOpen sha256 repo authority engine command now later db
   | ReconcileOpenCall command \<Rightarrow> paperReconcileOpen sha256 repo engine command now later db
   | CloseCall command \<Rightarrow> paperClose sha256 repo engine command now later db
   | ReconcileCloseCall i trigger \<Rightarrow> paperReconcileClose sha256 repo engine i trigger later db
   | RetractCall i trigger \<Rightarrow> paperRetract repo engine i trigger later db)"

text \<open>An authority that only knows subjects \<open>snapshotReportSubject\<close> accepts.\<close>

definition proper_authority :: "qualification_engine \<Rightarrow> bool" where
  "proper_authority authority = (\<forall>h s. eg_authorizedReports authority h = Some s \<longrightarrow> rp_triggerEventId s \<noteq> [])"

lemma snapshotReportSubject_proper: "snapshotReportSubject m t = Some s \<Longrightarrow> rp_triggerEventId s \<noteq> []"
  unfolding snapshotReportSubject_def result_simps by (auto simp: field_iffs dest: trim_nonempty)

lemma engineCall_proper: "proper_authority e \<Longrightarrow> proper_authority (snd (engineCall c e))"
  by (cases c)
     (auto simp: proper_authority_def evaluate_def evaluateAuthorized_def result_simps
        dest: snapshotReportSubject_proper split: option.splits if_splits)

lemma engineCalls_proper: "proper_authority e \<Longrightarrow> proper_authority (snd (engineCalls cs e))"
proof (induction cs arbitrary: e)
  case (Cons c cs)
  then show ?case
    using Cons.IH [OF engineCall_proper [OF Cons.prems, of c]]
    by (cases "engineCall c e"; cases "engineCalls cs (snd (engineCall c e))") simp
qed simp

lemma newEngine_proper: "newQualificationEngine sha256 profile = Some e \<Longrightarrow> proper_authority e"
  by (auto simp: newQualificationEngine_def proper_authority_def)

lemma preparedOpen_ok:
  assumes "preparedOpen sha256 authority engine command now = Inr (snapshot, trip, hashes, t)"
  shows "checkOpen sha256 engine snapshot now = Inr (trip, hashes)" "stored_time t"
    "isAuthorized authority (oc_report command) (JStr (os_mint snapshot)) (JStr (tg_id (os_trigger snapshot)))"
    "snapshotQualification (oc_qualification command) = Some (os_qualification snapshot)"
    "assertValidTimestampMs OccurredAtMs now = Inr t"
    "proper_authority authority \<Longrightarrow> tg_id (os_trigger snapshot) \<noteq> []"
proof -
  from assms obtain trigger where trigger: "snapshotTrigger (oc_trigger command) = Inr trigger"
    and auth: "isAuthorized authority (oc_report command) (JStr (oc_mint command)) (JStr (tg_id trigger))"
    and snap: "snapshotOpenCommand command trigger = Inr snapshot"
    and t: "assertValidTimestampMs OccurredAtMs now = Inr t"
    and check: "checkOpen sha256 engine snapshot now = Inr (trip, hashes)"
    unfolding preparedOpen_def result_simps by (auto simp: result_simps)
  have s: "os_trigger snapshot = trigger" "os_mint snapshot = oc_mint command"
    "snapshotQualification (oc_qualification command) = Some (os_qualification snapshot)"
    using snap by (auto simp: snapshotOpenCommand_def split: option.splits)
  show "checkOpen sha256 engine snapshot now = Inr (trip, hashes)" "stored_time t"
    "isAuthorized authority (oc_report command) (JStr (os_mint snapshot)) (JStr (tg_id (os_trigger snapshot)))"
    "snapshotQualification (oc_qualification command) = Some (os_qualification snapshot)"
    "assertValidTimestampMs OccurredAtMs now = Inr t"
    using check t auth s assertValidTimestampMs_stored by auto
  show "proper_authority authority \<Longrightarrow> tg_id (os_trigger snapshot) \<noteq> []"
    using auth s by (auto simp: isAuthorized_def proper_authority_def split: option.splits)
qed

context paper_store
begin

lemma open_call_step:
  assumes "inv db" and "0 \<le> retentionMs engine" and "clock_ok engine later (pos db)" and "proper_authority authority"
    and "paperOpen sha256 repo authority engine command now later db = (Inr q, db')"
  shows "inv db' \<and> ledger_step (pos db, trades db) q (pos db', trades db')"
proof -
  from assms(5) obtain snapshot trip hashes t
    where prep: "preparedOpen sha256 authority engine command now = Inr (snapshot, trip, hashes, t)"
      and tx: "openTransaction sha256 repo engine later snapshot trip hashes t db = Inr (q, db')"
    by (auto simp: paperOpen_def transact_Inr split: sum.splits prod.splits)
  show ?thesis
    using open_step [OF assms(1-3) preparedOpen_ok(1) [OF prep] preparedOpen_ok(6) [OF prep assms(4)] preparedOpen_ok(2) [OF prep] tx] .
qed

text \<open>Every successful call is a step of the ledger.\<close>

lemma call_refines:
  assumes "inv db" and "0 \<le> retentionMs engine" and "clock_ok engine later (pos db)" and "proper_authority authority"
    and "paperCall sha256 repo authority engine call now later db = (Inr q, db')"
  shows "inv db' \<and> ledger_step (pos db, trades db) q (pos db', trades db')"
  using assms(5) open_call_step [OF assms(1-4)] reconcile_open_step [OF assms(1-3)] close_step [OF assms(1-3)]
    reconcile_close_step [OF assms(1-3)] retract_call_step [OF assms(1-3)]
  by (cases call) (simp_all add: paperCall_def)

end

lemma call_rolls_back:
  assumes "paperCall sha256 repo authority engine call now later db = (Inl e, db')"
  shows "db' = db"
  using assms
  by (cases call)
     (auto simp: paperCall_def paperOpen_def paperReconcileOpen_def paperClose_def paperReconcileClose_def paperRetract_def
       transact_Inl split: sum.splits prod.splits)

end
