(* ===== verification/Paper_Store.thy ===== *)
theory Paper_Store
  imports Paper_Engine
begin

text \<open>
  The PostgreSQL repository of the paper engine (src/storage/paper-trading.repository.ts and
  src/storage/paper-finality-barrier.ts) over the tables it touches. A table is the list of its
  rows; an INSERT or UPDATE fails with \<open>DatabaseError\<close> where a constraint of the migrations
  (004, 013, 018, 019, 002) refuses it. Advisory and row locks serialise transactions that touch
  the same mint, so a transaction is a function of the database. Text with U+0000, which PostgreSQL
  refuses, does not occur.
\<close>

subsection \<open>Tables\<close>

record event_row =
  ew_eventId :: string
  ew_rawEventId :: "string option"
  ew_type :: string
  ew_mint :: string
  ew_source :: string
  ew_program :: string
  ew_signature :: string
  ew_cursor :: chain_cursor
  ew_confirmationStatus :: confirmation_status
  ew_blockchainTime :: "int option"
  ew_observedAt :: int
  ew_payload :: json
  ew_terminalAt :: "int option"
  ew_purgeAfter :: "int option"

record raw_row =
  rw_eventId :: string
  rw_source :: string
  rw_program :: string
  rw_mint :: "string option"
  rw_signature :: string
  rw_cursor :: chain_cursor
  rw_confirmationStatus :: confirmation_status

record report_row =
  qw_reportId :: string
  qw_mint :: string
  qw_sourceEventId :: string
  qw_sourceRawEventId :: string
  qw_qualificationEventId :: string
  qw_confirmationStatus :: confirmation_status
  qw_supersededAt :: "int option"
  qw_purgeAfter :: int

record inbox_row =
  iw_signature :: string
  iw_processingStatus :: string
  iw_targetConfirmationStatus :: confirmation_status

record receipt_row =
  fw_signature :: string
  fw_observedSlot :: int
  fw_confirmationStatus :: confirmation_status

record paper_db =
  db_launches :: "string list"
  db_positions :: "position_row list"
  db_trades :: "paper_trade list"
  db_events :: "event_row list"
  db_reports :: "report_row list"
  db_rawEvents :: "raw_row list"
  db_inbox :: "inbox_row list"
  db_receipts :: "receipt_row list"
  db_clock :: int

type_synonym 'a db_op = "(paper_db, 'a) tx"

subsection \<open>Parameters of a statement\<close>

definition integerParam :: "int \<Rightarrow> bool" where
  "integerParam n = (- 2147483648 \<le> n \<and> n \<le> INT32_MAX)"

definition jsonParam :: "data \<Rightarrow> json db_op" where
  "jsonParam v = liftT (case toJsonValue v of None \<Rightarrow> Inl TypeError | Some j \<Rightarrow> Inr j)"

definition requireT :: "bool \<Rightarrow> paper_error \<Rightarrow> unit db_op" where
  "requireT condition e = liftT (require condition e)"

subsection \<open>Positions\<close>

text \<open>The row checks of migrations 004, 018 and 019.\<close>

definition positionRowChecks :: "position_row \<Rightarrow> bool" where
  "positionRowChecks row =
     (integerParam (pr_strategyVersion row) \<and> pr_strategyVersion row > 0
      \<and> (case pr_status row of
           PAPER_HOLDING \<Rightarrow> pr_closedAt row = None \<and> pr_purgeAfter row = None
         | PAPER_CLOSED \<Rightarrow> pr_closedAt row \<noteq> None \<and> pr_purgeAfter row \<noteq> None
         | PAPER_RETRACTED \<Rightarrow> pr_closedAt row \<noteq> None \<and> pr_purgeAfter row \<noteq> None)
      \<and> (pr_entryDecisionJobId row = None \<or> pr_entryDecisionAt row \<noteq> None)
      \<and> (case pr_entryDecisionJobId row of None \<Rightarrow> True | Some j \<Rightarrow> 1 \<le> utf8_length j \<and> utf8_length j \<le> 256)
      \<and> (case pr_entryDecisionAt row of None \<Rightarrow> True | Some t \<Rightarrow> t \<le> pr_openedAt row)
      \<and> (case (pr_exitTriggerAt row, pr_closedAt row) of (Some t, Some c) \<Rightarrow> t \<le> c | _ \<Rightarrow> True))"

text \<open>The unique indexes, against every other row: one open position per mint and strategy, one
  position per strategy session, one position per close event.\<close>

definition positionConflict :: "position_row \<Rightarrow> position_row \<Rightarrow> bool" where
  "positionConflict row other =
     (pr_positionId row = pr_positionId other
      \<or> (pr_status row = PAPER_HOLDING \<and> pr_status other = PAPER_HOLDING \<and> pr_mint row = pr_mint other
         \<and> pr_strategyId row = pr_strategyId other \<and> pr_strategyVersion row = pr_strategyVersion other)
      \<or> (pr_strategySessionId row \<noteq> None \<and> pr_strategySessionId row = pr_strategySessionId other)
      \<or> (pr_closeEventId row \<noteq> None \<and> pr_closeEventId row = pr_closeEventId other))"

definition positionRow :: "paper_position \<Rightarrow> json \<Rightarrow> int option \<Rightarrow> string option \<Rightarrow> position_row" where
  "positionRow position payload entryDecisionAtMs entryDecisionJobId =
     \<lparr>pr_positionId = pp_id position, pr_mint = pp_mint position, pr_strategyId = ps_id (pp_strategy position),
      pr_strategyVersion = ps_version (pp_strategy position), pr_status = pp_status position, pr_payload = payload,
      pr_openedAt = pp_openedAtMs position, pr_closedAt = pp_closedAtMs position,
      pr_purgeAfter = pp_purgeAfterMs position,
      pr_strategySessionId = map_option pl_strategySessionId (pp_lineage position),
      pr_entryDecisionAt = entryDecisionAtMs, pr_entryDecisionJobId = entryDecisionJobId,
      pr_closeEventId = None, pr_exitTriggerAt = None\<rparr>"

definition insertPosition :: "paper_position \<Rightarrow> int option \<Rightarrow> string option \<Rightarrow> unit db_op" where
  "insertPosition position entryDecisionAtMs entryDecisionJobId =
     bindT (jsonParam (positionData position)) (\<lambda>payload.
     bindT (requireT (dateParam (pp_openedAtMs position) \<and> optDateParam (pp_closedAtMs position)
         \<and> optDateParam (pp_purgeAfterMs position) \<and> optDateParam entryDecisionAtMs) DatabaseError) (\<lambda>_ db.
       let row = positionRow position payload entryDecisionAtMs entryDecisionJobId in
       if 0 \<le> qa_decimals (pp_quoteAsset position) \<and> qa_decimals (pp_quoteAsset position) \<le> 255
         \<and> positionRowChecks row \<and> pr_mint row \<in> set (db_launches db)
         \<and> \<not> list_ex (positionConflict row) (db_positions db)
       then Inr ((), db\<lparr>db_positions := db_positions db @ [row]\<rparr>) else Inl DatabaseError))"

definition findPositionRow :: "string \<Rightarrow> paper_position option db_op" where
  "findPositionRow i db = (case filter (\<lambda>row. pr_positionId row = i) (db_positions db) of
     [] \<Rightarrow> Inr (None, db)
   | row # _ \<Rightarrow> (case decodePosition row of None \<Rightarrow> Inl TypeError | Some p \<Rightarrow> Inr (Some p, db)))"

definition findActivePositionRow :: "string \<Rightarrow> paper_strategy \<Rightarrow> paper_position option db_op" where
  "findActivePositionRow mint strategy db =
     (case filter (\<lambda>row. pr_mint row = mint \<and> pr_strategyId row = ps_id strategy
         \<and> pr_strategyVersion row = ps_version strategy \<and> pr_status row = PAPER_HOLDING) (db_positions db) of
        [] \<Rightarrow> Inr (None, db)
      | row # _ \<Rightarrow> (case decodePosition row of None \<Rightarrow> Inl TypeError | Some p \<Rightarrow> Inr (Some p, db)))"

text \<open>An UPDATE of the row with a given primary key, where it satisfies a condition. The changed row
  must satisfy the checks, the unique indexes and the foreign key of its close event.\<close>

definition updatePosition :: "string \<Rightarrow> (position_row \<Rightarrow> bool) \<Rightarrow> (position_row \<Rightarrow> position_row) \<Rightarrow> unit db_op" where
  "updatePosition i condition change db =
     (let selected = (\<lambda>row. pr_positionId row = i \<and> condition row);
          changed = map change (filter selected (db_positions db));
          others = filter (\<lambda>row. pr_positionId row \<noteq> i) (db_positions db)
      in if list_all (\<lambda>row. positionRowChecks row \<and> \<not> list_ex (positionConflict row) others
             \<and> (case pr_closeEventId row of None \<Rightarrow> True
                | Some e \<Rightarrow> list_ex (\<lambda>w. ew_eventId w = e) (db_events db))) changed
         then Inr ((), db\<lparr>db_positions := map (\<lambda>row. if selected row then change row else row) (db_positions db)\<rparr>)
         else Inl DatabaseError)"

subsection \<open>Trades\<close>

definition tradeData :: "paper_trade \<Rightarrow> data" where
  "tradeData t = DObj [(''id'', DStr (pt_id t)), (''positionId'', DStr (pt_positionId t)),
     (''side'', DStr (case pt_side t of PAPER_BUY \<Rightarrow> ''BUY'' | PAPER_SELL \<Rightarrow> ''SELL'')), (''quote'', quoteData (pt_quote t)),
     (''fillAmountOutRaw'', DBig (pt_fillAmountOutRaw t)), (''reason'', DStr (pt_reason t)),
     (''createdAtMs'', DInt (pt_createdAtMs t)), (''payloadVersion'', DInt 1)]"

definition insertTrade :: "paper_trade \<Rightarrow> unit db_op" where
  "insertTrade trade =
     bindT (jsonParam (tradeData trade)) (\<lambda>payload.
     bindT (requireT (dateParam (pt_createdAtMs trade)
         \<and> (case numberOf (pq_observedAtMs (pt_quote trade)) of None \<Rightarrow> False | Some t \<Rightarrow> dateParam t)) DatabaseError) (\<lambda>_ db.
       if list_ex (\<lambda>t. pt_id t = pt_id trade \<or> (pt_positionId t = pt_positionId trade \<and> pt_side t = pt_side trade)) (db_trades db)
         \<or> \<not> list_ex (\<lambda>row. pr_positionId row = pt_positionId trade) (db_positions db)
       then Inl DatabaseError else Inr ((), db\<lparr>db_trades := db_trades db @ [trade]\<rparr>)))"

subsection \<open>Events\<close>

definition cursorParams :: "chain_cursor \<Rightarrow> bool" where
  "cursorParams c = (integerParam (transactionIndex c) \<and> integerParam (instructionIndex c)
     \<and> (case innerInstructionIndex c of None \<Rightarrow> True | Some n \<Rightarrow> integerParam n))"

definition insertEvent :: "paper_event \<Rightarrow> int option \<Rightarrow> int option \<Rightarrow> unit db_op" where
  "insertEvent event terminalAtMs purgeAfterMs =
     bindT (jsonParam (DObj [(''position'', positionData (pe_position event)), (''trade'', tradeData (pe_trade event))])) (\<lambda>payload.
     bindT (requireT (optDateParam (pe_blockchainTimeMs event) \<and> dateParam (pe_observedAtMs event)
         \<and> optDateParam terminalAtMs \<and> optDateParam purgeAfterMs \<and> cursorParams (pe_cursor event)
         \<and> (purgeAfterMs = None \<or> terminalAtMs \<noteq> None)) DatabaseError) (\<lambda>_ db.
       if list_ex (\<lambda>row. ew_eventId row = pe_id event) (db_events db) then Inr ((), db)
       else Inr ((), db\<lparr>db_events := db_events db @ [\<lparr>ew_eventId = pe_id event, ew_rawEventId = None,
          ew_type = literal_of PAPER_EVENT_TYPES (pe_type event), ew_mint = pe_mint event, ew_source = ''paper-trading'',
          ew_program = pe_program event, ew_signature = pe_signature event, ew_cursor = pe_cursor event,
          ew_confirmationStatus = pe_confirmationStatus event, ew_blockchainTime = pe_blockchainTimeMs event,
          ew_observedAt = pe_observedAtMs event, ew_payload = payload, ew_terminalAt = terminalAtMs,
          ew_purgeAfter = purgeAfterMs\<rparr>]\<rparr>)))"

text \<open>\<open>payload #>> '{position,id}'\<close>\<close>

definition jsonMember :: "string \<Rightarrow> json option \<Rightarrow> json option" where
  "jsonMember key v = (case v of Some (JsonObj ms) \<Rightarrow> map_of ms key | _ \<Rightarrow> None)"

definition payloadPositionId :: "json \<Rightarrow> string option" where
  "payloadPositionId payload = (case jsonMember ''id'' (jsonMember ''position'' (Some payload)) of
     Some (JsonStr s) \<Rightarrow> Some s | _ \<Rightarrow> None)"

definition markPositionEventsTerminal :: "paper_position \<Rightarrow> unit db_op" where
  "markPositionEventsTerminal position =
     bindT (requireT (optDateParam (pp_closedAtMs position) \<and> optDateParam (pp_purgeAfterMs position)
         \<and> (pp_purgeAfterMs position = None \<or> pp_closedAtMs position \<noteq> None)) DatabaseError) (\<lambda>_ db.
       Inr ((), db\<lparr>db_events := map (\<lambda>row.
         if ew_source row = ''paper-trading'' \<and> payloadPositionId (ew_payload row) = Some (pp_id position)
           \<and> ew_purgeAfter row = None
         then row\<lparr>ew_terminalAt := pp_closedAtMs position, ew_purgeAfter := pp_purgeAfterMs position\<rparr> else row)
         (db_events db)\<rparr>))"

definition reconcileEventRow :: "string \<Rightarrow> confirmation_observation \<Rightarrow> unit db_op" where
  "reconcileEventRow eventId trigger db = (case filter (\<lambda>row. ew_eventId row = eventId) (db_events db) of
     [] \<Rightarrow> Inl TypeError
   | row # _ \<Rightarrow>
       bindE (map_sum ChainError id (reconcileConfirmationStatus (ew_confirmationStatus row) (co_confirmationStatus trigger))) (\<lambda>decision.
         if optDateParam (co_blockchainTimeMs trigger) \<and> dateParam (co_observedAtMs trigger)
         then Inr ((), db\<lparr>db_events := map (\<lambda>w. if ew_eventId w = eventId then
             w\<lparr>ew_confirmationStatus := (if decision = Update then co_confirmationStatus trigger else ew_confirmationStatus row),
               ew_blockchainTime := (case co_blockchainTimeMs trigger of
                   None \<Rightarrow> ew_blockchainTime w
                 | Some t \<Rightarrow> (case ew_blockchainTime w of None \<Rightarrow> Some t | Some u \<Rightarrow> Some (min u t))),
               ew_observedAt := min (ew_observedAt w) (co_observedAtMs trigger)\<rparr> else w) (db_events db)\<rparr>)
         else Inl DatabaseError))"

subsection \<open>The operations of a transaction\<close>

definition insertOpenedRows :: "paper_position \<Rightarrow> paper_trade \<Rightarrow> paper_event \<Rightarrow> int option \<Rightarrow> string option \<Rightarrow> unit db_op" where
  "insertOpenedRows position trade event entryDecisionAtMs entryDecisionJobId =
     bindT (insertPosition position entryDecisionAtMs entryDecisionJobId) (\<lambda>_.
     bindT (insertTrade trade) (\<lambda>_. insertEvent event None None))"

definition updateClosedRows :: "paper_position \<Rightarrow> paper_trade \<Rightarrow> paper_event \<Rightarrow> int option \<Rightarrow> unit db_op" where
  "updateClosedRows position trade event exitTriggerAtMs =
     bindT (insertEvent event (pp_closedAtMs position) (pp_purgeAfterMs position)) (\<lambda>_.
     bindT (jsonParam (positionData position)) (\<lambda>payload.
     bindT (requireT (optDateParam (pp_closedAtMs position) \<and> optDateParam (pp_purgeAfterMs position)
         \<and> optDateParam exitTriggerAtMs) DatabaseError) (\<lambda>_.
     bindT (updatePosition (pp_id position) (\<lambda>row. pr_status row = PAPER_HOLDING) (\<lambda>row.
         row\<lparr>pr_status := pp_status position, pr_payload := payload, pr_closedAt := pp_closedAtMs position,
             pr_purgeAfter := pp_purgeAfterMs position, pr_closeEventId := Some (pe_id event),
             pr_exitTriggerAt := exitTriggerAtMs\<rparr>)) (\<lambda>_.
     bindT (insertTrade trade) (\<lambda>_. markPositionEventsTerminal position)))))"

definition retractPositionRow :: "paper_position \<Rightarrow> unit db_op" where
  "retractPositionRow position =
     bindT (jsonParam (positionData position)) (\<lambda>payload.
     bindT (requireT (optDateParam (pp_closedAtMs position) \<and> optDateParam (pp_purgeAfterMs position)) DatabaseError) (\<lambda>_.
     bindT (updatePosition (pp_id position) (\<lambda>row. True) (\<lambda>row.
         row\<lparr>pr_status := pp_status position, pr_payload := payload, pr_closedAt := pp_closedAtMs position,
             pr_purgeAfter := pp_purgeAfterMs position\<rparr>)) (\<lambda>_.
       markPositionEventsTerminal position)))"

subsection \<open>The qualification a session relies on\<close>

definition rowCursorLe :: "chain_cursor \<Rightarrow> chain_cursor \<Rightarrow> bool" where
  "rowCursorLe a b =
     (let inner = (\<lambda>c. case innerInstructionIndex c of None \<Rightarrow> - 1 | Some n \<Rightarrow> n) in
      slot a < slot b \<or> slot a = slot b \<and> (transactionIndex a < transactionIndex b
      \<or> transactionIndex a = transactionIndex b \<and> (instructionIndex a < instructionIndex b
      \<or> instructionIndex a = instructionIndex b \<and> inner a \<le> inner b)))"

definition MAX_PAPER_FINALITY_RAW_ROWS :: nat where
  "MAX_PAPER_FINALITY_RAW_ROWS = 4096"

definition isTerminalConfirmation :: "confirmation_status \<Rightarrow> bool" where
  "isTerminalConfirmation c = (c = Finalized \<or> c = Orphaned)"

text \<open>The query also sorts its rows; as more rows than the limit are refused, the order does not matter.\<close>

definition paperFinalityRelevantRaw :: "paper_db \<Rightarrow> string \<Rightarrow> string \<Rightarrow> raw_row list" where
  "paperFinalityRelevantRaw db mint sourceRawEventId =
     (case filter (\<lambda>r. rw_eventId r = sourceRawEventId \<and> rw_mint r = Some mint) (db_rawEvents db) of
        [] \<Rightarrow> []
      | source # _ \<Rightarrow> take (MAX_PAPER_FINALITY_RAW_ROWS + 1)
          (filter (\<lambda>r. rw_mint r = Some mint \<and> rowCursorLe (rw_cursor r) (rw_cursor source)) (db_rawEvents db)))"

text \<open>\<open>False\<close> where the code throws \<open>PaperFinalityBarrierError\<close>.\<close>

definition assertPaperFinalityReplayCurrent :: "paper_db \<Rightarrow> string \<Rightarrow> string \<Rightarrow> bool" where
  "assertPaperFinalityReplayCurrent db mint sourceRawEventId =
     (let rawRows = paperFinalityRelevantRaw db mint sourceRawEventId;
          inbox = filter (\<lambda>i. list_ex (\<lambda>r. rw_signature r = iw_signature i) rawRows) (db_inbox db);
          receipts = filter (\<lambda>f. list_ex (\<lambda>r. rw_signature r = fw_signature f) rawRows) (db_receipts db)
      in rawRows \<noteq> [] \<and> length rawRows \<le> MAX_PAPER_FINALITY_RAW_ROWS
       \<and> list_all (\<lambda>r. rw_eventId r \<noteq> [] \<and> rw_signature r \<noteq> []) rawRows
       \<and> list_ex (\<lambda>r. rw_eventId r = sourceRawEventId) rawRows
       \<and> list_all (\<lambda>i. iw_processingStatus i \<noteq> []) inbox
       \<and> list_all (\<lambda>raw. case map_of (map (\<lambda>i. (iw_signature i, i)) inbox) (rw_signature raw) of
            Some i \<Rightarrow> iw_processingStatus i = ''PROCESSED''
              \<and> iw_targetConfirmationStatus i = rw_confirmationStatus raw
          | None \<Rightarrow> isTerminalConfirmation (rw_confirmationStatus raw)
              \<and> (case map_of (map (\<lambda>f. (fw_signature f, f)) receipts) (rw_signature raw) of
                   None \<Rightarrow> False
                 | Some f \<Rightarrow> fw_observedSlot f = slot (rw_cursor raw)
                     \<and> fw_confirmationStatus f = rw_confirmationStatus raw)) rawRows)"

definition currentReports :: "paper_db \<Rightarrow> current_qualification \<Rightarrow> (report_row \<times> event_row) list" where
  "currentReports db q = [(r, e). r \<leftarrow> db_reports db, e \<leftarrow> db_events db,
     ew_eventId e = qw_qualificationEventId r \<and> qw_mint r = cq_mint q \<and> qw_reportId r = cq_reportId q
     \<and> qw_qualificationEventId r = cq_qualificationEventId q \<and> ew_mint e = cq_mint q
     \<and> ew_type e = ''QualificationUpdated'' \<and> qw_supersededAt r = None \<and> qw_purgeAfter r > db_clock db
     \<and> qw_confirmationStatus r \<noteq> Orphaned \<and> ew_confirmationStatus e \<noteq> Orphaned
     \<and> qw_confirmationStatus r = ew_confirmationStatus e]"

definition SOURCE_EVENT_TYPES :: "string list" where
  "SOURCE_EVENT_TYPES = [''TokenLaunchDetected'', ''BondingCurveTradeObserved'', ''BondingCurveStateUpdated'',
     ''BondingCurveCompleted'', ''MigrationObserved'', ''PumpSwapPoolActivated'']"

definition sourceRows :: "paper_db \<Rightarrow> current_qualification \<Rightarrow> report_row \<Rightarrow> (event_row \<times> raw_row) list" where
  "sourceRows db q current = [(s, raw). s \<leftarrow> db_events db, raw \<leftarrow> db_rawEvents db, r \<leftarrow> db_reports db, k \<leftarrow> db_events db,
     ew_rawEventId s = Some (rw_eventId raw) \<and> qw_reportId r = cq_reportId q \<and> ew_eventId k = qw_qualificationEventId r
     \<and> ew_eventId s = qw_sourceEventId current \<and> ew_rawEventId s = Some (qw_sourceRawEventId current)
     \<and> ew_mint s = cq_mint q \<and> ew_type s \<in> set SOURCE_EVENT_TYPES
     \<and> qw_mint r = cq_mint q \<and> qw_sourceEventId r = ew_eventId s \<and> qw_sourceRawEventId r = rw_eventId raw
     \<and> ew_eventId k = cq_qualificationEventId q
     \<and> ew_confirmationStatus s \<noteq> Orphaned \<and> rw_confirmationStatus raw \<noteq> Orphaned
     \<and> ew_confirmationStatus s = rw_confirmationStatus raw \<and> ew_confirmationStatus s = qw_confirmationStatus r
     \<and> ew_confirmationStatus s = ew_confirmationStatus k
     \<and> rw_source raw = ew_source s \<and> rw_program raw = ew_program s \<and> rw_mint raw = Some (ew_mint s)
     \<and> rw_signature raw = ew_signature s \<and> rw_cursor raw = ew_cursor s]"

definition requireCurrentRows :: "current_qualification \<Rightarrow> unit db_op" where
  "requireCurrentRows q db = (case currentReports db q of
     [(current, _)] \<Rightarrow>
       if length (filter (\<lambda>raw. rw_eventId raw = qw_sourceRawEventId current \<and> rw_mint raw = Some (cq_mint q)
           \<and> rw_confirmationStatus raw \<noteq> Orphaned) (db_rawEvents db)) = 1
         \<and> length (sourceRows db q current) = 1
         \<and> assertPaperFinalityReplayCurrent db (cq_mint q) (qw_sourceRawEventId current)
       then Inr ((), db) else Inl QUALIFICATION_NOT_CURRENT
   | _ \<Rightarrow> Inl QUALIFICATION_NOT_CURRENT)"

definition postgresRepository :: "paper_db paper_repository" where
  "postgresRepository = \<lparr>requireCurrentQualification = requireCurrentRows, findPosition = findPositionRow,
     findActivePosition = findActivePositionRow, insertOpened = insertOpenedRows, updateClosed = updateClosedRows,
     reconcileEventConfirmation = reconcileEventRow, storeRetracted = retractPositionRow\<rparr>"

subsection \<open>What a statement changes\<close>

lemma jsonParam_eq [result_simps]: "jsonParam v db = Inr (j, db') \<longleftrightarrow> toJsonValue v = Some j \<and> db' = db"
  by (auto simp: jsonParam_def liftT_def split: option.splits)

lemma requireT_eq [result_simps]: "requireT c e db = Inr (u, db') \<longleftrightarrow> c \<and> db' = db"
  by (auto simp: requireT_def liftT_def require_def)

lemma insertTrade_changes:
  "insertTrade t db = Inr (u, db') \<Longrightarrow> db' = db\<lparr>db_trades := db_trades db @ [t]\<rparr>"
  unfolding insertTrade_def by (auto simp: result_simps split: if_splits)

lemma insertEvent_changes: "insertEvent e a b db = Inr (u, db') \<Longrightarrow> db' = db\<lparr>db_events := db_events db'\<rparr>"
  unfolding insertEvent_def result_simps by (auto split: if_splits)

lemma markTerminal_changes: "markPositionEventsTerminal p db = Inr (u, db') \<Longrightarrow> db' = db\<lparr>db_events := db_events db'\<rparr>"
  unfolding markPositionEventsTerminal_def by (auto simp: result_simps)

lemma reconcileEventRow_changes: "reconcileEventRow i ob db = Inr (u, db') \<Longrightarrow> db' = db\<lparr>db_events := db_events db'\<rparr>"
  unfolding reconcileEventRow_def by (auto simp: result_simps split: list.splits if_splits)

lemma requireCurrentRows_reads: "requireCurrentRows q db = Inr (u, db') \<Longrightarrow> db' = db"
  unfolding requireCurrentRows_def by (auto split: list.splits prod.splits if_splits)

subsection \<open>The invariant of the tables\<close>

definition row_ok :: "position_row \<Rightarrow> bool" where
  "row_ok row = (\<exists>p. rowHolds row p \<and> valid_position p \<and> db_accepts p)"

definition store_inv :: "paper_db \<Rightarrow> bool" where
  "store_inv db = (distinct (map pr_positionId (db_positions db))
     \<and> (\<forall>row \<in> set (db_positions db). row_ok row)
     \<and> (\<forall>row \<in> set (db_positions db). \<forall>other \<in> set (db_positions db).
          pr_positionId row \<noteq> pr_positionId other \<longrightarrow> \<not> positionConflict row other))"

definition stored_position :: "paper_db \<Rightarrow> string \<Rightarrow> paper_position option" where
  "stored_position db i = (case filter (\<lambda>row. pr_positionId row = i) (db_positions db) of
     [] \<Rightarrow> None | row # _ \<Rightarrow> decodePosition row)"

lemma filter_id_distinct:
  assumes "distinct (map pr_positionId rows)" and "row \<in> set rows"
  shows "filter (\<lambda>r. pr_positionId r = pr_positionId row) rows = [row]"
  using assms by (induction rows) (auto simp: filter_empty_conv image_iff)

lemma stored_position_iff:
  assumes "store_inv db"
  shows "stored_position db i = Some p \<longleftrightarrow> (\<exists>row \<in> set (db_positions db). pr_positionId row = i \<and> rowHolds row p \<and> valid_position p)"
proof
  assume "stored_position db i = Some p"
  then obtain row rest where row: "filter (\<lambda>row. pr_positionId row = i) (db_positions db) = row # rest" "decodePosition row = Some p"
    by (auto simp: stored_position_def split: list.splits)
  then have "row \<in> set (filter (\<lambda>row. pr_positionId row = i) (db_positions db))" by simp
  then have r: "row \<in> set (db_positions db)" "pr_positionId row = i" by auto
  then obtain q where q: "rowHolds row q" "valid_position q" using assms unfolding store_inv_def row_ok_def by blast
  then have "q = p" using row(2) decodePosition_iff [OF q(1)] by simp
  then show "\<exists>row \<in> set (db_positions db). pr_positionId row = i \<and> rowHolds row p \<and> valid_position p"
    using r q by blast
next
  assume "\<exists>row \<in> set (db_positions db). pr_positionId row = i \<and> rowHolds row p \<and> valid_position p"
  then obtain row where r: "row \<in> set (db_positions db)" "pr_positionId row = i" "rowHolds row p" "valid_position p" by blast
  then have "filter (\<lambda>r. pr_positionId r = i) (db_positions db) = [row]"
    using filter_id_distinct [of "db_positions db" row] assms unfolding store_inv_def by simp
  then show "stored_position db i = Some p"
    using r decodePosition_iff [OF r(3)] by (simp add: stored_position_def)
qed

lemma stored_accepted:
  assumes "store_inv db" and "stored_position db i = Some p"
  shows "pp_id p = i" and "valid_position p" and "db_accepts p"
proof -
  obtain row where row: "row \<in> set (db_positions db)" "pr_positionId row = i" "rowHolds row p" "valid_position p"
    using iffD1 [OF stored_position_iff [OF assms(1)] assms(2)] by blast
  then obtain q where q: "rowHolds row q" "valid_position q" "db_accepts q"
    using assms(1) unfolding store_inv_def row_ok_def by blast
  have "decodePosition row = Some p" using decodePosition_iff [OF row(3), of p] row(4) by simp
  then have "q = p" using decodePosition_iff [OF q(1), of p] by simp
  then show "db_accepts p" using q(3) by simp
  show "pp_id p = i" "valid_position p" using row by (simp_all add: rowHolds_def)
qed

lemma findPositionRow_exact:
  assumes "store_inv db"
  shows "findPositionRow i db = Inr (stored_position db i, db)"
proof (cases "filter (\<lambda>row. pr_positionId row = i) (db_positions db)")
  case Nil
  then show ?thesis by (simp add: findPositionRow_def stored_position_def)
next
  case (Cons row rest)
  then have "row \<in> set (filter (\<lambda>row. pr_positionId row = i) (db_positions db))" by simp
  then obtain p where p: "rowHolds row p" "valid_position p" using assms unfolding store_inv_def row_ok_def by auto
  then have "decodePosition row = Some p" using decodePosition_iff [OF p(1)] by simp
  with Cons show ?thesis by (simp add: findPositionRow_def stored_position_def)
qed

definition active_row :: "string \<Rightarrow> paper_strategy \<Rightarrow> position_row \<Rightarrow> bool" where
  "active_row m st row = (pr_mint row = m \<and> pr_strategyId row = ps_id st \<and> pr_strategyVersion row = ps_version st
     \<and> pr_status row = PAPER_HOLDING)"

lemma active_row_iff: "rowHolds row p \<Longrightarrow> active_row m st row \<longleftrightarrow> holds_for m st p"
  unfolding rowHolds_def active_row_def holds_for_def by (cases st; cases "pp_strategy p") auto

lemma stored_row:
  assumes "store_inv db" and "row \<in> set (db_positions db)"
  obtains p where "rowHolds row p" "valid_position p" "decodePosition row = Some p" "stored_position db (pr_positionId row) = Some p"
proof -
  obtain p where p: "rowHolds row p" "valid_position p" using assms unfolding store_inv_def row_ok_def by blast
  then show thesis using that [of p] decodePosition_iff [OF p(1)] stored_position_iff [OF assms(1)] assms(2) by blast
qed

lemma active_row_unique:
  assumes "store_inv db" and "row \<in> set (db_positions db)" and "other \<in> set (db_positions db)"
    and "active_row m st row" and "active_row m st other"
  shows "row = other"
proof -
  have "positionConflict row other" using assms(4,5) by (simp add: positionConflict_def active_row_def)
  then have "pr_positionId row = pr_positionId other" using assms(1-3) unfolding store_inv_def by blast
  then show ?thesis using assms(1-3) unfolding store_inv_def distinct_map by (blast dest: inj_onD)
qed

lemma findActivePositionRow_exact:
  assumes "store_inv db"
  shows "\<exists>r. findActivePositionRow m st db = Inr (r, db) \<and> (\<forall>p. r = Some p \<longleftrightarrow> (\<exists>i. stored_position db i = Some p \<and> holds_for m st p))"
proof -
  have find: "findActivePositionRow m st db = (case filter (active_row m st) (db_positions db) of
     [] \<Rightarrow> Inr (None, db) | row # _ \<Rightarrow> (case decodePosition row of None \<Rightarrow> Inl TypeError | Some p \<Rightarrow> Inr (Some p, db)))"
    unfolding findActivePositionRow_def by (simp only: active_row_def [abs_def])
  have held: "\<exists>row \<in> set (db_positions db). active_row m st row \<and> decodePosition row = Some q"
    if st: "stored_position db i = Some q" "holds_for m st q" for i q
  proof -
    obtain row where row: "row \<in> set (db_positions db)" "rowHolds row q" "valid_position q"
      using iffD1 [OF stored_position_iff [OF assms] st(1)] by blast
    have "decodePosition row = Some q" using decodePosition_iff [OF row(2), of q] row(3) by simp
    moreover have "active_row m st row" using active_row_iff [OF row(2), of m st] st(2) by simp
    ultimately show ?thesis using row(1) by blast
  qed
  show ?thesis
  proof (cases "filter (active_row m st) (db_positions db)")
    case Nil
    then have "\<forall>row \<in> set (db_positions db). \<not> active_row m st row" by (simp only: filter_empty_conv)
    then have "\<forall>i p. stored_position db i = Some p \<longrightarrow> \<not> holds_for m st p" using held by blast
    then show ?thesis using find Nil by auto
  next
    case (Cons row rest)
    then have "row \<in> set (filter (active_row m st) (db_positions db))" by simp
    then have row: "row \<in> set (db_positions db)" "active_row m st row" by auto
    obtain p where p: "rowHolds row p" "decodePosition row = Some p" "stored_position db (pr_positionId row) = Some p"
      by (rule stored_row [OF assms row(1)])
    have "holds_for m st p" using active_row_iff [OF p(1), of m st] row(2) by simp
    moreover have "q = p" if st: "stored_position db i = Some q" "holds_for m st q" for i q
    proof -
      obtain other where o: "other \<in> set (db_positions db)" "active_row m st other" "decodePosition other = Some q"
        using held [OF st] by blast
      have "row = other" by (rule active_row_unique [OF assms row(1) o(1) row(2) o(2)])
      with o(3) p(2) show ?thesis by simp
    qed
    ultimately have "\<forall>q. Some p = Some q \<longleftrightarrow> (\<exists>i. stored_position db i = Some q \<and> holds_for m st q)" using p(3) by blast
    then show ?thesis using find Cons p(2) by simp
  qed
qed

subsection \<open>Writing a position\<close>

lemma positionConflict_sym: "positionConflict a b \<Longrightarrow> positionConflict b a"
  unfolding positionConflict_def by (elim disjE conjE) simp_all

lemma same_positions:
  assumes "db_positions db' = db_positions db"
  shows "store_inv db' = store_inv db" and "stored_position db' = stored_position db"
  using assms by (simp_all add: store_inv_def stored_position_def fun_eq_iff)

lemma store_put:
  assumes "store_inv db'" and "row \<in> set (db_positions db')" and "rowHolds row p" and "valid_position p"
    and others: "\<And>i. i \<noteq> pp_id p \<Longrightarrow>
      filter (\<lambda>r. pr_positionId r = i) (db_positions db') = filter (\<lambda>r. pr_positionId r = i) (db_positions db)"
  shows "stored_position db' = (stored_position db)(pp_id p \<mapsto> p)"
proof
  fix i
  have "pr_positionId row = pp_id p" using assms(3) by (simp add: rowHolds_def)
  then have "stored_position db' (pp_id p) = Some p"
    using assms(2-4) iffD2 [OF stored_position_iff [OF assms(1)]] by blast
  then show "stored_position db' i = ((stored_position db)(pp_id p \<mapsto> p)) i"
    using others [of i] by (simp add: stored_position_def)
qed

lemma store_append:
  assumes "store_inv db" and "rowHolds row p" and "valid_position p" and "db_accepts p"
    and fresh: "\<forall>other \<in> set (db_positions db). \<not> positionConflict row other"
    and db': "db_positions db' = db_positions db @ [row]"
  shows "store_inv db' \<and> stored_position db' = (stored_position db)(pp_id p \<mapsto> p)"
proof -
  have new: "row_ok row" using assms(2-4) unfolding row_ok_def by blast
  have id: "pr_positionId row = pp_id p" using assms(2) by (simp add: rowHolds_def)
  have "pr_positionId row \<notin> pr_positionId ` set (db_positions db)" using fresh unfolding positionConflict_def by auto
  moreover have "\<forall>other \<in> set (db_positions db). \<not> positionConflict other row"
    using fresh positionConflict_sym by blast
  ultimately have inv: "store_inv db'" using assms(1) new fresh unfolding store_inv_def db' by simp
  moreover have "stored_position db' = (stored_position db)(pp_id p \<mapsto> p)"
    by (rule store_put [OF inv _ assms(2,3)]) (simp_all add: db' id)
  ultimately show ?thesis by blast
qed

lemma store_replace:
  assumes "store_inv db" and "old \<in> set (db_positions db)" and "pr_positionId row = pr_positionId old"
    and "rowHolds row p" and "valid_position p" and "db_accepts p"
    and fresh: "\<forall>other \<in> set (db_positions db). pr_positionId other \<noteq> pr_positionId old \<longrightarrow> \<not> positionConflict row other"
    and db': "db_positions db' = map (\<lambda>r. if pr_positionId r = pr_positionId old then row else r) (db_positions db)"
  shows "store_inv db' \<and> stored_position db' = (stored_position db)(pp_id p \<mapsto> p)"
proof -
  let ?put = "\<lambda>r. if pr_positionId r = pr_positionId old then row else r"
  have new: "row_ok row" using assms(4-6) unfolding row_ok_def by blast
  have id: "pr_positionId row = pp_id p" using assms(4) by (simp add: rowHolds_def)
  have ids: "map pr_positionId (db_positions db') = map pr_positionId (db_positions db)"
    using assms(3) by (simp add: db')
  have rows: "r = row \<or> r \<in> set (db_positions db) \<and> pr_positionId r \<noteq> pr_positionId old" if "r \<in> set (db_positions db')" for r
    using that by (auto simp: db' split: if_splits)
  have "row_ok r" if "r \<in> set (db_positions db')" for r
    using rows [OF that] new assms(1) unfolding store_inv_def by blast
  moreover have "\<not> positionConflict r s"
    if "r \<in> set (db_positions db')" "s \<in> set (db_positions db')" "pr_positionId r \<noteq> pr_positionId s" for r s
    using rows [OF that(1)] rows [OF that(2)] that(3) fresh positionConflict_sym assms(1) unfolding store_inv_def by blast
  ultimately have inv: "store_inv db'" using assms(1) unfolding store_inv_def ids by blast
  moreover have "filter (\<lambda>r. pr_positionId r = i) (map ?put rows) = filter (\<lambda>r. pr_positionId r = i) rows"
    if "i \<noteq> pp_id p" for i rows
    using that id assms(3) by (induction rows) auto
  then have "stored_position db' = (stored_position db)(pp_id p \<mapsto> p)"
    by (intro store_put [OF inv _ assms(4,5)]) (use assms(2) in \<open>auto simp: db'\<close>)
  ultimately show ?thesis by blast
qed

lemma updatePosition_replaces:
  assumes "store_inv db" and "updatePosition (pr_positionId old) condition change db = Inr (u, db')"
    and "old \<in> set (db_positions db)" and "condition old"
  shows "db' = db\<lparr>db_positions := map (\<lambda>r. if pr_positionId r = pr_positionId old then change old else r) (db_positions db)\<rparr>"
    and "\<forall>other \<in> set (db_positions db). pr_positionId other \<noteq> pr_positionId old \<longrightarrow> \<not> positionConflict (change old) other"
proof -
  have one: "r = old" if "r \<in> set (db_positions db)" "pr_positionId r = pr_positionId old" for r
    using assms(1,3) that unfolding store_inv_def by (metis (mono_tags, lifting) distinct_map inj_onD)
  then have same: "map (\<lambda>r. if pr_positionId r = pr_positionId old \<and> condition r then change r else r) (db_positions db)
      = map (\<lambda>r. if pr_positionId r = pr_positionId old then change old else r) (db_positions db)"
    using assms(4) by auto
  have "db' = db\<lparr>db_positions := map (\<lambda>r. if pr_positionId r = pr_positionId old \<and> condition r then change r else r) (db_positions db)\<rparr>"
    using assms(2) unfolding updatePosition_def Let_def by (simp split: if_splits)
  then show "db' = db\<lparr>db_positions := map (\<lambda>r. if pr_positionId r = pr_positionId old then change old else r) (db_positions db)\<rparr>"
    unfolding same .
  show "\<forall>other \<in> set (db_positions db). pr_positionId other \<noteq> pr_positionId old \<longrightarrow> \<not> positionConflict (change old) other"
    using assms(2-4) unfolding updatePosition_def Let_def by (auto simp: list_all_iff list_ex_iff split: if_splits)
qed

lemma insertPosition_changes:
  assumes "insertPosition p decidedAt job db = Inr (u, db')"
  obtains payload where "toJsonValue (positionData p) = Some payload"
    and "db' = db\<lparr>db_positions := db_positions db @ [positionRow p payload decidedAt job]\<rparr>"
    and "\<forall>other \<in> set (db_positions db). \<not> positionConflict (positionRow p payload decidedAt job) other"
    and "pp_exitTriggerAtMs p = None \<longrightarrow> db_accepts p"
  using assms unfolding insertPosition_def result_simps Let_def
  by (auto simp: list_ex_iff db_accepts_def optDateParam_def split: if_splits)

lemma insertOpenedRows_writes:
  assumes "store_inv db" and "insertOpenedRows p t e (pp_entryDecisionAtMs p) (pp_entryDecisionJobId p) db = Inr (u, db')"
    and "db_accepts p \<longrightarrow> valid_position p" and "pp_closeEventId p = None" and "pp_exitTriggerAtMs p = None"
  shows "store_inv db' \<and> valid_position p \<and> stored_position db' = (stored_position db)(pp_id p \<mapsto> p) \<and> db_trades db' = db_trades db @ [t]"
proof -
  from assms(2) obtain u1 db1 u2 db2 where w: "insertPosition p (pp_entryDecisionAtMs p) (pp_entryDecisionJobId p) db = Inr (u1, db1)"
    "insertTrade t db1 = Inr (u2, db2)" "insertEvent e None None db2 = Inr (u, db')"
    unfolding insertOpenedRows_def result_simps by auto
  note trade = insertTrade_changes [OF w(2)] and event = insertEvent_changes [OF w(3)]
  obtain payload where row: "toJsonValue (positionData p) = Some payload"
    "db1 = db\<lparr>db_positions := db_positions db @ [positionRow p payload (pp_entryDecisionAtMs p) (pp_entryDecisionJobId p)]\<rparr>"
    "\<forall>other \<in> set (db_positions db). \<not> positionConflict (positionRow p payload (pp_entryDecisionAtMs p) (pp_entryDecisionJobId p)) other"
    "db_accepts p"
    using insertPosition_changes [OF w(1)] assms(5) by metis
  have holds: "rowHolds (positionRow p payload (pp_entryDecisionAtMs p) (pp_entryDecisionJobId p)) p"
    using row(1) assms(4,5) by (simp add: rowHolds_def positionRow_def)
  have tables: "db_positions db' = db_positions db1" "db_trades db' = db_trades db @ [t]"
    using row(2) by (subst event, simp add: trade)+
  have "store_inv db' \<and> stored_position db' = (stored_position db)(pp_id p \<mapsto> p)"
    by (rule store_append [OF assms(1) holds _ row(4,3)]) (use assms(3) row(2,4) tables in simp_all)
  then show ?thesis using assms(3) row(4) tables(2) by blast
qed

lemma updatePosition_writes:
  assumes "store_inv db" and "updatePosition (pp_id p) condition change db = Inr (u, db')"
    and "stored_position db (pp_id p) = Some q" and "\<And>row. rowHolds row q \<Longrightarrow> condition row \<and> rowHolds (change row) p"
    and "valid_position p" and "db_accepts p"
  shows "store_inv db' \<and> stored_position db' = (stored_position db)(pp_id p \<mapsto> p) \<and> db_trades db' = db_trades db"
proof -
  obtain old where old: "old \<in> set (db_positions db)" "rowHolds old q" "pr_positionId old = pp_id p"
    using iffD1 [OF stored_position_iff [OF assms(1)] assms(3)] by blast
  have holds: "condition old" "rowHolds (change old) p" using assms(4) [OF old(2)] by simp_all
  then have id: "pr_positionId (change old) = pr_positionId old" using old(3) by (simp add: rowHolds_def)
  note put = updatePosition_replaces [OF assms(1) assms(2) [folded old(3)] old(1) holds(1)]
  have "store_inv db' \<and> stored_position db' = (stored_position db)(pp_id p \<mapsto> p)"
    by (rule store_replace [OF assms(1) old(1) id holds(2) assms(5,6) put(2)]) (subst put(1), simp)
  moreover have "db_trades db' = db_trades db" by (subst put(1)) simp
  ultimately show ?thesis by blast
qed

lemma updateClosedRows_writes:
  assumes "store_inv db" and "updateClosedRows p t e (pp_exitTriggerAtMs p) db = Inr (u, db')"
    and "stored_position db (pp_id p) = Some q" and "pp_status q = PAPER_HOLDING" and "entry_terms p = entry_terms q"
    and "db_accepts p \<longrightarrow> valid_position p" and "pp_closeEventId p = Some (pe_id e)"
  shows "store_inv db' \<and> valid_position p \<and> stored_position db' = (stored_position db)(pp_id p \<mapsto> p) \<and> db_trades db' = db_trades db @ [t]"
proof -
  from assms(2) obtain u1 db1 payload u2 db2 u3 db3 where
    w: "insertEvent e (pp_closedAtMs p) (pp_purgeAfterMs p) db = Inr (u1, db1)"
      "toJsonValue (positionData p) = Some payload"
      "updatePosition (pp_id p) (\<lambda>row. pr_status row = PAPER_HOLDING) (\<lambda>row.
         row\<lparr>pr_status := pp_status p, pr_payload := payload, pr_closedAt := pp_closedAtMs p, pr_purgeAfter := pp_purgeAfterMs p,
             pr_closeEventId := Some (pe_id e), pr_exitTriggerAt := pp_exitTriggerAtMs p\<rparr>) db1 = Inr (u2, db2)"
      "insertTrade t db2 = Inr (u3, db3)" "markPositionEventsTerminal p db3 = Inr (u, db')"
    and dates: "optDateParam (pp_closedAtMs p)" "optDateParam (pp_purgeAfterMs p)" "optDateParam (pp_exitTriggerAtMs p)"
    unfolding updateClosedRows_def result_simps by auto
  have before: "db_positions db1 = db_positions db" "db_trades db1 = db_trades db"
    by (subst insertEvent_changes [OF w(1)], simp)+
  have after: "db_positions db' = db_positions db2" "db_trades db' = db_trades db2 @ [t]"
    by (subst markTerminal_changes [OF w(5)], simp add: insertTrade_changes [OF w(4)])+
  have accepts: "db_accepts p" using stored_accepted [OF assms(1,3)] assms(5) dates by (simp add: db_accepts_def entry_terms_def)
  have "store_inv db2 \<and> stored_position db2 = (stored_position db1)(pp_id p \<mapsto> p) \<and> db_trades db2 = db_trades db1"
  proof (rule updatePosition_writes [OF _ w(3)])
    show "store_inv db1" "stored_position db1 (pp_id p) = Some q" "valid_position p" "db_accepts p"
      using assms(1,3,6) accepts same_positions [OF before(1)] by simp_all
  qed (use w(2) assms(4,5,7) in \<open>simp add: rowHolds_def entry_terms_def\<close>)
  then show ?thesis using assms(6) accepts same_positions [OF before(1)] same_positions [OF after(1)] before after by simp
qed

lemma retractPositionRow_writes:
  assumes "store_inv db" and "retractPositionRow p db = Inr (u, db')"
    and "stored_position db (pp_id p) = Some q" and "entry_terms p = entry_terms q" and "exit_terms p = exit_terms q"
    and "db_accepts p \<longrightarrow> valid_position p"
  shows "store_inv db' \<and> valid_position p \<and> stored_position db' = (stored_position db)(pp_id p \<mapsto> p) \<and> db_trades db' = db_trades db"
proof -
  from assms(2) obtain payload u2 db2 where
    w: "toJsonValue (positionData p) = Some payload"
      "updatePosition (pp_id p) (\<lambda>row. True) (\<lambda>row.
         row\<lparr>pr_status := pp_status p, pr_payload := payload, pr_closedAt := pp_closedAtMs p, pr_purgeAfter := pp_purgeAfterMs p\<rparr>) db
       = Inr (u2, db2)" "markPositionEventsTerminal p db2 = Inr (u, db')"
    and dates: "optDateParam (pp_closedAtMs p)" "optDateParam (pp_purgeAfterMs p)"
    unfolding retractPositionRow_def result_simps by auto
  have after: "db_positions db' = db_positions db2" "db_trades db' = db_trades db2"
    by (subst markTerminal_changes [OF w(3)], simp)+
  have accepts: "db_accepts p"
    using stored_accepted [OF assms(1,3)] assms(4,5) dates by (simp add: db_accepts_def entry_terms_def exit_terms_def)
  have "store_inv db2 \<and> stored_position db2 = (stored_position db)(pp_id p \<mapsto> p) \<and> db_trades db2 = db_trades db"
  proof (rule updatePosition_writes [OF assms(1) w(2) assms(3)])
    show "valid_position p" "db_accepts p" using assms(6) accepts by simp_all
  qed (use w(1) assms(4,5) in \<open>simp add: rowHolds_def entry_terms_def exit_terms_def\<close>)
  then show ?thesis using assms(6) accepts same_positions [OF after(1)] after by simp
qed

lemma reconcileEventRow_writes:
  assumes "store_inv db" and "reconcileEventRow i ob db = Inr (u, db')"
  shows "store_inv db' \<and> stored_position db' = stored_position db \<and> db_trades db' = db_trades db"
proof -
  have "db_positions db' = db_positions db" "db_trades db' = db_trades db"
    by (subst reconcileEventRow_changes [OF assms(2)], simp)+
  then show ?thesis using assms(1) same_positions [of db' db] by simp
qed

lemma postgres_operations:
  "requireCurrentQualification postgresRepository = requireCurrentRows" "findPosition postgresRepository = findPositionRow"
  "findActivePosition postgresRepository = findActivePositionRow" "insertOpened postgresRepository = insertOpenedRows"
  "updateClosed postgresRepository = updateClosedRows" "reconcileEventConfirmation postgresRepository = reconcileEventRow"
  "storeRetracted postgresRepository = retractPositionRow"
  by (simp_all add: postgresRepository_def)

interpretation pg: paper_store postgresRepository store_inv stored_position db_trades
proof (unfold_locales, unfold postgres_operations)
  fix db i p
  assume "store_inv db" "stored_position db i = Some p"
  then show "pp_id p = i \<and> valid_position p" using stored_accepted [of db i p] by blast
qed (fact requireCurrentRows_reads findPositionRow_exact findActivePositionRow_exact
    | (rule insertOpenedRows_writes updateClosedRows_writes reconcileEventRow_writes retractPositionRow_writes
        requireCurrentRows_reads; assumption))+

end
