(* ===== verification/Paper_Ledger.thy ===== *)
theory Paper_Ledger
  imports Paper_Store
begin

text \<open>
  What the paper engine of src/paper/paper-trading-engine.ts guarantees over the database of
  src/storage/paper-trading.repository.ts: each call is a step of the ledger or changes nothing, every
  reachable database keeps balanced books, an entry has passed every guard, and repeating an entry
  changes neither positions nor trades.
\<close>

subsection \<open>Concrete runs\<close>

definition paper_profile :: qualification_profile where
  "paper_profile = \<lparr>qp_fields = example_profile 50, qp_fingerprint = zero_digest ()\<rparr>"

definition paper_evaluation :: js where
  "paper_evaluation = frozen_object [(''evaluatedAtMs'', JNum (JInt 7)),
     (''signals'', frozen_object [(''creatorHasNotSold'', JBool True), (''imageValid'', JBool False)]),
     (''blockers'', JArr False True []),
     (''calibrationFacts'', frozen_object [(''top1HolderBps'', JNull), (''top5HoldersBps'', JNull), (''top10HoldersBps'', JNull),
        (''maximumRelatedClusterBps'', JNull), (''maximumSharedFunderCount'', JNull), (''buySimulationSucceeded'', JBool True),
        (''sellQuoteAvailable'', JBool True), (''roundTripLossBps'', JBig 400), (''upstreamConditions'', JArr False True [])])]"

definition paper_sell :: paper_quote where
  "paper_sell = example_sell\<lparr>pq_minimumAmountOutRaw := 960000\<rparr>"

definition example_engine :: paper_engine where
  "example_engine = \<lparr>en_executionMode = PaperMode, en_quoteMintAllowlist = [WSOL_MINT], en_dataRetentionHours = 1, en_profile = paper_profile\<rparr>"

definition example_trigger :: domain_event where
  "example_trigger = \<lparr>dv_id = ''t'', dv_mint = ''mint'', dv_program = ''p'', dv_signature = ''s'',
     dv_cursor = example_cursor 0, dv_confirmationStatus = Confirmed, dv_blockchainTimeMs = JNull, dv_observedAtMs = JNum (JInt 1)\<rparr>"

definition example_authority :: qualification_engine where
  "example_authority = \<lparr>eg_profile = paper_profile, eg_nextReport = 1,
     eg_authorizedReports = [0 \<mapsto> \<lparr>rp_mint = ''mint'', rp_triggerEventId = ''t''\<rparr>]\<rparr>"

definition example_report :: qualification_report where
  "example_report = the (evaluateReport paper_profile paper_evaluation)"


definition example_open :: open_command where
  "example_open = \<lparr>oc_mint = ''mint'', oc_quoteAsset = \<lparr>qa_mint = WSOL_MINT, qa_decimals = 9, qa_tokenProgram = SPL_TOKEN\<rparr>,
     oc_strategy = \<lparr>ps_id = ''s'', ps_version = 1\<rparr>, oc_trigger = example_trigger, oc_report = 0,
     oc_qualification = rawReport example_report, oc_buyQuote = example_buy, oc_reverseSellQuote = paper_sell,
     oc_maximumRoundTripLossBps = 600, oc_strategySessionId = None, oc_qualificationReportId = None, oc_candidateId = None,
     oc_expectedCurrentQualification = None, oc_entryDecisionAtMs = JUndefined, oc_entryDecisionJobId = None\<rparr>"

definition empty_db :: paper_db where
  "empty_db = \<lparr>db_launches = [''mint''], db_positions = [], db_trades = [], db_events = [], db_reports = [], db_rawEvents = [],
     db_inbox = [], db_receipts = [], db_clock = 0\<rparr>"

definition example_open_snapshot where
 "example_open_snapshot = \<lparr>os_mint = ''mint'', os_quoteAsset = \<lparr>qa_mint = WSOL_MINT, qa_decimals = 9, qa_tokenProgram = SPL_TOKEN\<rparr>,
     os_strategy = \<lparr>ps_id = ''s'', ps_version = 1\<rparr>, os_trigger = \<lparr>tg_id = ''t'', tg_mint = ''mint'', tg_program = ''p'',
          tg_signature = ''s'', tg_cursor = parsed_cursor 0, tg_confirmationStatus = Confirmed, tg_blockchainTimeMs = None,
          tg_observedAtMs = 1\<rparr>, os_qualification = example_report, os_buyQuote = example_buy, os_reverseSellQuote = paper_sell,
   os_maximumRoundTripLossBps = 600, os_entryDecision = None, os_strategySessionId = None, os_qualificationReportId = None, os_candidateId = None,
   os_expectedCurrentQualification = None\<rparr>"

lemma dec_nat_length: "n < 10 ^ k \<Longrightarrow> 0 < k \<Longrightarrow> length (dec_nat n) \<le> k"
proof (induction n arbitrary: k rule: dec_nat.induct)
  case (1 n)
  show ?case
  proof (cases "n < 10")
    case True
    then show ?thesis using 1 by (simp add: dec_nat.simps [of n])
  next
    case False
    then obtain j where j: "k = Suc j" "0 < j" using "1.prems" by (cases k; cases "k - 1") auto
    then have "length (dec_nat (n div 10)) \<le> j" using "1.IH" [OF False, of j] "1.prems" by auto
    then show ?thesis using False j by (simp add: dec_nat.simps [of n])
  qed
qed

fun encodable :: "data \<Rightarrow> bool" where
  "encodable (DBig n) = (\<bar>n\<bar> < 10 ^ 78)"
| "encodable (DArr vs) = list_all encodable vs"
| "encodable (DObj ms) = list_all (\<lambda>(k, v). k \<noteq> BIGINT_JSON_MARKER \<and> encodable v) ms"
| "encodable _ = True"

lemma those_total: "(\<And>x. x \<in> set xs \<Longrightarrow> f x \<noteq> None) \<Longrightarrow> those (map f xs) \<noteq> None"
  by (induction xs) (auto split: option.splits)

lemma encodable_encodes: "encodable v \<Longrightarrow> \<not> rejectReservedBigIntMarkers v \<and> encodeJson v \<noteq> None"
proof (induction v rule: encodable.induct)
  case (1 n)
  then have "nat \<bar>n\<bar> < 10 ^ 78" by (simp add: nat_less_iff)
  then show ?case using dec_nat_length [of "nat \<bar>n\<bar>" 78]
    by (simp add: encodeBigInt_def Let_def unsigned_text_dec_int)
next
  case (2 vs)
  then show ?case using those_total [of vs encodeJson] by (auto simp: list_all_iff list_ex_iff)
next
  case (3 ms)
  have "encodeJson v \<noteq> None \<and> \<not> rejectReservedBigIntMarkers v" if "(k, v) \<in> set ms" for k v
    using 3 that by (fastforce simp: list_all_iff)
  moreover have "\<not> isReservedBigIntMarker (DObj ms)"
    using "3.prems" by (cases "DObj ms" rule: isReservedBigIntMarker.cases) auto
  ultimately show ?case
    using those_total [of ms "\<lambda>(k, v). map_option (Pair k) (encodeJson v)"] by (auto simp: list_ex_iff)
qed simp_all

lemma encodable_json: "encodable v \<Longrightarrow> toJsonValue v \<noteq> None"
  using encodable_encodes by (simp add: toJsonValue_def)

definition example_trip :: paper_round_trip where
  "example_trip = \<lparr>rt_quoteCostRaw = 1000000, rt_baseFilledRaw = 480, rt_returnRaw = 960000, rt_lossRaw = 40000, rt_lossBps = 400\<rparr>"

definition example_hashes :: open_hashes where
  "example_hashes = \<lparr>oh_current = ''paper_open_command_'' @ zero_digest (), oh_legacy = ''paper_open_command_'' @ zero_digest ()\<rparr>"

definition example_position :: paper_position where
  "example_position = newPosition zero_digest example_open_snapshot example_trip example_hashes 8"

lemma example_quotes_encodable: "encodable (quoteData example_buy)" "encodable (quoteData paper_sell)"
  by (simp_all add: quoteData_def example_buy_def paper_sell_def example_sell_def BIGINT_JSON_MARKER_def numberData_def)

lemma example_reports_encodable: "encodable (reportData example_report)" "encodable (legacyQualificationSnapshot example_report)"
  by code_simp+

lemma hashValue_zero: "encodable v \<Longrightarrow> hashValue zero_digest namespace v = Inr (namespace @ ''_'' @ zero_digest ())"
  using encodable_json [of v] by (auto simp: hashValue_def stringifyJson_def zero_digest_def)

lemma example_hashed: "hashOpenCommand zero_digest example_open_snapshot = Inr example_hashes"
proof -
  have "encodable (openCommandData example_open_snapshot q)" if "encodable q" for q
    using that example_quotes_encodable
    by (simp add: openCommandData_def example_open_snapshot_def quoteAssetMembers_def strategyMembers_def optionalMember_def
        BIGINT_JSON_MARKER_def)
  note hashed = hashValue_zero [OF this [OF example_reports_encodable(1)]] hashValue_zero [OF this [OF example_reports_encodable(2)]]
  have "os_qualification example_open_snapshot = example_report" by (simp add: example_open_snapshot_def)
  then show ?thesis by (simp add: hashOpenCommand_def example_hashes_def hashed bindE_def)
qed

lemma example_checked: "checkOpen zero_digest example_engine example_open_snapshot (JNum (JInt 8)) = Inr (example_trip, example_hashes)"
proof -
  have "validateOpenCommand example_open_snapshot [WSOL_MINT] paper_profile (JNum (JInt 8)) = Inr ()"
    "calculateRoundTrip example_buy paper_sell = Inr example_trip"
    "validateQualificationExecutionFacts example_report 400 paper_profile = Inr ()"
    by code_simp+
  moreover have "os_qualification example_open_snapshot = example_report" "os_buyQuote example_open_snapshot = example_buy"
    "os_reverseSellQuote example_open_snapshot = paper_sell" "os_maximumRoundTripLossBps example_open_snapshot = 600"
    "rt_lossBps example_trip = 400" "en_quoteMintAllowlist example_engine = [WSOL_MINT]" "en_profile example_engine = paper_profile"
    by (simp_all add: example_open_snapshot_def example_trip_def example_engine_def)
  ultimately show ?thesis by (simp add: checkOpen_def example_hashed bindE_def require_def)
qed

lemma example_prepared: "preparedOpen zero_digest example_authority example_engine example_open (JNum (JInt 8))
    = Inr (example_open_snapshot, example_trip, example_hashes, 8)"
proof -
  have "snapshotTrigger example_trigger = Inr (os_trigger example_open_snapshot)"
    "assertValidTimestampMs OccurredAtMs (JNum (JInt 8)) = Inr 8" by code_simp+
  moreover have "snapshotQualification (rawReport example_report) = Some example_report" by code_simp
  then have "snapshotOpenCommand example_open (os_trigger example_open_snapshot) = Inr example_open_snapshot"
    by (simp add: snapshotOpenCommand_def example_open_def example_open_snapshot_def)
  moreover have "isAuthorized example_authority (oc_report example_open) (JStr (oc_mint example_open)) (JStr (tg_id (os_trigger example_open_snapshot)))"
    "oc_trigger example_open = example_trigger" "requirePaperMode example_engine = Inr ()"
    by (simp_all add: isAuthorized_def example_authority_def example_open_def example_open_snapshot_def requirePaperMode_def example_engine_def require_def)
  ultimately show ?thesis by (simp add: preparedOpen_def example_checked bindE_def require_def)
qed

lemma example_rows_encodable:
  "encodable (positionData example_position)" "encodable (tradeData (entryTrade zero_digest example_open_snapshot 8))"
  by code_simp+

text \<open>The event of the entry, and the database after it.\<close>

definition example_entry_event :: paper_event where
  "example_entry_event = createPaperEvent zero_digest PaperPositionOpened example_position
     (entryTrade zero_digest example_open_snapshot 8) (os_trigger example_open_snapshot) None"

lemma example_inserted: "\<exists>db. insertOpenedRows example_position (entryTrade zero_digest example_open_snapshot 8) example_entry_event
    None None empty_db = Inr ((), db)"
proof -
  obtain j where j: "toJsonValue (positionData example_position) = Some j"
    using encodable_json [OF example_rows_encodable(1)] by blast
  obtain k where k: "toJsonValue (tradeData (entryTrade zero_digest example_open_snapshot 8)) = Some k"
    using encodable_json [OF example_rows_encodable(2)] by blast
  have "encodable (DObj [(''position'', positionData example_position), (''trade'', tradeData (entryTrade zero_digest example_open_snapshot 8))])"
    using example_rows_encodable by (simp add: BIGINT_JSON_MARKER_def)
  then obtain l where l: "toJsonValue (DObj [(''position'', positionData example_position),
      (''trade'', tradeData (entryTrade zero_digest example_open_snapshot 8))]) = Some l"
    using encodable_json by blast
  have "positionRowChecks (positionRow example_position j None None)" by code_simp
  then have row: "insertPosition example_position None None empty_db
      = Inr ((), empty_db\<lparr>db_positions := [positionRow example_position j None None]\<rparr>)"
    using j by (simp add: insertPosition_def bindT_def bindE_def jsonParam_def liftT_def requireT_def require_def empty_db_def
        example_position_def newPosition_def example_open_snapshot_def dateParam_def optDateParam_def entryDecisionOf_def positionRow_def Let_def)
  have trade: "insertTrade (entryTrade zero_digest example_open_snapshot 8) (empty_db\<lparr>db_positions := [positionRow example_position j None None]\<rparr>)
      = Inr ((), empty_db\<lparr>db_positions := [positionRow example_position j None None], db_trades := [entryTrade zero_digest example_open_snapshot 8]\<rparr>)"
    using k by (simp add: insertTrade_def bindT_def bindE_def jsonParam_def liftT_def requireT_def require_def empty_db_def dateParam_def
        entryTrade_def example_open_snapshot_def example_buy_def positionRow_def example_position_def newPosition_def Let_def)
  have "optDateParam (pe_blockchainTimeMs example_entry_event)" "dateParam (pe_observedAtMs example_entry_event)"
    "cursorParams (pe_cursor example_entry_event)" by code_simp+
  moreover have "pe_position example_entry_event = example_position" "pe_trade example_entry_event = entryTrade zero_digest example_open_snapshot 8"
    by (simp_all add: example_entry_event_def createPaperEvent_def)
  ultimately have "\<exists>db'. insertEvent example_entry_event None None db = Inr ((), db')" for db
    using l by (simp add: insertEvent_def bindT_def bindE_def jsonParam_def liftT_def requireT_def require_def optDateParam_def)
  then show ?thesis by (simp add: insertOpenedRows_def bindT_def row trade bindE_def)
qed

lemma example_opened: "\<exists>db. paperCall zero_digest postgresRepository example_authority example_engine (OpenCall example_open)
    (JNum (JInt 8)) (JNum (JInt 9)) empty_db = (Inr example_position, db)"
proof -
  have "os_expectedCurrentQualification example_open_snapshot = None" "rejectOrphanedTrigger (os_trigger example_open_snapshot) = Inr ()"
    "entryDecisionOf example_open_snapshot = None"
    by (simp_all add: example_open_snapshot_def rejectOrphanedTrigger_def require_def entryDecisionOf_def)
  moreover have "findPositionRow i empty_db = Inr (None, empty_db)" "findActivePositionRow m st empty_db = Inr (None, empty_db)" for i m st
    by (simp_all add: findPositionRow_def findActivePositionRow_def empty_db_def)
  ultimately show ?thesis
    using example_inserted
    by (auto simp: paperCall_def paperOpen_def example_prepared transact_def openTransaction_def openOrReplay_def bindT_def bindE_def
        returnT_def liftT_def postgres_operations Let_def example_entry_event_def example_position_def)
qed
subsection \<open>Every call is a step of the ledger\<close>

text \<open>
  C21. Refinement. A call of the paper engine on the database either fails and leaves the database as it
  was, or is one step of the abstract ledger: it keeps the positions and trades, opens a position
  where none is held for the mint and strategy and records the one purchase that paid for it, closes a
  held position with the one sale of all it holds and books the result of that sale, or retracts a
  position without touching its terms. The database invariant is kept.
\<close>

theorem paper_call_refines_ledger:
  assumes "store_inv db" and "0 \<le> retentionMs engine" and "clock_ok engine later (stored_position db)"
    and "proper_authority authority"
  shows "case paperCall sha256 postgresRepository authority engine call now later db of
      (Inl e, db') \<Rightarrow> db' = db
    | (Inr q, db') \<Rightarrow> store_inv db' \<and> ledger_step (stored_position db, db_trades db) q (stored_position db', db_trades db')"
proof (cases "paperCall sha256 postgresRepository authority engine call now later db")
  case (Pair r db')
  then show ?thesis
    using call_rolls_back [of sha256 postgresRepository authority engine call now later db] pg.call_refines [OF assms, of sha256 call now]
    by (cases r) simp_all
qed

lemma empty_db_stores: "store_inv empty_db" "stored_position empty_db = Map.empty" "db_trades empty_db = []"
  by (simp_all add: store_inv_def stored_position_def empty_db_def fun_eq_iff)

lemma example_authority_proper: "proper_authority example_authority"
  by (simp add: proper_authority_def example_authority_def)

theorem paper_call_refines_ledger_witness:
  "\<exists>db. paperCall zero_digest postgresRepository example_authority example_engine (OpenCall example_open)
       (JNum (JInt 8)) (JNum (JInt 9)) empty_db = (Inr example_position, db)
     \<and> ledger_step (Map.empty, []) example_position (stored_position db, db_trades db)"
proof -
  have "0 \<le> retentionMs example_engine" "clock_ok example_engine (JNum (JInt 9)) (stored_position empty_db)"
    by (simp_all add: example_engine_def retentionMs_def clock_ok_def empty_db_stores)
  then show ?thesis
    using example_opened empty_db_stores
      paper_call_refines_ledger [of empty_db example_engine "JNum (JInt 9)" example_authority zero_digest "OpenCall example_open"
        "JNum (JInt 8)", OF _ _ _ example_authority_proper]
    by fastforce
qed

subsection \<open>Every reachable database\<close>

text \<open>The retention purge: the trades of the positions whose retention is over, then these positions.\<close>

definition purgeDue :: "int \<Rightarrow> position_row \<Rightarrow> bool" where
  "purgeDue now row = (case pr_purgeAfter row of None \<Rightarrow> False | Some purgeAfter \<Rightarrow> purgeAfter \<le> now)"

definition purgePaperRows :: "int \<Rightarrow> paper_db \<Rightarrow> paper_db" where
  "purgePaperRows now db = db
     \<lparr>db_trades := filter (\<lambda>trade. \<not> list_ex (\<lambda>row. pt_positionId trade = pr_positionId row \<and> purgeDue now row) (db_positions db))
        (db_trades db),
      db_positions := filter (\<lambda>row. \<not> purgeDue now row) (db_positions db)\<rparr>"

lemma purge_positions:
  assumes "store_inv db" and "stored_position (purgePaperRows now db) i = Some p"
  shows "stored_position db i = Some p" and "list_all (\<lambda>row. pr_positionId row = i \<longrightarrow> \<not> purgeDue now row) (db_positions db)"
proof -
  have kept: "store_inv (purgePaperRows now db)" using assms(1) by (auto simp: store_inv_def purgePaperRows_def distinct_map_filter)
  obtain row where row: "row \<in> set (db_positions db)" "\<not> purgeDue now row" "pr_positionId row = i" "rowHolds row p" "valid_position p"
    using iffD1 [OF stored_position_iff [OF kept] assms(2)] by (auto simp: purgePaperRows_def)
  then show "stored_position db i = Some p" using stored_position_iff [OF assms(1)] by blast
  have "other = row" if "other \<in> set (db_positions db)" "pr_positionId other = i" for other
    using assms(1) row(1,3) that unfolding store_inv_def by (metis distinct_map inj_onD)
  then show "list_all (\<lambda>row. pr_positionId row = i \<longrightarrow> \<not> purgeDue now row) (db_positions db)"
    using row(2) by (auto simp: list_all_iff)
qed

lemma purge_keeps:
  assumes inv: "store_inv db" and ok: "ledger_ok (stored_position db, db_trades db)"
  shows "store_inv (purgePaperRows now db) \<and> ledger_ok (stored_position (purgePaperRows now db), db_trades (purgePaperRows now db))"
proof -
  have kept: "store_inv (purgePaperRows now db)" using inv by (auto simp: store_inv_def purgePaperRows_def distinct_map_filter)
  note purged = purge_positions [OF inv]
  have trades: "trades_of i side (db_trades (purgePaperRows now db)) = trades_of i side (db_trades db)"
    if "stored_position (purgePaperRows now db) i = Some p" for i p side
    using purged(2) [OF that] unfolding trades_of_def
    by (auto simp: purgePaperRows_def list_ex_iff list_all_iff intro!: filter_cong)
  have books: "books_balance p (db_trades (purgePaperRows now db))" if "stored_position (purgePaperRows now db) i = Some p" for i p
  proof -
    have p: "books_balance p (db_trades db)" "pp_id p = i" using ok purged(1) [OF that] by auto
    show ?thesis using p(1) unfolding books_balance_def p(2) trades [OF that] .
  qed
  have owner: "stored_position (purgePaperRows now db) (pt_positionId t) \<noteq> None" if t: "t \<in> set (db_trades (purgePaperRows now db))" for t
  proof -
    have "t \<in> set (db_trades db)" using t by (simp add: purgePaperRows_def)
    then obtain p where "stored_position db (pt_positionId t) = Some p" using ok by auto
    then obtain row where row: "row \<in> set (db_positions db)" "pr_positionId row = pt_positionId t" "rowHolds row p" "valid_position p"
      using iffD1 [OF stored_position_iff [OF inv]] by blast
    then have "row \<in> set (db_positions (purgePaperRows now db))" using t by (auto simp: purgePaperRows_def list_ex_iff)
    then have "stored_position (purgePaperRows now db) (pt_positionId t) = Some p" using row stored_position_iff [OF kept] by blast
    then show ?thesis by simp
  qed
  have unique: "i = j" if "stored_position (purgePaperRows now db) i = Some p" "stored_position (purgePaperRows now db) j = Some q"
      "holds_for (pp_mint q) (pp_strategy q) p" "pp_status q = PAPER_HOLDING" for i j p q
    using ok purged(1) [OF that(1)] purged(1) [OF that(2)] that(3,4) by auto
  have "pp_id p = i \<and> valid_position p" if "stored_position (purgePaperRows now db) i = Some p" for i p
    using ok purged(1) [OF that] by auto
  then show ?thesis using kept books owner unique unfolding ledger_ok.simps by blast
qed

text \<open>The databases that engines built by the constructors of the code reach from empty tables of
  positions and trades, with the retention purge at any time. Between two calls other parts of the system may
  write every other table. The clock of a call may be behind earlier closing times by no more than the
  retention period (\<open>clock_ok\<close>): this is assumed of the clock, the code does not check it.\<close>

inductive paper_reachable :: "(string \<Rightarrow> string) \<Rightarrow> paper_db \<Rightarrow> bool" for sha256 where
  start: "db_positions db = [] \<Longrightarrow> db_trades db = [] \<Longrightarrow> paper_reachable sha256 db"
| elsewhere: "\<lbrakk>paper_reachable sha256 db; db_positions db' = db_positions db; db_trades db' = db_trades db\<rbrakk> \<Longrightarrow>
    paper_reachable sha256 db'"
| call: "\<lbrakk>paper_reachable sha256 db; newPaperTradingEngine sha256 mode allowlist hours profile = Some engine;
    newQualificationEngine sha256 authorityProfile = Some authority; clock_ok engine later (stored_position db);
    paperCall sha256 postgresRepository (snd (engineCalls evaluations authority)) engine request now later db = (r, db')\<rbrakk> \<Longrightarrow>
    paper_reachable sha256 db'"
| purge: "paper_reachable sha256 db \<Longrightarrow> paper_reachable sha256 (purgePaperRows now db)"

lemma newPaperTradingEngine_retention:
  "newPaperTradingEngine sha256 mode allowlist hours profile = Some engine \<Longrightarrow> 0 \<le> retentionMs engine"
  unfolding newPaperTradingEngine_def result_simps by (auto simp: retentionMs_def result_simps split: if_splits)

lemma reachable_ledger:
  "paper_reachable sha256 db \<Longrightarrow> store_inv db \<and> ledger_ok (stored_position db, db_trades db)"
proof (induction rule: paper_reachable.induct)
  case (start db)
  then have "stored_position db = Map.empty" "store_inv db" by (simp_all add: stored_position_def store_inv_def fun_eq_iff)
  then show ?case using start ledger_start by simp
next
  case (elsewhere db db')
  then show ?case using same_positions [of db' db] by simp
next
  case (call db mode allowlist hours profile engine authorityProfile authority later evaluations request now r db')
  show ?case
  proof (cases r)
    case (Inl e)
    then have "db' = db" using call_rolls_back call.hyps(5) by simp
    then show ?thesis using call.IH by simp
  next
    case (Inr q)
    have "store_inv db' \<and> ledger_step (stored_position db, db_trades db) q (stored_position db', db_trades db')"
      using pg.call_refines [OF _ newPaperTradingEngine_retention [OF call.hyps(2)] call.hyps(4)
          engineCalls_proper [OF newEngine_proper [OF call.hyps(3)]]] call.IH call.hyps(5) Inr by blast
    then show ?thesis using ledger_step_ok call.IH by blast
  qed
next
  case (purge db now)
  then show ?case using purge_keeps by blast
qed

text \<open>
  C20. The books of a paper session always balance. In every reachable database each row of the
  positions table is decoded by the repository; the position it holds has exactly one purchase, of all
  its base for all its cost, and either no sale and all of its base still held, or exactly one sale of
  all its base whose guaranteed proceeds minus the cost are its net result. No mint and strategy
  has two held positions, and every trade belongs to a stored position.
\<close>

theorem paper_books_balance:
  assumes "paper_reachable sha256 db"
  shows "(\<forall>row \<in> set (db_positions db). \<exists>p. decodePosition row = Some p \<and> books_balance p (db_trades db))
    \<and> (\<forall>mint strategy. length (filter (active_row mint strategy) (db_positions db)) \<le> 1)
    \<and> (\<forall>t \<in> set (db_trades db). \<exists>row \<in> set (db_positions db). pr_positionId row = pt_positionId t)"
proof (intro conjI allI ballI)
  note inv = conjunct1 [OF reachable_ledger [OF assms]] and ok = conjunct2 [OF reachable_ledger [OF assms]]
  show "\<exists>p. decodePosition row = Some p \<and> books_balance p (db_trades db)" if "row \<in> set (db_positions db)" for row
    using stored_row [OF inv that] ok by (metis ledger_ok.simps)
  show "length (filter (active_row mint strategy) (db_positions db)) \<le> 1" for mint strategy
  proof (rule ccontr)
    assume many: "\<not> ?thesis"
    have "distinct (filter (active_row mint strategy) (db_positions db))"
      using inv unfolding store_inv_def by (simp add: distinct_map)
    then obtain a b where "a \<noteq> b" "a \<in> set (filter (active_row mint strategy) (db_positions db))"
      "b \<in> set (filter (active_row mint strategy) (db_positions db))"
      using many by (cases "filter (active_row mint strategy) (db_positions db)" rule: remdups_adj.cases) auto
    then show False using active_row_unique [OF inv, of a b mint strategy] by auto
  qed
  show "\<exists>row \<in> set (db_positions db). pr_positionId row = pt_positionId t" if t: "t \<in> set (db_trades db)" for t
  proof -
    obtain p where "stored_position db (pt_positionId t) = Some p" using ok t by auto
    then show ?thesis using iffD1 [OF stored_position_iff [OF inv]] by blast
  qed
qed

lemma example_engines:
  "newPaperTradingEngine zero_digest PaperMode [WSOL_MINT] (JNum (JInt 1)) (profileObject paper_profile) = Some example_engine"
  "newQualificationEngine zero_digest (profileObject paper_profile)
     = Some \<lparr>eg_profile = paper_profile, eg_nextReport = 0, eg_authorizedReports = Map.empty\<rparr>"
  "snd (engineCalls [EvaluateAuthorized (JStr ''mint'') (JStr ''t'') paper_evaluation]
     \<lparr>eg_profile = paper_profile, eg_nextReport = 0, eg_authorizedReports = Map.empty\<rparr>) = example_authority"
proof -
  have profile: "assertValidEffectiveQualificationProfile zero_digest (profileObject paper_profile) = Some paper_profile"
    using example_profile_accepted by (simp add: paper_profile_def)
  have "js_safe_int (JNum (JInt 1)) = Some 1" by code_simp
  with profile show "newPaperTradingEngine zero_digest PaperMode [WSOL_MINT] (JNum (JInt 1)) (profileObject paper_profile) = Some example_engine"
    by (simp add: newPaperTradingEngine_def example_engine_def)
  show "newQualificationEngine zero_digest (profileObject paper_profile)
      = Some \<lparr>eg_profile = paper_profile, eg_nextReport = 0, eg_authorizedReports = Map.empty\<rparr>"
    using profile by (simp add: newQualificationEngine_def)
  have "evaluateReport paper_profile paper_evaluation \<noteq> None" by code_simp
  moreover have "snapshotReportSubject (JStr ''mint'') (JStr ''t'') = Some \<lparr>rp_mint = ''mint'', rp_triggerEventId = ''t''\<rparr>" by code_simp
  ultimately show "snd (engineCalls [EvaluateAuthorized (JStr ''mint'') (JStr ''t'') paper_evaluation]
      \<lparr>eg_profile = paper_profile, eg_nextReport = 0, eg_authorizedReports = Map.empty\<rparr>) = example_authority"
    by (auto simp: evaluateAuthorized_def evaluate_def example_authority_def)
qed

lemma example_reachable: "\<exists>db. paper_reachable zero_digest db \<and> stored_position db (pp_id example_position) = Some example_position"
proof -
  obtain db where db: "paperCall zero_digest postgresRepository example_authority example_engine (OpenCall example_open)
      (JNum (JInt 8)) (JNum (JInt 9)) empty_db = (Inr example_position, db)"
    using example_opened by blast
  have start: "paper_reachable zero_digest empty_db" by (rule paper_reachable.start) (simp_all add: empty_db_def)
  have clock: "clock_ok example_engine (JNum (JInt 9)) (stored_position empty_db)" by (simp add: clock_ok_def empty_db_stores)
  have "paper_reachable zero_digest db"
    by (rule paper_reachable.call [OF start example_engines(1,2) clock db [folded example_engines(3)]])
  moreover have "ledger_step (stored_position empty_db, db_trades empty_db) example_position (stored_position db, db_trades db)"
    using pg.call_refines [OF empty_db_stores(1) newPaperTradingEngine_retention [OF example_engines(1)] clock example_authority_proper db] by simp
  then have "stored_position db (pp_id example_position) = Some example_position"
    by (cases rule: ledger_step.cases) simp_all
  ultimately show ?thesis by blast
qed

theorem paper_books_balance_witness:
  "\<exists>db row. paper_reachable zero_digest db \<and> row \<in> set (db_positions db) \<and> decodePosition row \<noteq> None"
proof -
  obtain db where db: "paper_reachable zero_digest db" "stored_position db (pp_id example_position) = Some example_position"
    using example_reachable by blast
  then obtain row where "row \<in> set (db_positions db)"
    using iffD1 [OF stored_position_iff db(2)] reachable_ledger [OF db(1)] by blast
  then show ?thesis using paper_books_balance [OF db(1)] db(1) by blast
qed

subsection \<open>What an entry has passed\<close>

lemma preparedOpen_snapshot:
  assumes "preparedOpen sha256 authority engine command now = Inr (snapshot, trip, hashes, t)"
  shows "en_executionMode engine = PaperMode" "os_quoteAsset snapshot = oc_quoteAsset command" "os_buyQuote snapshot = oc_buyQuote command"
    "os_reverseSellQuote snapshot = oc_reverseSellQuote command" "os_mint snapshot = oc_mint command"
    "os_maximumRoundTripLossBps snapshot = oc_maximumRoundTripLossBps command"
    "tg_id (os_trigger snapshot) = dv_id (oc_trigger command)"
    "oc_strategySessionId command \<noteq> None \<Longrightarrow> os_expectedCurrentQualification snapshot
       = Some (case oc_expectedCurrentQualification command of Some q \<Rightarrow> q | None \<Rightarrow> \<lparr>cq_mint = [], cq_reportId = [], cq_qualificationEventId = []\<rparr>)"
    "os_strategySessionId snapshot = oc_strategySessionId command"
    "oc_strategySessionId command \<noteq> None \<Longrightarrow> os_qualificationReportId snapshot = oc_qualificationReportId command"
proof -
  from assms obtain trigger where trigger: "snapshotTrigger (oc_trigger command) = Inr trigger"
    and snap: "snapshotOpenCommand command trigger = Inr snapshot" and mode: "requirePaperMode engine = Inr ()"
    unfolding preparedOpen_def result_simps by (auto simp: result_simps)
  have "tg_id trigger = dv_id (oc_trigger command)" using trigger unfolding snapshotTrigger_def result_simps by auto
  then show "en_executionMode engine = PaperMode" "os_quoteAsset snapshot = oc_quoteAsset command" "os_buyQuote snapshot = oc_buyQuote command"
    "os_reverseSellQuote snapshot = oc_reverseSellQuote command" "os_mint snapshot = oc_mint command"
    "os_maximumRoundTripLossBps snapshot = oc_maximumRoundTripLossBps command"
    "tg_id (os_trigger snapshot) = dv_id (oc_trigger command)"
    "oc_strategySessionId command \<noteq> None \<Longrightarrow> os_expectedCurrentQualification snapshot
       = Some (case oc_expectedCurrentQualification command of Some q \<Rightarrow> q | None \<Rightarrow> \<lparr>cq_mint = [], cq_reportId = [], cq_qualificationEventId = []\<rparr>)"
    "os_strategySessionId snapshot = oc_strategySessionId command"
    "oc_strategySessionId command \<noteq> None \<Longrightarrow> os_qualificationReportId snapshot = oc_qualificationReportId command"
    using snap mode by (auto simp: snapshotOpenCommand_def requirePaperMode_def require_def split: option.splits if_splits)
qed

lemma paperOpen_prepared:
  assumes "paperOpen sha256 repo authority engine command now later db = (Inr q, db')"
  obtains snapshot trip hashes t where "preparedOpen sha256 authority engine command now = Inr (snapshot, trip, hashes, t)"
    and "openTransaction sha256 repo engine later snapshot trip hashes t db = Inr (q, db')"
  using assms by (auto simp: paperOpen_def transact_Inr split: sum.splits prod.splits)

lemma executionFacts_loss:
  assumes "validateQualificationExecutionFacts report loss profile = Inr ()"
    and "policyMap (qp_conditionPolicies (qp_fields profile)) ROUND_TRIP_LOSS_EXCEEDED_reason = Some p" and "cp_mode p = ENFORCED"
  shows "observedFact (conditionMap (qr_conditions report) ROUND_TRIP_LOSS_EXCEEDED_reason) ''roundTripLossBps'' = Some (DBig loss)
    \<and> (\<exists>limit. cp_maximumRoundTripLossBps p = Some limit \<and> loss \<le> limit)"
  using assms by (auto simp: validateQualificationExecutionFacts_def Let_def split: option.splits if_splits)

lemma session_current:
  assumes "preparedOpen sha256 authority engine command now = Inr (snapshot, trip, hashes, t)" and "oc_strategySessionId command \<noteq> None"
    and "openTransaction sha256 postgresRepository engine later snapshot trip hashes t db = Inr (q, db')"
  shows "\<exists>current. oc_expectedCurrentQualification command = Some current \<and> cq_mint current = oc_mint command
    \<and> Some (cq_reportId current) = oc_qualificationReportId command \<and> cq_qualificationEventId current = dv_id (oc_trigger command)
    \<and> requireCurrentRows current db = Inr ((), db)"
proof -
  note ok = preparedOpen_ok [OF assms(1)] and s = preparedOpen_snapshot [OF assms(1)]
  obtain cq where cq: "os_expectedCurrentQualification snapshot = Some cq" "cq_mint cq = oc_mint command"
    "Some (cq_reportId cq) = oc_qualificationReportId command" "cq_qualificationEventId cq = dv_id (oc_trigger command)"
    using checkOpen_ok(5) [OF ok(1)] s assms(2)
    by (auto simp: validateLineage_def Let_def require_def bindE_def split: if_splits option.splits)
  have "oc_mint command \<noteq> []" using checkOpen_ok(2) [OF ok(1)] s(5) by simp
  then have "oc_expectedCurrentQualification command = Some cq" using cq(1,2) s(8) [OF assms(2)] by (auto split: option.splits)
  moreover have "requireCurrentRows cq db = Inr ((), db)"
    using assms(3) cq(1) requireCurrentRows_reads [of cq db]
    by (fastforce simp: openTransaction_def result_simps postgres_operations)
  ultimately show ?thesis using cq by blast
qed

lemma preparedOpen_expected:
  assumes "preparedOpen sha256 authority engine command now = Inr (snapshot, trip, hashes, t)"
  shows "os_expectedCurrentQualification snapshot = None
    \<or> os_expectedCurrentQualification snapshot = oc_expectedCurrentQualification command"
proof (cases "oc_strategySessionId command")
  case None
  from assms obtain trigger where "snapshotOpenCommand command trigger = Inr snapshot"
    unfolding preparedOpen_def result_simps by (auto simp: result_simps)
  then show ?thesis using None by (auto simp: snapshotOpenCommand_def split: option.splits)
next
  case (Some session)
  then have session: "oc_strategySessionId command \<noteq> None" by simp
  have "os_mint snapshot \<noteq> []" "validateLineage snapshot = Inr ()" using checkOpen_ok [OF preparedOpen_ok(1) [OF assms]] by blast+
  then show ?thesis
    using Some preparedOpen_snapshot(8) [OF assms session] preparedOpen_snapshot(9) [OF assms]
    by (auto simp: validateLineage_def Let_def require_def bindE_def split: option.splits if_splits)
qed

lemma openTransaction_current:
  assumes "preparedOpen sha256 authority engine command now = Inr (snapshot, trip, hashes, t)"
    and "\<forall>current. oc_expectedCurrentQualification command = Some current \<longrightarrow> requireCurrentRows current db = Inr ((), db)"
  shows "openTransaction sha256 postgresRepository engine later snapshot trip hashes t db
    = openOrReplay sha256 postgresRepository engine later snapshot trip hashes t db"
  using preparedOpen_expected [OF assms(1)] assms(2)
  by (auto simp: openTransaction_def bindT_def bindE_def returnT_def postgres_operations split: option.splits)

lemma openTransaction_replays:
  "openTransaction sha256 postgresRepository engine later snapshot trip hashes t db = Inr (q, db')
     \<Longrightarrow> openOrReplay sha256 postgresRepository engine later snapshot trip hashes t db = Inr (q, db')"
  unfolding openTransaction_def bindT_eq_Inr postgres_operations
  by (auto dest: requireCurrentRows_reads split: option.splits)

text \<open>
  C22. No entry without its guards. When opening a position succeeds, the engine runs in paper mode; the
  report was issued by the qualification engine for exactly this mint and trigger event; as the paper
  engine snapshots it, the report matches the engine's profile, has no blocker and is QUALIFIED; the quote mint
  is allowed; the two quotes form a round trip whose loss is within the limit of the command and, where
  the profile enforces the condition, is the loss the report was issued for and within the limit of the
  profile; and an entry of a strategy session relied on a qualification that is current in the database.
\<close>

theorem paper_entry_guarded:
  assumes "paperOpen sha256 postgresRepository authority engine command now later db = (Inr q, db')"
  shows "en_executionMode engine = PaperMode
    \<and> isAuthorized authority (oc_report command) (JStr (oc_mint command)) (JStr (dv_id (oc_trigger command)))
    \<and> qa_mint (oc_quoteAsset command) \<in> set (en_quoteMintAllowlist engine)
    \<and> (\<exists>report trip. snapshotQualification (oc_qualification command) = Some report
        \<and> validateQualificationReport report (en_profile engine) \<and> qr_blockers report = [] \<and> qr_verdict report = QUALIFIED
        \<and> calculateRoundTrip (oc_buyQuote command) (oc_reverseSellQuote command) = Inr trip
        \<and> rt_lossBps trip \<le> oc_maximumRoundTripLossBps command
        \<and> (\<forall>p. policyMap (qp_conditionPolicies (qp_fields (en_profile engine))) ROUND_TRIP_LOSS_EXCEEDED_reason = Some p
            \<longrightarrow> cp_mode p = ENFORCED \<longrightarrow> observedFact (conditionMap (qr_conditions report) ROUND_TRIP_LOSS_EXCEEDED_reason)
                  ''roundTripLossBps'' = Some (DBig (rt_lossBps trip))
                \<and> (\<exists>limit. cp_maximumRoundTripLossBps p = Some limit \<and> rt_lossBps trip \<le> limit)))
    \<and> (oc_strategySessionId command \<noteq> None \<longrightarrow> (\<exists>current. oc_expectedCurrentQualification command = Some current
        \<and> cq_mint current = oc_mint command \<and> Some (cq_reportId current) = oc_qualificationReportId command
        \<and> cq_qualificationEventId current = dv_id (oc_trigger command) \<and> requireCurrentRows current db = Inr ((), db)))"
proof -
  obtain snapshot trip hashes t where prep: "preparedOpen sha256 authority engine command now = Inr (snapshot, trip, hashes, t)"
    and tx: "openTransaction sha256 postgresRepository engine later snapshot trip hashes t db = Inr (q, db')"
    by (rule paperOpen_prepared [OF assms])
  note ok = preparedOpen_ok [OF prep] and s = preparedOpen_snapshot [OF prep]
  have allowed: "entry_allowed engine snapshot trip" by (rule checkOpen_ok(1) [OF ok(1)])
  then show ?thesis
    using ok(3,4) s session_current [OF prep _ tx]
      executionFacts_loss [of "os_qualification snapshot" "rt_lossBps trip" "en_profile engine"]
    unfolding entry_allowed_def by simp
qed

theorem paper_entry_guarded_witness:
  "\<exists>db. paperOpen zero_digest postgresRepository example_authority example_engine example_open (JNum (JInt 8)) (JNum (JInt 9)) empty_db
       = (Inr example_position, db)
     \<and> isAuthorized example_authority (oc_report example_open) (JStr (oc_mint example_open)) (JStr (dv_id (oc_trigger example_open)))"
proof -
  obtain db where db: "paperOpen zero_digest postgresRepository example_authority example_engine example_open (JNum (JInt 8))
      (JNum (JInt 9)) empty_db = (Inr example_position, db)"
    using example_opened by (auto simp: paperCall_def)
  with paper_entry_guarded [OF db] show ?thesis by blast
qed

subsection \<open>Repeating an entry\<close>

lemma replay_same_position:
  assumes "reconcileOpenReplay sha256 repo engine later p hashes trigger entry db = Inr (q, db')"
  shows "pp_id q = pp_id p"
  using assms by (auto simp: reconcileOpenReplay_def retractPosition_def result_simps Let_def split: if_splits)

lemma fresh_open:
  assumes "store_inv db" and "stored_position db (pp_id q) = None"
    and "openOrReplay sha256 postgresRepository engine later snapshot trip hashes t db = Inr (q, db')"
  shows "q = newPosition sha256 snapshot trip hashes t" and "tg_confirmationStatus (os_trigger snapshot) \<noteq> Orphaned"
    and "insertOpenedRows q (entryTrade sha256 snapshot t)
      (createPaperEvent sha256 PaperPositionOpened q (entryTrade sha256 snapshot t) (os_trigger snapshot) None)
      (pp_entryDecisionAtMs q) (pp_entryDecisionJobId q) db = Inr ((), db')"
proof -
  from findActivePositionRow_exact [OF assms(1), of "os_mint snapshot" "os_strategy snapshot"] obtain active
    where active: "findActivePositionRow (os_mint snapshot) (os_strategy snapshot) db = Inr (active, db)"
      "\<forall>p. active = Some p \<longleftrightarrow> (\<exists>i. stored_position db i = Some p \<and> holds_for (os_mint snapshot) (os_strategy snapshot) p)"
    by (elim exE conjE)
  have stored: "stored_position db (pp_id p) = Some p" if p: "stored_position db i = Some p" for i p
    using stored_accepted(1) [OF assms(1) p] p by simp
  have none: "stored_position db (snapshotPositionId sha256 snapshot) = None"
  proof (rule ccontr)
    assume "\<not> ?thesis"
    then obtain p where p: "stored_position db (snapshotPositionId sha256 snapshot) = Some p" by blast
    then have "openOrReplay sha256 postgresRepository engine later snapshot trip hashes t db
        = reconcileOpenReplay sha256 postgresRepository engine later p hashes (os_trigger snapshot) (entryDecisionOf snapshot) db"
      by (simp add: openOrReplay_def Let_def bindT_def bindE_def postgres_operations findPositionRow_exact [OF assms(1)])
    then have "pp_id q = pp_id p" using assms(3) replay_same_position by metis
    then show False using stored [OF p] assms(2) by simp
  qed
  have "active = None"
  proof (cases active)
    case (Some p)
    then have p: "stored_position db (pp_id p) = Some p" using iffD1 [OF spec [OF active(2)] Some] stored by blast
    then have "pp_id p \<noteq> snapshotPositionId sha256 snapshot" using none by auto
    then have "openOrReplay sha256 postgresRepository engine later snapshot trip hashes t db = Inl POSITION_CONFLICT"
      using none active(1) Some
      by (simp add: openOrReplay_def Let_def bindT_def bindE_def failT_def postgres_operations findPositionRow_exact [OF assms(1)])
    then show ?thesis using assms(3) by simp
  qed simp
  then have "openOrReplay sha256 postgresRepository engine later snapshot trip hashes t db
    = (let p = newPosition sha256 snapshot trip hashes t; trade = entryTrade sha256 snapshot t in
       bindT (liftT (rejectOrphanedTrigger (os_trigger snapshot))) (\<lambda>_.
       bindT (insertOpenedRows p trade (createPaperEvent sha256 PaperPositionOpened p trade (os_trigger snapshot) None)
         (map_option fst (entryDecisionOf snapshot)) (map_option snd (entryDecisionOf snapshot))) (\<lambda>_. returnT p)) db)"
    using none active(1)
    by (simp add: openOrReplay_def Let_def bindT_def [of "findPositionRow i" for i] bindT_def [of "findActivePositionRow m st" for m st]
        bindE_def postgres_operations findPositionRow_exact [OF assms(1)])
  with assms(3) have run: "q = newPosition sha256 snapshot trip hashes t \<and> rejectOrphanedTrigger (os_trigger snapshot) = Inr ()
      \<and> insertOpenedRows (newPosition sha256 snapshot trip hashes t) (entryTrade sha256 snapshot t)
      (createPaperEvent sha256 PaperPositionOpened (newPosition sha256 snapshot trip hashes t) (entryTrade sha256 snapshot t) (os_trigger snapshot) None)
      (map_option fst (entryDecisionOf snapshot)) (map_option snd (entryDecisionOf snapshot)) db = Inr ((), db')"
    unfolding Let_def by (simp add: bindT_eq_Inr liftT_eq_Inr)
  show q: "q = newPosition sha256 snapshot trip hashes t" using run by blast
  show "tg_confirmationStatus (os_trigger snapshot) \<noteq> Orphaned"
    using run by (simp add: rejectOrphanedTrigger_def require_def split: if_splits)
  have "map_option fst (entryDecisionOf snapshot) = pp_entryDecisionAtMs q" "map_option snd (entryDecisionOf snapshot) = pp_entryDecisionJobId q"
    by (simp_all add: q newPosition_def)
  then show "insertOpenedRows q (entryTrade sha256 snapshot t)
      (createPaperEvent sha256 PaperPositionOpened q (entryTrade sha256 snapshot t) (os_trigger snapshot) None)
      (pp_entryDecisionAtMs q) (pp_entryDecisionJobId q) db = Inr ((), db')"
    using run unfolding q by simp
qed

lemma insertOpenedRows_event:
  assumes "insertOpenedRows p t e at job db = Inr (u, db')" and "\<forall>row \<in> set (db_events db). ew_eventId row \<noteq> pe_id e"
  shows "\<exists>row. filter (\<lambda>w. ew_eventId w = pe_id e) (db_events db') = [row] \<and> ew_confirmationStatus row = pe_confirmationStatus e"
    and "optDateParam (pe_blockchainTimeMs e)" and "dateParam (pe_observedAtMs e)"
proof -
  from assms(1) obtain u1 db1 u2 db2 where w: "insertPosition p at job db = Inr (u1, db1)"
    "insertTrade t db1 = Inr (u2, db2)" "insertEvent e None None db2 = Inr (u, db')"
    unfolding insertOpenedRows_def result_simps by auto
  have "db_events db1 = db_events db" using w(1) by (rule insertPosition_changes) simp
  then have "db_events db2 = db_events db" by (simp add: insertTrade_changes [OF w(2)])
  then have "\<not> list_ex (\<lambda>row. ew_eventId row = pe_id e) (db_events db2)" "filter (\<lambda>w. ew_eventId w = pe_id e) (db_events db2) = []"
    using assms(2) by (simp_all add: list_ex_iff filter_empty_conv)
  then show "\<exists>row. filter (\<lambda>w. ew_eventId w = pe_id e) (db_events db') = [row] \<and> ew_confirmationStatus row = pe_confirmationStatus e"
    "optDateParam (pe_blockchainTimeMs e)" "dateParam (pe_observedAtMs e)"
    using w(3) unfolding insertEvent_def result_simps by auto
qed

lemma reconcileEventRow_same:
  assumes "filter (\<lambda>w. ew_eventId w = i) (db_events db) = [row]" and "ew_confirmationStatus row = co_confirmationStatus ob"
    and "optDateParam (co_blockchainTimeMs ob)" and "dateParam (co_observedAtMs ob)"
  shows "\<exists>db'. reconcileEventRow i ob db = Inr ((), db') \<and> db_positions db' = db_positions db \<and> db_trades db' = db_trades db
    \<and> map ew_eventId (db_events db') = map ew_eventId (db_events db)"
  using assms by (auto simp: reconcileEventRow_def reconcileConfirmationStatus_def bindE_def)

text \<open>The clock of an entry only has to be past the observation of its quote: a command that was accepted
  is accepted at any later time.\<close>

lemma preparedOpen_later:
  assumes "preparedOpen sha256 authority engine command (JNum (JInt now)) = Inr (snapshot, trip, hashes, t)"
    and "now \<le> now'" and "now' \<le> MAX_SAFE_INTEGER"
  shows "preparedOpen sha256 authority engine command (JNum (JInt now')) = Inr (snapshot, trip, hashes, now')"
proof -
  have decision: "validateEntryDecision snapshot (JNum (JInt now)) = Inr () \<Longrightarrow> validateEntryDecision snapshot (JNum (JInt now')) = Inr ()"
    using assms(2) by (auto simp: validateEntryDecision_def Let_def result_simps require_def numberGreater_def split: if_splits option.splits)
  then have "validateOpenCommand snapshot allowlist profile (JNum (JInt now)) = Inr () \<Longrightarrow>
      validateOpenCommand snapshot allowlist profile (JNum (JInt now')) = Inr ()" for allowlist profile
    by (auto simp: validateOpenCommand_def result_simps)
  then have checked: "checkOpen sha256 engine snapshot (JNum (JInt now)) = Inr c \<Longrightarrow> checkOpen sha256 engine snapshot (JNum (JInt now')) = Inr c" for c
    by (auto simp: checkOpen_def result_simps)
  show ?thesis using assms unfolding preparedOpen_def result_simps by (auto simp: result_simps assertValidTimestampMs_iff checked)
qed

text \<open>
  C23. An entry happens once. Suppose opening a position succeeds for a position and an event the
  database did not have. Repeating the same command on the resulting database at any later
  time (or the same), while the qualification it relies on is still current, succeeds and returns the
  same position, with the time of the first call; it leaves the positions and the trades as they were and adds no event.
\<close>

theorem paper_open_idempotent:
  assumes "store_inv db" and "paperOpen sha256 postgresRepository authority engine command (JNum (JInt now)) later db = (Inr q, db1)"
    and "stored_position db (pp_id q) = None"
    and "\<forall>row \<in> set (db_events db). ew_eventId row
      \<noteq> paperEventId sha256 PaperPositionOpened (pp_id q) (pp_entryTradeId q) (pp_triggerEventId q)"
    and "\<forall>current. oc_expectedCurrentQualification command = Some current \<longrightarrow> requireCurrentRows current db1 = Inr ((), db1)"
    and "proper_authority authority" and "now \<le> now'" and "now' \<le> MAX_SAFE_INTEGER"
  shows "\<exists>db2. paperOpen sha256 postgresRepository authority engine command (JNum (JInt now')) later' db1 = (Inr q, db2)
    \<and> db_positions db2 = db_positions db1 \<and> db_trades db2 = db_trades db1
    \<and> map ew_eventId (db_events db2) = map ew_eventId (db_events db1)"
proof -
  obtain snapshot trip hashes t where prep: "preparedOpen sha256 authority engine command (JNum (JInt now)) = Inr (snapshot, trip, hashes, t)"
    and tx: "openTransaction sha256 postgresRepository engine later snapshot trip hashes t db = Inr (q, db1)"
    by (rule paperOpen_prepared [OF assms(2)])
  note prep' = preparedOpen_later [OF prep assms(7,8)]
  note fresh = fresh_open [OF assms(1,3) openTransaction_replays [OF tx]]
  let ?e = "createPaperEvent sha256 PaperPositionOpened q (entryTrade sha256 snapshot t) (os_trigger snapshot) None"
  have ids: "pp_id q = snapshotPositionId sha256 snapshot" "pp_entryTradeId q = pt_id (entryTrade sha256 snapshot t)"
    "pp_triggerEventId q = tg_id (os_trigger snapshot)" "pp_openCommandHash q = oh_current hashes"
    "pp_entryDecisionAtMs q = map_option fst (entryDecisionOf snapshot)" "pp_entryDecisionJobId q = map_option snd (entryDecisionOf snapshot)"
    by (simp_all add: fresh(1) newPosition_def)
  have valid: "db_accepts q \<longrightarrow> valid_position q" "pp_closeEventId q = None" "pp_exitTriggerAtMs q = None"
    using newPosition_valid [OF preparedOpen_ok(1) [OF prep] preparedOpen_ok(6) [OF prep assms(6)] preparedOpen_ok(2) [OF prep]]
    by (simp_all add: fresh(1) newPosition_def)
  have found: "findPositionRow (pp_id q) db1 = Inr (Some q, db1)"
    using insertOpenedRows_writes [OF assms(1) fresh(3) valid] findPositionRow_exact [of db1 "pp_id q"] by simp
  have event: "pe_id ?e = paperEventId sha256 PaperPositionOpened (pp_id q) (pp_entryTradeId q) (tg_id (os_trigger snapshot))"
    "pe_confirmationStatus ?e = tg_confirmationStatus (os_trigger snapshot)" "pe_blockchainTimeMs ?e = tg_blockchainTimeMs (os_trigger snapshot)"
    "pe_observedAtMs ?e = tg_observedAtMs (os_trigger snapshot)"
    by (simp_all add: createPaperEvent_def ids)
  have "\<forall>row \<in> set (db_events db). ew_eventId row \<noteq> pe_id ?e" using assms(4) by (simp only: event(1) ids(3) simp_thms)
  note written = insertOpenedRows_event [OF fresh(3) this]
  obtain db2 where same: "reconcileEventRow (pe_id ?e) (observationOf (os_trigger snapshot)) db1 = Inr ((), db2)"
    "db_positions db2 = db_positions db1" "db_trades db2 = db_trades db1"
    "map ew_eventId (db_events db2) = map ew_eventId (db_events db1)"
    using written reconcileEventRow_same [of "pe_id ?e" db1 _ "observationOf (os_trigger snapshot)"]
    unfolding event by (auto simp: observationOf_def)
  have "openOrReplay sha256 postgresRepository engine later' snapshot trip hashes now' db1 = Inr (q, db2)"
    using found same(1) fresh(2) unfolding event(1)
    by (simp add: openOrReplay_def Let_def bindT_def bindE_def postgres_operations ids(1) [symmetric] reconcileOpenReplay_def
        matchesOpenCommandHash_def ids(4-6) returnT_def)
  then have "paperOpen sha256 postgresRepository authority engine command (JNum (JInt now')) later' db1 = (Inr q, db2)"
    by (simp add: paperOpen_def prep' transact_def openTransaction_current [OF prep' assms(5)])
  with same(2-4) show ?thesis by blast
qed

theorem paper_open_idempotent_witness:
  "\<exists>db1 db2. paperOpen zero_digest postgresRepository example_authority example_engine example_open (JNum (JInt 8)) (JNum (JInt 9)) empty_db
       = (Inr example_position, db1)
     \<and> paperOpen zero_digest postgresRepository example_authority example_engine example_open (JNum (JInt 30)) (JNum (JInt 31)) db1
       = (Inr example_position, db2) \<and> db_trades db2 = db_trades db1"
proof -
  obtain db where db: "paperOpen zero_digest postgresRepository example_authority example_engine example_open (JNum (JInt 8))
      (JNum (JInt 9)) empty_db = (Inr example_position, db)"
    using example_opened by (auto simp: paperCall_def)
  have "stored_position empty_db (pp_id example_position) = None" "db_events empty_db = []" "oc_expectedCurrentQualification example_open = None"
    by (simp_all add: empty_db_stores) (simp_all add: empty_db_def example_open_def)
  then show ?thesis
    using paper_open_idempotent [OF empty_db_stores(1) db _ _ _ example_authority_proper, of 30 "JNum (JInt 31)"] db by auto
qed

subsection \<open>Positions read back\<close>

text \<open>
  A stored position is read back unchanged or refused. A row written for a position, with its
  payload of marked big integers and its own columns, is decoded to exactly that position when its
  fields and its state are consistent (amounts, times, exit fields of its status, lineage), and is
  refused otherwise; it is never decoded to another position.
\<close>

theorem stored_position_read_back:
  assumes "rowHolds row p"
  shows "decodePosition row = (if valid_position p then Some p else None)"
  using decodePosition_iff [OF assms] by (cases "decodePosition row") auto

theorem stored_position_read_back_witness:
  "\<exists>row. rowHolds row example_position \<and> decodePosition row = Some example_position"
proof -
  obtain db where db: "paper_reachable zero_digest db" "stored_position db (pp_id example_position) = Some example_position"
    using example_reachable by blast
  have inv: "store_inv db" using reachable_ledger [OF db(1)] by blast
  obtain row where "rowHolds row example_position"
    using iffD1 [OF stored_position_iff [OF inv] db(2)] by blast
  moreover have "valid_position example_position" using stored_accepted(2) [OF inv db(2)] .
  ultimately show ?thesis using stored_position_read_back [of row example_position] by auto
qed

end
