(* ===== verification/Record_Readers.thy ===== *)
theory Record_Readers
  imports Js_Value
begin

text \<open>
  Readers the modules around live execution add to those of \<open>Js_Value\<close>: records checked by their
  number of keys (\<open>execution-safety-qualification.ts\<close>, \<open>execution-operations.ts\<close>), a single own
  property, object rest patterns (\<open>const { a, b, ...rest } = value\<close>), and patterned text.
\<close>

subsection \<open>Records\<close>

text \<open>An ordinary object without prototype, as \<open>Object.create(null)\<close> and assignments build it.\<close>

definition null_object :: "js_record \<Rightarrow> js" where
  "null_object r = JObj NullProto False False (map (\<lambda>(k, x). (KStr k, DataProp True x)) r)"

text \<open>An object literal.\<close>

definition object_literal :: "js_record \<Rightarrow> js" where
  "object_literal r = JObj ObjectProto False False (map (\<lambda>(k, x). (KStr k, DataProp True x)) r)"

definition sizedRecord :: "string list \<Rightarrow> js \<Rightarrow> js_record option" where
  "sizedRecord keys v =
     (if \<not> isPlainObject v then None
      else let ownKeys = map fst (ownProps v) in
        if length ownKeys \<noteq> length keys \<or> list_ex (\<lambda>k. case k of KStr _ \<Rightarrow> False | KSym _ \<Rightarrow> True) ownKeys
        then None
        else readKeys keys v)"

definition ownDataProperty :: "js \<Rightarrow> string \<Rightarrow> js" where
  "ownDataProperty v key = (if \<not> isPlainObject v then JUndefined
     else case enumerableDataProp v key of None \<Rightarrow> JUndefined | Some x \<Rightarrow> x)"

text \<open>A rest pattern over an object whose own properties are all data properties and whose prototype
  is \<open>Object.prototype\<close> or absent reads the named properties and copies the other enumerable ones to
  a new object. On anything else it runs code of the caller, a getter, a trap or an inherited
  property: what comes of it is the argument \<open>exotic\<close>, \<open>None\<close> when it throws.\<close>

type_synonym rest_pattern = "js \<Rightarrow> string list \<Rightarrow> (js_record \<times> js) option"

fun has_plain_data :: "js \<Rightarrow> bool" where
  "has_plain_data (JObj proto proxy frozen props) =
     (\<not> proxy \<and> (proto = ObjectProto \<or> proto = NullProto)
      \<and> list_all (\<lambda>(_, p). case p of DataProp _ _ \<Rightarrow> True | AccessorProp _ \<Rightarrow> False) props)"
| "has_plain_data _ = False"

definition ownValue :: "js \<Rightarrow> string \<Rightarrow> js" where
  "ownValue v key = (case map_of (ownProps v) (KStr key) of Some (DataProp _ x) \<Rightarrow> x | _ \<Rightarrow> JUndefined)"

definition restOf :: "string list \<Rightarrow> js \<Rightarrow> js" where
  "restOf names v = JObj ObjectProto False False
     (filter (\<lambda>(key, p). key \<notin> KStr ` set names \<and> (case p of DataProp enumerable _ \<Rightarrow> enumerable | _ \<Rightarrow> False))
       (ownProps v))"

definition restPattern :: "rest_pattern \<Rightarrow> string list \<Rightarrow> js \<Rightarrow> (js_record \<times> js) option" where
  "restPattern exotic names v =
     (if has_plain_data v then Some (map (\<lambda>name. (name, ownValue v name)) names, restOf names v)
      else exotic v names)"

subsection \<open>Text\<close>

definition patternedText :: "(string \<Rightarrow> bool) \<Rightarrow> nat \<Rightarrow> js \<Rightarrow> string option" where
  "patternedText test maximumBytes v = (case v of
     JStr s \<Rightarrow> if utf8_length s > maximumBytes \<or> \<not> test s then None else Some s
   | _ \<Rightarrow> None)"

text \<open>\<open>/^[A-Za-z0-9][A-Za-z0-9:._-]{0,255}$/u\<close>\<close>

definition is_evidence_id :: "string \<Rightarrow> bool" where
  "is_evidence_id s = (case s of
     [] \<Rightarrow> False
   | c # cs \<Rightarrow> is_alnum c \<and> length cs \<le> 255
       \<and> list_all (\<lambda>x. is_alnum x \<or> x \<in> {CHR '':'', CHR ''.'', CHR ''_'', CHR ''-''}) cs)"

text \<open>The characters \<open>[\x20-\x7E]\<close>.\<close>

definition is_printable :: "char \<Rightarrow> bool" where
  "is_printable c = (32 \<le> code_unit c \<and> code_unit c \<le> 126)"

subsection \<open>What they accept\<close>

lemma text_case_Some [result_simps]:
  "(case v of JStr s \<Rightarrow> f s | _ \<Rightarrow> None) = Some x \<longleftrightarrow> (\<exists>s. v = JStr s \<and> f s = Some x)"
  by (cases v) auto

lemma patternedText_iff [field_iffs]:
  "patternedText P m v = Some s \<longleftrightarrow> v = JStr s \<and> utf8_length s \<le> m \<and> P s"
  by (auto simp: patternedText_def split: js.splits)

lemma sizedRecord_Some:
  assumes "sizedRecord keys v = Some r"
  shows "isPlainObject v \<and> map fst r = keys \<and> (\<forall>k \<in> set keys. enumerableDataProp v k = Some (fld r k))"
  using assms by (auto simp: sizedRecord_def Let_def readKeys_fld dest: readKeys_keys split: if_splits)

lemma enumerable_own: "enumerableDataProp v k = Some x \<Longrightarrow> KStr k \<in> set (map fst (ownProps v))"
  by (auto simp: enumerableDataProp_def dest!: map_of_SomeD split: option.splits js_prop.splits if_splits)
     force

text \<open>An object has no two properties of one name: counting the keys and comparing them with the
  expected ones accept the same objects.\<close>

lemma sizedRecord_exact:
  assumes "distinct keys" and "distinct (map fst (ownProps v))"
  shows "sizedRecord keys v = exactRecord keys v"
proof (cases "isPlainObject v \<and> length (ownProps v) = length keys \<and> (\<exists>r. readKeys keys v = Some r)")
  case True
  then obtain r where read: "readKeys keys v = Some r" by blast
  have "KStr ` set keys \<subseteq> set (map fst (ownProps v))"
    using readKeys_fld [OF read] enumerable_own by blast
  moreover have "card (KStr ` set keys) = card (set (map fst (ownProps v)))"
    using assms True distinct_card [OF assms(2)] by (simp add: card_image inj_on_def distinct_card)
  ultimately have own: "set (map fst (ownProps v)) = KStr ` set keys"
    by (intro card_subset_eq [symmetric]) auto
  have "\<not> list_ex (\<lambda>k. case k of KStr s \<Rightarrow> s \<notin> set keys | KSym _ \<Rightarrow> True) (map fst (ownProps v))"
    "\<not> list_ex (\<lambda>k. case k of KStr _ \<Rightarrow> False | KSym _ \<Rightarrow> True) (map fst (ownProps v))"
    unfolding list_ex_iff own by auto
  with True show ?thesis by (simp add: sizedRecord_def exactRecord_def)
next
  case False
  then show ?thesis by (auto simp: sizedRecord_def exactRecord_def Let_def)
qed

lemma object_readers:
  "exactRecord keys (null_object r) = exactRecord keys (frozen_object r)"
  "exactRecord keys (object_literal r) = exactRecord keys (frozen_object r)"
  "sizedRecord keys (object_literal r) = sizedRecord keys (frozen_object r)"
  "sizedRecord keys (null_object r) = sizedRecord keys (frozen_object r)"
proof -
  have "enumerableDataProp (null_object r) = enumerableDataProp (frozen_object r)"
    "enumerableDataProp (object_literal r) = enumerableDataProp (frozen_object r)"
    by (simp_all add: fun_eq_iff enumerableDataProp_def null_object_def object_literal_def frozen_object_def)
  then have "readKeys keys (null_object r) = readKeys keys (frozen_object r)"
    "readKeys keys (object_literal r) = readKeys keys (frozen_object r)"
    by (simp_all add: readKeys_def)
  moreover have "ownProps (null_object r) = ownProps (frozen_object r)"
    "ownProps (object_literal r) = ownProps (frozen_object r)"
    "isPlainObject (null_object r)" "isPlainObject (object_literal r)" "isPlainObject (frozen_object r)"
    by (simp_all add: null_object_def object_literal_def frozen_object_def)
  ultimately show "exactRecord keys (null_object r) = exactRecord keys (frozen_object r)"
    "exactRecord keys (object_literal r) = exactRecord keys (frozen_object r)"
    "sizedRecord keys (object_literal r) = sizedRecord keys (frozen_object r)"
    "sizedRecord keys (null_object r) = sizedRecord keys (frozen_object r)"
    by (simp_all add: exactRecord_def sizedRecord_def)
qed

text \<open>An object with the expected keys in any order is read as the record of its values.\<close>

lemma readers_frozen_object:
  assumes "distinct (map fst r)" and "distinct keys" and "set keys = fst ` set r"
  shows "exactRecord keys (frozen_object r) = Some (pick r keys)"
    and "sizedRecord keys (frozen_object r) = Some (pick r keys)"
proof -
  have own: "map fst (ownProps (frozen_object r)) = map KStr (map fst r)"
    by (auto simp: frozen_object_def)
  have "length keys = length r"
    using assms distinct_card [OF assms(1)] distinct_card [OF assms(2)] by simp
  moreover have "readKeys keys (frozen_object r) = Some (pick r keys)"
    using assms by (simp add: readKeys_frozen_object pick_def)
  moreover have "\<not> list_ex (\<lambda>k. case k of KStr s \<Rightarrow> s \<notin> set keys | KSym _ \<Rightarrow> True) (map KStr (map fst r))"
    using assms(3) by (auto simp: list_ex_iff)
  moreover have "isPlainObject (frozen_object r)" by (simp add: frozen_object_def)
  ultimately show exact: "exactRecord keys (frozen_object r) = Some (pick r keys)"
    using own by (simp add: exactRecord_def Let_def)
  have "distinct (map fst (ownProps (frozen_object r)))"
    using assms(1) unfolding own by (subst distinct_map) (auto simp: inj_on_def)
  then show "sizedRecord keys (frozen_object r) = Some (pick r keys)"
    using sizedRecord_exact [OF assms(2)] exact by simp
qed

lemma pick_self: "distinct (map fst r) \<Longrightarrow> pick r (map fst r) = r"
  by (simp only: pick_def map_fld_self)

lemma fld_pick_in: "k \<in> set keys \<Longrightarrow> fld (pick r keys) k = fld r k"
  by (induction keys) (auto simp: pick_def)

lemma fld_member: "distinct (map fst r) \<Longrightarrow> (k, x) \<in> set r \<Longrightarrow> fld r k = x"
  by (simp add: fld_def map_of_is_SomeI)

lemma pick_middle:
  assumes "distinct (map fst (xs @ ys @ zs))"
  shows "pick (xs @ ys @ zs) (map fst ys) = ys"
  using fld_member [OF assms] by (auto simp: pick_def intro!: map_idI)

lemma pick_pick: "set keys \<subseteq> set names \<Longrightarrow> pick (pick r names) keys = pick r keys"
  by (auto simp: pick_def [of _ keys] fld_pick_in)

lemma sizedRecord_frozen_object:
  assumes "map fst r = keys" and "distinct keys"
  shows "sizedRecord keys (frozen_object r) = Some r"
  using readers_frozen_object(2) [of r keys] pick_self [of r] assms by auto

lemma pick_append: "pick r (xs @ ys) = pick r xs @ pick r ys"
  by (simp add: pick_def)

lemma ownValue_frozen_object: "ownValue (frozen_object r) k = fld r k"
  by (simp add: ownValue_def fld_def frozen_object_def map_of_frozen_props split: option.split)

text \<open>A rest pattern over a frozen object gives the named values and the other properties.\<close>

lemma restPattern_frozen_object:
  assumes "distinct (map fst r)"
  shows "restPattern exotic names (frozen_object r)
    = Some (pick r names, object_literal (filter (\<lambda>(k, _). k \<notin> set names) r))"
proof -
  have "has_plain_data (frozen_object r)"
    by (auto simp: frozen_object_def list_all_iff)
  moreover have "restOf names (frozen_object r) = object_literal (filter (\<lambda>(k, _). k \<notin> set names) r)"
  proof -
    have "filter (\<lambda>(key, p). key \<notin> KStr ` set names \<and> (case p of DataProp e _ \<Rightarrow> e | _ \<Rightarrow> False))
        (map (\<lambda>(k, x). (KStr k, DataProp True x)) r)
      = map (\<lambda>(k, x). (KStr k, DataProp True x)) (filter (\<lambda>(k, _). k \<notin> set names) r)"
      by (induction r) auto
    then show ?thesis by (simp add: restOf_def object_literal_def) (simp add: frozen_object_def)
  qed
  ultimately show ?thesis by (simp add: restPattern_def pick_def ownValue_frozen_object)
qed

end
