(* ===== verification/Safety_Qualification.thy ===== *)
theory Safety_Qualification
  imports Record_Readers Json_Text
begin

text \<open>
  The safety qualification that has to exist before anything is armed
  (\<open>src/src/domain/execution-safety-qualification.ts\<close>): eleven gates, each with evidence, for five
  minutes (payload version 1) or, for an envelope, for at most a day (payload version 2). SHA-256 is the
  argument \<open>sha256\<close>; \<open>canonicalKey\<close> tells whether \<open>new PublicKey(value)\<close> of \<open>@solana/web3.js\<close> returns a
  key that prints as \<open>value\<close>.
\<close>

subsection \<open>Data\<close>

datatype live_phase = CANARY | MICRO_LIVE | PILOT

definition PHASES :: "(string \<times> live_phase) list" where
  "PHASES = [(''CANARY'', CANARY), (''MICRO_LIVE'', MICRO_LIVE), (''PILOT'', PILOT)]"

definition EXECUTION_SAFETY_GATE_IDS :: "string list" where
  "EXECUTION_SAFETY_GATE_IDS =
  [''QUALITY_GATES_PASSED'', ''MIGRATIONS_VERIFIED'', ''ARCHITECTURE_BOUNDARIES_VERIFIED'',
   ''DRY_RUN_RECOVERY_VERIFIED'', ''SIMULATION_MATRIX_VERIFIED'', ''FAULT_MATRIX_VERIFIED'',
   ''RECONCILIATION_CLEAN'', ''PROVIDER_EXIT_CAPACITY_VERIFIED'', ''STOP_CONTROLS_VERIFIED'',
   ''WALLET_CHAIN_LIMITS_VERIFIED'', ''MAINNET_PREFLIGHT_SIMULATED'']"

definition EVIDENCE_TYPES :: "string list" where
  "EVIDENCE_TYPES =
  [''CI_RUN'', ''MIGRATION_TEST'', ''ARCHITECTURE_TEST'', ''DRY_RUN_TEST'', ''SIMULATION_ARTIFACT'',
   ''FAULT_TEST'', ''RECONCILIATION_STATE'', ''PROVIDER_SNAPSHOT'', ''STOP_CONTROL_TEST'',
   ''WALLET_SNAPSHOT'', ''MAINNET_SIMULATION_ARTIFACT'']"

record gate_evidence =
  ge_payloadVersion :: int
  ge_gateId :: string
  ge_status :: string
  ge_evidenceType :: string
  ge_evidenceId :: string
  ge_evidenceFingerprint :: string
  ge_observedAtMs :: int
  ge_expiresAtMs :: int

record qualification_fields =
  qf_phase :: live_phase
  qf_buildHash :: string
  qf_configurationFingerprint :: string
  qf_strategyFingerprint :: string
  qf_generationId :: string
  qf_walletPublicKey :: string
  qf_genesisHash :: string
  qf_providerId :: string
  qf_qualifiedAtMs :: int
  qf_expiresAtMs :: int
  qf_gates :: "gate_evidence list"

text \<open>Evaluator version 1 and cluster \<open>mainnet-beta\<close> are constants of every qualification, the scope
  \<open>ENVELOPE\<close> one of payload version 2.\<close>

record safety_qualification =
  sq_qualificationId :: string
  sq_payloadVersion :: int
  sq_qualificationFingerprint :: string
  sq_fields :: qualification_fields

datatype qualification_scope = CANARY_SCOPE | ENVELOPE_SCOPE

definition qualificationScope :: "safety_qualification \<Rightarrow> qualification_scope" where
  "qualificationScope q = (if sq_payloadVersion q = 2 then ENVELOPE_SCOPE else CANARY_SCOPE)"

abbreviation QUALIFICATION_TTL_MS :: int where "QUALIFICATION_TTL_MS \<equiv> 300000"
abbreviation ENVELOPE_QUALIFICATION_MAXIMUM_TTL_MS :: int where "ENVELOPE_QUALIFICATION_MAXIMUM_TTL_MS \<equiv> 86400000"

definition QUALIFICATION_INPUT_KEYS :: "string list" where
  "QUALIFICATION_INPUT_KEYS =
  [''payloadVersion'', ''evaluatorVersion'', ''phase'', ''buildHash'', ''configurationFingerprint'',
   ''strategyFingerprint'', ''generationId'', ''walletPublicKey'', ''cluster'', ''genesisHash'', ''providerId'',
   ''qualifiedAtMs'', ''expiresAtMs'', ''gates'']"

definition QUALIFICATION_INPUT_KEYS_V2 :: "string list" where
  "QUALIFICATION_INPUT_KEYS_V2 = QUALIFICATION_INPUT_KEYS @ [''scope'']"

definition EVIDENCE_KEYS :: "string list" where
  "EVIDENCE_KEYS =
  [''payloadVersion'', ''gateId'', ''status'', ''evidenceType'', ''evidenceId'', ''evidenceFingerprint'',
   ''observedAtMs'', ''expiresAtMs'']"

definition MAINNET_SIMULATION_BINDING_KEYS :: "string list" where
  "MAINNET_SIMULATION_BINDING_KEYS =
  [''artifactId'', ''resultFingerprint'', ''buildHash'', ''configurationFingerprint'', ''strategyFingerprint'',
   ''walletPublicKey'', ''genesisHash'', ''providerId'']"

subsection \<open>Fields\<close>

definition fingerprint_field :: "js \<Rightarrow> string option" where
  "fingerprint_field v = patternedText is_hex64 64 v"

definition identifier_field :: "js \<Rightarrow> string option" where
  "identifier_field v = patternedText is_identifier 64 v"

definition generationId_field :: "js \<Rightarrow> string option" where
  "generationId_field v = patternedText (is_prefixed_hex64 ''execution_wallet_generation_'') 96 v"

definition key_field :: "(string \<Rightarrow> bool) \<Rightarrow> js \<Rightarrow> string option" where
  "key_field canonicalKey v = patternedText canonicalKey 64 v"

definition evidenceItem :: "string \<Rightarrow> string \<Rightarrow> int \<Rightarrow> int \<Rightarrow> js \<Rightarrow> gate_evidence option" where
  "evidenceItem gateId evidenceType qualifiedAtMs qualificationExpiresAtMs v = do {
     record \<leftarrow> sizedRecord EVIDENCE_KEYS v;
     (if fld record ''payloadVersion'' \<noteq> JNum (JInt 1) \<or> fld record ''gateId'' \<noteq> JStr gateId
        \<or> fld record ''status'' \<noteq> JStr ''PASSED'' \<or> fld record ''evidenceType'' \<noteq> JStr evidenceType then None
      else do {
        observedAtMs \<leftarrow> timestamp_field (fld record ''observedAtMs'');
        expiresAtMs \<leftarrow> timestamp_field (fld record ''expiresAtMs'');
        (if observedAtMs > qualifiedAtMs \<or> expiresAtMs < qualificationExpiresAtMs then None
         else do {
           evidenceId \<leftarrow> patternedText is_evidence_id 256 (fld record ''evidenceId'');
           evidenceFingerprint \<leftarrow> fingerprint_field (fld record ''evidenceFingerprint'');
           Some \<lparr>ge_payloadVersion = 1, ge_gateId = gateId, ge_status = ''PASSED'', ge_evidenceType = evidenceType,
             ge_evidenceId = evidenceId, ge_evidenceFingerprint = evidenceFingerprint,
             ge_observedAtMs = observedAtMs, ge_expiresAtMs = expiresAtMs\<rparr>
         })
      })
   }"

fun evidenceLoop :: "(string \<times> string) list \<Rightarrow> js js_prop option list \<Rightarrow> int \<Rightarrow> int \<Rightarrow> gate_evidence list option" where
  "evidenceLoop [] elems qualifiedAtMs expiresAtMs = Some []"
| "evidenceLoop ((gateId, evidenceType) # expected) (Some (DataProp True x) # rest) qualifiedAtMs expiresAtMs = do {
     item \<leftarrow> evidenceItem gateId evidenceType qualifiedAtMs expiresAtMs x;
     result \<leftarrow> evidenceLoop expected rest qualifiedAtMs expiresAtMs;
     Some (item # result)
   }"
| "evidenceLoop (_ # expected) elems qualifiedAtMs expiresAtMs = None"

definition evidenceFrom :: "js \<Rightarrow> int \<Rightarrow> int \<Rightarrow> gate_evidence list option" where
  "evidenceFrom v qualifiedAtMs qualificationExpiresAtMs = (case v of
     JArr proxy frozen elems \<Rightarrow>
       if proxy \<or> length elems \<noteq> length EXECUTION_SAFETY_GATE_IDS then None
       else evidenceLoop (zip EXECUTION_SAFETY_GATE_IDS EVIDENCE_TYPES) elems qualifiedAtMs qualificationExpiresAtMs
   | _ \<Rightarrow> None)"

text \<open>The fields both versions read in the same way.\<close>

definition qualificationFieldsFrom :: "(string \<Rightarrow> bool) \<Rightarrow> js_record \<Rightarrow> qualification_fields option" where
  "qualificationFieldsFrom canonicalKey record = do {
     phase \<leftarrow> enumValue PHASES (fld record ''phase'');
     buildHash \<leftarrow> fingerprint_field (fld record ''buildHash'');
     configurationFingerprint \<leftarrow> fingerprint_field (fld record ''configurationFingerprint'');
     strategyFingerprint \<leftarrow> fingerprint_field (fld record ''strategyFingerprint'');
     generationId \<leftarrow> generationId_field (fld record ''generationId'');
     walletPublicKey \<leftarrow> key_field canonicalKey (fld record ''walletPublicKey'');
     (if fld record ''cluster'' \<noteq> JStr ''mainnet-beta'' then None
      else do {
        genesisHash \<leftarrow> key_field canonicalKey (fld record ''genesisHash'');
        providerId \<leftarrow> identifier_field (fld record ''providerId'');
        qualifiedAtMs \<leftarrow> timestamp_field (fld record ''qualifiedAtMs'');
        expiresAtMs \<leftarrow> timestamp_field (fld record ''expiresAtMs'');
        gates \<leftarrow> evidenceFrom (fld record ''gates'') qualifiedAtMs expiresAtMs;
        Some \<lparr>qf_phase = phase, qf_buildHash = buildHash, qf_configurationFingerprint = configurationFingerprint,
          qf_strategyFingerprint = strategyFingerprint, qf_generationId = generationId,
          qf_walletPublicKey = walletPublicKey, qf_genesisHash = genesisHash, qf_providerId = providerId,
          qf_qualifiedAtMs = qualifiedAtMs, qf_expiresAtMs = expiresAtMs, qf_gates = gates\<rparr>
      })
   }"

definition gatePreimage :: "gate_evidence \<Rightarrow> json" where
  "gatePreimage g = JsonArr
  [JsonStr (ge_gateId g), JsonStr (ge_status g), JsonStr (ge_evidenceType g), JsonStr (ge_evidenceId g),
   JsonStr (ge_evidenceFingerprint g), JsonInt (ge_observedAtMs g), JsonInt (ge_expiresAtMs g)]"

definition fieldsPreimage :: "qualification_fields \<Rightarrow> json list" where
  "fieldsPreimage f =
  [JsonStr (literal_of PHASES (qf_phase f)), JsonStr (qf_buildHash f), JsonStr (qf_configurationFingerprint f),
   JsonStr (qf_strategyFingerprint f), JsonStr (qf_generationId f), JsonStr (qf_walletPublicKey f),
   JsonStr ''mainnet-beta'', JsonStr (qf_genesisHash f), JsonStr (qf_providerId f),
   JsonInt (qf_qualifiedAtMs f), JsonInt (qf_expiresAtMs f), JsonArr (map gatePreimage (qf_gates f))]"

definition qualificationPreimage :: "int \<Rightarrow> qualification_fields \<Rightarrow> json" where
  "qualificationPreimage version f =
     (if version = 2 then JsonArr ([JsonStr ''execution-safety-qualification-v2'', JsonInt 2, JsonStr ''ENVELOPE''] @ fieldsPreimage f)
      else JsonArr ([JsonStr ''execution-safety-qualification-v1'', JsonInt 1] @ fieldsPreimage f))"

definition qualificationOf :: "(string \<Rightarrow> string) \<Rightarrow> int \<Rightarrow> qualification_fields \<Rightarrow> safety_qualification" where
  "qualificationOf sha256 version f =
     (let qualificationFingerprint = sha256 (stringify (qualificationPreimage version f)) in
      \<lparr>sq_qualificationId = ''execution_safety_qualification_'' @ qualificationFingerprint, sq_payloadVersion = version,
       sq_qualificationFingerprint = qualificationFingerprint, sq_fields = f\<rparr>)"

subsection \<open>Qualifications\<close>

definition createCanarySafetyQualification ::
    "(string \<Rightarrow> string) \<Rightarrow> (string \<Rightarrow> bool) \<Rightarrow> js \<Rightarrow> safety_qualification option" where
  "createCanarySafetyQualification sha256 canonicalKey input = do {
     record \<leftarrow> sizedRecord QUALIFICATION_INPUT_KEYS input;
     (if fld record ''payloadVersion'' \<noteq> JNum (JInt 1) \<or> fld record ''evaluatorVersion'' \<noteq> JNum (JInt 1) then None
      else do {
        fields \<leftarrow> qualificationFieldsFrom canonicalKey record;
        (if qf_expiresAtMs fields - qf_qualifiedAtMs fields \<noteq> QUALIFICATION_TTL_MS then None
         else Some (qualificationOf sha256 1 fields))
      })
   }"

record envelope_binding =
  eb_providerEvidenceId :: string
  eb_providerEvidenceFingerprint :: string
  eb_walletEvidenceId :: string
  eb_walletEvidenceFingerprint :: string

definition envelopeBinding ::
    "(string \<Rightarrow> string) \<Rightarrow> (string \<Rightarrow> bool) \<Rightarrow> js \<Rightarrow> js \<Rightarrow> js \<Rightarrow> envelope_binding option" where
  "envelopeBinding sha256 canonicalKey generationIdValue walletPublicKeyValue providerIdValue = do {
     generationId \<leftarrow> generationId_field generationIdValue;
     walletPublicKey \<leftarrow> key_field canonicalKey walletPublicKeyValue;
     providerId \<leftarrow> identifier_field providerIdValue;
     Some \<lparr>eb_providerEvidenceId = ''envelope-provider:'' @ providerId,
       eb_providerEvidenceFingerprint = sha256 (stringify (JsonArr
         [JsonStr ''execution-envelope-provider-binding-v1'', JsonStr generationId, JsonStr providerId])),
       eb_walletEvidenceId = generationId,
       eb_walletEvidenceFingerprint = sha256 (stringify (JsonArr
         [JsonStr ''execution-envelope-wallet-binding-v1'', JsonStr generationId, JsonStr walletPublicKey]))\<rparr>
   }"

definition gate_bound :: "gate_evidence list \<Rightarrow> nat \<Rightarrow> string \<Rightarrow> string \<Rightarrow> string \<Rightarrow> bool" where
  "gate_bound gates index gateId evidenceId evidenceFingerprint =
     (index < length gates \<and> ge_gateId (gates ! index) = gateId \<and> ge_evidenceId (gates ! index) = evidenceId
      \<and> ge_evidenceFingerprint (gates ! index) = evidenceFingerprint)"

definition createEnvelopeSafetyQualification ::
    "(string \<Rightarrow> string) \<Rightarrow> (string \<Rightarrow> bool) \<Rightarrow> js \<Rightarrow> safety_qualification option" where
  "createEnvelopeSafetyQualification sha256 canonicalKey input = do {
     record \<leftarrow> sizedRecord QUALIFICATION_INPUT_KEYS_V2 input;
     (if fld record ''payloadVersion'' \<noteq> JNum (JInt 2) \<or> fld record ''evaluatorVersion'' \<noteq> JNum (JInt 1)
        \<or> fld record ''scope'' \<noteq> JStr ''ENVELOPE'' \<or> fld record ''phase'' \<noteq> JStr ''CANARY'' then None
      else do {
        fields \<leftarrow> qualificationFieldsFrom canonicalKey record;
        (let ttlMs = qf_expiresAtMs fields - qf_qualifiedAtMs fields in
         if ttlMs \<le> 0 \<or> ttlMs > ENVELOPE_QUALIFICATION_MAXIMUM_TTL_MS then None
         else do {
           binding \<leftarrow> envelopeBinding sha256 canonicalKey (JStr (qf_generationId fields))
             (JStr (qf_walletPublicKey fields)) (JStr (qf_providerId fields));
           (if \<not> gate_bound (qf_gates fields) 7 ''PROVIDER_EXIT_CAPACITY_VERIFIED''
                 (eb_providerEvidenceId binding) (eb_providerEvidenceFingerprint binding)
              \<or> \<not> gate_bound (qf_gates fields) 9 ''WALLET_CHAIN_LIMITS_VERIFIED''
                 (eb_walletEvidenceId binding) (eb_walletEvidenceFingerprint binding) then None
            else Some (qualificationOf sha256 2 fields))
         })
      })
   }"

definition createSafetyQualification ::
    "(string \<Rightarrow> string) \<Rightarrow> (string \<Rightarrow> bool) \<Rightarrow> js \<Rightarrow> safety_qualification option" where
  "createSafetyQualification sha256 canonicalKey input =
     (if ownDataProperty input ''payloadVersion'' = JNum (JInt 2)
      then createEnvelopeSafetyQualification sha256 canonicalKey input
      else createCanarySafetyQualification sha256 canonicalKey input)"

definition createEnvelopeBindingGates ::
    "(string \<Rightarrow> string) \<Rightarrow> (string \<Rightarrow> bool) \<Rightarrow> js \<Rightarrow> (gate_evidence \<times> gate_evidence) option" where
  "createEnvelopeBindingGates sha256 canonicalKey input = do {
     record \<leftarrow> sizedRecord [''generationId'', ''walletPublicKey'', ''providerId'', ''observedAtMs'', ''expiresAtMs''] input;
     binding \<leftarrow> envelopeBinding sha256 canonicalKey (fld record ''generationId'') (fld record ''walletPublicKey'')
       (fld record ''providerId'');
     observedAtMs \<leftarrow> timestamp_field (fld record ''observedAtMs'');
     expiresAtMs \<leftarrow> timestamp_field (fld record ''expiresAtMs'');
     (if expiresAtMs < observedAtMs then None
      else Some
       (\<lparr>ge_payloadVersion = 1, ge_gateId = ''PROVIDER_EXIT_CAPACITY_VERIFIED'', ge_status = ''PASSED'',
         ge_evidenceType = ''PROVIDER_SNAPSHOT'', ge_evidenceId = eb_providerEvidenceId binding,
         ge_evidenceFingerprint = eb_providerEvidenceFingerprint binding,
         ge_observedAtMs = observedAtMs, ge_expiresAtMs = expiresAtMs\<rparr>,
        \<lparr>ge_payloadVersion = 1, ge_gateId = ''WALLET_CHAIN_LIMITS_VERIFIED'', ge_status = ''PASSED'',
         ge_evidenceType = ''WALLET_SNAPSHOT'', ge_evidenceId = eb_walletEvidenceId binding,
         ge_evidenceFingerprint = eb_walletEvidenceFingerprint binding,
         ge_observedAtMs = observedAtMs, ge_expiresAtMs = expiresAtMs\<rparr>))
   }"

definition createMainnetSimulationEvidenceFingerprint ::
    "(string \<Rightarrow> string) \<Rightarrow> (string \<Rightarrow> bool) \<Rightarrow> js \<Rightarrow> string option" where
  "createMainnetSimulationEvidenceFingerprint sha256 canonicalKey input = do {
     record \<leftarrow> sizedRecord MAINNET_SIMULATION_BINDING_KEYS input;
     artifactId \<leftarrow> patternedText (is_prefixed_hex64 ''execution_simulation_artifact_'') 94 (fld record ''artifactId'');
     resultFingerprint \<leftarrow> fingerprint_field (fld record ''resultFingerprint'');
     buildHash \<leftarrow> fingerprint_field (fld record ''buildHash'');
     configurationFingerprint \<leftarrow> fingerprint_field (fld record ''configurationFingerprint'');
     strategyFingerprint \<leftarrow> fingerprint_field (fld record ''strategyFingerprint'');
     walletPublicKey \<leftarrow> key_field canonicalKey (fld record ''walletPublicKey'');
     genesisHash \<leftarrow> key_field canonicalKey (fld record ''genesisHash'');
     providerId \<leftarrow> identifier_field (fld record ''providerId'');
     Some (sha256 (stringify (JsonArr (map JsonStr
       [''execution-mainnet-simulation-evidence-v1'', artifactId, resultFingerprint, buildHash,
        configurationFingerprint, strategyFingerprint, walletPublicKey, genesisHash, providerId]))))
   }"

subsection \<open>What a qualification says\<close>

definition valid_gate :: "int \<Rightarrow> int \<Rightarrow> string \<times> string \<Rightarrow> gate_evidence \<Rightarrow> bool" where
  "valid_gate qualifiedAtMs expiresAtMs expected g =
     (ge_payloadVersion g = 1 \<and> ge_gateId g = fst expected \<and> ge_status g = ''PASSED'' \<and> ge_evidenceType g = snd expected
      \<and> is_evidence_id (ge_evidenceId g) \<and> utf8_length (ge_evidenceId g) \<le> 256
      \<and> is_hex64 (ge_evidenceFingerprint g) \<and> utf8_length (ge_evidenceFingerprint g) \<le> 64
      \<and> 0 \<le> ge_observedAtMs g \<and> ge_observedAtMs g \<le> qualifiedAtMs
      \<and> expiresAtMs \<le> ge_expiresAtMs g \<and> ge_expiresAtMs g \<le> DATE_MAX_MS)"

definition valid_pattern :: "(string \<Rightarrow> bool) \<Rightarrow> nat \<Rightarrow> string \<Rightarrow> bool" where
  "valid_pattern test m s = (utf8_length s \<le> m \<and> test s)"

text \<open>The eleven gates, all passed, in order, observed before the qualification and valid to its end.\<close>

definition valid_qualification_fields :: "(string \<Rightarrow> bool) \<Rightarrow> qualification_fields \<Rightarrow> bool" where
  "valid_qualification_fields canonicalKey f =
     (valid_pattern is_hex64 64 (qf_buildHash f) \<and> valid_pattern is_hex64 64 (qf_configurationFingerprint f)
      \<and> valid_pattern is_hex64 64 (qf_strategyFingerprint f)
      \<and> valid_pattern (is_prefixed_hex64 ''execution_wallet_generation_'') 96 (qf_generationId f)
      \<and> valid_pattern canonicalKey 64 (qf_walletPublicKey f) \<and> valid_pattern canonicalKey 64 (qf_genesisHash f)
      \<and> valid_pattern is_identifier 64 (qf_providerId f)
      \<and> 0 \<le> qf_qualifiedAtMs f \<and> qf_qualifiedAtMs f \<le> DATE_MAX_MS
      \<and> 0 \<le> qf_expiresAtMs f \<and> qf_expiresAtMs f \<le> DATE_MAX_MS
      \<and> list_all2 (valid_gate (qf_qualifiedAtMs f) (qf_expiresAtMs f))
          (zip EXECUTION_SAFETY_GATE_IDS EVIDENCE_TYPES) (qf_gates f))"

text \<open>The provider and wallet gates of an envelope name the identities they stand for.\<close>

definition binding_of :: "(string \<Rightarrow> string) \<Rightarrow> string \<Rightarrow> string \<Rightarrow> string \<Rightarrow> envelope_binding" where
  "binding_of sha256 generationId walletPublicKey providerId =
     \<lparr>eb_providerEvidenceId = ''envelope-provider:'' @ providerId,
       eb_providerEvidenceFingerprint = sha256 (stringify (JsonArr
         [JsonStr ''execution-envelope-provider-binding-v1'', JsonStr generationId, JsonStr providerId])),
       eb_walletEvidenceId = generationId,
       eb_walletEvidenceFingerprint = sha256 (stringify (JsonArr
         [JsonStr ''execution-envelope-wallet-binding-v1'', JsonStr generationId, JsonStr walletPublicKey]))\<rparr>"

definition gates_bound :: "(string \<Rightarrow> string) \<Rightarrow> qualification_fields \<Rightarrow> bool" where
  "gates_bound sha256 f = (let b = binding_of sha256 (qf_generationId f) (qf_walletPublicKey f) (qf_providerId f) in
     gate_bound (qf_gates f) 7 ''PROVIDER_EXIT_CAPACITY_VERIFIED'' (eb_providerEvidenceId b) (eb_providerEvidenceFingerprint b)
     \<and> gate_bound (qf_gates f) 9 ''WALLET_CHAIN_LIMITS_VERIFIED'' (eb_walletEvidenceId b) (eb_walletEvidenceFingerprint b))"

definition valid_qualification :: "(string \<Rightarrow> string) \<Rightarrow> (string \<Rightarrow> bool) \<Rightarrow> int \<Rightarrow> qualification_fields \<Rightarrow> bool" where
  "valid_qualification sha256 canonicalKey version f =
     (valid_qualification_fields canonicalKey f
      \<and> (version = 1 \<and> qf_expiresAtMs f - qf_qualifiedAtMs f = QUALIFICATION_TTL_MS
         \<or> version = 2 \<and> qf_phase f = CANARY \<and> qf_qualifiedAtMs f < qf_expiresAtMs f
           \<and> qf_expiresAtMs f - qf_qualifiedAtMs f \<le> ENVELOPE_QUALIFICATION_MAXIMUM_TTL_MS \<and> gates_bound sha256 f))"

lemmas text_fields = fingerprint_field_def identifier_field_def generationId_field_def key_field_def timestamp_field_def

lemma PHASES_literals:
  "map_of PHASES (literal_of PHASES x) = Some x" "literal_of PHASES x = literal_of PHASES y \<longleftrightarrow> x = y"
proof -
  have "distinct (map fst PHASES)" by code_simp
  moreover have "z \<in> snd ` set PHASES" for z by (cases z) (simp_all add: PHASES_def)
  ultimately show "map_of PHASES (literal_of PHASES x) = Some x" "literal_of PHASES x = literal_of PHASES y \<longleftrightarrow> x = y"
    by (simp_all add: map_of_literal_of literal_of_inj)
qed

lemma evidenceItem_valid: "evidenceItem gid etype qa ea v = Some g \<Longrightarrow> valid_gate qa ea (gid, etype) g"
  unfolding evidenceItem_def result_simps text_fields valid_gate_def
  by (clarsimp simp: field_iffs)

lemma evidenceLoop_valid: "evidenceLoop expected es qa ea = Some gs \<Longrightarrow> list_all2 (valid_gate qa ea) expected gs"
  by (induction expected es qa ea arbitrary: gs rule: evidenceLoop.induct)
     (auto simp: result_simps dest: evidenceItem_valid)

lemma evidenceFrom_valid:
  "evidenceFrom v qa ea = Some gs \<Longrightarrow> list_all2 (valid_gate qa ea) (zip EXECUTION_SAFETY_GATE_IDS EVIDENCE_TYPES) gs"
  by (auto simp: evidenceFrom_def dest: evidenceLoop_valid split: js.splits if_splits)

lemma qualificationFieldsFrom_valid:
  "qualificationFieldsFrom canonicalKey r = Some f \<Longrightarrow> valid_qualification_fields canonicalKey f"
  unfolding qualificationFieldsFrom_def result_simps text_fields valid_qualification_fields_def valid_pattern_def
  by (clarsimp simp: field_iffs) (erule evidenceFrom_valid)

lemma envelopeBinding_Some:
  "envelopeBinding sha256 canonicalKey g w p = Some b \<longleftrightarrow> (\<exists>generationId walletPublicKey providerId.
     g = JStr generationId \<and> valid_pattern (is_prefixed_hex64 ''execution_wallet_generation_'') 96 generationId
     \<and> w = JStr walletPublicKey \<and> valid_pattern canonicalKey 64 walletPublicKey
     \<and> p = JStr providerId \<and> valid_pattern is_identifier 64 providerId
     \<and> b = binding_of sha256 generationId walletPublicKey providerId)"
  unfolding envelopeBinding_def result_simps text_fields valid_pattern_def binding_of_def by (auto simp: field_iffs)

lemma qualificationFieldsFrom_phase:
  "qualificationFieldsFrom canonicalKey r = Some f \<Longrightarrow> enumValue PHASES (fld r ''phase'') = Some (qf_phase f)"
  unfolding qualificationFieldsFrom_def result_simps by clarsimp

lemma createCanary_Some:
  "createCanarySafetyQualification sha256 canonicalKey v = Some q \<Longrightarrow>
     \<exists>f. valid_qualification sha256 canonicalKey 1 f \<and> q = qualificationOf sha256 1 f"
  unfolding createCanarySafetyQualification_def result_simps
  by (auto simp: valid_qualification_def dest: qualificationFieldsFrom_valid)

lemma createEnvelope_Some:
  assumes "createEnvelopeSafetyQualification sha256 canonicalKey v = Some q"
  shows "\<exists>f. valid_qualification sha256 canonicalKey 2 f \<and> q = qualificationOf sha256 2 f"
proof -
  from assms obtain r f b where f: "qualificationFieldsFrom canonicalKey r = Some f"
    and phase: "fld r ''phase'' = JStr ''CANARY''"
    and ttl: "0 < qf_expiresAtMs f - qf_qualifiedAtMs f"
      "qf_expiresAtMs f - qf_qualifiedAtMs f \<le> ENVELOPE_QUALIFICATION_MAXIMUM_TTL_MS"
    and b: "envelopeBinding sha256 canonicalKey (JStr (qf_generationId f)) (JStr (qf_walletPublicKey f))
      (JStr (qf_providerId f)) = Some b"
    and bound: "gate_bound (qf_gates f) 7 ''PROVIDER_EXIT_CAPACITY_VERIFIED''
        (eb_providerEvidenceId b) (eb_providerEvidenceFingerprint b)"
      "gate_bound (qf_gates f) 9 ''WALLET_CHAIN_LIMITS_VERIFIED''
        (eb_walletEvidenceId b) (eb_walletEvidenceFingerprint b)"
    and q: "q = qualificationOf sha256 2 f"
    unfolding createEnvelopeSafetyQualification_def result_simps Let_def not_le not_less de_Morgan_disj not_not
    by (elim exE conjE) (auto simp: result_simps)
  have "qf_phase f = CANARY"
    using qualificationFieldsFrom_phase [OF f] phase by (simp add: enumValue_def PHASES_def)
  moreover have "gates_bound sha256 f"
    using b bound by (auto simp: envelopeBinding_Some gates_bound_def Let_def)
  ultimately show ?thesis
    using qualificationFieldsFrom_valid [OF f] ttl q by (auto simp: valid_qualification_def)
qed

lemma createSafetyQualification_Some:
  "createSafetyQualification sha256 canonicalKey v = Some q \<Longrightarrow>
     \<exists>version f. valid_qualification sha256 canonicalKey version f \<and> q = qualificationOf sha256 version f"
  by (metis createSafetyQualification_def createCanary_Some createEnvelope_Some)

subsection \<open>Qualifications as objects\<close>

definition gateObject :: "gate_evidence \<Rightarrow> js" where
  "gateObject g = frozen_object
  [(''payloadVersion'', JNum (JInt (ge_payloadVersion g))), (''gateId'', JStr (ge_gateId g)), (''status'', JStr (ge_status g)),
   (''evidenceType'', JStr (ge_evidenceType g)), (''evidenceId'', JStr (ge_evidenceId g)),
   (''evidenceFingerprint'', JStr (ge_evidenceFingerprint g)), (''observedAtMs'', JNum (JInt (ge_observedAtMs g))),
   (''expiresAtMs'', JNum (JInt (ge_expiresAtMs g)))]"

definition fieldsRecord :: "qualification_fields \<Rightarrow> js_record" where
  "fieldsRecord f =
  [(''phase'', JStr (literal_of PHASES (qf_phase f))), (''buildHash'', JStr (qf_buildHash f)),
   (''configurationFingerprint'', JStr (qf_configurationFingerprint f)),
   (''strategyFingerprint'', JStr (qf_strategyFingerprint f)), (''generationId'', JStr (qf_generationId f)),
   (''walletPublicKey'', JStr (qf_walletPublicKey f)), (''cluster'', JStr ''mainnet-beta''),
   (''genesisHash'', JStr (qf_genesisHash f)), (''providerId'', JStr (qf_providerId f)),
   (''qualifiedAtMs'', JNum (JInt (qf_qualifiedAtMs f))), (''expiresAtMs'', JNum (JInt (qf_expiresAtMs f))),
   (''gates'', JArr False True (map (\<lambda>g. Some (DataProp True (gateObject g))) (qf_gates f)))]"

definition qualificationInput :: "int \<Rightarrow> qualification_fields \<Rightarrow> js_record" where
  "qualificationInput version f = (''payloadVersion'', JNum (JInt version))
     # (if version = 2 then [(''scope'', JStr ''ENVELOPE'')] else [])
     @ (''evaluatorVersion'', JNum (JInt 1)) # fieldsRecord f"

text \<open>The frozen object \<open>createSafetyQualification\<close> returns.\<close>

definition qualificationRecord :: "safety_qualification \<Rightarrow> js_record" where
  "qualificationRecord q = (''qualificationId'', JStr (sq_qualificationId q))
     # (''payloadVersion'', JNum (JInt (sq_payloadVersion q)))
     # (if sq_payloadVersion q = 2 then [(''scope'', JStr ''ENVELOPE'')] else [])
     @ (''evaluatorVersion'', JNum (JInt 1)) # (''qualificationFingerprint'', JStr (sq_qualificationFingerprint q))
     # fieldsRecord (sq_fields q)"

definition qualificationObject :: "safety_qualification \<Rightarrow> js" where
  "qualificationObject q = frozen_object (qualificationRecord q)"

lemma evidenceItem_object:
  assumes "valid_gate qa ea (gid, etype) g" and "0 \<le> ea" and "qa \<le> DATE_MAX_MS"
  shows "evidenceItem gid etype qa ea (gateObject g) = Some g"
proof -
  have "sizedRecord EVIDENCE_KEYS (gateObject g) = Some
    [(''payloadVersion'', JNum (JInt (ge_payloadVersion g))), (''gateId'', JStr (ge_gateId g)), (''status'', JStr (ge_status g)),
     (''evidenceType'', JStr (ge_evidenceType g)), (''evidenceId'', JStr (ge_evidenceId g)),
     (''evidenceFingerprint'', JStr (ge_evidenceFingerprint g)), (''observedAtMs'', JNum (JInt (ge_observedAtMs g))),
     (''expiresAtMs'', JNum (JInt (ge_expiresAtMs g)))]"
    unfolding gateObject_def
    by (subst readers_frozen_object(2)) (simp_all add: EVIDENCE_KEYS_def pick_def)
  then show ?thesis
    using assms
    by (cases g) (simp add: evidenceItem_def valid_gate_def text_fields patternedText_def boundedInteger_def)
qed

lemma evidenceLoop_object:
  "list_all2 (valid_gate qa ea) expected gs \<Longrightarrow> 0 \<le> ea \<Longrightarrow> qa \<le> DATE_MAX_MS \<Longrightarrow>
     evidenceLoop expected (map (\<lambda>g. Some (DataProp True (gateObject g))) gs) qa ea = Some gs"
proof (induction rule: list_all2_induct)
  case (Cons e es g gs)
  then show ?case by (cases e) (simp add: evidenceItem_object)
qed simp

lemma evidenceFrom_object:
  assumes "list_all2 (valid_gate qa ea) (zip EXECUTION_SAFETY_GATE_IDS EVIDENCE_TYPES) gs" and "0 \<le> ea" and "qa \<le> DATE_MAX_MS"
  shows "evidenceFrom (JArr False True (map (\<lambda>g. Some (DataProp True (gateObject g))) gs)) qa ea = Some gs"
proof -
  have "length gs = length EXECUTION_SAFETY_GATE_IDS"
    using list_all2_lengthD [OF assms(1)] by (simp add: EXECUTION_SAFETY_GATE_IDS_def EVIDENCE_TYPES_def)
  then show ?thesis using evidenceLoop_object [OF assms] by (simp add: evidenceFrom_def)
qed

lemma qualificationFieldsFrom_object:
  assumes "valid_qualification_fields canonicalKey f" and "\<And>k. k \<in> fst ` set (fieldsRecord f) \<Longrightarrow> fld r k = fld (fieldsRecord f) k"
  shows "qualificationFieldsFrom canonicalKey r = Some f"
proof -
  have flds: "fld r ''phase'' = JStr (literal_of PHASES (qf_phase f))" "fld r ''buildHash'' = JStr (qf_buildHash f)"
    "fld r ''configurationFingerprint'' = JStr (qf_configurationFingerprint f)"
    "fld r ''strategyFingerprint'' = JStr (qf_strategyFingerprint f)" "fld r ''generationId'' = JStr (qf_generationId f)"
    "fld r ''walletPublicKey'' = JStr (qf_walletPublicKey f)" "fld r ''cluster'' = JStr ''mainnet-beta''"
    "fld r ''genesisHash'' = JStr (qf_genesisHash f)" "fld r ''providerId'' = JStr (qf_providerId f)"
    "fld r ''qualifiedAtMs'' = JNum (JInt (qf_qualifiedAtMs f))" "fld r ''expiresAtMs'' = JNum (JInt (qf_expiresAtMs f))"
    "fld r ''gates'' = JArr False True (map (\<lambda>g. Some (DataProp True (gateObject g))) (qf_gates f))"
    by (simp_all add: assms(2) fieldsRecord_def)
  show ?thesis
    using assms(1) unfolding qualificationFieldsFrom_def flds
    by (simp add: flds valid_qualification_fields_def valid_pattern_def text_fields patternedText_def boundedInteger_def
        enumValue_def PHASES_literals evidenceFrom_object)
qed

lemma QUALIFICATION_KEYS_distinct: "distinct QUALIFICATION_INPUT_KEYS_V2"
  by code_simp

lemma qualificationInput_keys:
  "fst ` set (qualificationInput version f) = set (if version = 2 then QUALIFICATION_INPUT_KEYS_V2 else QUALIFICATION_INPUT_KEYS)"
  by (auto simp: qualificationInput_def fieldsRecord_def QUALIFICATION_INPUT_KEYS_def QUALIFICATION_INPUT_KEYS_V2_def)

lemma qualificationInput_flds:
  "fld (qualificationInput version f) ''payloadVersion'' = JNum (JInt version)"
  "fld (qualificationInput version f) ''evaluatorVersion'' = JNum (JInt 1)"
  "version = 2 \<Longrightarrow> fld (qualificationInput version f) ''scope'' = JStr ''ENVELOPE''"
  "k \<in> fst ` set (fieldsRecord f) \<Longrightarrow> fld (qualificationInput version f) k = fld (fieldsRecord f) k"
  by (auto simp: qualificationInput_def fieldsRecord_def)

text \<open>An object with the properties of an input, in any order.\<close>

definition input_like :: "int \<Rightarrow> qualification_fields \<Rightarrow> js_record \<Rightarrow> bool" where
  "input_like version f r = (distinct (map fst r) \<and> fst ` set r = fst ` set (qualificationInput version f)
     \<and> (\<forall>k \<in> fst ` set r. fld r k = fld (qualificationInput version f) k))"

lemma input_like_read:
  assumes "input_like version f r"
    and "ks = (if version = 2 then QUALIFICATION_INPUT_KEYS_V2 else QUALIFICATION_INPUT_KEYS)"
  shows "sizedRecord ks (object_literal r) = Some (pick r ks)"
    and "k \<in> set ks \<Longrightarrow> fld (pick r ks) k = fld (qualificationInput version f) k"
    and "valid_qualification_fields canonicalKey f \<Longrightarrow> qualificationFieldsFrom canonicalKey (pick r ks) = Some f"
    and "ownDataProperty (object_literal r) ''payloadVersion'' = JNum (JInt version)"
proof -
  have set_keys: "set ks = fst ` set r"
    using assms qualificationInput_keys [of version f] by (simp add: input_like_def)
  have "distinct ks" using QUALIFICATION_KEYS_distinct assms(2) by (simp add: QUALIFICATION_INPUT_KEYS_V2_def)
  then show read: "sizedRecord ks (object_literal r) = Some (pick r ks)"
    unfolding object_readers using assms(1) set_keys by (intro readers_frozen_object(2)) (simp_all add: input_like_def)
  have all: "\<forall>k \<in> fst ` set r. fld r k = fld (qualificationInput version f) k"
    using assms(1) unfolding input_like_def by (elim conjE)
  have fld: "fld (pick r ks) k = fld (qualificationInput version f) k" if "k \<in> set ks" for k
    using bspec [OF all, of k] that set_keys by (simp add: fld_pick_in)
  then show "k \<in> set ks \<Longrightarrow> fld (pick r ks) k = fld (qualificationInput version f) k" .
  have members: "''payloadVersion'' \<in> set ks" "fst ` set (fieldsRecord f) \<subseteq> set ks"
    by (auto simp: assms(2) QUALIFICATION_INPUT_KEYS_V2_def QUALIFICATION_INPUT_KEYS_def fieldsRecord_def)
  have "fld (pick r ks) k = fld (fieldsRecord f) k" if "k \<in> fst ` set (fieldsRecord f)" for k
    using fld [OF subsetD [OF members(2) that]] qualificationInput_flds(4) [OF that] by simp
  then show "qualificationFieldsFrom canonicalKey (pick r ks) = Some f" if "valid_qualification_fields canonicalKey f"
    by (intro qualificationFieldsFrom_object [OF that])
  have "enumerableDataProp (object_literal r) ''payloadVersion'' = Some (fld (pick r ks) ''payloadVersion'')"
    using sizedRecord_Some [OF read] members(1) by blast
  then show "ownDataProperty (object_literal r) ''payloadVersion'' = JNum (JInt version)"
    by (simp add: ownDataProperty_def fld members(1) qualificationInput_flds) (simp add: object_literal_def)
qed

lemma createCanary_object:
  assumes valid: "valid_qualification sha256 canonicalKey 1 f" and like: "input_like 1 f r"
  shows "createSafetyQualification sha256 canonicalKey (object_literal r) = Some (qualificationOf sha256 1 f)"
proof -
  note read = input_like_read [OF like, of QUALIFICATION_INPUT_KEYS, simplified]
  have "''payloadVersion'' \<in> set QUALIFICATION_INPUT_KEYS" "''evaluatorVersion'' \<in> set QUALIFICATION_INPUT_KEYS"
    by (simp_all add: QUALIFICATION_INPUT_KEYS_def)
  then have "createCanarySafetyQualification sha256 canonicalKey (object_literal r) = Some (qualificationOf sha256 1 f)"
    using read valid unfolding createCanarySafetyQualification_def
    by (simp add: valid_qualification_def qualificationInput_flds)
  then show ?thesis using read by (simp add: createSafetyQualification_def)
qed

lemma createEnvelope_object:
  assumes valid: "valid_qualification sha256 canonicalKey 2 f" and like: "input_like 2 f r"
  shows "createSafetyQualification sha256 canonicalKey (object_literal r) = Some (qualificationOf sha256 2 f)"
proof -
  note read = input_like_read [OF like, of QUALIFICATION_INPUT_KEYS_V2, simplified]
  have keys: "''payloadVersion'' \<in> set QUALIFICATION_INPUT_KEYS_V2" "''evaluatorVersion'' \<in> set QUALIFICATION_INPUT_KEYS_V2"
    "''scope'' \<in> set QUALIFICATION_INPUT_KEYS_V2" "''phase'' \<in> set QUALIFICATION_INPUT_KEYS_V2"
    by (simp_all add: QUALIFICATION_INPUT_KEYS_def QUALIFICATION_INPUT_KEYS_V2_def)
  have "qf_phase f = CANARY" using valid by (simp add: valid_qualification_def)
  then have phase: "fld (qualificationInput 2 f) ''phase'' = JStr ''CANARY''"
    by (simp add: qualificationInput_def fieldsRecord_def literal_of_def PHASES_def)
  have "envelopeBinding sha256 canonicalKey (JStr (qf_generationId f)) (JStr (qf_walletPublicKey f)) (JStr (qf_providerId f))
      = Some (binding_of sha256 (qf_generationId f) (qf_walletPublicKey f) (qf_providerId f))"
    using valid by (simp add: envelopeBinding_Some valid_qualification_def valid_qualification_fields_def)
  then have "createEnvelopeSafetyQualification sha256 canonicalKey (object_literal r) = Some (qualificationOf sha256 2 f)"
    using read valid keys phase unfolding createEnvelopeSafetyQualification_def
    by (simp add: valid_qualification_def qualificationInput_flds gates_bound_def Let_def)
  then show ?thesis using read by (simp add: createSafetyQualification_def)
qed

lemma createSafetyQualification_object:
  assumes "valid_qualification sha256 canonicalKey version f" and "input_like version f r"
  shows "createSafetyQualification sha256 canonicalKey (object_literal r) = Some (qualificationOf sha256 version f)"
  using assms createCanary_object createEnvelope_object by (auto simp: valid_qualification_def)

lemma qualificationRecord_rest:
  "distinct (map fst (qualificationRecord q))"
  "input_like (sq_payloadVersion q) (sq_fields q)
     (filter (\<lambda>(k, _). k \<notin> set [''qualificationId'', ''qualificationFingerprint'']) (qualificationRecord q))"
  by (auto simp: qualificationRecord_def fieldsRecord_def input_like_def qualificationInput_def)

text \<open>Taking a qualification apart by a rest pattern and creating it again gives it back.\<close>

lemma qualification_recreated:
  assumes "createSafetyQualification sha256 canonicalKey v = Some q"
  shows "\<exists>rest. restPattern exotic [''qualificationId'', ''qualificationFingerprint''] (qualificationObject q)
      = Some ([(''qualificationId'', JStr (sq_qualificationId q)),
          (''qualificationFingerprint'', JStr (sq_qualificationFingerprint q))], rest)
    \<and> createSafetyQualification sha256 canonicalKey rest = Some q"
proof -
  from createSafetyQualification_Some [OF assms] obtain version f
    where valid: "valid_qualification sha256 canonicalKey version f" and q: "q = qualificationOf sha256 version f" by blast
  have "sq_payloadVersion q = version" "sq_fields q = f" by (simp_all add: q qualificationOf_def Let_def)
  with qualificationRecord_rest(2) [of q]
  have "createSafetyQualification sha256 canonicalKey (object_literal
      (filter (\<lambda>(k, _). k \<notin> set [''qualificationId'', ''qualificationFingerprint'']) (qualificationRecord q))) = Some q"
    using createSafetyQualification_object [OF valid] q by simp
  moreover have "pick (qualificationRecord q) [''qualificationId'', ''qualificationFingerprint'']
      = [(''qualificationId'', JStr (sq_qualificationId q)),
         (''qualificationFingerprint'', JStr (sq_qualificationFingerprint q))]"
    by (simp add: pick_def qualificationRecord_def)
  ultimately show ?thesis
    unfolding qualificationObject_def restPattern_frozen_object [OF qualificationRecord_rest(1)] by simp
qed

lemma gatePreimage_inj: "inj_on gatePreimage {g. ge_payloadVersion g = 1}"
  by (rule inj_onI) (simp add: gatePreimage_def)

lemma valid_qualification_gates:
  "valid_qualification sha256 canonicalKey version f \<Longrightarrow>
     list_all2 (valid_gate (qf_qualifiedAtMs f) (qf_expiresAtMs f)) (zip EXECUTION_SAFETY_GATE_IDS EVIDENCE_TYPES) (qf_gates f)"
  by (simp add: valid_qualification_def valid_qualification_fields_def)

lemma valid_gates_payload:
  "list_all2 (valid_gate qa ea) expected gs \<Longrightarrow> set gs \<subseteq> {g. ge_payloadVersion g = 1}"
  by (induction rule: list_all2_induct) (auto simp: valid_gate_def)

lemma qualificationPreimage_inj:
  assumes "qualificationPreimage i f = qualificationPreimage j g"
    and "valid_qualification sha256 k i f" and "valid_qualification sha256 k j g"
  shows "i = j \<and> f = g"
proof -
  have version: "i = j" and eq: "fieldsPreimage f = fieldsPreimage g"
    using assms by (auto simp: qualificationPreimage_def valid_qualification_def split: if_splits)
  have "set (qf_gates h) \<subseteq> {g. ge_payloadVersion g = 1}" if "valid_qualification sha256 k i h" for i h
    by (rule valid_gates_payload [OF valid_qualification_gates [OF that]])
  then have "set (qf_gates f) \<union> set (qf_gates g) \<subseteq> {g. ge_payloadVersion g = 1}"
    using assms(2,3) by blast
  from inj_on_subset [OF gatePreimage_inj this] eq have "qf_gates f = qf_gates g"
    by (simp add: fieldsPreimage_def inj_on_map_eq_map)
  then show ?thesis
    using version eq by (cases f; cases g) (simp add: fieldsPreimage_def PHASES_literals)
qed

text \<open>
  C12. Nothing is qualified without evidence for every gate. In a qualification the code creates, the
  eleven gates appear once each in their order, all passed, and the evidence of each covers the
  whole life of the qualification. That life is five minutes, or for an envelope at most a
  day; the provider and wallet gates of an envelope are then bound to the generation, wallet and
  provider the qualification names.
\<close>

theorem qualification_gates_cover:
  assumes "createSafetyQualification sha256 canonicalKey v = Some q"
  shows "map ge_gateId (qf_gates (sq_fields q)) = EXECUTION_SAFETY_GATE_IDS
    \<and> (\<forall>g \<in> set (qf_gates (sq_fields q)). ge_status g = ''PASSED''
        \<and> ge_observedAtMs g \<le> qf_qualifiedAtMs (sq_fields q) \<and> qf_expiresAtMs (sq_fields q) \<le> ge_expiresAtMs g)
    \<and> (if qualificationScope q = CANARY_SCOPE
       then qf_expiresAtMs (sq_fields q) = qf_qualifiedAtMs (sq_fields q) + 5 * 60 * 1000
       else qf_phase (sq_fields q) = CANARY \<and> gates_bound sha256 (sq_fields q)
         \<and> 0 < qf_expiresAtMs (sq_fields q) - qf_qualifiedAtMs (sq_fields q)
         \<and> qf_expiresAtMs (sq_fields q) - qf_qualifiedAtMs (sq_fields q) \<le> 24 * 60 * 60 * 1000)"
proof -
  from createSafetyQualification_Some [OF assms] obtain version f
    where valid: "valid_qualification sha256 canonicalKey version f" and q: "q = qualificationOf sha256 version f" by blast
  have flds: "sq_payloadVersion q = version" "sq_fields q = f" by (simp_all add: q qualificationOf_def Let_def)
  have "map ge_gateId gs = map fst es \<and> (\<forall>g \<in> set gs. ge_status g = ''PASSED'' \<and> ge_observedAtMs g \<le> qa \<and> ea \<le> ge_expiresAtMs g)"
    if "list_all2 (valid_gate qa ea) es gs" for qa ea es gs
    using that by (induction rule: list_all2_induct) (auto simp: valid_gate_def)
  from this [OF valid_qualification_gates [OF valid]] show ?thesis
    using valid by (auto simp: flds qualificationScope_def valid_qualification_def EXECUTION_SAFETY_GATE_IDS_def EVIDENCE_TYPES_def)
qed

text \<open>
  C15. A qualification is its identifier: two qualifications the code creates have one identifier exactly
  when version and all fields agree, gates included, and taking the identity off a qualification
  and creating it again, as every consumer does, gives the same qualification.
\<close>

theorem qualification_identity:
  assumes "createSafetyQualification sha256 canonicalKey v = Some p" and "createSafetyQualification sha256 canonicalKey w = Some q"
    and "inj_on sha256 {stringify (qualificationPreimage (sq_payloadVersion p) (sq_fields p)),
      stringify (qualificationPreimage (sq_payloadVersion q) (sq_fields q))}"
  shows "(sq_qualificationId p = sq_qualificationId q \<longleftrightarrow> p = q)
    \<and> (\<exists>names rest. restPattern exotic [''qualificationId'', ''qualificationFingerprint''] (qualificationObject p) = Some (names, rest)
        \<and> createSafetyQualification sha256 canonicalKey rest = Some p)"
proof -
  from createSafetyQualification_Some [OF assms(1)] createSafetyQualification_Some [OF assms(2)] obtain i f j g
    where p: "valid_qualification sha256 canonicalKey i f" "p = qualificationOf sha256 i f"
      and q: "valid_qualification sha256 canonicalKey j g" "q = qualificationOf sha256 j g" by blast
  have "sq_qualificationId p = sq_qualificationId q \<longleftrightarrow> qualificationPreimage i f = qualificationPreimage j g"
    using digest_binds [OF assms(3), of "qualificationPreimage i f" "qualificationPreimage j g"]
    by (simp add: p(2) q(2) qualificationOf_def Let_def)
  then have "sq_qualificationId p = sq_qualificationId q \<longleftrightarrow> p = q"
    using qualificationPreimage_inj [OF _ p(1) q(1)] by (auto simp: p(2) q(2))
  then show ?thesis using qualification_recreated [OF assms(1), of exotic] by blast
qed

subsection \<open>A concrete qualification\<close>

abbreviation zeros :: string where "zeros \<equiv> replicate 64 (CHR ''0'')"

definition example_gate :: "string \<times> string \<Rightarrow> gate_evidence" where
  "example_gate e = \<lparr>ge_payloadVersion = 1, ge_gateId = fst e, ge_status = ''PASSED'', ge_evidenceType = snd e,
     ge_evidenceId = ''ci:1'', ge_evidenceFingerprint = zeros, ge_observedAtMs = 900, ge_expiresAtMs = 90000000\<rparr>"

definition example_qualification :: "int \<Rightarrow> qualification_fields" where
  "example_qualification ttl = \<lparr>qf_phase = CANARY, qf_buildHash = zeros, qf_configurationFingerprint = zeros,
     qf_strategyFingerprint = zeros, qf_generationId = ''execution_wallet_generation_'' @ zeros,
     qf_walletPublicKey = ''wallet'', qf_genesisHash = ''genesis'', qf_providerId = ''helius'',
     qf_qualifiedAtMs = 1000, qf_expiresAtMs = 1000 + ttl,
     qf_gates = map example_gate (zip EXECUTION_SAFETY_GATE_IDS EVIDENCE_TYPES)\<rparr>"

lemma zeros_hex: "is_hex64 zeros" "utf8_length zeros = 64" "utf8_length (''execution_wallet_generation_'' @ zeros) = 92"
  by code_simp+

lemma example_qualification_fields:
  assumes "0 \<le> ttl" and "ttl \<le> 80000000"
  shows "valid_qualification_fields (\<lambda>_. True) (example_qualification ttl)"
proof -
  have "list_all2 (valid_gate 1000 (1000 + ttl)) es (map example_gate es)" for es
  proof -
    have "is_evidence_id ''ci:1''" "utf8_length ''ci:1'' = 4" by code_simp+
    then show ?thesis
      using assms zeros_hex by (induction es) (simp_all add: valid_gate_def example_gate_def)
  qed
  moreover have "is_identifier ''helius''" "utf8_length ''helius'' = 6" "utf8_length ''wallet'' = 6" "utf8_length ''genesis'' = 7"
    by code_simp+
  ultimately show ?thesis
    using assms zeros_hex is_prefixed_hex64_append [of "''execution_wallet_generation_''" zeros]
    by (simp add: valid_qualification_fields_def example_qualification_def valid_pattern_def del: is_prefixed_hex64_append append.simps)
qed

lemma example_qualification_valid: "valid_qualification sha256 (\<lambda>_. True) 1 (example_qualification 300000)"
  using example_qualification_fields [of 300000] by (simp add: valid_qualification_def example_qualification_def)

lemma qualification_created:
  "valid_qualification sha256 canonicalKey version f \<Longrightarrow>
     createSafetyQualification sha256 canonicalKey (object_literal (qualificationInput version f)) = Some (qualificationOf sha256 version f)"
  by (rule createSafetyQualification_object) (auto simp: input_like_def qualificationInput_def fieldsRecord_def)

theorem qualification_gates_cover_witness:
  "list_all (\<lambda>g. ge_observedAtMs g \<le> 1000 \<and> 301000 \<le> ge_expiresAtMs g) (qf_gates (example_qualification 300000))"
  using qualification_gates_cover [OF qualification_created [OF example_qualification_valid [of zero_digest]]]
  by (simp add: list_all_iff qualificationOf_def Let_def example_qualification_def)

theorem qualification_identity_witness:
  "(let sha256 = split_digest (stringify (qualificationPreimage 1 (example_qualification 300000)));
        other = (example_qualification 300000)\<lparr>qf_phase := PILOT\<rparr> in
     sq_qualificationId (qualificationOf sha256 1 (example_qualification 300000)) \<noteq> sq_qualificationId (qualificationOf sha256 1 other))"
proof -
  let ?sha = "split_digest (stringify (qualificationPreimage 1 (example_qualification 300000)))"
  let ?f = "example_qualification 300000" and ?g = "(example_qualification 300000)\<lparr>qf_phase := PILOT\<rparr>"
  have "valid_qualification ?sha (\<lambda>_. True) 1 ?g"
    using example_qualification_valid [of ?sha] by (simp add: valid_qualification_def valid_qualification_fields_def)
  note created = qualification_created [OF example_qualification_valid] qualification_created [OF this]
  have "inj_on ?sha {stringify (qualificationPreimage (sq_payloadVersion (qualificationOf ?sha 1 ?f)) (sq_fields (qualificationOf ?sha 1 ?f))),
      stringify (qualificationPreimage (sq_payloadVersion (qualificationOf ?sha 1 ?g)) (sq_fields (qualificationOf ?sha 1 ?g)))}"
    unfolding qualificationOf_def Let_def safety_qualification.simps by (rule inj_on_split_digest)
  from qualification_identity [OF created this]
  show ?thesis by (simp add: Let_def qualificationOf_def example_qualification_def)
qed

end
