(* ===== verification/Wallet_Snapshot.thy ===== *)
theory Wallet_Snapshot
  imports Risk_Policy Record_Readers Execution_Intent
begin

text \<open>
  Finalised snapshots of the executor's wallet (\<open>src/src/domain/execution-wallet-snapshot.ts\<close>), and the
  digest over length-prefixed items that this module and \<open>execution-operations.ts\<close> use
  (\<open>hashLengthPrefixed\<close>). SHA-256 is the argument \<open>sha256\<close>, here a function of bytes.
\<close>

subsection \<open>Digests of length-prefixed items\<close>

text \<open>A text stands for itself, any other item for its JSON.\<close>

definition itemText :: "json \<Rightarrow> string" where
  "itemText item = (case item of JsonStr s \<Rightarrow> s | _ \<Rightarrow> stringify item)"

definition decimalPrefixed :: "string list \<Rightarrow> nat list" where
  "decimalPrefixed texts = concat (map (\<lambda>t. utf8 (dec_nat (length (utf8 t))) @ utf8 '':'' @ utf8 t) texts)"

definition hashLengthPrefixed :: "(nat list \<Rightarrow> string) \<Rightarrow> json list \<Rightarrow> string" where
  "hashLengthPrefixed sha256 items = sha256 (decimalPrefixed (map itemText items))"

lemma utf8_dec_nat: "utf8 (dec_nat n) = map code_unit (dec_nat n)" "58 \<notin> set (utf8 (dec_nat n))"
proof -
  have digit: "48 \<le> code_unit c \<and> code_unit c \<le> 57" if "c \<in> set (dec_nat n)" for c
    using dec_nat_digits that by blast
  have "utf8 s = map code_unit s" if "\<forall>c \<in> set s. code_unit c < 128" for s
    using that by (induction s) (auto simp: utf8_def utf8_char_def Let_def)
  then show eq: "utf8 (dec_nat n) = map code_unit (dec_nat n)" using digit by fastforce
  show "58 \<notin> set (utf8 (dec_nat n))" unfolding eq using digit by fastforce
qed

lemma utf8_colon: "utf8 '':'' = [58]"
  by code_simp

lemma split_at_mark:
  assumes "xs @ m # r = ys @ m # s" and "m \<notin> set xs" and "m \<notin> set ys"
  shows "xs = ys \<and> r = s"
  using assms
proof (induction xs arbitrary: ys)
  case Nil
  then show ?case by (cases ys) auto
next
  case (Cons x xs)
  then show ?case by (cases ys) auto
qed

text \<open>The items can be read back from the bytes.\<close>

lemma decimalPrefixed_inj: "decimalPrefixed xs = decimalPrefixed ys \<Longrightarrow> xs = ys"
proof (induction xs arbitrary: ys)
  case Nil
  then show ?case by (cases ys) (auto simp: decimalPrefixed_def utf8_colon)
next
  case (Cons x xs)
  then obtain y ys' where ys: "ys = y # ys'"
    by (cases ys) (auto simp: decimalPrefixed_def utf8_colon)
  have "utf8 (dec_nat (length (utf8 x))) @ 58 # utf8 x @ decimalPrefixed xs
      = utf8 (dec_nat (length (utf8 y))) @ 58 # utf8 y @ decimalPrefixed ys'"
    using Cons.prems by (simp add: ys decimalPrefixed_def utf8_colon)
  from split_at_mark [OF this] have digits: "utf8 (dec_nat (length (utf8 x))) = utf8 (dec_nat (length (utf8 y)))"
    and rest: "utf8 x @ decimalPrefixed xs = utf8 y @ decimalPrefixed ys'"
    by (simp_all add: utf8_dec_nat(2))
  have "length (utf8 x) = length (utf8 y)" using digits by (intro dec_nat_inj utf8_inj)
  with rest have "utf8 x = utf8 y" "decimalPrefixed xs = decimalPrefixed ys'" by auto
  then show ?case using Cons.IH utf8_inj ys by auto
qed

lemma hashLengthPrefixed_binds:
  assumes "inj_on sha256 T" and "decimalPrefixed (map itemText xs) \<in> T" and "decimalPrefixed (map itemText ys) \<in> T"
  shows "hashLengthPrefixed sha256 xs = hashLengthPrefixed sha256 ys \<longleftrightarrow> map itemText xs = map itemText ys"
  using assms decimalPrefixed_inj by (auto simp: hashLengthPrefixed_def dest: inj_onD)

subsection \<open>Data\<close>

record wallet_fields =
  wf_generationId :: string
  wf_providerId :: string
  wf_stateRevision :: int
  wf_slot :: int
  wf_blockTimeMs :: "int option"
  wf_observedAtMs :: int
  wf_walletLamports :: int
  wf_tokenBalanceCount :: int
  wf_openPositions :: "risk_position list"
  wf_realizedNetPnlRaw :: int

text \<open>The commitment is the constant \<open>finalized\<close>.\<close>

record wallet_snapshot =
  ws_snapshotId :: string
  ws_payloadVersion :: int
  ws_snapshotFingerprint :: string
  ws_fields :: wallet_fields

definition WALLET_INPUT_KEYS :: "string list" where
  "WALLET_INPUT_KEYS =
  [''generationId'', ''providerId'', ''stateRevision'', ''slot'', ''blockTimeMs'', ''observedAtMs'',
   ''commitment'', ''walletLamports'', ''tokenBalanceCount'', ''openPositions'', ''realizedNetPnlRaw'']"

definition WALLET_SNAPSHOT_KEYS :: "string list" where
  "WALLET_SNAPSHOT_KEYS = [''snapshotId'', ''payloadVersion'', ''snapshotFingerprint''] @ WALLET_INPUT_KEYS"

subsection \<open>Snapshots\<close>

definition is_printable_text :: "string \<Rightarrow> bool" where
  "is_printable_text s = (s \<noteq> [] \<and> list_all is_printable s)"

fun walletPositionsLoop :: "js js_prop option list \<Rightarrow> string list \<Rightarrow> risk_position list option" where
  "walletPositionsLoop [] ids = Some []"
| "walletPositionsLoop (Some (DataProp True x) # rest) ids = do {
     row \<leftarrow> exactRecord POSITION_KEYS x;
     positionId \<leftarrow> patternedText is_printable_text 256 (fld row ''positionId'');
     (if positionId \<in> set ids then None
      else do {
        status \<leftarrow> enumValue POSITION_STATUSES (fld row ''reconciliationStatus'');
        costBasis \<leftarrow> unsignedBigint (fld row ''costBasisLamports'');
        (if costBasis = 0 then None
         else do {
           liquidation \<leftarrow> nullable unsignedBigint (fld row ''conservativeLiquidationLamports'');
           positions \<leftarrow> walletPositionsLoop rest (positionId # ids);
           Some (\<lparr>riskPositionId = positionId, costBasisLamports = costBasis,
             conservativeLiquidationLamports = liquidation, reconciliationStatus = status\<rparr> # positions)
         })
      })
   }"
| "walletPositionsLoop (_ # rest) ids = None"

definition walletPositionsFrom :: "js \<Rightarrow> risk_position list option" where
  "walletPositionsFrom v = (case v of
     JArr proxy frozen elems \<Rightarrow> if proxy \<or> length elems > 2 then None else walletPositionsLoop elems []
   | _ \<Rightarrow> None)"

definition walletFieldsFrom :: "js \<Rightarrow> wallet_fields option" where
  "walletFieldsFrom v = do {
     row \<leftarrow> exactRecord WALLET_INPUT_KEYS v;
     positions \<leftarrow> walletPositionsFrom (fld row ''openPositions'');
     generationId \<leftarrow> patternedText (is_prefixed_hex64 ''execution_wallet_generation_'') 96 (fld row ''generationId'');
     providerId \<leftarrow> patternedText is_printable_text 256 (fld row ''providerId'');
     stateRevision \<leftarrow> unsignedBigint (fld row ''stateRevision'');
     slot \<leftarrow> unsignedBigint (fld row ''slot'');
     blockTimeMs \<leftarrow> nullable timestamp_field (fld row ''blockTimeMs'');
     observedAtMs \<leftarrow> timestamp_field (fld row ''observedAtMs'');
     (if fld row ''commitment'' \<noteq> JStr ''finalized'' then None
      else do {
        walletLamports \<leftarrow> unsignedBigint (fld row ''walletLamports'');
        tokenBalanceCount \<leftarrow> boundedInteger 0 INT32_MAX (fld row ''tokenBalanceCount'');
        realized \<leftarrow> signedBigint (fld row ''realizedNetPnlRaw'');
        Some \<lparr>wf_generationId = generationId, wf_providerId = providerId, wf_stateRevision = stateRevision,
          wf_slot = slot, wf_blockTimeMs = blockTimeMs, wf_observedAtMs = observedAtMs,
          wf_walletLamports = walletLamports, wf_tokenBalanceCount = tokenBalanceCount,
          wf_openPositions = positions, wf_realizedNetPnlRaw = realized\<rparr>
      })
   }"

definition positionPreimage :: "risk_position \<Rightarrow> json" where
  "positionPreimage p = JsonArr
  [JsonStr (riskPositionId p), JsonStr (dec_int (costBasisLamports p)),
   (case conservativeLiquidationLamports p of None \<Rightarrow> JsonNull | Some n \<Rightarrow> JsonStr (dec_int n)),
   JsonStr (literal_of POSITION_STATUSES (reconciliationStatus p))]"

definition walletPreimage :: "wallet_fields \<Rightarrow> json list" where
  "walletPreimage f =
  [JsonStr ''execution-wallet-snapshot-v1'', JsonStr (wf_generationId f), JsonStr (wf_providerId f),
   JsonStr (dec_int (wf_stateRevision f)), JsonStr (dec_int (wf_slot f)),
   (case wf_blockTimeMs f of None \<Rightarrow> JsonNull | Some t \<Rightarrow> JsonInt t), JsonInt (wf_observedAtMs f),
   JsonStr ''finalized'', JsonStr (dec_int (wf_walletLamports f)), JsonInt (wf_tokenBalanceCount f),
   JsonArr (map positionPreimage (wf_openPositions f)), JsonStr (dec_int (wf_realizedNetPnlRaw f))]"

definition walletFingerprintFor :: "(nat list \<Rightarrow> string) \<Rightarrow> wallet_fields \<Rightarrow> string" where
  "walletFingerprintFor sha256 f = hashLengthPrefixed sha256 (walletPreimage f)"

definition walletSnapshotOf :: "(nat list \<Rightarrow> string) \<Rightarrow> wallet_fields \<Rightarrow> wallet_snapshot" where
  "walletSnapshotOf sha256 f =
     (let snapshotFingerprint = walletFingerprintFor sha256 f in
      \<lparr>ws_snapshotId = ''execution_wallet_snapshot_'' @ snapshotFingerprint, ws_payloadVersion = 1,
       ws_snapshotFingerprint = snapshotFingerprint, ws_fields = f\<rparr>)"

definition createExecutionWalletSnapshot :: "(nat list \<Rightarrow> string) \<Rightarrow> js \<Rightarrow> wallet_snapshot option" where
  "createExecutionWalletSnapshot sha256 input = do {
     fields \<leftarrow> walletFieldsFrom input;
     Some (walletSnapshotOf sha256 fields)
   }"

definition positionObject :: "risk_position \<Rightarrow> js" where
  "positionObject p = frozen_object
  [(''positionId'', JStr (riskPositionId p)), (''costBasisLamports'', JBig (costBasisLamports p)),
   (''conservativeLiquidationLamports'', (case conservativeLiquidationLamports p of None \<Rightarrow> JNull | Some n \<Rightarrow> JBig n)),
   (''reconciliationStatus'', JStr (literal_of POSITION_STATUSES (reconciliationStatus p)))]"

text \<open>The frozen fields \<open>fieldsFrom\<close> returns, as the object that is read again.\<close>

definition walletRecord :: "wallet_fields \<Rightarrow> js_record" where
  "walletRecord f =
  [(''generationId'', JStr (wf_generationId f)), (''providerId'', JStr (wf_providerId f)),
   (''stateRevision'', JBig (wf_stateRevision f)), (''slot'', JBig (wf_slot f)),
   (''blockTimeMs'', (case wf_blockTimeMs f of None \<Rightarrow> JNull | Some t \<Rightarrow> JNum (JInt t))),
   (''observedAtMs'', JNum (JInt (wf_observedAtMs f))), (''commitment'', JStr ''finalized''),
   (''walletLamports'', JBig (wf_walletLamports f)), (''tokenBalanceCount'', JNum (JInt (wf_tokenBalanceCount f))),
   (''openPositions'', JArr False True (map (\<lambda>p. Some (DataProp True (positionObject p))) (wf_openPositions f))),
   (''realizedNetPnlRaw'', JBig (wf_realizedNetPnlRaw f))]"

definition assertExecutionWalletSnapshot :: "(nat list \<Rightarrow> string) \<Rightarrow> js \<Rightarrow> bool" where
  "assertExecutionWalletSnapshot sha256 input =
     (isFrozen input
      \<and> (case exactRecord WALLET_SNAPSHOT_KEYS input of
           None \<Rightarrow> False
         | Some row \<Rightarrow> fld row ''payloadVersion'' = JNum (JInt 1)
           \<and> (case walletFieldsFrom (null_object (pick row WALLET_INPUT_KEYS)) of
                None \<Rightarrow> False
              | Some f \<Rightarrow>
                  (case createExecutionWalletSnapshot sha256 (frozen_object (walletRecord f)) of
                     None \<Rightarrow> False
                   | Some snapshot \<Rightarrow> fld row ''snapshotId'' = JStr (ws_snapshotId snapshot)
                       \<and> fld row ''snapshotFingerprint'' = JStr (ws_snapshotFingerprint snapshot)))))"

subsection \<open>What a snapshot says\<close>

definition valid_wallet_position :: "risk_position \<Rightarrow> bool" where
  "valid_wallet_position p = (is_printable_text (riskPositionId p) \<and> utf8_length (riskPositionId p) \<le> 256
     \<and> 0 < costBasisLamports p \<and> valid_position p)"

definition valid_wallet :: "wallet_fields \<Rightarrow> bool" where
  "valid_wallet f = (is_prefixed_hex64 ''execution_wallet_generation_'' (wf_generationId f) \<and> utf8_length (wf_generationId f) \<le> 96
     \<and> is_printable_text (wf_providerId f) \<and> utf8_length (wf_providerId f) \<le> 256
     \<and> 0 \<le> wf_stateRevision f \<and> wf_stateRevision f \<le> U64_MAX \<and> 0 \<le> wf_slot f \<and> wf_slot f \<le> U64_MAX
     \<and> (\<forall>t. wf_blockTimeMs f = Some t \<longrightarrow> 0 \<le> t \<and> t \<le> DATE_MAX_MS)
     \<and> 0 \<le> wf_observedAtMs f \<and> wf_observedAtMs f \<le> DATE_MAX_MS
     \<and> 0 \<le> wf_walletLamports f \<and> wf_walletLamports f \<le> U64_MAX
     \<and> 0 \<le> wf_tokenBalanceCount f \<and> wf_tokenBalanceCount f \<le> INT32_MAX
     \<and> length (wf_openPositions f) \<le> 2 \<and> distinct (map riskPositionId (wf_openPositions f))
     \<and> list_all valid_wallet_position (wf_openPositions f)
     \<and> I128_MIN \<le> wf_realizedNetPnlRaw f \<and> wf_realizedNetPnlRaw f \<le> I128_MAX)"

lemma POSITION_STATUSES_literals:
  "map_of POSITION_STATUSES (literal_of POSITION_STATUSES x) = Some x"
  "literal_of POSITION_STATUSES x = literal_of POSITION_STATUSES y \<longleftrightarrow> x = y"
proof -
  have "distinct (map fst POSITION_STATUSES)" by code_simp
  moreover have "z \<in> snd ` set POSITION_STATUSES" for z by (cases z) (simp_all add: POSITION_STATUSES_def)
  ultimately show "map_of POSITION_STATUSES (literal_of POSITION_STATUSES x) = Some x"
    "literal_of POSITION_STATUSES x = literal_of POSITION_STATUSES y \<longleftrightarrow> x = y"
    by (simp_all add: map_of_literal_of literal_of_inj)
qed

lemma nullable_unsigned: "nullable unsignedBigint v = Some x \<Longrightarrow> (\<forall>n. x = Some n \<longrightarrow> 0 \<le> n \<and> n \<le> U64_MAX)"
  by (auto simp: nullable_def unsignedBigint_iff split: if_splits)

lemma walletPositionsLoop_valid:
  "walletPositionsLoop es ids = Some ps \<Longrightarrow>
     list_all valid_wallet_position ps \<and> distinct (map riskPositionId ps)
     \<and> set (map riskPositionId ps) \<inter> set ids = {} \<and> length ps = length es"
proof (induction es ids arbitrary: ps rule: walletPositionsLoop.induct)
  case (2 x rest ids)
  from "2.prems" obtain row pid status cost liq ps' where
    loop: "walletPositionsLoop rest (pid # ids) = Some ps'" and row: "exactRecord POSITION_KEYS x = Some row"
    and pid: "patternedText is_printable_text 256 (fld row ''positionId'') = Some pid" "pid \<notin> set ids"
    and status: "enumValue POSITION_STATUSES (fld row ''reconciliationStatus'') = Some status"
    and cost: "unsignedBigint (fld row ''costBasisLamports'') = Some cost" "cost \<noteq> 0"
    and liq: "nullable unsignedBigint (fld row ''conservativeLiquidationLamports'') = Some liq"
    and ps: "ps = \<lparr>riskPositionId = pid, costBasisLamports = cost, conservativeLiquidationLamports = liq,
      reconciliationStatus = status\<rparr> # ps'"
    unfolding walletPositionsLoop.simps result_simps by auto
  show ?case
    using "2.IH" [OF row pid status cost liq loop] pid cost nullable_unsigned [OF liq]
    by (auto simp: ps valid_wallet_position_def valid_position_def field_iffs)
qed auto

lemma walletPositionsFrom_valid:
  "walletPositionsFrom v = Some ps \<Longrightarrow>
     length ps \<le> 2 \<and> distinct (map riskPositionId ps) \<and> list_all valid_wallet_position ps"
  by (auto simp: walletPositionsFrom_def dest: walletPositionsLoop_valid split: js.splits if_splits)

lemma nullable_timestamp: "nullable timestamp_field v = Some x \<Longrightarrow> (\<forall>t. x = Some t \<longrightarrow> 0 \<le> t \<and> t \<le> DATE_MAX_MS)"
  by (auto simp: nullable_def dest: timestamp_field_Some split: if_splits)

lemma walletFieldsFrom_valid: "walletFieldsFrom v = Some f \<Longrightarrow> valid_wallet f"
  unfolding walletFieldsFrom_def result_simps valid_wallet_def
  by (clarsimp simp: field_iffs dest!: walletPositionsFrom_valid nullable_timestamp timestamp_field_Some)

lemma walletPositionsLoop_object:
  "list_all valid_wallet_position ps \<Longrightarrow> distinct (map riskPositionId ps) \<Longrightarrow> set (map riskPositionId ps) \<inter> set ids = {} \<Longrightarrow>
     walletPositionsLoop (map (\<lambda>p. Some (DataProp True (positionObject p))) ps) ids = Some ps"
proof (induction ps arbitrary: ids)
  case (Cons p ps)
  have "exactRecord POSITION_KEYS (positionObject p) = Some
    [(''positionId'', JStr (riskPositionId p)), (''costBasisLamports'', JBig (costBasisLamports p)),
     (''conservativeLiquidationLamports'', (case conservativeLiquidationLamports p of None \<Rightarrow> JNull | Some n \<Rightarrow> JBig n)),
     (''reconciliationStatus'', JStr (literal_of POSITION_STATUSES (reconciliationStatus p)))]"
    unfolding positionObject_def by (rule exactRecord_frozen_object) (simp_all add: POSITION_KEYS_def)
  moreover have "nullable unsignedBigint (case conservativeLiquidationLamports p of None \<Rightarrow> JNull | Some n \<Rightarrow> JBig n)
      = Some (conservativeLiquidationLamports p)"
    using Cons.prems(1) by (cases "conservativeLiquidationLamports p")
      (auto simp: nullable_def unsignedBigint_iff valid_wallet_position_def valid_position_def)
  ultimately show ?case
    using Cons by (simp add: patternedText_def valid_wallet_position_def valid_position_def enumValue_def
        POSITION_STATUSES_literals(1) unsignedBigint_def boundedBigint_def)
qed simp

lemma walletRecord_keys: "map fst (walletRecord f) = WALLET_INPUT_KEYS"
  by (simp add: walletRecord_def WALLET_INPUT_KEYS_def)

lemma WALLET_KEYS_distinct: "distinct WALLET_SNAPSHOT_KEYS"
  by code_simp

lemma walletFieldsFrom_object:
  assumes "valid_wallet f"
  shows "walletFieldsFrom (frozen_object (walletRecord f)) = Some f"
proof -
  have "distinct WALLET_INPUT_KEYS" using WALLET_KEYS_distinct by (simp add: WALLET_SNAPSHOT_KEYS_def)
  then have read: "exactRecord WALLET_INPUT_KEYS (frozen_object (walletRecord f)) = Some (walletRecord f)"
    by (rule exactRecord_frozen_object [OF walletRecord_keys])
  have "walletPositionsFrom (JArr False True (map (\<lambda>p. Some (DataProp True (positionObject p))) (wf_openPositions f)))
      = Some (wf_openPositions f)"
    using assms walletPositionsLoop_object by (simp add: walletPositionsFrom_def valid_wallet_def)
  moreover have "nullable timestamp_field (case wf_blockTimeMs f of None \<Rightarrow> JNull | Some t \<Rightarrow> JNum (JInt t)) = Some (wf_blockTimeMs f)"
    using assms by (cases "wf_blockTimeMs f")
      (auto simp: nullable_def timestamp_field_def boundedInteger_def valid_wallet_def)
  ultimately show ?thesis
    using assms unfolding walletFieldsFrom_def read
    by (simp add: walletRecord_def valid_wallet_def patternedText_def unsignedBigint_def boundedBigint_def signedBigint_def
        boundedInteger_def timestamp_field_def)
qed

text \<open>The frozen object \<open>createExecutionWalletSnapshot\<close> returns.\<close>

definition walletSnapshotRecord :: "wallet_snapshot \<Rightarrow> js_record" where
  "walletSnapshotRecord s = [(''snapshotId'', JStr (ws_snapshotId s)), (''payloadVersion'', JNum (JInt (ws_payloadVersion s))),
     (''snapshotFingerprint'', JStr (ws_snapshotFingerprint s))] @ walletRecord (ws_fields s)"

definition walletSnapshotObject :: "wallet_snapshot \<Rightarrow> js" where
  "walletSnapshotObject s = frozen_object (walletSnapshotRecord s)"

lemma walletSnapshotOf_simps [simp]:
  "ws_fields (walletSnapshotOf sha256 f) = f" "ws_payloadVersion (walletSnapshotOf sha256 f) = 1"
  by (simp_all add: walletSnapshotOf_def Let_def)

lemma wallet_snapshot_read:
  "exactRecord WALLET_SNAPSHOT_KEYS (walletSnapshotObject s) = Some (walletSnapshotRecord s)"
  unfolding walletSnapshotObject_def
  by (rule exactRecord_frozen_object [OF _ WALLET_KEYS_distinct])
     (simp add: walletSnapshotRecord_def WALLET_SNAPSHOT_KEYS_def walletRecord_keys)

lemma pick_wallet_record: "pick (walletSnapshotRecord s) WALLET_INPUT_KEYS = walletRecord (ws_fields s)"
  by (simp add: pick_def walletSnapshotRecord_def walletRecord_def WALLET_INPUT_KEYS_def)

lemma wallet_recreated:
  "valid_wallet f \<Longrightarrow> createExecutionWalletSnapshot sha256 (frozen_object (walletRecord f)) = Some (walletSnapshotOf sha256 f)"
  by (simp add: createExecutionWalletSnapshot_def walletFieldsFrom_object)

lemma assertExecutionWalletSnapshot_object:
  assumes "valid_wallet f"
  shows "assertExecutionWalletSnapshot sha256 (walletSnapshotObject (walletSnapshotOf sha256 f))"
proof -
  let ?s = "walletSnapshotOf sha256 f"
  have "isFrozen (walletSnapshotObject ?s)" by (simp add: walletSnapshotObject_def frozen_object_def)
  moreover have "walletFieldsFrom (null_object (pick (walletSnapshotRecord ?s) WALLET_INPUT_KEYS)) = Some f"
    unfolding pick_wallet_record using walletFieldsFrom_object [OF assms]
    by (simp add: walletFieldsFrom_def object_readers)
  moreover have "fld (walletSnapshotRecord ?s) ''payloadVersion'' = JNum (JInt 1)"
    "fld (walletSnapshotRecord ?s) ''snapshotId'' = JStr (ws_snapshotId ?s)"
    "fld (walletSnapshotRecord ?s) ''snapshotFingerprint'' = JStr (ws_snapshotFingerprint ?s)"
    by (simp_all add: walletSnapshotRecord_def)
  ultimately show ?thesis
    by (simp add: assertExecutionWalletSnapshot_def wallet_snapshot_read wallet_recreated [OF assms])
qed

lemma itemText_simps [simp]: "itemText (JsonStr s) = s" "itemText (JsonInt n) = dec_int n" "itemText JsonNull = ''null''"
  "itemText (JsonArr xs) = stringify (JsonArr xs)" "itemText (JsonBool b) = stringify (JsonBool b)"
  by (simp_all add: itemText_def)

lemma dec_int_not_null [simp]: "dec_int n \<noteq> ''null''" "''null'' \<noteq> dec_int n"
proof -
  have "numeric_char (hd (dec_int n))" "\<not> numeric_char (hd ''null'')"
    using dec_int_hd by (blast, code_simp)
  then show "dec_int n \<noteq> ''null''" "''null'' \<noteq> dec_int n" by metis+
qed

lemma positionPreimage_inj: "inj positionPreimage"
  by (rule injI, rename_tac x y, case_tac x, case_tac y)
     (auto simp: positionPreimage_def POSITION_STATUSES_literals(2) split: option.splits)

lemma walletPreimage_inj:
  assumes "map itemText (walletPreimage f) = map itemText (walletPreimage g)"
  shows "f = g"
proof -
  have "map positionPreimage (wf_openPositions f) = map positionPreimage (wf_openPositions g)"
    using assms stringify_inj [of "JsonArr (map positionPreimage (wf_openPositions f))"
        "JsonArr (map positionPreimage (wf_openPositions g))"]
    by (simp add: walletPreimage_def del: stringify.simps)
  then have "wf_openPositions f = wf_openPositions g"
    using positionPreimage_inj by (simp add: inj_map_eq_map)
  moreover have "wf_blockTimeMs f = wf_blockTimeMs g"
    using assms by (auto simp: walletPreimage_def split: option.splits)
  ultimately show ?thesis
    using assms by (cases f; cases g) (simp add: walletPreimage_def)
qed

text \<open>A snapshot is its identifier, and the object that carries it is accepted.\<close>

lemma wallet_snapshot_identity:
  assumes "createExecutionWalletSnapshot sha256 v = Some s" and "createExecutionWalletSnapshot sha256 w = Some t"
    and "inj_on sha256 {decimalPrefixed (map itemText (walletPreimage (ws_fields s))),
      decimalPrefixed (map itemText (walletPreimage (ws_fields t)))}"
  shows "(ws_snapshotId s = ws_snapshotId t \<longleftrightarrow> s = t) \<and> assertExecutionWalletSnapshot sha256 (walletSnapshotObject s)"
proof -
  from assms(1,2) obtain f g where s: "valid_wallet f" "s = walletSnapshotOf sha256 f"
    and t: "valid_wallet g" "t = walletSnapshotOf sha256 g"
    by (auto simp: createExecutionWalletSnapshot_def result_simps dest: walletFieldsFrom_valid)
  have "ws_snapshotId s = ws_snapshotId t \<longleftrightarrow> map itemText (walletPreimage f) = map itemText (walletPreimage g)"
    using hashLengthPrefixed_binds [OF assms(3), of "walletPreimage f" "walletPreimage g"]
    by (simp add: s t) (simp add: walletSnapshotOf_def walletFingerprintFor_def Let_def)
  then show ?thesis
    using walletPreimage_inj s t assertExecutionWalletSnapshot_object by auto
qed

end
