(* ===== verification/Provider_Quota.thy ===== *)
theory Provider_Quota
  imports Risk_Policy Record_Readers "HOL-Library.Multiset"
begin

text \<open>
  The quota of an RPC provider (\<open>src/src/domain/execution-provider-quota.ts\<close>): measured usage as
  fingerprinted snapshots, the identifiers of metered operations, and \<open>evaluateProviderQuota\<close>,
  the gate that keeps enough units aside to close the open positions. SHA-256 is the argument
  \<open>sha256\<close>. The lemmas show that the gate never trades the units of an exit for an entry, that
  no worsening of the situation relaxes it, and that snapshots are bound by their fingerprint.
\<close>

subsection \<open>Data\<close>

datatype usage_category =
  ENTRY_USAGE | EXIT_USAGE | CONFIRMATION_USAGE | RECONCILIATION_USAGE | TELEMETRY_USAGE

datatype usage_provenance = AUTHORITATIVE_PROBE | OPERATOR_REPORT | EXECUTOR_COUNTERS

datatype quota_state = NORMAL | ENTRY_BLOCKED | EXIT_ONLY | UNKNOWN_QUOTA

definition CATEGORIES :: "(string \<times> usage_category) list" where
  "CATEGORIES = [(''ENTRY'', ENTRY_USAGE), (''EXIT'', EXIT_USAGE), (''CONFIRMATION'', CONFIRMATION_USAGE),
     (''RECONCILIATION'', RECONCILIATION_USAGE), (''TELEMETRY'', TELEMETRY_USAGE)]"

definition PROVENANCES :: "(string \<times> usage_provenance) list" where
  "PROVENANCES = [(''AUTHORITATIVE_PROBE'', AUTHORITATIVE_PROBE), (''OPERATOR_REPORT'', OPERATOR_REPORT),
     (''EXECUTOR_COUNTERS'', EXECUTOR_COUNTERS)]"

record usage_input =
  us_providerId :: string
  us_planId :: string
  us_billingPeriodId :: string
  us_billingPeriodStartedAtMs :: int
  us_billingPeriodEndsAtMs :: int
  us_limitUnits :: int
  us_usedUnits :: int
  us_measuredAtMs :: int
  us_expiresAtMs :: int
  us_provenance :: usage_provenance

record usage_snapshot =
  us_snapshotId :: string
  us_payloadVersion :: int
  us_snapshotFingerprint :: string
  us_fields :: usage_input

record quota_input =
  qi_policy :: risk_policy
  qi_previousSnapshot :: "usage_snapshot option"
  qi_snapshot :: "usage_snapshot option"
  qi_localUsedSinceMeasurement :: int
  qi_openPositions :: int
  qi_consecutiveRateLimits :: "int list"
  qi_allEndpointsUnavailable :: bool
  qi_nowMs :: int

record quota_decision =
  qd_payloadVersion :: int
  qd_state :: quota_state
  qd_reasonCode :: "execution_reason option"
  qd_remainingUnits :: "int option"
  qd_protectedUnits :: int
  qd_entryCostUnits :: int
  qd_recentRateLimitCount :: nat
  qd_snapshotFingerprint :: "string option"

definition SNAPSHOT_INPUT_KEYS :: "string list" where
  "SNAPSHOT_INPUT_KEYS =
  [''providerId'', ''planId'', ''billingPeriodId'', ''billingPeriodStartedAtMs'',
   ''billingPeriodEndsAtMs'', ''limitUnits'', ''usedUnits'', ''measuredAtMs'',
   ''expiresAtMs'', ''provenance'']"

definition SNAPSHOT_KEYS :: "string list" where
  "SNAPSHOT_KEYS = [''snapshotId'', ''payloadVersion'', ''snapshotFingerprint''] @ SNAPSHOT_INPUT_KEYS"

definition OPERATION_ID_KEYS :: "string list" where
  "OPERATION_ID_KEYS = [''providerId'', ''billingPeriodId'', ''category'', ''logicalOperationId'']"

definition QUOTA_INPUT_KEYS :: "string list" where
  "QUOTA_INPUT_KEYS =
  [''policy'', ''previousSnapshot'', ''snapshot'', ''localUsedSinceMeasurement'',
   ''openPositions'', ''consecutiveRateLimits'', ''allEndpointsUnavailable'', ''nowMs'']"

subsection \<open>Snapshots and operation identifiers\<close>

definition snapshotInputFrom :: "js \<Rightarrow> usage_input option" where
  "snapshotInputFrom v = do {
     record \<leftarrow> exactRecord SNAPSHOT_INPUT_KEYS v;
     providerId \<leftarrow> string_matching is_identifier (fld record ''providerId'');
     planId \<leftarrow> text_field 128 (fld record ''planId'');
     billingPeriodId \<leftarrow> text_field 128 (fld record ''billingPeriodId'');
     startedAtMs \<leftarrow> timestamp_field (fld record ''billingPeriodStartedAtMs'');
     endsAtMs \<leftarrow> timestamp_field (fld record ''billingPeriodEndsAtMs'');
     limitUnits \<leftarrow> positiveBigint (fld record ''limitUnits'');
     usedUnits \<leftarrow> unsignedBigint (fld record ''usedUnits'');
     measuredAtMs \<leftarrow> timestamp_field (fld record ''measuredAtMs'');
     expiresAtMs \<leftarrow> timestamp_field (fld record ''expiresAtMs'');
     provenance \<leftarrow> enumValue PROVENANCES (fld record ''provenance'');
     (if endsAtMs \<le> startedAtMs \<or> measuredAtMs < startedAtMs \<or> measuredAtMs \<ge> endsAtMs
        \<or> expiresAtMs < measuredAtMs + 30000 \<or> expiresAtMs > measuredAtMs + 900000
        \<or> expiresAtMs > endsAtMs \<or> usedUnits > limitUnits then None
      else Some \<lparr>us_providerId = providerId, us_planId = planId, us_billingPeriodId = billingPeriodId,
        us_billingPeriodStartedAtMs = startedAtMs, us_billingPeriodEndsAtMs = endsAtMs,
        us_limitUnits = limitUnits, us_usedUnits = usedUnits, us_measuredAtMs = measuredAtMs,
        us_expiresAtMs = expiresAtMs, us_provenance = provenance\<rparr>)
   }"

definition snapshotPreimage :: "usage_input \<Rightarrow> json" where
  "snapshotPreimage s = JsonArr
  [JsonStr ''execution-provider-usage-v1'', JsonStr (us_providerId s), JsonStr (us_planId s),
   JsonStr (us_billingPeriodId s), JsonInt (us_billingPeriodStartedAtMs s),
   JsonInt (us_billingPeriodEndsAtMs s), JsonStr (dec_int (us_limitUnits s)), JsonStr (dec_int (us_usedUnits s)),
   JsonInt (us_measuredAtMs s), JsonInt (us_expiresAtMs s), JsonStr (literal_of PROVENANCES (us_provenance s))]"

definition snapshotFingerprintFor :: "(string \<Rightarrow> string) \<Rightarrow> usage_input \<Rightarrow> string" where
  "snapshotFingerprintFor sha256 s = sha256 (stringify (snapshotPreimage s))"

definition createProviderUsageSnapshot :: "(string \<Rightarrow> string) \<Rightarrow> js \<Rightarrow> usage_snapshot option" where
  "createProviderUsageSnapshot sha256 input = do {
     fields \<leftarrow> snapshotInputFrom input;
     (let snapshotFingerprint = snapshotFingerprintFor sha256 fields in
      Some \<lparr>us_snapshotId = ''execution_provider_usage_'' @ snapshotFingerprint, us_payloadVersion = 1,
        us_snapshotFingerprint = snapshotFingerprint, us_fields = fields\<rparr>)
   }"

definition operationPreimage :: "string \<Rightarrow> string \<Rightarrow> usage_category \<Rightarrow> string \<Rightarrow> json" where
  "operationPreimage providerId billingPeriodId category logicalOperationId = JsonArr
  [JsonStr ''execution-provider-operation-v1'', JsonStr providerId, JsonStr billingPeriodId,
   JsonStr (literal_of CATEGORIES category), JsonStr logicalOperationId]"

definition createProviderUsageOperationId :: "(string \<Rightarrow> string) \<Rightarrow> js \<Rightarrow> string option" where
  "createProviderUsageOperationId sha256 input = do {
     record \<leftarrow> exactRecord OPERATION_ID_KEYS input;
     providerId \<leftarrow> string_matching is_identifier (fld record ''providerId'');
     billingPeriodId \<leftarrow> text_field 128 (fld record ''billingPeriodId'');
     category \<leftarrow> enumValue CATEGORIES (fld record ''category'');
     logicalOperationId \<leftarrow> text_field 256 (fld record ''logicalOperationId'');
     Some (''execution_provider_operation_'' @ sha256 (stringify
       (operationPreimage providerId billingPeriodId category logicalOperationId)))
   }"

definition nullableSnapshotFrom :: "(string \<Rightarrow> string) \<Rightarrow> js \<Rightarrow> usage_snapshot option option" where
  "nullableSnapshotFrom sha256 v =
     (if v = JNull then Some None
      else if \<not> isFrozenPlainObject v then None
      else do {
        record \<leftarrow> exactRecord SNAPSHOT_KEYS v;
        (if fld record ''payloadVersion'' \<noteq> JNum (JInt 1) then None
         else do {
           fields \<leftarrow> snapshotInputFrom (frozen_object (pick record SNAPSHOT_INPUT_KEYS));
           snapshotFingerprint \<leftarrow> string_matching is_hex64 (fld record ''snapshotFingerprint'');
           (let expectedFingerprint = snapshotFingerprintFor sha256 fields in
            if snapshotFingerprint \<noteq> expectedFingerprint
              \<or> fld record ''snapshotId'' \<noteq> JStr (''execution_provider_usage_'' @ expectedFingerprint) then None
            else Some (Some \<lparr>us_snapshotId = ''execution_provider_usage_'' @ expectedFingerprint,
              us_payloadVersion = 1, us_snapshotFingerprint = snapshotFingerprint, us_fields = fields\<rparr>))
         })
      })"

subsection \<open>The gate\<close>

text \<open>The reader of policies of this module: it rebuilds the input on an object without prototype and
  creates the policy again.\<close>

definition quotaPolicyFrom :: "(string \<Rightarrow> string) \<Rightarrow> js \<Rightarrow> risk_policy option" where
  "quotaPolicyFrom sha256 v =
     (if \<not> isFrozenPlainObject v then None
      else do {
        record \<leftarrow> exactRecord POLICY_KEYS v;
        (case fld record ''policyFingerprint'' of
           JStr fingerprint \<Rightarrow>
             if fld record ''payloadVersion'' \<noteq> JNum (JInt 1) then None
             else do {
               reconstructed \<leftarrow> createExecutionRiskPolicy sha256 (null_object (pick record POLICY_INPUT_KEYS));
               (if policyFingerprint reconstructed \<noteq> fingerprint then None else Some reconstructed)
             }
         | _ \<Rightarrow> None)
      })"

fun timestampsLoop :: "js js_prop option list \<Rightarrow> int option \<Rightarrow> int list option" where
  "timestampsLoop [] previous = Some []"
| "timestampsLoop (Some (DataProp True x) # rest) previous = do {
     observedAtMs \<leftarrow> timestamp_field x;
     (if (case previous of None \<Rightarrow> False | Some p \<Rightarrow> observedAtMs < p) then None
      else do {
        result \<leftarrow> timestampsLoop rest (Some observedAtMs);
        Some (observedAtMs # result)
      })
   }"
| "timestampsLoop (_ # rest) previous = None"

definition timestampsFrom :: "js \<Rightarrow> int list option" where
  "timestampsFrom v = (case v of
     JArr proxy frozen elems \<Rightarrow> if proxy \<or> length elems > 1000 then None else timestampsLoop elems None
   | _ \<Rightarrow> None)"

definition quotaInputFrom :: "(string \<Rightarrow> string) \<Rightarrow> js \<Rightarrow> quota_input option" where
  "quotaInputFrom sha256 v = do {
     record \<leftarrow> exactRecord QUOTA_INPUT_KEYS v;
     policy \<leftarrow> quotaPolicyFrom sha256 (fld record ''policy'');
     previousSnapshot \<leftarrow> nullableSnapshotFrom sha256 (fld record ''previousSnapshot'');
     snapshot \<leftarrow> nullableSnapshotFrom sha256 (fld record ''snapshot'');
     localUsed \<leftarrow> unsignedBigint (fld record ''localUsedSinceMeasurement'');
     positions \<leftarrow> boundedInteger 0 16 (fld record ''openPositions'');
     rateLimits \<leftarrow> timestampsFrom (fld record ''consecutiveRateLimits'');
     unavailable \<leftarrow> booleanValue (fld record ''allEndpointsUnavailable'');
     nowMs \<leftarrow> timestamp_field (fld record ''nowMs'');
     (if list_ex (\<lambda>observedAtMs. observedAtMs > nowMs) rateLimits then None
      else Some \<lparr>qi_policy = policy, qi_previousSnapshot = previousSnapshot, qi_snapshot = snapshot,
        qi_localUsedSinceMeasurement = localUsed, qi_openPositions = positions,
        qi_consecutiveRateLimits = rateLimits, qi_allEndpointsUnavailable = unavailable, qi_nowMs = nowMs\<rparr>)
   }"

definition snapshotIsCoherent :: "usage_snapshot option \<Rightarrow> usage_snapshot \<Rightarrow> bool" where
  "snapshotIsCoherent previous current = (case previous of
     None \<Rightarrow> True
   | Some old \<Rightarrow>
       let p = us_fields old; c = us_fields current in
       if us_providerId c \<noteq> us_providerId p \<or> us_planId c \<noteq> us_planId p then False
       else if us_billingPeriodId c = us_billingPeriodId p then
         us_billingPeriodStartedAtMs c = us_billingPeriodStartedAtMs p
         \<and> us_billingPeriodEndsAtMs c = us_billingPeriodEndsAtMs p
         \<and> us_measuredAtMs c \<ge> us_measuredAtMs p \<and> us_usedUnits c \<ge> us_usedUnits p
       else us_billingPeriodStartedAtMs c \<ge> us_billingPeriodEndsAtMs p)"

definition providerQuotaDecision :: "quota_input \<Rightarrow> quota_decision" where
  "providerQuotaDecision q =
     (let policy = policyFields (qi_policy q);
          protectedUnits = qi_openPositions q *
            (providerExitCostUnitsPerPosition policy + providerConfirmationCostUnitsPerPosition policy
              + providerReconciliationCostUnitsPerPosition policy) + providerSafetyMarginUnits policy;
          recentRateLimitCount = length (filter (\<lambda>observedAtMs. observedAtMs \<ge> qi_nowMs q - 30000)
            (qi_consecutiveRateLimits q));
          quotaDecision = (\<lambda>state reason remainingUnits snapshotFingerprint.
            \<lparr>qd_payloadVersion = 1, qd_state = state, qd_reasonCode = reason, qd_remainingUnits = remainingUnits,
             qd_protectedUnits = protectedUnits, qd_entryCostUnits = providerEntryCostUnits policy,
             qd_recentRateLimitCount = recentRateLimitCount, qd_snapshotFingerprint = snapshotFingerprint\<rparr>)
      in case qi_snapshot q of
        None \<Rightarrow> quotaDecision UNKNOWN_QUOTA (Some PROVIDER_USAGE_UNKNOWN) None None
      | Some snapshot \<Rightarrow>
          (let fingerprint = Some (us_snapshotFingerprint snapshot);
               remainingUnits = us_limitUnits (us_fields snapshot) - us_usedUnits (us_fields snapshot)
                 - qi_localUsedSinceMeasurement q
           in if \<not> snapshotIsCoherent (qi_previousSnapshot q) snapshot
               \<or> qi_nowMs q > us_expiresAtMs (us_fields snapshot)
               \<or> qi_nowMs q > us_measuredAtMs (us_fields snapshot) + providerUsageMaxAgeMs policy
             then quotaDecision UNKNOWN_QUOTA (Some PROVIDER_USAGE_UNKNOWN) None fingerprint
             else if qi_allEndpointsUnavailable q \<or> remainingUnits < protectedUnits
             then quotaDecision EXIT_ONLY (Some PROVIDER_EXIT_ONLY) (Some remainingUnits) fingerprint
             else if recentRateLimitCount \<ge> 3
               \<or> remainingUnits - providerEntryCostUnits policy < protectedUnits
             then quotaDecision ENTRY_BLOCKED (Some PROVIDER_ENTRY_LIMIT_REACHED) (Some remainingUnits) fingerprint
             else quotaDecision NORMAL None (Some remainingUnits) fingerprint))"

definition evaluateProviderQuota :: "(string \<Rightarrow> string) \<Rightarrow> js \<Rightarrow> quota_decision option" where
  "evaluateProviderQuota sha256 input = do {
     fields \<leftarrow> quotaInputFrom sha256 input;
     Some (providerQuotaDecision fields)
   }"


subsection \<open>What the readers accept\<close>

definition valid_usage :: "usage_input \<Rightarrow> bool" where
  "valid_usage s = (is_identifier (us_providerId s)
     \<and> us_planId s \<noteq> [] \<and> utf8_length (us_planId s) \<le> 128
     \<and> us_billingPeriodId s \<noteq> [] \<and> utf8_length (us_billingPeriodId s) \<le> 128
     \<and> 0 \<le> us_billingPeriodStartedAtMs s \<and> us_billingPeriodStartedAtMs s \<le> us_measuredAtMs s
     \<and> us_measuredAtMs s + 30000 \<le> us_expiresAtMs s \<and> us_expiresAtMs s \<le> us_measuredAtMs s + 900000
     \<and> us_expiresAtMs s \<le> us_billingPeriodEndsAtMs s \<and> us_billingPeriodEndsAtMs s \<le> DATE_MAX_MS
     \<and> 1 \<le> us_limitUnits s \<and> us_limitUnits s \<le> U64_MAX
     \<and> 0 \<le> us_usedUnits s \<and> us_usedUnits s \<le> us_limitUnits s)"

definition usageInputObject :: "usage_input \<Rightarrow> js_record" where
  "usageInputObject s =
  [(''providerId'', JStr (us_providerId s)), (''planId'', JStr (us_planId s)),
   (''billingPeriodId'', JStr (us_billingPeriodId s)),
   (''billingPeriodStartedAtMs'', JNum (JInt (us_billingPeriodStartedAtMs s))),
   (''billingPeriodEndsAtMs'', JNum (JInt (us_billingPeriodEndsAtMs s))),
   (''limitUnits'', JBig (us_limitUnits s)), (''usedUnits'', JBig (us_usedUnits s)),
   (''measuredAtMs'', JNum (JInt (us_measuredAtMs s))), (''expiresAtMs'', JNum (JInt (us_expiresAtMs s))),
   (''provenance'', JStr (literal_of PROVENANCES (us_provenance s)))]"

text \<open>The frozen object \<open>createProviderUsageSnapshot\<close> returns.\<close>

definition usageSnapshotObject :: "usage_snapshot \<Rightarrow> js" where
  "usageSnapshotObject s = frozen_object
     ([(''snapshotId'', JStr (us_snapshotId s)), (''payloadVersion'', JNum (JInt (us_payloadVersion s))),
       (''snapshotFingerprint'', JStr (us_snapshotFingerprint s))] @ usageInputObject (us_fields s))"

lemma PROVENANCES_literals:
  "map_of PROVENANCES (literal_of PROVENANCES x) = Some x"
  "literal_of PROVENANCES x = literal_of PROVENANCES y \<longleftrightarrow> x = y"
proof -
  have "distinct (map fst PROVENANCES)" by code_simp
  moreover have "z \<in> snd ` set PROVENANCES" for z by (cases z) (simp_all add: PROVENANCES_def)
  ultimately show "map_of PROVENANCES (literal_of PROVENANCES x) = Some x"
    "literal_of PROVENANCES x = literal_of PROVENANCES y \<longleftrightarrow> x = y"
    by (simp_all add: map_of_literal_of literal_of_inj)
qed

lemma snapshotInputFrom_valid: "snapshotInputFrom v = Some s \<Longrightarrow> valid_usage s"
  unfolding snapshotInputFrom_def result_simps valid_usage_def timestamp_field_def
  by (clarsimp simp: field_iffs)

lemma usageInputObject_keys: "map fst (usageInputObject s) = SNAPSHOT_INPUT_KEYS"
  by (simp add: usageInputObject_def SNAPSHOT_INPUT_KEYS_def)

lemma SNAPSHOT_KEYS_distinct: "distinct SNAPSHOT_KEYS"
  by code_simp

lemma SNAPSHOT_INPUT_KEYS_distinct: "distinct SNAPSHOT_INPUT_KEYS"
  using SNAPSHOT_KEYS_distinct by (simp add: SNAPSHOT_KEYS_def)

lemma snapshotInputFrom_object:
  assumes "valid_usage s"
  shows "snapshotInputFrom (frozen_object (usageInputObject s)) = Some s"
proof -
  have "exactRecord SNAPSHOT_INPUT_KEYS (frozen_object (usageInputObject s)) = Some (usageInputObject s)"
    by (rule exactRecord_frozen_object [OF usageInputObject_keys SNAPSHOT_INPUT_KEYS_distinct])
  then show ?thesis
    using assms
    by (simp add: snapshotInputFrom_def usageInputObject_def valid_usage_def string_matching_def text_field_def
        timestamp_field_def boundedInteger_def positiveBigint_def unsignedBigint_def boundedBigint_def
        enumValue_def PROVENANCES_literals(1))
qed

lemma snapshotPreimage_inj: "snapshotPreimage s = snapshotPreimage t \<Longrightarrow> s = t"
  by (cases s; cases t) (simp add: snapshotPreimage_def PROVENANCES_literals(2))

lemma nullableSnapshotFrom_Some:
  "nullableSnapshotFrom sha256 v = Some (Some s) \<Longrightarrow>
     valid_usage (us_fields s) \<and> us_snapshotFingerprint s = snapshotFingerprintFor sha256 (us_fields s)
     \<and> us_snapshotId s = ''execution_provider_usage_'' @ us_snapshotFingerprint s"
  unfolding nullableSnapshotFrom_def result_simps Let_def
  by (auto dest: snapshotInputFrom_valid simp: result_simps split: if_splits)

lemma pick_usage_record:
  "pick ((''snapshotId'', x) # (''payloadVersion'', y) # (''snapshotFingerprint'', z) # usageInputObject s)
     SNAPSHOT_INPUT_KEYS = usageInputObject s"
  using map_fld_self [of "usageInputObject s"] SNAPSHOT_INPUT_KEYS_distinct
  by (simp add: pick_def usageInputObject_keys SNAPSHOT_INPUT_KEYS_def)

lemma nullableSnapshotFrom_object:
  assumes "\<And>x. is_hex64 (sha256 x)" and "createProviderUsageSnapshot sha256 v = Some s"
  shows "nullableSnapshotFrom sha256 (usageSnapshotObject s) = Some (Some s)"
proof -
  from assms(2) obtain f where f: "snapshotInputFrom v = Some f"
    and s: "s = \<lparr>us_snapshotId = ''execution_provider_usage_'' @ snapshotFingerprintFor sha256 f, us_payloadVersion = 1,
      us_snapshotFingerprint = snapshotFingerprintFor sha256 f, us_fields = f\<rparr>"
    by (auto simp: createProviderUsageSnapshot_def result_simps Let_def)
  define r where "r = [(''snapshotId'', JStr (us_snapshotId s)), (''payloadVersion'', JNum (JInt 1)),
      (''snapshotFingerprint'', JStr (us_snapshotFingerprint s))] @ usageInputObject f"
  have obj: "usageSnapshotObject s = frozen_object r"
    by (simp add: usageSnapshotObject_def r_def s)
  have "exactRecord SNAPSHOT_KEYS (frozen_object r) = Some r"
    by (rule exactRecord_frozen_object [OF _ SNAPSHOT_KEYS_distinct])
       (simp add: r_def usageInputObject_keys SNAPSHOT_KEYS_def)
  moreover have "isFrozenPlainObject (frozen_object r)" "frozen_object r \<noteq> JNull"
    by (simp_all add: isFrozenPlainObject_def frozen_object_def)
  moreover have "pick r SNAPSHOT_INPUT_KEYS = usageInputObject f"
    by (simp add: r_def pick_usage_record)
  moreover have "fld r ''payloadVersion'' = JNum (JInt 1)" "fld r ''snapshotId'' = JStr (us_snapshotId s)"
    "fld r ''snapshotFingerprint'' = JStr (us_snapshotFingerprint s)"
    by (simp_all add: r_def)
  ultimately show ?thesis
    unfolding obj using snapshotInputFrom_object [OF snapshotInputFrom_valid [OF f]] assms(1)
    by (simp add: nullableSnapshotFrom_def s string_matching_def snapshotFingerprintFor_def Let_def)
qed

text \<open>The two readers of policies agree: this module's and the one of \<open>execution-risk-policy.ts\<close>.\<close>

lemma quotaPolicyFrom_agrees:
  assumes "\<And>x. is_hex64 (sha256 x)"
  shows "quotaPolicyFrom sha256 v = policyFrom sha256 v"
proof -
  have "createExecutionRiskPolicy sha256 (null_object r) = createExecutionRiskPolicy sha256 (frozen_object r)" for r
    by (simp add: createExecutionRiskPolicy_def policyInputFrom_def object_readers)
  then show ?thesis
    using assms
    by (auto simp: quotaPolicyFrom_def policyFrom_def createExecutionRiskPolicy_def string_matching_def
        fingerprintPolicy_def bind_eq_None_conv split: js.splits Option.bind_splits)
qed

lemma quotaPolicyFrom_valid: "quotaPolicyFrom sha256 v = Some p \<Longrightarrow> valid_policy (policyFields p)"
  unfolding quotaPolicyFrom_def createExecutionRiskPolicy_def result_simps
  by (auto dest: policyInputFrom_valid)

lemma quotaInputFrom_valid:
  assumes "quotaInputFrom sha256 v = Some q"
  shows "valid_policy (policyFields (qi_policy q)) \<and> 0 \<le> qi_openPositions q \<and> 0 \<le> qi_localUsedSinceMeasurement q
    \<and> (\<forall>s. qi_snapshot q = Some s \<longrightarrow> valid_usage (us_fields s))"
  using assms unfolding quotaInputFrom_def result_simps
  by (auto dest: quotaPolicyFrom_valid nullableSnapshotFrom_Some simp: field_iffs)

subsection \<open>What the gate keeps aside\<close>

text \<open>States are ordered by how much they forbid.\<close>

fun severity :: "quota_state \<Rightarrow> nat" where
  "severity NORMAL = 0" | "severity ENTRY_BLOCKED = 1" | "severity EXIT_ONLY = 2" | "severity UNKNOWN_QUOTA = 3"

instantiation quota_state :: linorder
begin

definition less_eq_quota_state :: "quota_state \<Rightarrow> quota_state \<Rightarrow> bool" where
  "less_eq_quota_state a b = (severity a \<le> severity b)"

definition less_quota_state :: "quota_state \<Rightarrow> quota_state \<Rightarrow> bool" where
  "less_quota_state a b = (severity a < severity b)"

instance
proof
  fix a b :: quota_state
  assume "a \<le> b" "b \<le> a"
  then show "a = b" by (cases a; cases b) (simp_all add: less_eq_quota_state_def)
qed (auto simp: less_eq_quota_state_def less_quota_state_def)

end

definition usable_measure :: "quota_input \<Rightarrow> bool" where
  "usable_measure q = (case qi_snapshot q of
     None \<Rightarrow> False
   | Some s \<Rightarrow> snapshotIsCoherent (qi_previousSnapshot q) s \<and> qi_nowMs q \<le> us_expiresAtMs (us_fields s)
       \<and> qi_nowMs q \<le> us_measuredAtMs (us_fields s) + providerUsageMaxAgeMs (policyFields (qi_policy q)))"

definition remaining_units :: "quota_input \<Rightarrow> int" where
  "remaining_units q = (case qi_snapshot q of
     None \<Rightarrow> 0
   | Some s \<Rightarrow> us_limitUnits (us_fields s) - us_usedUnits (us_fields s) - qi_localUsedSinceMeasurement q)"

text \<open>What closing every open position costs, and the margin.\<close>

definition exit_reserve :: "quota_input \<Rightarrow> int" where
  "exit_reserve q = (let p = policyFields (qi_policy q) in
     qi_openPositions q * (providerExitCostUnitsPerPosition p + providerConfirmationCostUnitsPerPosition p
       + providerReconciliationCostUnitsPerPosition p) + providerSafetyMarginUnits p)"

definition recent_limits :: "quota_input \<Rightarrow> nat" where
  "recent_limits q = length (filter (\<lambda>t. qi_nowMs q - 30000 \<le> t) (qi_consecutiveRateLimits q))"

abbreviation entry_cost :: "quota_input \<Rightarrow> int" where
  "entry_cost q \<equiv> providerEntryCostUnits (policyFields (qi_policy q))"

abbreviation gate :: "quota_input \<Rightarrow> quota_state" where
  "gate q \<equiv> qd_state (providerQuotaDecision q)"

lemma gate_cases:
  "gate q = (if \<not> usable_measure q then UNKNOWN_QUOTA
     else if qi_allEndpointsUnavailable q \<or> remaining_units q < exit_reserve q then EXIT_ONLY
     else if 3 \<le> recent_limits q \<or> remaining_units q - entry_cost q < exit_reserve q then ENTRY_BLOCKED
     else NORMAL)"
  by (auto simp: providerQuotaDecision_def usable_measure_def remaining_units_def exit_reserve_def recent_limits_def
      Let_def split: option.split)

text \<open>The situation after \<open>n\<close> more units were spent locally.\<close>

definition spend :: "int \<Rightarrow> quota_input \<Rightarrow> quota_input" where
  "spend n q = q\<lparr>qi_localUsedSinceMeasurement := qi_localUsedSinceMeasurement q + n\<rparr>"

lemma spend_simps [simp]:
  "usable_measure (spend n q) = usable_measure q" "exit_reserve (spend n q) = exit_reserve q"
  "recent_limits (spend n q) = recent_limits q" "qi_policy (spend n q) = qi_policy q"
  "qi_allEndpointsUnavailable (spend n q) = qi_allEndpointsUnavailable q"
  "usable_measure q \<Longrightarrow> remaining_units (spend n q) = remaining_units q - n"
  by (simp_all add: spend_def usable_measure_def exit_reserve_def recent_limits_def remaining_units_def
      split: option.splits)

text \<open>
  C10. The provider quota never spends the units of an exit on an entry. Whatever question the gate
  accepts, it answers NORMAL exactly when the measure is usable, an endpoint is up, fewer than three
  rate limits are recent, and paying the entry would not leave the gate in EXIT_ONLY. And as long as it
  answers NORMAL before each of a run of entries, all of them together leave the cost of
  exiting, confirming and reconciling every open position, with the margin, within the measured limit.
\<close>

theorem quota_protects_exits:
  assumes "quotaInputFrom sha256 v = Some q"
  shows "(\<exists>d. evaluateProviderQuota sha256 v = Some d \<and> (qd_state d = NORMAL \<longleftrightarrow>
        usable_measure q \<and> \<not> qi_allEndpointsUnavailable q \<and> recent_limits q < 3
          \<and> qd_state (providerQuotaDecision (spend (entry_cost q) q)) < EXIT_ONLY))
    \<and> ((\<forall>k < n. qd_state (providerQuotaDecision (spend (int k * entry_cost q) q)) = NORMAL) \<and> 0 < n
        \<longrightarrow> int n * entry_cost q + exit_reserve q \<le> remaining_units q)"
proof
  have cost: "1 \<le> entry_cost q" using quotaInputFrom_valid [OF assms] by (simp add: valid_policy_def)
  then show "\<exists>d. evaluateProviderQuota sha256 v = Some d \<and> (qd_state d = NORMAL \<longleftrightarrow>
        usable_measure q \<and> \<not> qi_allEndpointsUnavailable q \<and> recent_limits q < 3
          \<and> qd_state (providerQuotaDecision (spend (entry_cost q) q)) < EXIT_ONLY)"
    using assms by (auto simp: evaluateProviderQuota_def gate_cases less_quota_state_def)
  show "(\<forall>k < n. gate (spend (int k * entry_cost q) q) = NORMAL) \<and> 0 < n
      \<longrightarrow> int n * entry_cost q + exit_reserve q \<le> remaining_units q"
  proof
    assume "(\<forall>k < n. gate (spend (int k * entry_cost q) q) = NORMAL) \<and> 0 < n"
    then obtain m where "n = Suc m" "gate (spend (int m * entry_cost q) q) = NORMAL" by (cases n) auto
    then show "int n * entry_cost q + exit_reserve q \<le> remaining_units q"
      by (auto simp: gate_cases distrib_right split: if_splits)
  qed
qed

text \<open>One situation is at least as bad as another: same policy, measure and time, and more use, more
  open positions, more recorded rate limits, or endpoints down.\<close>

definition at_least_as_bad :: "quota_input \<Rightarrow> quota_input \<Rightarrow> bool" where
  "at_least_as_bad q r = (qi_policy q = qi_policy r \<and> qi_previousSnapshot q = qi_previousSnapshot r
     \<and> qi_snapshot q = qi_snapshot r \<and> qi_nowMs q = qi_nowMs r
     \<and> qi_localUsedSinceMeasurement q \<le> qi_localUsedSinceMeasurement r \<and> qi_openPositions q \<le> qi_openPositions r
     \<and> (\<forall>t. count_list (qi_consecutiveRateLimits q) t \<le> count_list (qi_consecutiveRateLimits r) t)
     \<and> (qi_allEndpointsUnavailable q \<longrightarrow> qi_allEndpointsUnavailable r))"

lemma count_list_mset_le:
  "(\<forall>t. count_list xs t \<le> count_list ys t) \<longleftrightarrow> mset xs \<subseteq># mset ys"
  by (simp add: subseteq_mset_def count_mset)

lemma recent_limits_mono: "at_least_as_bad q r \<Longrightarrow> recent_limits q \<le> recent_limits r"
proof -
  assume bad: "at_least_as_bad q r"
  let ?P = "\<lambda>t. qi_nowMs q - 30000 \<le> t"
  from bad have "mset (qi_consecutiveRateLimits q) \<subseteq># mset (qi_consecutiveRateLimits r)"
    by (simp add: at_least_as_bad_def count_list_mset_le)
  then have "filter_mset ?P (mset (qi_consecutiveRateLimits q)) \<subseteq># filter_mset ?P (mset (qi_consecutiveRateLimits r))"
    by (rule multiset_filter_mono)
  from size_mset_mono [OF this] bad show "recent_limits q \<le> recent_limits r"
    by (simp add: recent_limits_def at_least_as_bad_def flip: mset_filter)
qed

text \<open>
  C11. The gate is monotone: of two questions it accepts that differ only in use, open positions,
  rate limits and availability, the worse one never gets a more permissive state.
\<close>

theorem quota_gate_monotone:
  assumes "evaluateProviderQuota sha256 v = Some d" and "quotaInputFrom sha256 v = Some q"
    and "evaluateProviderQuota sha256 w = Some e" and "quotaInputFrom sha256 w = Some r"
    and "at_least_as_bad q r"
  shows "qd_state d \<le> qd_state e"
proof -
  let ?p = "policyFields (qi_policy q)"
  let ?c = "providerExitCostUnitsPerPosition ?p + providerConfirmationCostUnitsPerPosition ?p
    + providerReconciliationCostUnitsPerPosition ?p"
  have states: "qd_state d = gate q" "qd_state e = gate r"
    using assms(1-4) by (simp_all add: evaluateProviderQuota_def)
  have "0 \<le> ?c" using quotaInputFrom_valid [OF assms(2)] by (simp add: valid_policy_def)
  then have "qi_openPositions q * ?c \<le> qi_openPositions r * ?c"
    using assms(5) by (intro mult_right_mono) (auto simp: at_least_as_bad_def)
  then have "exit_reserve q \<le> exit_reserve r"
    using assms(5) by (simp add: exit_reserve_def at_least_as_bad_def Let_def)
  moreover have "usable_measure q = usable_measure r" "remaining_units r \<le> remaining_units q"
    "entry_cost q = entry_cost r" "qi_allEndpointsUnavailable q \<longrightarrow> qi_allEndpointsUnavailable r"
    using assms(5) by (auto simp: usable_measure_def remaining_units_def at_least_as_bad_def split: option.splits)
  ultimately show ?thesis
    using recent_limits_mono [OF assms(5)] by (auto simp: states gate_cases less_eq_quota_state_def)
qed

text \<open>
  C17. Usage snapshots keep their identity: the frozen object \<open>createProviderUsageSnapshot\<close> returns is
  read back by the gate as the same snapshot, and two snapshots the gate accepts have one identifier
  exactly when they agree in provider, plan, period, limit, use, times and provenance.
\<close>

theorem usage_snapshot_identity:
  assumes "\<And>x. is_hex64 (sha256 x)"
    and "nullableSnapshotFrom sha256 v = Some (Some s)" and "nullableSnapshotFrom sha256 w = Some (Some t)"
    and "inj_on sha256 {stringify (snapshotPreimage (us_fields s)), stringify (snapshotPreimage (us_fields t))}"
  shows "(us_snapshotId s = us_snapshotId t \<longleftrightarrow> us_fields s = us_fields t)
    \<and> (\<forall>input c. createProviderUsageSnapshot sha256 input = Some c
        \<longrightarrow> nullableSnapshotFrom sha256 (usageSnapshotObject c) = Some (Some c))"
  using nullableSnapshotFrom_Some [OF assms(2)] nullableSnapshotFrom_Some [OF assms(3)]
    digest_binds [OF assms(4), of "snapshotPreimage (us_fields s)" "snapshotPreimage (us_fields t)"]
    snapshotPreimage_inj [of "us_fields s" "us_fields t"] nullableSnapshotFrom_object [OF assms(1)]
  by (auto simp: snapshotFingerprintFor_def)

subsection \<open>Concrete questions\<close>

definition example_usage :: usage_input where
  "example_usage = \<lparr>us_providerId = ''helius'', us_planId = ''pro'', us_billingPeriodId = ''2026-08'',
     us_billingPeriodStartedAtMs = 0, us_billingPeriodEndsAtMs = 2000000, us_limitUnits = 100, us_usedUnits = 20,
     us_measuredAtMs = 1000000, us_expiresAtMs = 1060000, us_provenance = OPERATOR_REPORT\<rparr>"

definition usage_snapshot_of :: "(string \<Rightarrow> string) \<Rightarrow> usage_input \<Rightarrow> usage_snapshot" where
  "usage_snapshot_of sha256 s = \<lparr>us_snapshotId = ''execution_provider_usage_'' @ snapshotFingerprintFor sha256 s,
     us_payloadVersion = 1, us_snapshotFingerprint = snapshotFingerprintFor sha256 s, us_fields = s\<rparr>"

lemma usage_snapshot_of_created:
  "valid_usage s \<Longrightarrow> createProviderUsageSnapshot sha256 (frozen_object (usageInputObject s)) = Some (usage_snapshot_of sha256 s)"
  by (simp add: createProviderUsageSnapshot_def snapshotInputFrom_object usage_snapshot_of_def Let_def)

lemma example_usage_valid: "valid_usage example_usage" "valid_usage (example_usage\<lparr>us_usedUnits := 30\<rparr>)"
  by (simp_all add: valid_usage_def example_usage_def is_identifier_def is_alnum_def code_unit_def utf8_length_code)

definition quota_record :: "usage_snapshot \<Rightarrow> int \<Rightarrow> js_record" where
  "quota_record s localUsed =
  [(''policy'', policyObject example_policy_record), (''previousSnapshot'', JNull), (''snapshot'', usageSnapshotObject s),
   (''localUsedSinceMeasurement'', JBig localUsed), (''openPositions'', JNum (JInt 1)),
   (''consecutiveRateLimits'', JArr False True [Some (DataProp True (JNum (JInt 1005000)))]),
   (''allEndpointsUnavailable'', JBool False), (''nowMs'', JNum (JInt 1010000))]"

definition example_quota :: "int \<Rightarrow> quota_input" where
  "example_quota localUsed = \<lparr>qi_policy = example_policy_record, qi_previousSnapshot = None,
     qi_snapshot = Some (usage_snapshot_of zero_digest example_usage), qi_localUsedSinceMeasurement = localUsed,
     qi_openPositions = 1, qi_consecutiveRateLimits = [1005000], qi_allEndpointsUnavailable = False, qi_nowMs = 1010000\<rparr>"

lemma QUOTA_INPUT_KEYS_distinct: "distinct QUOTA_INPUT_KEYS"
  by code_simp

lemma example_quota_read:
  assumes "0 \<le> n" and "n \<le> U64_MAX"
  shows "quotaInputFrom zero_digest (frozen_object (quota_record (usage_snapshot_of zero_digest example_usage) n))
    = Some (example_quota n)"
proof -
  let ?s = "usage_snapshot_of zero_digest example_usage"
  have rec: "exactRecord QUOTA_INPUT_KEYS (frozen_object (quota_record ?s n)) = Some (quota_record ?s n)"
    by (rule exactRecord_frozen_object [OF _ QUOTA_INPUT_KEYS_distinct]) (simp add: quota_record_def QUOTA_INPUT_KEYS_def)
  have flds: "fld (quota_record ?s n) ''policy'' = policyObject example_policy_record"
    "fld (quota_record ?s n) ''previousSnapshot'' = JNull" "fld (quota_record ?s n) ''snapshot'' = usageSnapshotObject ?s"
    "fld (quota_record ?s n) ''localUsedSinceMeasurement'' = JBig n"
    "fld (quota_record ?s n) ''openPositions'' = JNum (JInt 1)"
    "fld (quota_record ?s n) ''consecutiveRateLimits'' = JArr False True [Some (DataProp True (JNum (JInt 1005000)))]"
    "fld (quota_record ?s n) ''allEndpointsUnavailable'' = JBool False"
    "fld (quota_record ?s n) ''nowMs'' = JNum (JInt 1010000)"
    by (simp_all add: quota_record_def)
  have policy: "quotaPolicyFrom zero_digest (policyObject example_policy_record) = Some example_policy_record"
    using example_policy_accepted by (simp add: quotaPolicyFrom_agrees)
  have snapshot: "nullableSnapshotFrom zero_digest (usageSnapshotObject ?s) = Some (Some ?s)"
    by (rule nullableSnapshotFrom_object [OF zero_digest_hex usage_snapshot_of_created [OF example_usage_valid(1)]])
  have none: "nullableSnapshotFrom zero_digest JNull = Some None" by (simp add: nullableSnapshotFrom_def)
  show ?thesis
    using assms unfolding quotaInputFrom_def rec
    by (simp add: flds policy snapshot none example_quota_def unsignedBigint_def boundedBigint_def
        boundedInteger_def timestamp_field_def timestampsFrom_def booleanValue_def)
qed

lemma example_quota_gate:
  "n < 50 \<Longrightarrow> gate (spend m (example_quota n)) = (if n + m \<le> 40 then NORMAL else if n + m \<le> 50 then ENTRY_BLOCKED else EXIT_ONLY)"
  by (simp add: gate_cases spend_def example_quota_def usage_snapshot_of_def example_usage_def example_policy_record_def
      example_policy_def usable_measure_def remaining_units_def exit_reserve_def recent_limits_def snapshotIsCoherent_def)

theorem quota_protects_exits_witness:
  "int 4 * entry_cost (example_quota 5) + exit_reserve (example_quota 5) \<le> remaining_units (example_quota 5)
     \<and> \<not> gate (spend (int 4 * entry_cost (example_quota 5)) (example_quota 5)) = NORMAL"
proof -
  have cost: "entry_cost (example_quota 5) = 10"
    by (simp add: example_quota_def example_policy_record_def example_policy_def)
  have "\<forall>k < 4. gate (spend (int k * entry_cost (example_quota 5)) (example_quota 5)) = NORMAL"
    unfolding cost by (simp add: example_quota_gate)
  then show ?thesis
    using quota_protects_exits [OF example_quota_read [of 5], of 4] by (simp add: cost example_quota_gate)
qed

theorem quota_gate_monotone_witness:
  "qd_state (providerQuotaDecision (example_quota 5)) \<le> qd_state (providerQuotaDecision (example_quota 45))"
proof -
  have bad: "at_least_as_bad (example_quota 5) (example_quota 45)"
    by (simp add: at_least_as_bad_def example_quota_def)
  have evaluated: "evaluateProviderQuota zero_digest
      (frozen_object (quota_record (usage_snapshot_of zero_digest example_usage) n)) = Some (providerQuotaDecision (example_quota n))"
    if "0 \<le> n" "n \<le> U64_MAX" for n
    using example_quota_read [OF that] by (simp add: evaluateProviderQuota_def)
  show ?thesis
    by (rule quota_gate_monotone [OF evaluated example_quota_read evaluated example_quota_read bad]) simp_all
qed

theorem usage_snapshot_identity_witness:
  "(let sha256 = split_digest (stringify (snapshotPreimage example_usage)) in
     us_snapshotId (usage_snapshot_of sha256 example_usage)
       \<noteq> us_snapshotId (usage_snapshot_of sha256 (example_usage\<lparr>us_usedUnits := 30\<rparr>)))"
proof -
  let ?sha = "split_digest (stringify (snapshotPreimage example_usage))"
  have read: "nullableSnapshotFrom ?sha (usageSnapshotObject (usage_snapshot_of ?sha s)) = Some (Some (usage_snapshot_of ?sha s))"
    if "valid_usage s" for s
    by (rule nullableSnapshotFrom_object [OF split_digest_hex usage_snapshot_of_created [OF that]])
  have "inj_on ?sha {stringify (snapshotPreimage (us_fields (usage_snapshot_of ?sha example_usage))),
      stringify (snapshotPreimage (us_fields (usage_snapshot_of ?sha (example_usage\<lparr>us_usedUnits := 30\<rparr>))))}"
    unfolding usage_snapshot_of_def usage_snapshot.simps by (rule inj_on_split_digest)
  from usage_snapshot_identity [OF split_digest_hex read [OF example_usage_valid(1)] read [OF example_usage_valid(2)] this]
  show ?thesis by (simp add: Let_def usage_snapshot_of_def example_usage_def)
qed

end
