(* ===== verification/Canary_Evidence.thy ===== *)
theory Canary_Evidence
  imports Safety_Qualification Wallet_Snapshot Provider_Quota
begin

text \<open>
  The evidence a canary is armed on (\<open>src/src/domain/execution-canary.ts\<close>): one qualification, one target
  intent, one risk policy and the wallet and provider snapshots, read again from the objects that carry
  them. SHA-256 is the argument \<open>sha256\<close>, a function of bytes; a text is hashed in UTF-8. \<open>canonicalKey\<close> is
  the public-key test of \<open>@solana/web3.js\<close> and \<open>exotic\<close> what a rest pattern does on an object with getters,
  traps or a foreign prototype.
\<close>

subsection \<open>Readers\<close>

definition textHash :: "(nat list \<Rightarrow> string) \<Rightarrow> string \<Rightarrow> string" where
  "textHash sha256 s = sha256 (utf8 s)"

text \<open>This module's \<open>exactRecord\<close> accepts any prototype.\<close>

definition anyProtoRecord :: "string list \<Rightarrow> js \<Rightarrow> js_record option" where
  "anyProtoRecord keys v = (case v of
     JObj proto proxy frozen props \<Rightarrow>
       if proxy \<or> length props \<noteq> length keys
         \<or> list_ex (\<lambda>k. case k of KStr s \<Rightarrow> s \<notin> set keys | KSym _ \<Rightarrow> True) (map fst props) then None
       else readKeys keys v
   | _ \<Rightarrow> None)"

fun isObjectType :: "js \<Rightarrow> bool" where
  "isObjectType (JArr _ _ _) = True"
| "isObjectType (JObj _ _ _ _) = True"
| "isObjectType _ = False"

definition canaryQualificationFrom ::
    "(nat list \<Rightarrow> string) \<Rightarrow> (string \<Rightarrow> bool) \<Rightarrow> rest_pattern \<Rightarrow> js \<Rightarrow> safety_qualification option" where
  "canaryQualificationFrom sha256 canonicalKey exotic v =
     (if \<not> isFrozen v \<or> \<not> isObjectType v then None
      else do {
        (names, input) \<leftarrow> restPattern exotic [''qualificationId'', ''qualificationFingerprint''] v;
        q \<leftarrow> createSafetyQualification (textHash sha256) canonicalKey input;
        (if fld names ''qualificationId'' \<noteq> JStr (sq_qualificationId q)
           \<or> fld names ''qualificationFingerprint'' \<noteq> JStr (sq_qualificationFingerprint q) then None
         else Some q)
      })"

definition canaryPolicyFrom :: "(nat list \<Rightarrow> string) \<Rightarrow> rest_pattern \<Rightarrow> js \<Rightarrow> risk_policy option" where
  "canaryPolicyFrom sha256 exotic v =
     (if \<not> isFrozen v \<or> \<not> isObjectType v then None
      else do {
        (names, input) \<leftarrow> restPattern exotic [''payloadVersion'', ''policyFingerprint''] v;
        p \<leftarrow> createExecutionRiskPolicy (textHash sha256) input;
        (if fld names ''payloadVersion'' \<noteq> JNum (JInt 1) \<or> fld names ''policyFingerprint'' \<noteq> JStr (policyFingerprint p) then None
         else Some p)
      })"

definition canaryWalletFrom :: "(nat list \<Rightarrow> string) \<Rightarrow> js \<Rightarrow> wallet_snapshot option" where
  "canaryWalletFrom sha256 v =
     (if \<not> assertExecutionWalletSnapshot sha256 v then None
      else do {
        row \<leftarrow> exactRecord WALLET_SNAPSHOT_KEYS v;
        createExecutionWalletSnapshot sha256 (object_literal (pick row WALLET_INPUT_KEYS))
      })"

definition canaryProviderFrom :: "(nat list \<Rightarrow> string) \<Rightarrow> rest_pattern \<Rightarrow> js \<Rightarrow> usage_snapshot option" where
  "canaryProviderFrom sha256 exotic v =
     (if \<not> isFrozen v \<or> \<not> isObjectType v then None
      else do {
        (names, input) \<leftarrow> restPattern exotic [''snapshotId'', ''payloadVersion'', ''snapshotFingerprint''] v;
        p \<leftarrow> createProviderUsageSnapshot (textHash sha256) input;
        (if fld names ''payloadVersion'' \<noteq> JNum (JInt 1) \<or> fld names ''snapshotId'' \<noteq> JStr (us_snapshotId p)
           \<or> fld names ''snapshotFingerprint'' \<noteq> JStr (us_snapshotFingerprint p) then None
         else Some p)
      })"

subsection \<open>Evidence\<close>

record canary_evidence =
  ce_evidenceId :: string
  ce_evidenceFingerprint :: string
  ce_qualification :: safety_qualification
  ce_targetIntentId :: string
  ce_policy :: risk_policy
  ce_walletSnapshot :: wallet_snapshot
  ce_providerSnapshot :: usage_snapshot
  ce_capturedAtMs :: int
  ce_expiresAtMs :: int

definition CANARY_INPUT_KEYS :: "string list" where
  "CANARY_INPUT_KEYS =
  [''payloadVersion'', ''qualification'', ''targetIntentId'', ''policy'', ''walletSnapshot'', ''providerSnapshot'',
   ''allEndpointsUnavailable'', ''capturedAtMs'', ''expiresAtMs'']"

definition canaryPreimage ::
    "safety_qualification \<Rightarrow> string \<Rightarrow> risk_policy \<Rightarrow> wallet_snapshot \<Rightarrow> usage_snapshot \<Rightarrow> int \<Rightarrow> int \<Rightarrow> json" where
  "canaryPreimage q target policy wallet provider capturedAtMs expiresAtMs = JsonArr
  [JsonStr ''execution-canary-evidence-v1'', JsonStr (sq_qualificationId q), JsonStr (sq_qualificationFingerprint q),
   JsonStr target, JsonStr (policyFingerprint policy), JsonStr (ws_snapshotId wallet), JsonStr (ws_snapshotFingerprint wallet),
   JsonStr (us_snapshotId provider), JsonStr (us_snapshotFingerprint provider), JsonBool False,
   JsonInt capturedAtMs, JsonInt expiresAtMs]"

text \<open>The wallet and provider gates against the snapshots: by identifier for a canary, by generation and
  provider for an envelope.\<close>

definition snapshotsMatch :: "safety_qualification \<Rightarrow> wallet_snapshot \<Rightarrow> usage_snapshot \<Rightarrow> bool" where
  "snapshotsMatch q wallet provider =
     (let walletGate = List.find (\<lambda>g. ge_gateId g = ''WALLET_CHAIN_LIMITS_VERIFIED'') (qf_gates (sq_fields q));
          providerGate = List.find (\<lambda>g. ge_gateId g = ''PROVIDER_EXIT_CAPACITY_VERIFIED'') (qf_gates (sq_fields q))
      in if sq_payloadVersion q = 1 then
           (case (walletGate, providerGate) of
              (Some w, Some p) \<Rightarrow> ge_evidenceId w = ws_snapshotId wallet \<and> ge_evidenceFingerprint w = ws_snapshotFingerprint wallet
                \<and> ge_evidenceId p = us_snapshotId provider \<and> ge_evidenceFingerprint p = us_snapshotFingerprint provider
            | _ \<Rightarrow> False)
         else walletGate \<noteq> None \<and> providerGate \<noteq> None
           \<and> wf_generationId (ws_fields wallet) = qf_generationId (sq_fields q)
           \<and> wf_providerId (ws_fields wallet) = qf_providerId (sq_fields q)
           \<and> us_providerId (us_fields provider) = qf_providerId (sq_fields q))"

definition createExecutionCanaryEvidence ::
    "(nat list \<Rightarrow> string) \<Rightarrow> (string \<Rightarrow> bool) \<Rightarrow> rest_pattern \<Rightarrow> js \<Rightarrow> canary_evidence option" where
  "createExecutionCanaryEvidence sha256 canonicalKey exotic input = do {
     row \<leftarrow> anyProtoRecord CANARY_INPUT_KEYS input;
     (if fld row ''payloadVersion'' \<noteq> JNum (JInt 1) \<or> fld row ''allEndpointsUnavailable'' \<noteq> JBool False then None
      else do {
        qualification \<leftarrow> canaryQualificationFrom sha256 canonicalKey exotic (fld row ''qualification'');
        policy \<leftarrow> canaryPolicyFrom sha256 exotic (fld row ''policy'');
        wallet \<leftarrow> canaryWalletFrom sha256 (fld row ''walletSnapshot'');
        provider \<leftarrow> canaryProviderFrom sha256 exotic (fld row ''providerSnapshot'');
        (if qf_phase (sq_fields qualification) \<noteq> CANARY then None
         else do {
           target \<leftarrow> patternedText (is_prefixed_hex64 ''execution_intent_'') 81 (fld row ''targetIntentId'');
           capturedAtMs \<leftarrow> timestamp_field (fld row ''capturedAtMs'');
           expiresAtMs \<leftarrow> timestamp_field (fld row ''expiresAtMs'');
           (if capturedAtMs < qf_qualifiedAtMs (sq_fields qualification) \<or> expiresAtMs \<le> capturedAtMs
              \<or> expiresAtMs > qf_expiresAtMs (sq_fields qualification) \<or> expiresAtMs > us_expiresAtMs (us_fields provider)
              \<or> \<not> snapshotsMatch qualification wallet provider then None
            else let evidenceFingerprint = textHash sha256 (stringify
                (canaryPreimage qualification target policy wallet provider capturedAtMs expiresAtMs)) in
              Some \<lparr>ce_evidenceId = ''execution_canary_evidence_'' @ evidenceFingerprint,
                ce_evidenceFingerprint = evidenceFingerprint, ce_qualification = qualification, ce_targetIntentId = target,
                ce_policy = policy, ce_walletSnapshot = wallet, ce_providerSnapshot = provider,
                ce_capturedAtMs = capturedAtMs, ce_expiresAtMs = expiresAtMs\<rparr>)
         })
      })
   }"

subsection \<open>The objects that carry the parts are read back\<close>

lemma frozen_object_checks [simp]: "isFrozen (frozen_object r)" "isObjectType (frozen_object r)" "isPlainObject (frozen_object r)"
  by (simp_all add: frozen_object_def)

lemma filter_other_keys:
  assumes "distinct (map fst (named @ others))"
  shows "filter (\<lambda>(k, _). k \<notin> fst ` set named) (named @ others) = others"
proof -
  have "filter (\<lambda>(k, _). k \<notin> fst ` set named) named = []" by (force simp: filter_empty_conv)
  moreover have "filter (\<lambda>(k, _). k \<notin> fst ` set named) others = others"
    using assms by (force simp: filter_id_conv)
  ultimately show ?thesis by simp
qed

lemma canaryQualificationFrom_object:
  assumes "createSafetyQualification (textHash sha256) canonicalKey v = Some q"
  shows "canaryQualificationFrom sha256 canonicalKey exotic (qualificationObject q) = Some q"
proof -
  have "isFrozen (qualificationObject q)" "isObjectType (qualificationObject q)"
    by (simp_all add: qualificationObject_def)
  moreover obtain rest where
    "restPattern exotic [''qualificationId'', ''qualificationFingerprint''] (qualificationObject q)
      = Some ([(''qualificationId'', JStr (sq_qualificationId q)),
          (''qualificationFingerprint'', JStr (sq_qualificationFingerprint q))], rest)"
    "createSafetyQualification (textHash sha256) canonicalKey rest = Some q"
    using qualification_recreated [OF assms, of exotic] by blast
  ultimately show ?thesis by (simp add: canaryQualificationFrom_def)
qed

lemma rest_of_named:
  assumes "distinct (map fst (named @ others))" and "map fst named = names"
  shows "restPattern exotic names (frozen_object (named @ others)) = Some (named, object_literal others)"
proof -
  have "pick (named @ others) (map fst named) = named"
  proof -
    have "fld (named @ others) k = x" if "(k, x) \<in> set named" for k x
    proof -
      from assms(1) that have "map_of (named @ others) k = Some x" by (intro map_of_is_SomeI) auto
      then show ?thesis by (simp add: fld_def)
    qed
    then show ?thesis by (auto simp: pick_def intro!: map_idI)
  qed
  then show ?thesis
    using filter_other_keys [OF assms(1)] by (simp add: restPattern_frozen_object [OF assms(1)] flip: assms(2))
qed

lemma canaryPolicyFrom_object:
  assumes "createExecutionRiskPolicy (textHash sha256) v = Some p"
  shows "canaryPolicyFrom sha256 exotic (policyObject p) = Some p"
proof -
  from assms obtain f where f: "policyInputFrom v = Some f"
    and p: "p = \<lparr>policyPayloadVersion = 1, policyFingerprint = fingerprintPolicy (textHash sha256) f, policyFields = f\<rparr>"
    by (auto simp: createExecutionRiskPolicy_def result_simps)
  have "distinct (map fst ([(''payloadVersion'', JNum (JInt (policyPayloadVersion p))), (''policyFingerprint'', JStr (policyFingerprint p))]
      @ policyInputObject f))"
    using POLICY_KEYS_distinct by (simp add: policyInputObject_keys POLICY_KEYS_def)
  then have rest: "restPattern exotic [''payloadVersion'', ''policyFingerprint''] (policyObject p)
      = Some ([(''payloadVersion'', JNum (JInt (policyPayloadVersion p))), (''policyFingerprint'', JStr (policyFingerprint p))],
          object_literal (policyInputObject f))"
    unfolding policyObject_def by (simp only: p risk_policy.simps) (rule rest_of_named; simp)
  have "createExecutionRiskPolicy (textHash sha256) (object_literal (policyInputObject f)) = Some p"
    using policyInputFrom_object [OF policyInputFrom_valid [OF f]]
    by (simp add: createExecutionRiskPolicy_def policyInputFrom_def object_readers p)
  with rest show ?thesis by (simp add: canaryPolicyFrom_def p) (simp add: policyObject_def)
qed

lemma canaryWalletFrom_object:
  assumes "createExecutionWalletSnapshot sha256 v = Some w"
  shows "canaryWalletFrom sha256 (walletSnapshotObject w) = Some w"
proof -
  from assms obtain f where f: "valid_wallet f" and w: "w = walletSnapshotOf sha256 f"
    by (auto simp: createExecutionWalletSnapshot_def result_simps dest: walletFieldsFrom_valid)
  have "createExecutionWalletSnapshot sha256 (object_literal (walletRecord f)) = Some w"
    using wallet_recreated [OF f, of sha256]
    by (simp add: createExecutionWalletSnapshot_def walletFieldsFrom_def object_readers w)
  then show ?thesis
    using assertExecutionWalletSnapshot_object [OF f, of sha256]
    by (simp add: canaryWalletFrom_def w wallet_snapshot_read pick_wallet_record)
qed

lemma canaryProviderFrom_object:
  assumes "createProviderUsageSnapshot (textHash sha256) v = Some s"
  shows "canaryProviderFrom sha256 exotic (usageSnapshotObject s) = Some s"
proof -
  from assms obtain f where f: "snapshotInputFrom v = Some f" and s: "s = usage_snapshot_of (textHash sha256) f"
    by (auto simp: createProviderUsageSnapshot_def usage_snapshot_of_def result_simps Let_def)
  have "distinct (map fst ([(''snapshotId'', JStr (us_snapshotId s)), (''payloadVersion'', JNum (JInt 1)),
      (''snapshotFingerprint'', JStr (us_snapshotFingerprint s))] @ usageInputObject f))"
    using SNAPSHOT_KEYS_distinct by (simp add: usageInputObject_keys SNAPSHOT_KEYS_def)
  then have rest: "restPattern exotic [''snapshotId'', ''payloadVersion'', ''snapshotFingerprint''] (usageSnapshotObject s)
      = Some ([(''snapshotId'', JStr (us_snapshotId s)), (''payloadVersion'', JNum (JInt 1)),
          (''snapshotFingerprint'', JStr (us_snapshotFingerprint s))], object_literal (usageInputObject f))"
    unfolding usageSnapshotObject_def by (simp only: s usage_snapshot_of_def usage_snapshot.simps) (rule rest_of_named; simp)
  have "createProviderUsageSnapshot (textHash sha256) (object_literal (usageInputObject f)) = Some s"
    using usage_snapshot_of_created [OF snapshotInputFrom_valid [OF f], of "textHash sha256"]
    by (simp add: createProviderUsageSnapshot_def snapshotInputFrom_def object_readers s)
  with rest show ?thesis by (simp add: canaryProviderFrom_def s) (simp add: usageSnapshotObject_def)
qed

subsection \<open>What evidence says\<close>

definition sound_evidence :: "(nat list \<Rightarrow> string) \<Rightarrow> (string \<Rightarrow> bool) \<Rightarrow> canary_evidence \<Rightarrow> bool" where
  "sound_evidence sha256 canonicalKey e =
     ((\<exists>v. createSafetyQualification (textHash sha256) canonicalKey v = Some (ce_qualification e))
      \<and> (\<exists>v. createExecutionRiskPolicy (textHash sha256) v = Some (ce_policy e))
      \<and> (\<exists>v. createExecutionWalletSnapshot sha256 v = Some (ce_walletSnapshot e))
      \<and> (\<exists>v. createProviderUsageSnapshot (textHash sha256) v = Some (ce_providerSnapshot e))
      \<and> qf_phase (sq_fields (ce_qualification e)) = CANARY
      \<and> valid_pattern (is_prefixed_hex64 ''execution_intent_'') 81 (ce_targetIntentId e)
      \<and> qf_qualifiedAtMs (sq_fields (ce_qualification e)) \<le> ce_capturedAtMs e \<and> ce_capturedAtMs e < ce_expiresAtMs e
      \<and> 0 \<le> ce_capturedAtMs e \<and> ce_expiresAtMs e \<le> DATE_MAX_MS
      \<and> ce_expiresAtMs e \<le> qf_expiresAtMs (sq_fields (ce_qualification e))
      \<and> ce_expiresAtMs e \<le> us_expiresAtMs (us_fields (ce_providerSnapshot e))
      \<and> snapshotsMatch (ce_qualification e) (ce_walletSnapshot e) (ce_providerSnapshot e)
      \<and> ce_evidenceFingerprint e = textHash sha256 (stringify (canaryPreimage (ce_qualification e) (ce_targetIntentId e)
          (ce_policy e) (ce_walletSnapshot e) (ce_providerSnapshot e) (ce_capturedAtMs e) (ce_expiresAtMs e)))
      \<and> ce_evidenceId e = ''execution_canary_evidence_'' @ ce_evidenceFingerprint e)"

lemma canaryQualificationFrom_created:
  "canaryQualificationFrom sha256 canonicalKey exotic v = Some q \<Longrightarrow> \<exists>w. createSafetyQualification (textHash sha256) canonicalKey w = Some q"
  unfolding canaryQualificationFrom_def by (auto simp: result_simps split: if_splits prod.splits)

lemma canaryPolicyFrom_created:
  "canaryPolicyFrom sha256 exotic v = Some p \<Longrightarrow> \<exists>w. createExecutionRiskPolicy (textHash sha256) w = Some p"
  unfolding canaryPolicyFrom_def by (auto simp: result_simps split: if_splits prod.splits)

lemma canaryWalletFrom_created:
  "canaryWalletFrom sha256 v = Some w \<Longrightarrow> \<exists>u. createExecutionWalletSnapshot sha256 u = Some w"
  unfolding canaryWalletFrom_def by (auto simp: result_simps split: if_splits)

lemma canaryProviderFrom_created:
  "canaryProviderFrom sha256 exotic v = Some p \<Longrightarrow> \<exists>w. createProviderUsageSnapshot (textHash sha256) w = Some p"
  unfolding canaryProviderFrom_def by (auto simp: result_simps split: if_splits prod.splits)

lemma createExecutionCanaryEvidence_sound:
  assumes "createExecutionCanaryEvidence sha256 canonicalKey exotic v = Some e"
  shows "sound_evidence sha256 canonicalKey e"
  using assms
  unfolding createExecutionCanaryEvidence_def result_simps Let_def not_le not_less de_Morgan_disj not_not
  by (elim exE conjE)
     (clarsimp simp: sound_evidence_def valid_pattern_def patternedText_iff canaryQualificationFrom_created
       canaryPolicyFrom_created canaryWalletFrom_created canaryProviderFrom_created dest!: timestamp_field_Some)

text \<open>The parts of evidence, as the object they are read from, give the evidence again.\<close>

definition evidenceRecord :: "canary_evidence \<Rightarrow> js_record" where
  "evidenceRecord e =
  [(''qualification'', qualificationObject (ce_qualification e)), (''targetIntentId'', JStr (ce_targetIntentId e)),
   (''policy'', policyObject (ce_policy e)), (''walletSnapshot'', walletSnapshotObject (ce_walletSnapshot e)),
   (''providerSnapshot'', usageSnapshotObject (ce_providerSnapshot e)), (''allEndpointsUnavailable'', JBool False),
   (''capturedAtMs'', JNum (JInt (ce_capturedAtMs e))), (''expiresAtMs'', JNum (JInt (ce_expiresAtMs e)))]"

lemma anyProtoRecord_literal:
  assumes "map fst r = keys" and "distinct keys"
  shows "anyProtoRecord keys (object_literal r) = Some r"
proof -
  have "exactRecord keys (object_literal r) = Some r"
    using exactRecord_frozen_object [OF assms] by (simp add: object_readers)
  then show ?thesis
    by (auto simp: anyProtoRecord_def exactRecord_def object_literal_def Let_def split: if_splits)
qed

lemma evidence_recreated:
  assumes "sound_evidence sha256 canonicalKey e"
  shows "createExecutionCanaryEvidence sha256 canonicalKey exotic
    (object_literal ((''payloadVersion'', JNum (JInt 1)) # evidenceRecord e)) = Some e"
proof -
  let ?r = "(''payloadVersion'', JNum (JInt 1)) # evidenceRecord e"
  have "anyProtoRecord CANARY_INPUT_KEYS (object_literal ?r) = Some ?r"
    by (rule anyProtoRecord_literal) (simp_all add: evidenceRecord_def CANARY_INPUT_KEYS_def)
  moreover have flds: "fld ?r ''qualification'' = qualificationObject (ce_qualification e)"
    "fld ?r ''targetIntentId'' = JStr (ce_targetIntentId e)" "fld ?r ''policy'' = policyObject (ce_policy e)"
    "fld ?r ''walletSnapshot'' = walletSnapshotObject (ce_walletSnapshot e)"
    "fld ?r ''providerSnapshot'' = usageSnapshotObject (ce_providerSnapshot e)"
    "fld ?r ''allEndpointsUnavailable'' = JBool False" "fld ?r ''payloadVersion'' = JNum (JInt 1)"
    "fld ?r ''capturedAtMs'' = JNum (JInt (ce_capturedAtMs e))" "fld ?r ''expiresAtMs'' = JNum (JInt (ce_expiresAtMs e))"
    by (simp_all add: evidenceRecord_def)
  moreover have "canaryQualificationFrom sha256 canonicalKey exotic (qualificationObject (ce_qualification e)) = Some (ce_qualification e)"
    "canaryPolicyFrom sha256 exotic (policyObject (ce_policy e)) = Some (ce_policy e)"
    "canaryWalletFrom sha256 (walletSnapshotObject (ce_walletSnapshot e)) = Some (ce_walletSnapshot e)"
    "canaryProviderFrom sha256 exotic (usageSnapshotObject (ce_providerSnapshot e)) = Some (ce_providerSnapshot e)"
    using assms canaryQualificationFrom_object canaryPolicyFrom_object canaryWalletFrom_object canaryProviderFrom_object
    by (auto simp: sound_evidence_def)
  ultimately show ?thesis
    using assms
    by (cases e) (simp add: createExecutionCanaryEvidence_def sound_evidence_def valid_pattern_def patternedText_def
        timestamp_field_def boundedInteger_def Let_def)
qed

end
