(* ===== verification/Operations.thy ===== *)
theory Operations
  imports Canary_Evidence
begin

text \<open>
  Arming and stopping live execution (\<open>src/src/domain/execution-operations.ts\<close>): operator authorizations,
  armaments of a qualified phase, armament requests with the evidence they rest on, and the
  stop control. The arguments \<open>sha256\<close>, \<open>canonicalKey\<close> and \<open>exotic\<close> are those of \<open>Canary_Evidence\<close>.
\<close>

subsection \<open>Operator authorizations\<close>

datatype authorization_action = ARM_ACTION | RESUME_ACTION | ENVELOPE_ACTION

definition AUTHORIZATION_ACTIONS :: "(string \<times> authorization_action) list" where
  "AUTHORIZATION_ACTIONS = [(''ARM'', ARM_ACTION), (''RESUME'', RESUME_ACTION), (''ENVELOPE'', ENVELOPE_ACTION)]"

record operator_authorization =
  oa_authorizationId :: string
  oa_payloadVersion :: int
  oa_authorizationFingerprint :: string
  oa_generationId :: string
  oa_action :: authorization_action
  oa_phase :: "live_phase option"
  oa_contextFingerprint :: string
  oa_nonceHash :: string
  oa_operatorId :: string
  oa_issuedAtMs :: int
  oa_expiresAtMs :: int

definition AUTHORIZATION_INPUT_KEYS :: "string list" where
  "AUTHORIZATION_INPUT_KEYS =
  [''payloadVersion'', ''generationId'', ''action'', ''phase'', ''contextFingerprint'', ''nonceHash'', ''operatorId'',
   ''issuedAtMs'', ''expiresAtMs'']"

definition authorizationItems ::
    "string \<Rightarrow> string \<Rightarrow> authorization_action \<Rightarrow> live_phase option \<Rightarrow> string \<Rightarrow> string \<Rightarrow> string \<Rightarrow> int \<Rightarrow> int \<Rightarrow> json list" where
  "authorizationItems tag generationId action phase contextFingerprint nonceHash operatorId issuedAtMs expiresAtMs =
  [JsonStr tag, JsonStr generationId, JsonStr (literal_of AUTHORIZATION_ACTIONS action),
   (case phase of None \<Rightarrow> JsonNull | Some p \<Rightarrow> JsonStr (literal_of PHASES p)),
   JsonStr contextFingerprint, JsonStr nonceHash, JsonStr operatorId, JsonInt issuedAtMs, JsonInt expiresAtMs]"

text \<open>The fields both versions read alike, given the actions allowed and the longest life.\<close>

definition authorizationFrom ::
    "authorization_action list \<Rightarrow> int \<Rightarrow> (json list \<Rightarrow> string) \<Rightarrow> string \<Rightarrow> int \<Rightarrow> js \<Rightarrow> operator_authorization option" where
  "authorizationFrom actions maximumTtlMs digest tag version input = do {
     record \<leftarrow> sizedRecord AUTHORIZATION_INPUT_KEYS input;
     (if fld record ''payloadVersion'' \<noteq> JNum (JInt version) then None
      else do {
        generationId \<leftarrow> generationId_field (fld record ''generationId'');
        action \<leftarrow> enumValue AUTHORIZATION_ACTIONS (fld record ''action'');
        (if action \<notin> set actions then None
         else do {
           phase \<leftarrow> (if action = ARM_ACTION then map_option Some (enumValue PHASES (fld record ''phase'')) else Some None);
           (if action \<noteq> ARM_ACTION \<and> fld record ''phase'' \<noteq> JNull then None
            else do {
              contextFingerprint \<leftarrow> fingerprint_field (fld record ''contextFingerprint'');
              nonceHash \<leftarrow> fingerprint_field (fld record ''nonceHash'');
              operatorId \<leftarrow> identifier_field (fld record ''operatorId'');
              issuedAtMs \<leftarrow> timestamp_field (fld record ''issuedAtMs'');
              expiresAtMs \<leftarrow> timestamp_field (fld record ''expiresAtMs'');
              (if expiresAtMs \<le> issuedAtMs \<or> expiresAtMs > issuedAtMs + maximumTtlMs then None
               else let authorizationFingerprint = digest (authorizationItems tag generationId action phase
                   contextFingerprint nonceHash operatorId issuedAtMs expiresAtMs) in
                 Some \<lparr>oa_authorizationId = ''execution_operator_authorization_'' @ authorizationFingerprint,
                   oa_payloadVersion = version, oa_authorizationFingerprint = authorizationFingerprint,
                   oa_generationId = generationId, oa_action = action, oa_phase = phase,
                   oa_contextFingerprint = contextFingerprint, oa_nonceHash = nonceHash, oa_operatorId = operatorId,
                   oa_issuedAtMs = issuedAtMs, oa_expiresAtMs = expiresAtMs\<rparr>)
            })
         })
      })
   }"

definition createOperatorAuthorization :: "(nat list \<Rightarrow> string) \<Rightarrow> js \<Rightarrow> operator_authorization option" where
  "createOperatorAuthorization sha256 input =
     authorizationFrom [ARM_ACTION, RESUME_ACTION, ENVELOPE_ACTION] 300000
       (\<lambda>items. textHash sha256 (stringify (JsonArr items))) ''execution-operator-authorization-v1'' 1 input"

definition createOperatorAuthorizationV2 :: "(nat list \<Rightarrow> string) \<Rightarrow> js \<Rightarrow> operator_authorization option" where
  "createOperatorAuthorizationV2 sha256 input =
     authorizationFrom [ARM_ACTION, RESUME_ACTION] 60000
       (hashLengthPrefixed sha256) ''execution-operator-authorization-v2'' 2 input"

subsection \<open>Armaments of a qualified phase\<close>

record activation_armament =
  am_armamentId :: string
  am_armamentFingerprint :: string
  am_qualification :: safety_qualification
  am_maximumBuys :: int
  am_maximumCapitalLamports :: int
  am_maximumExposureBps :: int
  am_maximumOpenPositions :: int
  am_maximumHoldingMs :: int
  am_armedAtMs :: int
  am_expiresAtMs :: int
  am_operatorId :: string
  am_operatorReason :: string
  am_authorizationId :: string
  am_authorizationFingerprint :: string

definition ARMAMENT_INPUT_KEYS :: "string list" where
  "ARMAMENT_INPUT_KEYS =
  [''payloadVersion'', ''qualification'', ''maximumBuys'', ''maximumCapitalLamports'', ''maximumExposureBps'',
   ''maximumOpenPositions'', ''maximumHoldingMs'', ''armedAtMs'', ''expiresAtMs'', ''operatorId'', ''operatorReason'',
   ''authorizationId'', ''authorizationFingerprint'']"

definition QUALIFICATION_KEYS :: "string list" where
  "QUALIFICATION_KEYS =
  [''qualificationId'', ''payloadVersion'', ''evaluatorVersion'', ''qualificationFingerprint'', ''phase'', ''buildHash'',
   ''configurationFingerprint'', ''strategyFingerprint'', ''generationId'', ''walletPublicKey'', ''cluster'', ''genesisHash'',
   ''providerId'', ''qualifiedAtMs'', ''expiresAtMs'', ''gates'']"

definition validatePhaseLimits :: "live_phase \<Rightarrow> int \<Rightarrow> int \<Rightarrow> int \<Rightarrow> bool" where
  "validatePhaseLimits phase maximumBuys maximumExposureBps maximumOpen =
     (\<not> (phase = CANARY \<and> (maximumBuys \<noteq> 1 \<or> maximumExposureBps \<noteq> 500 \<or> maximumOpen \<noteq> 1))
      \<and> \<not> (phase = MICRO_LIVE \<and> (maximumBuys \<noteq> 3 \<or> maximumExposureBps \<noteq> 500 \<or> maximumOpen \<noteq> 1))
      \<and> \<not> (phase = PILOT \<and> (maximumExposureBps > 2000 \<or> maximumOpen \<noteq> 2)))"

definition operationsQualificationFrom ::
    "(nat list \<Rightarrow> string) \<Rightarrow> (string \<Rightarrow> bool) \<Rightarrow> js \<Rightarrow> safety_qualification option" where
  "operationsQualificationFrom sha256 canonicalKey v = do {
     record \<leftarrow> sizedRecord QUALIFICATION_KEYS v;
     canonical \<leftarrow> createSafetyQualification (textHash sha256) canonicalKey (object_literal (pick record QUALIFICATION_INPUT_KEYS));
     (if fld record ''qualificationId'' \<noteq> JStr (sq_qualificationId canonical)
        \<or> fld record ''qualificationFingerprint'' \<noteq> JStr (sq_qualificationFingerprint canonical)
        \<or> sq_payloadVersion canonical \<noteq> 1 then None
      else Some canonical)
   }"

definition is_operator_reason :: "string \<Rightarrow> bool" where
  "is_operator_reason s = (1 \<le> length s \<and> length s \<le> 256 \<and> list_all is_printable s)"

definition authorizationId_field :: "js \<Rightarrow> string option" where
  "authorizationId_field v = patternedText (is_prefixed_hex64 ''execution_operator_authorization_'') 97 v"

definition armamentPreimage :: "activation_armament \<Rightarrow> json" where
  "armamentPreimage a = (let q = sq_fields (am_qualification a) in JsonArr
  [JsonStr ''execution-activation-armament-v1'', JsonStr (sq_qualificationId (am_qualification a)),
   JsonStr (sq_qualificationFingerprint (am_qualification a)), JsonStr (literal_of PHASES (qf_phase q)),
   JsonStr (qf_buildHash q), JsonStr (qf_configurationFingerprint q), JsonStr (qf_strategyFingerprint q),
   JsonStr (qf_generationId q), JsonStr (qf_walletPublicKey q), JsonStr ''mainnet-beta'', JsonStr (qf_genesisHash q),
   JsonStr (qf_providerId q), JsonInt (am_maximumBuys a), JsonStr (dec_int (am_maximumCapitalLamports a)),
   JsonStr (dec_int (am_maximumExposureBps a)), JsonInt (am_maximumOpenPositions a), JsonInt (am_maximumHoldingMs a),
   JsonInt (am_armedAtMs a), JsonInt (am_expiresAtMs a), JsonStr (am_operatorId a), JsonStr (am_operatorReason a),
   JsonStr (am_authorizationId a), JsonStr (am_authorizationFingerprint a)])"

definition createExecutionArmament ::
    "(nat list \<Rightarrow> string) \<Rightarrow> (string \<Rightarrow> bool) \<Rightarrow> js \<Rightarrow> activation_armament option" where
  "createExecutionArmament sha256 canonicalKey input = do {
     record \<leftarrow> sizedRecord ARMAMENT_INPUT_KEYS input;
     (if fld record ''payloadVersion'' \<noteq> JNum (JInt 1) then None
      else do {
        qualification \<leftarrow> operationsQualificationFrom sha256 canonicalKey (fld record ''qualification'');
        maximumBuys \<leftarrow> boundedInteger 1 10 (fld record ''maximumBuys'');
        maximumCapital \<leftarrow> positiveBigint (fld record ''maximumCapitalLamports'');
        maximumExposure \<leftarrow> boundedBigint 1 10000 (fld record ''maximumExposureBps'');
        maximumOpen \<leftarrow> boundedInteger 1 2 (fld record ''maximumOpenPositions'');
        maximumHolding \<leftarrow> boundedInteger 30000 900000 (fld record ''maximumHoldingMs'');
        (if \<not> validatePhaseLimits (qf_phase (sq_fields qualification)) maximumBuys maximumExposure maximumOpen then None
         else do {
           armedAtMs \<leftarrow> timestamp_field (fld record ''armedAtMs'');
           expiresAtMs \<leftarrow> timestamp_field (fld record ''expiresAtMs'');
           (if armedAtMs < qf_qualifiedAtMs (sq_fields qualification) \<or> armedAtMs \<ge> qf_expiresAtMs (sq_fields qualification)
              \<or> expiresAtMs \<le> armedAtMs \<or> expiresAtMs > qf_expiresAtMs (sq_fields qualification) then None
            else do {
              operatorId \<leftarrow> identifier_field (fld record ''operatorId'');
              operatorReason \<leftarrow> patternedText is_operator_reason 256 (fld record ''operatorReason'');
              authorizationId \<leftarrow> authorizationId_field (fld record ''authorizationId'');
              authorizationFingerprint \<leftarrow> fingerprint_field (fld record ''authorizationFingerprint'');
              (let unnamed = \<lparr>am_armamentId = [], am_armamentFingerprint = [], am_qualification = qualification,
                     am_maximumBuys = maximumBuys, am_maximumCapitalLamports = maximumCapital,
                     am_maximumExposureBps = maximumExposure, am_maximumOpenPositions = maximumOpen,
                     am_maximumHoldingMs = maximumHolding, am_armedAtMs = armedAtMs, am_expiresAtMs = expiresAtMs,
                     am_operatorId = operatorId, am_operatorReason = operatorReason,
                     am_authorizationId = authorizationId, am_authorizationFingerprint = authorizationFingerprint\<rparr>;
                   armamentFingerprint = textHash sha256 (stringify (armamentPreimage unnamed))
               in Some (unnamed\<lparr>am_armamentId := ''execution_activation_armament_'' @ armamentFingerprint,
                    am_armamentFingerprint := armamentFingerprint\<rparr>))
            })
         })
      })
   }"

subsection \<open>Stop control\<close>

datatype control_state = RUNNING | ENTRY_STOP | HARD_STOP

datatype control_action = STOP_ENTRIES | STOP_HARD | RESUME

datatype control_reason = OPERATOR_ENTRY_STOP | OPERATOR_HARD_STOP

definition CONTROL_STATES :: "(string \<times> control_state) list" where
  "CONTROL_STATES = [(''RUNNING'', RUNNING), (''ENTRY_STOP'', ENTRY_STOP), (''HARD_STOP'', HARD_STOP)]"

definition CONTROL_ACTIONS :: "(string \<times> control_action) list" where
  "CONTROL_ACTIONS = [(''ENTRY_STOP'', STOP_ENTRIES), (''HARD_STOP'', STOP_HARD), (''RESUME'', RESUME)]"

definition CONTROL_INPUT_KEYS :: "string list" where
  "CONTROL_INPUT_KEYS = [''currentState'', ''action'', ''freshQualification'', ''unknownRisk'']"

record control_input =
  ci_currentState :: control_state
  ci_action :: control_action
  ci_freshQualification :: bool
  ci_unknownRisk :: bool

definition controlInputFrom :: "js \<Rightarrow> control_input option" where
  "controlInputFrom input = do {
     record \<leftarrow> sizedRecord CONTROL_INPUT_KEYS input;
     currentState \<leftarrow> enumValue CONTROL_STATES (fld record ''currentState'');
     action \<leftarrow> enumValue CONTROL_ACTIONS (fld record ''action'');
     freshQualification \<leftarrow> booleanValue (fld record ''freshQualification'');
     unknownRisk \<leftarrow> booleanValue (fld record ''unknownRisk'');
     Some \<lparr>ci_currentState = currentState, ci_action = action, ci_freshQualification = freshQualification,
       ci_unknownRisk = unknownRisk\<rparr>
   }"

definition controlDecision :: "control_input \<Rightarrow> (control_state \<times> control_reason option) option" where
  "controlDecision i =
     (if ci_action i = RESUME then
        if ci_currentState i = RUNNING \<or> \<not> ci_freshQualification i \<or> ci_unknownRisk i then None
        else Some (RUNNING, None)
      else if ci_currentState i = HARD_STOP \<and> ci_action i = STOP_ENTRIES then None
      else Some (if ci_action i = STOP_ENTRIES then (ENTRY_STOP, Some OPERATOR_ENTRY_STOP)
                 else (HARD_STOP, Some OPERATOR_HARD_STOP)))"

definition decideExecutionControlTransition :: "js \<Rightarrow> (control_state \<times> control_reason option) option" where
  "decideExecutionControlTransition input = do {
     fields \<leftarrow> controlInputFrom input;
     controlDecision fields
   }"

subsection \<open>Armament requests\<close>

record canary_target =
  ct_intentId :: string
  ct_stateRevision :: int
  ct_strategyId :: string
  ct_strategyVersion :: int
  ct_decisionFingerprint :: string
  ct_mint :: string
  ct_quoteMint :: string
  ct_quoteAmountRaw :: int

record runtime_limits =
  rl_quoteMaxAgeMs :: int
  rl_slippageBps :: int
  rl_snapshotMaxSlotLag :: int
  rl_maxComputeUnits :: int
  rl_maxFeeLamports :: int
  rl_maxFeePayerLamportDebit :: int
  rl_maxRpcCallsPerAttempt :: int
  rl_leaseMs :: int

text \<open>A member of the proof is a text, or for the two times a number; the record keeps the order of
  \<open>LINEAGE_PROOF_V3_KEYS\<close>.\<close>

record lineage_proof =
  lp_preparationRunId :: string
  lp_preparationRunFingerprint :: string
  lp_pairId :: string
  lp_pairFingerprint :: string
  lp_targetAssessmentId :: string
  lp_targetAssessmentFingerprint :: string
  lp_simulationArtifactId :: string
  lp_simulationArtifactFingerprint :: string
  lp_preparationManifestFingerprint :: string
  lp_candidateId :: string
  lp_candidateEvidenceFingerprint :: string
  lp_proofFingerprint :: string
  lp_sourceCapturedAtMs :: int
  lp_sourceExpiresAtMs :: int

record armament_request =
  ar_evidence :: canary_evidence
  ar_payloadVersion :: int
  ar_requestFingerprint :: string
  ar_target :: canary_target
  ar_maximumBuys :: int
  ar_maximumCapitalLamports :: int
  ar_maximumExposureBps :: int
  ar_maximumOpenPositions :: int
  ar_maximumHoldingMs :: int
  ar_runtime :: runtime_limits
  ar_armedAtMs :: int
  ar_armamentExpiresAtMs :: int
  ar_operatorId :: string
  ar_operatorReason :: string
  ar_lineageProof :: "lineage_proof option"

definition TARGET_V2_KEYS :: "string list" where
  "TARGET_V2_KEYS = [''intentId'', ''stateRevision'', ''strategyId'', ''strategyVersion'', ''decisionFingerprint'',
     ''mint'', ''quoteMint'', ''quoteAmountRaw'']"

definition ARMAMENT_REQUEST_V2_KEYS :: "string list" where
  "ARMAMENT_REQUEST_V2_KEYS =
  [''payloadVersion'', ''qualification'', ''targetIntentId'', ''policy'', ''walletSnapshot'', ''providerSnapshot'',
   ''allEndpointsUnavailable'', ''capturedAtMs'', ''expiresAtMs'', ''target'', ''maximumBuys'',
   ''maximumCapitalLamports'', ''maximumExposureBps'', ''maximumOpenPositions'', ''maximumHoldingMs'',
   ''runtimeQuoteMaxAgeMs'', ''runtimeSlippageBps'', ''runtimeSnapshotMaxSlotLag'', ''runtimeMaxComputeUnits'',
   ''runtimeMaxFeeLamports'', ''runtimeMaxFeePayerLamportDebit'', ''runtimeMaxRpcCallsPerAttempt'', ''runtimeLeaseMs'',
   ''armedAtMs'', ''armamentExpiresAtMs'', ''operatorId'', ''operatorReason'']"

definition ARMAMENT_REQUEST_V3_KEYS :: "string list" where
  "ARMAMENT_REQUEST_V3_KEYS = take 9 ARMAMENT_REQUEST_V2_KEYS @ [''lineageProof''] @ drop 9 ARMAMENT_REQUEST_V2_KEYS"

definition LINEAGE_PROOF_V3_KEYS :: "string list" where
  "LINEAGE_PROOF_V3_KEYS =
  [''preparationRunId'', ''preparationRunFingerprint'', ''pairId'', ''pairFingerprint'', ''targetAssessmentId'',
   ''targetAssessmentFingerprint'', ''simulationArtifactId'', ''simulationArtifactFingerprint'',
   ''preparationManifestFingerprint'', ''candidateId'', ''candidateEvidenceFingerprint'', ''proofFingerprint'',
   ''sourceCapturedAtMs'', ''sourceExpiresAtMs'']"

text \<open>\<open>/^[A-Za-z0-9][A-Za-z0-9._-]{0,127}$/u\<close>\<close>

definition is_strategy_id :: "string \<Rightarrow> bool" where
  "is_strategy_id s = (case s of
     [] \<Rightarrow> False
   | c # cs \<Rightarrow> is_alnum c \<and> length cs \<le> 127
       \<and> list_all (\<lambda>x. is_alnum x \<or> x \<in> {CHR ''.'', CHR ''_'', CHR ''-''}) cs)"

definition targetFrom :: "(string \<Rightarrow> bool) \<Rightarrow> js \<Rightarrow> canary_target option" where
  "targetFrom canonicalKey v = do {
     record \<leftarrow> sizedRecord TARGET_V2_KEYS v;
     intentId \<leftarrow> patternedText (is_prefixed_hex64 ''execution_intent_'') 81 (fld record ''intentId'');
     stateRevision \<leftarrow> boundedBigint 0 INT64_MAX (fld record ''stateRevision'');
     strategyId \<leftarrow> patternedText is_strategy_id 128 (fld record ''strategyId'');
     strategyVersion \<leftarrow> boundedInteger 1 INT32_MAX (fld record ''strategyVersion'');
     decisionFingerprint \<leftarrow> fingerprint_field (fld record ''decisionFingerprint'');
     mint \<leftarrow> key_field canonicalKey (fld record ''mint'');
     quoteMint \<leftarrow> key_field canonicalKey (fld record ''quoteMint'');
     quoteAmountRaw \<leftarrow> positiveBigint (fld record ''quoteAmountRaw'');
     Some \<lparr>ct_intentId = intentId, ct_stateRevision = stateRevision, ct_strategyId = strategyId,
       ct_strategyVersion = strategyVersion, ct_decisionFingerprint = decisionFingerprint, ct_mint = mint,
       ct_quoteMint = quoteMint, ct_quoteAmountRaw = quoteAmountRaw\<rparr>
   }"

definition runtimeFrom :: "js_record \<Rightarrow> runtime_limits option" where
  "runtimeFrom record = do {
     quoteMaxAge \<leftarrow> boundedInteger 1 60000 (fld record ''runtimeQuoteMaxAgeMs'');
     slippage \<leftarrow> boundedBigint 0 10000 (fld record ''runtimeSlippageBps'');
     slotLag \<leftarrow> boundedInteger 0 128 (fld record ''runtimeSnapshotMaxSlotLag'');
     computeUnits \<leftarrow> boundedBigint 1 1400000 (fld record ''runtimeMaxComputeUnits'');
     fee \<leftarrow> boundedBigint 0 10000000 (fld record ''runtimeMaxFeeLamports'');
     debit \<leftarrow> boundedBigint 0 10000000000 (fld record ''runtimeMaxFeePayerLamportDebit'');
     rpcCalls \<leftarrow> boundedInteger 12 16 (fld record ''runtimeMaxRpcCallsPerAttempt'');
     lease \<leftarrow> boundedInteger 3000 120000 (fld record ''runtimeLeaseMs'');
     Some \<lparr>rl_quoteMaxAgeMs = quoteMaxAge, rl_slippageBps = slippage, rl_snapshotMaxSlotLag = slotLag,
       rl_maxComputeUnits = computeUnits, rl_maxFeeLamports = fee, rl_maxFeePayerLamportDebit = debit,
       rl_maxRpcCallsPerAttempt = rpcCalls, rl_leaseMs = lease\<rparr>
   }"

definition requestItems :: "armament_request \<Rightarrow> json list" where
  "requestItems a = (let e = ar_evidence a; q = ce_qualification e; f = sq_fields q; t = ar_target a; r = ar_runtime a in
  [JsonStr ''execution-armament-request-v2'', JsonStr (sq_qualificationId q), JsonStr (sq_qualificationFingerprint q),
   JsonStr (literal_of PHASES (qf_phase f)), JsonStr (qf_buildHash f), JsonStr (qf_configurationFingerprint f),
   JsonStr (qf_strategyFingerprint f), JsonStr (qf_generationId f), JsonStr (qf_walletPublicKey f),
   JsonStr ''mainnet-beta'', JsonStr (qf_genesisHash f), JsonStr (qf_providerId f),
   JsonStr (ce_evidenceId e), JsonStr (ce_evidenceFingerprint e), JsonInt (ce_capturedAtMs e), JsonInt (ce_expiresAtMs e),
   JsonStr (ct_intentId t), JsonStr (dec_int (ct_stateRevision t)), JsonStr (ct_strategyId t), JsonInt (ct_strategyVersion t),
   JsonStr (ct_decisionFingerprint t), JsonStr (ct_mint t), JsonStr (ct_quoteMint t), JsonStr (dec_int (ct_quoteAmountRaw t)),
   JsonInt (ar_maximumBuys a), JsonStr (dec_int (ar_maximumCapitalLamports a)), JsonStr (dec_int (ar_maximumExposureBps a)),
   JsonInt (ar_maximumOpenPositions a), JsonInt (ar_maximumHoldingMs a), JsonStr (policyFingerprint (ce_policy e)),
   JsonStr (ws_snapshotFingerprint (ce_walletSnapshot e)), JsonStr (us_snapshotFingerprint (ce_providerSnapshot e)),
   JsonInt (rl_quoteMaxAgeMs r), JsonStr (dec_int (rl_slippageBps r)), JsonInt (rl_snapshotMaxSlotLag r),
   JsonStr (dec_int (rl_maxComputeUnits r)), JsonStr (dec_int (rl_maxFeeLamports r)),
   JsonStr (dec_int (rl_maxFeePayerLamportDebit r)), JsonInt (rl_maxRpcCallsPerAttempt r), JsonInt (rl_leaseMs r),
   JsonInt (ar_armedAtMs a), JsonInt (ar_armamentExpiresAtMs a), JsonStr (ar_operatorId a), JsonStr (ar_operatorReason a)])"

definition createExecutionArmamentRequestV2 ::
    "(nat list \<Rightarrow> string) \<Rightarrow> (string \<Rightarrow> bool) \<Rightarrow> rest_pattern \<Rightarrow> js \<Rightarrow> armament_request option" where
  "createExecutionArmamentRequestV2 sha256 canonicalKey exotic input = do {
     record \<leftarrow> sizedRecord ARMAMENT_REQUEST_V2_KEYS input;
     (if fld record ''payloadVersion'' \<noteq> JNum (JInt 2) then None
      else do {
        evidence \<leftarrow> createExecutionCanaryEvidence sha256 canonicalKey exotic
          (object_literal ((''payloadVersion'', JNum (JInt 1)) # pick record (tl CANARY_INPUT_KEYS)));
        target \<leftarrow> targetFrom canonicalKey (fld record ''target'');
        maximumCapital \<leftarrow> positiveBigint (fld record ''maximumCapitalLamports'');
        (if ct_intentId target \<noteq> ce_targetIntentId evidence
           \<or> \<not> (case quoteMintAllowlist (policyFields (ce_policy evidence)) of [] \<Rightarrow> False | m # _ \<Rightarrow> ct_quoteMint target = m)
           \<or> ct_quoteAmountRaw target > maximumCapital then None
         else do {
           maximumBuys \<leftarrow> boundedInteger 1 1 (fld record ''maximumBuys'');
           maximumExposure \<leftarrow> boundedBigint 1 500 (fld record ''maximumExposureBps'');
           (if maximumExposure \<noteq> 500 \<or> fld record ''maximumOpenPositions'' \<noteq> JNum (JInt 1)
              \<or> maximumTotalExposureBps (policyFields (ce_policy evidence)) > maximumExposure
              \<or> maximumOpenPositions (policyFields (ce_policy evidence)) > 1 then None
            else do {
              maximumHolding \<leftarrow> boundedInteger 30000 900000 (fld record ''maximumHoldingMs'');
              runtime \<leftarrow> runtimeFrom record;
              armedAtMs \<leftarrow> timestamp_field (fld record ''armedAtMs'');
              armamentExpiresAtMs \<leftarrow> timestamp_field (fld record ''armamentExpiresAtMs'');
              (if armedAtMs < qf_qualifiedAtMs (sq_fields (ce_qualification evidence)) \<or> armamentExpiresAtMs \<le> armedAtMs
                 \<or> armamentExpiresAtMs > ce_expiresAtMs evidence
                 \<or> armamentExpiresAtMs - armedAtMs < rl_leaseMs runtime * 2 then None
               else do {
                 operatorId \<leftarrow> identifier_field (fld record ''operatorId'');
                 operatorReason \<leftarrow> patternedText is_operator_reason 256 (fld record ''operatorReason'');
                 (let unnamed = \<lparr>ar_evidence = evidence, ar_payloadVersion = 2, ar_requestFingerprint = [], ar_target = target,
                        ar_maximumBuys = maximumBuys, ar_maximumCapitalLamports = maximumCapital, ar_maximumExposureBps = 500,
                        ar_maximumOpenPositions = 1, ar_maximumHoldingMs = maximumHolding, ar_runtime = runtime,
                        ar_armedAtMs = armedAtMs, ar_armamentExpiresAtMs = armamentExpiresAtMs,
                        ar_operatorId = operatorId, ar_operatorReason = operatorReason, ar_lineageProof = None\<rparr>
                  in Some (unnamed\<lparr>ar_requestFingerprint := hashLengthPrefixed sha256 (requestItems unnamed)\<rparr>))
               })
            })
         })
      })
   }"

definition prefixed_field :: "string \<Rightarrow> nat \<Rightarrow> js \<Rightarrow> string option" where
  "prefixed_field prefix m v = patternedText (is_prefixed_hex64 prefix) m v"

definition lineageProofV3From :: "js \<Rightarrow> lineage_proof option" where
  "lineageProofV3From v = do {
     record \<leftarrow> sizedRecord LINEAGE_PROOF_V3_KEYS v;
     sourceCapturedAtMs \<leftarrow> timestamp_field (fld record ''sourceCapturedAtMs'');
     sourceExpiresAtMs \<leftarrow> timestamp_field (fld record ''sourceExpiresAtMs'');
     (if sourceExpiresAtMs \<le> sourceCapturedAtMs then None
      else do {
        runId \<leftarrow> prefixed_field ''execution_preflight_preparation_'' 96 (fld record ''preparationRunId'');
        runFingerprint \<leftarrow> fingerprint_field (fld record ''preparationRunFingerprint'');
        pairId \<leftarrow> prefixed_field ''execution_preflight_intent_pair_'' 128 (fld record ''pairId'');
        pairFingerprint \<leftarrow> fingerprint_field (fld record ''pairFingerprint'');
        assessmentId \<leftarrow> prefixed_field ''execution_dry_run_assessment_'' 128 (fld record ''targetAssessmentId'');
        assessmentFingerprint \<leftarrow> fingerprint_field (fld record ''targetAssessmentFingerprint'');
        artifactId \<leftarrow> prefixed_field ''execution_simulation_artifact_'' 128 (fld record ''simulationArtifactId'');
        artifactFingerprint \<leftarrow> fingerprint_field (fld record ''simulationArtifactFingerprint'');
        manifestFingerprint \<leftarrow> fingerprint_field (fld record ''preparationManifestFingerprint'');
        candidateId \<leftarrow> prefixed_field ''candidate_'' 128 (fld record ''candidateId'');
        candidateFingerprint \<leftarrow> fingerprint_field (fld record ''candidateEvidenceFingerprint'');
        proofFingerprint \<leftarrow> fingerprint_field (fld record ''proofFingerprint'');
        Some \<lparr>lp_preparationRunId = runId, lp_preparationRunFingerprint = runFingerprint, lp_pairId = pairId,
          lp_pairFingerprint = pairFingerprint, lp_targetAssessmentId = assessmentId,
          lp_targetAssessmentFingerprint = assessmentFingerprint, lp_simulationArtifactId = artifactId,
          lp_simulationArtifactFingerprint = artifactFingerprint, lp_preparationManifestFingerprint = manifestFingerprint,
          lp_candidateId = candidateId, lp_candidateEvidenceFingerprint = candidateFingerprint,
          lp_proofFingerprint = proofFingerprint, lp_sourceCapturedAtMs = sourceCapturedAtMs,
          lp_sourceExpiresAtMs = sourceExpiresAtMs\<rparr>
      })
   }"

definition lineageItems :: "lineage_proof \<Rightarrow> json list" where
  "lineageItems p =
  [JsonStr (lp_preparationRunId p), JsonStr (lp_preparationRunFingerprint p), JsonStr (lp_pairId p),
   JsonStr (lp_pairFingerprint p), JsonStr (lp_targetAssessmentId p), JsonStr (lp_targetAssessmentFingerprint p),
   JsonStr (lp_simulationArtifactId p), JsonStr (lp_simulationArtifactFingerprint p),
   JsonStr (lp_preparationManifestFingerprint p), JsonStr (lp_candidateId p), JsonStr (lp_candidateEvidenceFingerprint p),
   JsonStr (lp_proofFingerprint p), JsonInt (lp_sourceCapturedAtMs p), JsonInt (lp_sourceExpiresAtMs p)]"

definition createExecutionArmamentRequestV3 ::
    "(nat list \<Rightarrow> string) \<Rightarrow> (string \<Rightarrow> bool) \<Rightarrow> rest_pattern \<Rightarrow> js \<Rightarrow> armament_request option" where
  "createExecutionArmamentRequestV3 sha256 canonicalKey exotic input = do {
     record \<leftarrow> sizedRecord ARMAMENT_REQUEST_V3_KEYS input;
     (if fld record ''payloadVersion'' \<noteq> JNum (JInt 3) then None
      else do {
        legacy \<leftarrow> createExecutionArmamentRequestV2 sha256 canonicalKey exotic
          (object_literal ((''payloadVersion'', JNum (JInt 2)) # pick record (tl ARMAMENT_REQUEST_V2_KEYS)));
        lineageProof \<leftarrow> lineageProofV3From (fld record ''lineageProof'');
        (if lp_sourceCapturedAtMs lineageProof > ar_armedAtMs legacy
           \<or> lp_sourceExpiresAtMs lineageProof < ar_armamentExpiresAtMs legacy then None
         else Some (legacy\<lparr>ar_payloadVersion := 3,
           ar_requestFingerprint := hashLengthPrefixed sha256
             ([JsonStr ''execution-armament-request-v3'', JsonStr (ar_requestFingerprint legacy)] @ lineageItems lineageProof),
           ar_lineageProof := Some lineageProof\<rparr>))
      })
   }"

definition REQUEST_KEYS :: "string list" where
  "REQUEST_KEYS =
  [''payloadVersion'', ''evidenceId'', ''evidenceFingerprint'', ''qualification'', ''targetIntentId'', ''policy'', ''walletSnapshot'',
   ''providerSnapshot'', ''allEndpointsUnavailable'', ''capturedAtMs'', ''expiresAtMs'', ''armamentRequestFingerprint'']
  @ drop 9 ARMAMENT_REQUEST_V2_KEYS"

definition requestFrom :: "(nat list \<Rightarrow> string) \<Rightarrow> (string \<Rightarrow> bool) \<Rightarrow> rest_pattern \<Rightarrow> js \<Rightarrow> armament_request option" where
  "requestFrom sha256 canonicalKey exotic v =
     (if \<not> isPlainObject v \<or> \<not> isFrozen v then None
      else let withProof = ownValue v ''payloadVersion'' = JNum (JInt 3);
               keys = (if withProof then take 12 REQUEST_KEYS @ [''lineageProof''] @ drop 12 REQUEST_KEYS else REQUEST_KEYS)
           in do {
             record \<leftarrow> sizedRecord keys v;
             candidate \<leftarrow>
               (if fld record ''payloadVersion'' = JNum (JInt 3)
                then createExecutionArmamentRequestV3 sha256 canonicalKey exotic
                  (object_literal (pick record ARMAMENT_REQUEST_V2_KEYS @ [(''lineageProof'', fld record ''lineageProof'')]))
                else createExecutionArmamentRequestV2 sha256 canonicalKey exotic
                  (object_literal (pick record ARMAMENT_REQUEST_V2_KEYS)));
             (if fld record ''evidenceId'' \<noteq> JStr (ce_evidenceId (ar_evidence candidate))
                \<or> fld record ''evidenceFingerprint'' \<noteq> JStr (ce_evidenceFingerprint (ar_evidence candidate))
                \<or> fld record ''armamentRequestFingerprint'' \<noteq> JStr (ar_requestFingerprint candidate) then None
              else Some candidate)
           })"

record request_armament =
  ra_armamentId :: string
  ra_armamentFingerprint :: string
  ra_request :: armament_request
  ra_authorizationId :: string
  ra_authorizationFingerprint :: string
  ra_admissionReportId :: string
  ra_reservationId :: string

definition ARMAMENT_V2_KEYS :: "string list" where
  "ARMAMENT_V2_KEYS =
  [''payloadVersion'', ''request'', ''authorizationId'', ''authorizationFingerprint'', ''admissionReportId'', ''reservationId'']"

definition createExecutionArmamentV2 ::
    "(nat list \<Rightarrow> string) \<Rightarrow> (string \<Rightarrow> bool) \<Rightarrow> rest_pattern \<Rightarrow> js \<Rightarrow> request_armament option" where
  "createExecutionArmamentV2 sha256 canonicalKey exotic input = do {
     record \<leftarrow> sizedRecord ARMAMENT_V2_KEYS input;
     (if fld record ''payloadVersion'' \<noteq> JNum (JInt 2) then None
      else do {
        request \<leftarrow> requestFrom sha256 canonicalKey exotic (fld record ''request'');
        authorizationId \<leftarrow> authorizationId_field (fld record ''authorizationId'');
        authorizationFingerprint \<leftarrow> fingerprint_field (fld record ''authorizationFingerprint'');
        admissionReportId \<leftarrow> prefixed_field ''execution_risk_admission_'' 128 (fld record ''admissionReportId'');
        reservationId \<leftarrow> prefixed_field ''execution_exposure_reservation_'' 128 (fld record ''reservationId'');
        (let armamentFingerprint = hashLengthPrefixed sha256
             [JsonStr ''execution-activation-armament-v2'', JsonStr (ar_requestFingerprint request), JsonStr authorizationId,
              JsonStr authorizationFingerprint, JsonStr admissionReportId, JsonStr reservationId] in
         Some \<lparr>ra_armamentId = ''execution_activation_armament_'' @ armamentFingerprint, ra_armamentFingerprint = armamentFingerprint,
           ra_request = request, ra_authorizationId = authorizationId, ra_authorizationFingerprint = authorizationFingerprint,
           ra_admissionReportId = admissionReportId, ra_reservationId = reservationId\<rparr>)
      })
   }"

subsection \<open>Stops hold\<close>

text \<open>Accepted control decisions in sequence, each taken in the state the previous one left.\<close>

inductive control_history :: "control_state \<Rightarrow> js list \<Rightarrow> control_state \<Rightarrow> bool" where
  no_decision: "control_history s [] s"
| decision: "controlInputFrom v = Some i \<Longrightarrow> ci_currentState i = s \<Longrightarrow> decideExecutionControlTransition v = Some (s', reason)
    \<Longrightarrow> control_history s' vs t \<Longrightarrow> control_history s (v # vs) t"

definition safe_resume :: "js \<Rightarrow> control_state \<Rightarrow> bool" where
  "safe_resume v s = (\<exists>i. controlInputFrom v = Some i \<and> ci_action i = RESUME \<and> ci_currentState i = s
     \<and> ci_freshQualification i \<and> \<not> ci_unknownRisk i)"

lemma control_step:
  assumes "controlInputFrom v = Some i" and "ci_currentState i = s" and "decideExecutionControlTransition v = Some (s', reason)"
  shows "s' = RUNNING \<Longrightarrow> safe_resume v s" and "s = HARD_STOP \<Longrightarrow> s' \<noteq> HARD_STOP \<Longrightarrow> safe_resume v HARD_STOP"
  using assms by (cases "ci_action i"; auto simp: decideExecutionControlTransition_def controlDecision_def safe_resume_def
      split: if_splits)+

lemma control_history_running:
  "control_history s vs t \<Longrightarrow> s \<noteq> RUNNING \<Longrightarrow> t = RUNNING \<Longrightarrow> \<exists>v \<in> set vs. safe_resume v ENTRY_STOP \<or> safe_resume v HARD_STOP"
proof (induction rule: control_history.induct)
  case (decision v i s s' reason vs t)
  then show ?case
    using control_step [OF decision.hyps(1-3)] by (cases s; cases "s' = RUNNING") auto
qed simp

lemma control_history_hard:
  "control_history s vs t \<Longrightarrow> s = HARD_STOP \<Longrightarrow> t \<noteq> HARD_STOP \<Longrightarrow> \<exists>v \<in> set vs. safe_resume v HARD_STOP"
proof (induction rule: control_history.induct)
  case (decision v i s s' reason vs t)
  then show ?case
    using control_step(2) [OF decision.hyps(1-3)] by (cases "s' = HARD_STOP") auto
qed simp

text \<open>
  C7. Stops hold. Over any sequence of accepted control decisions, execution that was stopped runs again
  only after a resumption with a fresh qualification and no unknown risk, and a hard stop is left, even
  for a mere entry stop, only by such a resumption from the hard stop itself. Whatever the
  qualification and the risk, a hard stop is accepted in every state.
\<close>

theorem stops_hold:
  assumes "control_history s vs t"
  shows "(s \<noteq> RUNNING \<and> t = RUNNING \<longrightarrow> (\<exists>v \<in> set vs. safe_resume v ENTRY_STOP \<or> safe_resume v HARD_STOP))
    \<and> (s = HARD_STOP \<and> t \<noteq> HARD_STOP \<longrightarrow> (\<exists>v \<in> set vs. safe_resume v HARD_STOP))
    \<and> (\<forall>v i. controlInputFrom v = Some i \<and> ci_action i = STOP_HARD
        \<longrightarrow> decideExecutionControlTransition v = Some (HARD_STOP, Some OPERATOR_HARD_STOP))"
  using control_history_running [OF assms] control_history_hard [OF assms]
  by (auto simp: decideExecutionControlTransition_def controlDecision_def)

subsection \<open>What an armament rests on\<close>

lemma operationsQualificationFrom_created:
  "operationsQualificationFrom sha256 canonicalKey v = Some q \<Longrightarrow>
     (\<exists>w. createSafetyQualification (textHash sha256) canonicalKey w = Some q) \<and> sq_payloadVersion q = 1"
  unfolding operationsQualificationFrom_def result_simps by auto

lemma qualification_gate_window:
  assumes "createSafetyQualification sha256 canonicalKey v = Some q" and "g \<in> set (qf_gates (sq_fields q))"
  shows "ge_observedAtMs g \<le> qf_qualifiedAtMs (sq_fields q) \<and> qf_expiresAtMs (sq_fields q) \<le> ge_expiresAtMs g"
proof -
  from createSafetyQualification_Some [OF assms(1)] obtain version f
    where valid: "valid_qualification sha256 canonicalKey version f" and q: "q = qualificationOf sha256 version f" by blast
  have "\<forall>g \<in> set gs. ge_observedAtMs g \<le> qa \<and> ea \<le> ge_expiresAtMs g" if "list_all2 (valid_gate qa ea) es gs" for qa ea es gs
    using that by (induction rule: list_all2_induct) (auto simp: valid_gate_def)
  from this [OF valid_qualification_gates [OF valid]] assms(2) show ?thesis
    by (simp add: q qualificationOf_def Let_def)
qed

lemma createExecutionArmament_Some:
  assumes "createExecutionArmament sha256 canonicalKey v = Some a"
  shows "(\<exists>w. createSafetyQualification (textHash sha256) canonicalKey w = Some (am_qualification a))
    \<and> sq_payloadVersion (am_qualification a) = 1
    \<and> validatePhaseLimits (qf_phase (sq_fields (am_qualification a))) (am_maximumBuys a) (am_maximumExposureBps a)
        (am_maximumOpenPositions a)
    \<and> qf_qualifiedAtMs (sq_fields (am_qualification a)) \<le> am_armedAtMs a \<and> am_armedAtMs a < am_expiresAtMs a
    \<and> am_expiresAtMs a \<le> qf_expiresAtMs (sq_fields (am_qualification a))
    \<and> am_maximumHoldingMs a \<le> 900000 \<and> am_maximumBuys a \<le> 10"
  using assms
  unfolding createExecutionArmament_def result_simps Let_def not_le not_less de_Morgan_disj not_not
  by (clarsimp simp: field_iffs) (drule operationsQualificationFrom_created, blast)

text \<open>
  C9. A phase is armed within the life of its qualification and within the limits of the phase: the armament
  begins no earlier than the qualification and ends no later, and while it lasts, at most five
  minutes, the evidence of every gate is valid; a canary buys once and
  a micro-live phase three times, each with at most 5% of the capital in one position, a pilot
  keeps to 20% in two positions; and no position is held longer than fifteen minutes.
\<close>

theorem armament_within_qualification:
  assumes "createExecutionArmament sha256 canonicalKey v = Some a"
  shows "qf_qualifiedAtMs (sq_fields (am_qualification a)) \<le> am_armedAtMs a \<and> am_armedAtMs a < am_expiresAtMs a
    \<and> am_expiresAtMs a \<le> qf_expiresAtMs (sq_fields (am_qualification a))
    \<and> am_expiresAtMs a - am_armedAtMs a \<le> 5 * 60 * 1000
    \<and> (\<forall>g \<in> set (qf_gates (sq_fields (am_qualification a))).
        ge_observedAtMs g \<le> am_armedAtMs a \<and> am_expiresAtMs a \<le> ge_expiresAtMs g)
    \<and> (case qf_phase (sq_fields (am_qualification a)) of
         CANARY \<Rightarrow> am_maximumBuys a = 1 \<and> am_maximumExposureBps a = 500 \<and> am_maximumOpenPositions a = 1
       | MICRO_LIVE \<Rightarrow> am_maximumBuys a = 3 \<and> am_maximumExposureBps a = 500 \<and> am_maximumOpenPositions a = 1
       | PILOT \<Rightarrow> am_maximumBuys a \<le> 10 \<and> am_maximumExposureBps a \<le> 2000 \<and> am_maximumOpenPositions a = 2)
    \<and> am_maximumHoldingMs a \<le> 15 * 60 * 1000"
proof -
  note a = createExecutionArmament_Some [OF assms]
  then obtain w where q: "createSafetyQualification (textHash sha256) canonicalKey w = Some (am_qualification a)" by blast
  from createSafetyQualification_Some [OF this] a
  have "qf_expiresAtMs (sq_fields (am_qualification a)) = qf_qualifiedAtMs (sq_fields (am_qualification a)) + 300000"
    by (auto simp: valid_qualification_def qualificationOf_def Let_def)
  moreover have "ge_observedAtMs g \<le> am_armedAtMs a \<and> am_expiresAtMs a \<le> ge_expiresAtMs g"
    if "g \<in> set (qf_gates (sq_fields (am_qualification a)))" for g
    using qualification_gate_window [OF q that] a by auto
  ultimately show ?thesis
    using a by (auto simp: validatePhaseLimits_def split: live_phase.split)
qed

definition valid_target :: "(string \<Rightarrow> bool) \<Rightarrow> canary_target \<Rightarrow> bool" where
  "valid_target canonicalKey t =
     (valid_pattern (is_prefixed_hex64 ''execution_intent_'') 81 (ct_intentId t)
      \<and> 0 \<le> ct_stateRevision t \<and> ct_stateRevision t \<le> INT64_MAX
      \<and> valid_pattern is_strategy_id 128 (ct_strategyId t) \<and> 1 \<le> ct_strategyVersion t \<and> ct_strategyVersion t \<le> INT32_MAX
      \<and> valid_pattern is_hex64 64 (ct_decisionFingerprint t)
      \<and> valid_pattern canonicalKey 64 (ct_mint t) \<and> valid_pattern canonicalKey 64 (ct_quoteMint t)
      \<and> 1 \<le> ct_quoteAmountRaw t \<and> ct_quoteAmountRaw t \<le> U64_MAX)"

definition valid_runtime :: "runtime_limits \<Rightarrow> bool" where
  "valid_runtime r =
     (1 \<le> rl_quoteMaxAgeMs r \<and> rl_quoteMaxAgeMs r \<le> 60000 \<and> 0 \<le> rl_slippageBps r \<and> rl_slippageBps r \<le> 10000
      \<and> 0 \<le> rl_snapshotMaxSlotLag r \<and> rl_snapshotMaxSlotLag r \<le> 128
      \<and> 1 \<le> rl_maxComputeUnits r \<and> rl_maxComputeUnits r \<le> 1400000
      \<and> 0 \<le> rl_maxFeeLamports r \<and> rl_maxFeeLamports r \<le> 10000000
      \<and> 0 \<le> rl_maxFeePayerLamportDebit r \<and> rl_maxFeePayerLamportDebit r \<le> 10000000000
      \<and> 12 \<le> rl_maxRpcCallsPerAttempt r \<and> rl_maxRpcCallsPerAttempt r \<le> 16
      \<and> 3000 \<le> rl_leaseMs r \<and> rl_leaseMs r \<le> 120000)"

text \<open>What a request promises: its evidence is sound, it buys the target of that evidence once, in the
  allowed currency and within the capital, under a policy of at most 5% in one position, and it
  is over before the evidence is.\<close>

definition guarded_request :: "(nat list \<Rightarrow> string) \<Rightarrow> (string \<Rightarrow> bool) \<Rightarrow> armament_request \<Rightarrow> bool" where
  "guarded_request sha256 canonicalKey a =
     (sound_evidence sha256 canonicalKey (ar_evidence a)
      \<and> valid_target canonicalKey (ar_target a) \<and> valid_runtime (ar_runtime a)
      \<and> ct_intentId (ar_target a) = ce_targetIntentId (ar_evidence a) \<and> ct_quoteMint (ar_target a) = WSOL_MINT
      \<and> ct_quoteAmountRaw (ar_target a) \<le> ar_maximumCapitalLamports a \<and> ar_maximumCapitalLamports a \<le> U64_MAX
      \<and> ar_maximumBuys a = 1 \<and> ar_maximumExposureBps a = 500 \<and> ar_maximumOpenPositions a = 1
      \<and> maximumTotalExposureBps (policyFields (ce_policy (ar_evidence a))) \<le> 500
      \<and> maximumOpenPositions (policyFields (ce_policy (ar_evidence a))) = 1
      \<and> 30000 \<le> ar_maximumHoldingMs a \<and> ar_maximumHoldingMs a \<le> 900000
      \<and> 0 \<le> ar_armedAtMs a
      \<and> qf_qualifiedAtMs (sq_fields (ce_qualification (ar_evidence a))) \<le> ar_armedAtMs a
      \<and> ar_armedAtMs a + 2 * rl_leaseMs (ar_runtime a) \<le> ar_armamentExpiresAtMs a
      \<and> ar_armamentExpiresAtMs a \<le> ce_expiresAtMs (ar_evidence a)
      \<and> valid_pattern is_identifier 64 (ar_operatorId a) \<and> valid_pattern is_operator_reason 256 (ar_operatorReason a))"

lemma targetFrom_valid: "targetFrom canonicalKey v = Some t \<Longrightarrow> valid_target canonicalKey t"
  unfolding targetFrom_def result_simps text_fields valid_target_def valid_pattern_def
  by (clarsimp simp: field_iffs)

lemma runtimeFrom_valid: "runtimeFrom r = Some l \<Longrightarrow> valid_runtime l"
  unfolding runtimeFrom_def result_simps valid_runtime_def by (clarsimp simp: field_iffs)

lemma created_policy_valid: "createExecutionRiskPolicy h v = Some p \<Longrightarrow> valid_policy (policyFields p)"
  by (auto simp: createExecutionRiskPolicy_def result_simps dest: policyInputFrom_valid)

lemma sound_evidence_policy:
  assumes "sound_evidence sha256 canonicalKey e"
  shows "valid_policy (policyFields (ce_policy e))"
proof -
  obtain v where "createExecutionRiskPolicy (textHash sha256) v = Some (ce_policy e)"
    using assms unfolding sound_evidence_def by blast
  then show ?thesis by (rule created_policy_valid)
qed

lemma createExecutionArmamentRequestV2_Some:
  assumes "createExecutionArmamentRequestV2 sha256 canonicalKey exotic v = Some a"
  shows "guarded_request sha256 canonicalKey a \<and> ar_payloadVersion a = 2 \<and> ar_lineageProof a = None
    \<and> ar_requestFingerprint a = hashLengthPrefixed sha256 (requestItems a)"
  using assms
  unfolding createExecutionArmamentRequestV2_def result_simps Let_def not_le not_less de_Morgan_disj not_not
  by (clarsimp simp: field_iffs text_fields)
     (drule createExecutionCanaryEvidence_sound, frule sound_evidence_policy, drule targetFrom_valid, drule runtimeFrom_valid,
      simp add: guarded_request_def valid_policy_def valid_pattern_def requestItems_def)

definition valid_lineage_proof :: "lineage_proof \<Rightarrow> bool" where
  "valid_lineage_proof p =
     (0 \<le> lp_sourceCapturedAtMs p \<and> lp_sourceCapturedAtMs p < lp_sourceExpiresAtMs p \<and> lp_sourceExpiresAtMs p \<le> DATE_MAX_MS
      \<and> valid_pattern (is_prefixed_hex64 ''execution_preflight_preparation_'') 96 (lp_preparationRunId p)
      \<and> valid_pattern (is_prefixed_hex64 ''execution_preflight_intent_pair_'') 128 (lp_pairId p)
      \<and> valid_pattern (is_prefixed_hex64 ''execution_dry_run_assessment_'') 128 (lp_targetAssessmentId p)
      \<and> valid_pattern (is_prefixed_hex64 ''execution_simulation_artifact_'') 128 (lp_simulationArtifactId p)
      \<and> valid_pattern (is_prefixed_hex64 ''candidate_'') 128 (lp_candidateId p)
      \<and> list_all (valid_pattern is_hex64 64) [lp_preparationRunFingerprint p, lp_pairFingerprint p,
          lp_targetAssessmentFingerprint p, lp_simulationArtifactFingerprint p, lp_preparationManifestFingerprint p,
          lp_candidateEvidenceFingerprint p, lp_proofFingerprint p])"

text \<open>A request of version 3 is one of version 2 with a proof whose source covers the armament.\<close>

definition versioned_request :: "(nat list \<Rightarrow> string) \<Rightarrow> armament_request \<Rightarrow> bool" where
  "versioned_request sha256 a = (case ar_lineageProof a of
     None \<Rightarrow> ar_payloadVersion a = 2 \<and> ar_requestFingerprint a = hashLengthPrefixed sha256 (requestItems a)
   | Some p \<Rightarrow> ar_payloadVersion a = 3 \<and> valid_lineage_proof p
       \<and> lp_sourceCapturedAtMs p \<le> ar_armedAtMs a \<and> ar_armamentExpiresAtMs a \<le> lp_sourceExpiresAtMs p
       \<and> ar_requestFingerprint a = hashLengthPrefixed sha256
           ([JsonStr ''execution-armament-request-v3'', JsonStr (hashLengthPrefixed sha256 (requestItems a))] @ lineageItems p))"

lemma lineageProofV3From_valid: "lineageProofV3From v = Some p \<Longrightarrow> valid_lineage_proof p"
  unfolding lineageProofV3From_def result_simps text_fields prefixed_field_def valid_lineage_proof_def valid_pattern_def
  by (clarsimp simp: field_iffs)

lemma createExecutionArmamentRequestV3_Some:
  assumes "createExecutionArmamentRequestV3 sha256 canonicalKey exotic v = Some a"
  shows "guarded_request sha256 canonicalKey a \<and> versioned_request sha256 a"
proof -
  from assms obtain w b p where b: "createExecutionArmamentRequestV2 sha256 canonicalKey exotic w = Some b"
    and p: "\<exists>u. lineageProofV3From u = Some p"
    and times: "lp_sourceCapturedAtMs p \<le> ar_armedAtMs b" "ar_armamentExpiresAtMs b \<le> lp_sourceExpiresAtMs p"
    and a: "a = b\<lparr>ar_payloadVersion := 3, ar_requestFingerprint := hashLengthPrefixed sha256
      ([JsonStr ''execution-armament-request-v3'', JsonStr (ar_requestFingerprint b)] @ lineageItems p), ar_lineageProof := Some p\<rparr>"
    unfolding createExecutionArmamentRequestV3_def result_simps not_le not_less de_Morgan_disj by blast
  have "valid_lineage_proof p" using p lineageProofV3From_valid by blast
  then show ?thesis
    using createExecutionArmamentRequestV2_Some [OF b] times
    by (simp add: a guarded_request_def versioned_request_def requestItems_def)
qed

lemma requestFrom_Some:
  assumes "requestFrom sha256 canonicalKey exotic v = Some a"
  shows "guarded_request sha256 canonicalKey a \<and> versioned_request sha256 a"
proof -
  from assms have "(\<exists>w. createExecutionArmamentRequestV3 sha256 canonicalKey exotic w = Some a)
      \<or> (\<exists>w. createExecutionArmamentRequestV2 sha256 canonicalKey exotic w = Some a)"
    unfolding requestFrom_def result_simps Let_def by (auto split: if_splits)
  then show ?thesis
    using createExecutionArmamentRequestV3_Some createExecutionArmamentRequestV2_Some by (auto simp: versioned_request_def)
qed

text \<open>
  C8. An armament rests on live evidence to its end. Whatever request an armament is created for, it buys
  the intent its evidence was captured for, once, with wrapped SOL and within the capital, under a
  policy of at most 5% in one position; at every instant between arming and expiry the canary qualification,
  the evidence of each gate and the provider snapshot are valid, and with a lineage proof its source
  is too; and the window leaves room for two leases of the executor.
\<close>

theorem armament_rests_on_live_evidence:
  assumes "createExecutionArmamentV2 sha256 canonicalKey exotic v = Some a" and "ra_request a = r"
    and "ar_armedAtMs r \<le> t" and "t \<le> ar_armamentExpiresAtMs r"
  shows "ct_intentId (ar_target r) = ce_targetIntentId (ar_evidence r) \<and> ct_quoteMint (ar_target r) = WSOL_MINT
    \<and> ct_quoteAmountRaw (ar_target r) \<le> ar_maximumCapitalLamports r \<and> ar_maximumBuys r = 1
    \<and> maximumTotalExposureBps (policyFields (ce_policy (ar_evidence r))) \<le> 500
    \<and> maximumOpenPositions (policyFields (ce_policy (ar_evidence r))) = 1
    \<and> qf_phase (sq_fields (ce_qualification (ar_evidence r))) = CANARY
    \<and> qf_qualifiedAtMs (sq_fields (ce_qualification (ar_evidence r))) \<le> t
    \<and> t \<le> qf_expiresAtMs (sq_fields (ce_qualification (ar_evidence r)))
    \<and> (\<forall>g \<in> set (qf_gates (sq_fields (ce_qualification (ar_evidence r)))). ge_observedAtMs g \<le> t \<and> t \<le> ge_expiresAtMs g)
    \<and> t \<le> us_expiresAtMs (us_fields (ce_providerSnapshot (ar_evidence r)))
    \<and> (\<forall>p. ar_lineageProof r = Some p \<longrightarrow> lp_sourceCapturedAtMs p \<le> t \<and> t \<le> lp_sourceExpiresAtMs p)
    \<and> ar_armedAtMs r + 2 * rl_leaseMs (ar_runtime r) \<le> ar_armamentExpiresAtMs r"
proof -
  from assms(1,2) have "\<exists>w. requestFrom sha256 canonicalKey exotic w = Some r"
    unfolding createExecutionArmamentV2_def result_simps Let_def by auto
  then have r: "guarded_request sha256 canonicalKey r" "versioned_request sha256 r" using requestFrom_Some by blast+
  then have e: "sound_evidence sha256 canonicalKey (ar_evidence r)" by (simp add: guarded_request_def)
  then obtain w where q: "createSafetyQualification (textHash sha256) canonicalKey w = Some (ce_qualification (ar_evidence r))"
    unfolding sound_evidence_def by blast
  have "ge_observedAtMs g \<le> t \<and> t \<le> ge_expiresAtMs g" if "g \<in> set (qf_gates (sq_fields (ce_qualification (ar_evidence r))))" for g
    using qualification_gate_window [OF q that] r(1) e assms(3,4) by (auto simp: guarded_request_def sound_evidence_def)
  moreover have "\<forall>p. ar_lineageProof r = Some p \<longrightarrow> lp_sourceCapturedAtMs p \<le> t \<and> t \<le> lp_sourceExpiresAtMs p"
    using r(2) assms(3,4) by (auto simp: versioned_request_def)
  ultimately show ?thesis
    using r(1) e assms(3,4) by (simp add: guarded_request_def sound_evidence_def)
qed

subsection \<open>Requests as objects\<close>

definition targetObject :: "canary_target \<Rightarrow> js" where
  "targetObject t = frozen_object
  [(''intentId'', JStr (ct_intentId t)), (''stateRevision'', JBig (ct_stateRevision t)), (''strategyId'', JStr (ct_strategyId t)),
   (''strategyVersion'', JNum (JInt (ct_strategyVersion t))), (''decisionFingerprint'', JStr (ct_decisionFingerprint t)),
   (''mint'', JStr (ct_mint t)), (''quoteMint'', JStr (ct_quoteMint t)), (''quoteAmountRaw'', JBig (ct_quoteAmountRaw t))]"

definition runtimeRecord :: "runtime_limits \<Rightarrow> js_record" where
  "runtimeRecord r =
  [(''runtimeQuoteMaxAgeMs'', JNum (JInt (rl_quoteMaxAgeMs r))), (''runtimeSlippageBps'', JBig (rl_slippageBps r)),
   (''runtimeSnapshotMaxSlotLag'', JNum (JInt (rl_snapshotMaxSlotLag r))),
   (''runtimeMaxComputeUnits'', JBig (rl_maxComputeUnits r)), (''runtimeMaxFeeLamports'', JBig (rl_maxFeeLamports r)),
   (''runtimeMaxFeePayerLamportDebit'', JBig (rl_maxFeePayerLamportDebit r)),
   (''runtimeMaxRpcCallsPerAttempt'', JNum (JInt (rl_maxRpcCallsPerAttempt r))), (''runtimeLeaseMs'', JNum (JInt (rl_leaseMs r)))]"

definition requestRecord :: "armament_request \<Rightarrow> js_record" where
  "requestRecord a =
  [(''target'', targetObject (ar_target a)), (''maximumBuys'', JNum (JInt (ar_maximumBuys a))),
   (''maximumCapitalLamports'', JBig (ar_maximumCapitalLamports a)), (''maximumExposureBps'', JBig (ar_maximumExposureBps a)),
   (''maximumOpenPositions'', JNum (JInt (ar_maximumOpenPositions a))), (''maximumHoldingMs'', JNum (JInt (ar_maximumHoldingMs a)))]
  @ runtimeRecord (ar_runtime a)
  @ [(''armedAtMs'', JNum (JInt (ar_armedAtMs a))), (''armamentExpiresAtMs'', JNum (JInt (ar_armamentExpiresAtMs a))),
     (''operatorId'', JStr (ar_operatorId a)), (''operatorReason'', JStr (ar_operatorReason a))]"

definition lineageRecord :: "lineage_proof \<Rightarrow> js_record" where
  "lineageRecord p =
  [(''preparationRunId'', JStr (lp_preparationRunId p)), (''preparationRunFingerprint'', JStr (lp_preparationRunFingerprint p)),
   (''pairId'', JStr (lp_pairId p)), (''pairFingerprint'', JStr (lp_pairFingerprint p)),
   (''targetAssessmentId'', JStr (lp_targetAssessmentId p)),
   (''targetAssessmentFingerprint'', JStr (lp_targetAssessmentFingerprint p)),
   (''simulationArtifactId'', JStr (lp_simulationArtifactId p)),
   (''simulationArtifactFingerprint'', JStr (lp_simulationArtifactFingerprint p)),
   (''preparationManifestFingerprint'', JStr (lp_preparationManifestFingerprint p)),
   (''candidateId'', JStr (lp_candidateId p)), (''candidateEvidenceFingerprint'', JStr (lp_candidateEvidenceFingerprint p)),
   (''proofFingerprint'', JStr (lp_proofFingerprint p)), (''sourceCapturedAtMs'', JNum (JInt (lp_sourceCapturedAtMs p))),
   (''sourceExpiresAtMs'', JNum (JInt (lp_sourceExpiresAtMs p)))]"

definition lineageObject :: "lineage_proof \<Rightarrow> js" where
  "lineageObject p = frozen_object (lineageRecord p)"

text \<open>The frozen object a request is, with its evidence spread into it.\<close>

definition requestMembers :: "armament_request \<Rightarrow> js_record" where
  "requestMembers a =
  [(''evidenceId'', JStr (ce_evidenceId (ar_evidence a))), (''payloadVersion'', JNum (JInt (ar_payloadVersion a))),
   (''evidenceFingerprint'', JStr (ce_evidenceFingerprint (ar_evidence a)))] @ evidenceRecord (ar_evidence a)
  @ [(''armamentRequestFingerprint'', JStr (ar_requestFingerprint a))] @ requestRecord a
  @ (case ar_lineageProof a of None \<Rightarrow> [] | Some p \<Rightarrow> [(''lineageProof'', lineageObject p)])"

definition requestObject :: "armament_request \<Rightarrow> js" where
  "requestObject a = frozen_object (requestMembers a)"

lemma targetFrom_object:
  assumes "valid_target canonicalKey t"
  shows "targetFrom canonicalKey (targetObject t) = Some t"
proof -
  have "sizedRecord TARGET_V2_KEYS (targetObject t) = Some
    [(''intentId'', JStr (ct_intentId t)), (''stateRevision'', JBig (ct_stateRevision t)), (''strategyId'', JStr (ct_strategyId t)),
     (''strategyVersion'', JNum (JInt (ct_strategyVersion t))), (''decisionFingerprint'', JStr (ct_decisionFingerprint t)),
     (''mint'', JStr (ct_mint t)), (''quoteMint'', JStr (ct_quoteMint t)), (''quoteAmountRaw'', JBig (ct_quoteAmountRaw t))]"
    unfolding targetObject_def by (subst readers_frozen_object(2)) (simp_all add: TARGET_V2_KEYS_def pick_def)
  then show ?thesis
    using assms by (cases t) (simp add: targetFrom_def valid_target_def valid_pattern_def text_fields patternedText_def
        boundedInteger_def boundedBigint_def positiveBigint_def)
qed

lemma lineageProofV3From_object:
  assumes "valid_lineage_proof p"
  shows "lineageProofV3From (lineageObject p) = Some p"
proof -
  have keys: "distinct LINEAGE_PROOF_V3_KEYS" by code_simp
  have "map fst (lineageRecord p) = LINEAGE_PROOF_V3_KEYS" by (simp add: lineageRecord_def LINEAGE_PROOF_V3_KEYS_def)
  then have read: "sizedRecord LINEAGE_PROOF_V3_KEYS (lineageObject p) = Some (lineageRecord p)"
    unfolding lineageObject_def using keys by (rule sizedRecord_frozen_object)
  show ?thesis
    using assms unfolding lineageProofV3From_def read
    by (simp add: lineageRecord_def valid_lineage_proof_def valid_pattern_def text_fields prefixed_field_def
        patternedText_def boundedInteger_def)
qed

lemma requestRecord_keys: "map fst (requestRecord a) = drop 9 ARMAMENT_REQUEST_V2_KEYS"
  by (simp add: requestRecord_def runtimeRecord_def ARMAMENT_REQUEST_V2_KEYS_def)

lemma evidenceRecord_keys: "map fst (evidenceRecord e) = tl CANARY_INPUT_KEYS"
  by (simp add: evidenceRecord_def CANARY_INPUT_KEYS_def)

lemma REQUEST_KEYS_distinct: "distinct (''lineageProof'' # REQUEST_KEYS)" "distinct ARMAMENT_REQUEST_V2_KEYS"
  by code_simp+

lemma request_keys_split:
  "ARMAMENT_REQUEST_V2_KEYS = CANARY_INPUT_KEYS @ drop 9 ARMAMENT_REQUEST_V2_KEYS"
  "set REQUEST_KEYS = {''evidenceId'', ''evidenceFingerprint'', ''armamentRequestFingerprint''} \<union> set ARMAMENT_REQUEST_V2_KEYS"
  "hd CANARY_INPUT_KEYS = ''payloadVersion''"
  by code_simp+

lemma request_record_read:
  assumes "r = (''payloadVersion'', JNum (JInt n)) # evidenceRecord e @ requestRecord a"
  shows "map fst r = ARMAMENT_REQUEST_V2_KEYS"
    and "sizedRecord ARMAMENT_REQUEST_V2_KEYS (object_literal r) = Some r"
    and "pick r (tl CANARY_INPUT_KEYS) = evidenceRecord e"
proof -
  have "''payloadVersion'' # tl CANARY_INPUT_KEYS = CANARY_INPUT_KEYS" by (simp add: CANARY_INPUT_KEYS_def)
  then show keys: "map fst r = ARMAMENT_REQUEST_V2_KEYS"
    using request_keys_split(1) by (simp add: assms evidenceRecord_keys requestRecord_keys flip: append.simps(2))
  show "sizedRecord ARMAMENT_REQUEST_V2_KEYS (object_literal r) = Some r"
    unfolding object_readers by (rule sizedRecord_frozen_object [OF keys REQUEST_KEYS_distinct(2)])
  have "distinct (map fst ([(''payloadVersion'', JNum (JInt n))] @ evidenceRecord e @ requestRecord a))"
    using keys REQUEST_KEYS_distinct(2) by (simp add: assms)
  from pick_middle [OF this] show "pick r (tl CANARY_INPUT_KEYS) = evidenceRecord e"
    by (simp add: assms evidenceRecord_keys)
qed

lemma createRequestV2_object:
  assumes "guarded_request sha256 canonicalKey a"
    and "r = (''payloadVersion'', JNum (JInt 2)) # evidenceRecord (ar_evidence a) @ requestRecord a"
  shows "createExecutionArmamentRequestV2 sha256 canonicalKey exotic (object_literal r)
    = Some (a\<lparr>ar_payloadVersion := 2, ar_requestFingerprint := hashLengthPrefixed sha256 (requestItems a), ar_lineageProof := None\<rparr>)"
proof -
  note read = request_record_read [OF assms(2)]
  have flds: "fld r ''payloadVersion'' = JNum (JInt 2)" "fld r ''target'' = targetObject (ar_target a)"
    "fld r ''maximumBuys'' = JNum (JInt (ar_maximumBuys a))" "fld r ''maximumCapitalLamports'' = JBig (ar_maximumCapitalLamports a)"
    "fld r ''maximumExposureBps'' = JBig (ar_maximumExposureBps a)"
    "fld r ''maximumOpenPositions'' = JNum (JInt (ar_maximumOpenPositions a))"
    "fld r ''maximumHoldingMs'' = JNum (JInt (ar_maximumHoldingMs a))"
    "fld r ''armedAtMs'' = JNum (JInt (ar_armedAtMs a))" "fld r ''armamentExpiresAtMs'' = JNum (JInt (ar_armamentExpiresAtMs a))"
    "fld r ''operatorId'' = JStr (ar_operatorId a)" "fld r ''operatorReason'' = JStr (ar_operatorReason a)"
    by (simp_all add: assms(2) evidenceRecord_def requestRecord_def runtimeRecord_def)
  have runtime: "runtimeFrom r = Some (ar_runtime a)"
    using assms(1) by (simp add: runtimeFrom_def assms(2) evidenceRecord_def requestRecord_def runtimeRecord_def guarded_request_def
        valid_runtime_def boundedInteger_def boundedBigint_def)
  have e: "sound_evidence sha256 canonicalKey (ar_evidence a)" and t: "valid_target canonicalKey (ar_target a)"
    using assms(1) by (simp_all add: guarded_request_def)
  have facts: "quoteMintAllowlist (policyFields (ce_policy (ar_evidence a))) = [WSOL_MINT]"
    "ce_expiresAtMs (ar_evidence a) \<le> DATE_MAX_MS"
    using sound_evidence_policy [OF e] e by (simp_all add: valid_policy_def sound_evidence_def)
  have literal: "\<lparr>ar_evidence = ar_evidence a, ar_payloadVersion = 2, ar_requestFingerprint = f, ar_target = ar_target a,
      ar_maximumBuys = 1, ar_maximumCapitalLamports = ar_maximumCapitalLamports a, ar_maximumExposureBps = 500,
      ar_maximumOpenPositions = 1, ar_maximumHoldingMs = ar_maximumHoldingMs a, ar_runtime = ar_runtime a,
      ar_armedAtMs = ar_armedAtMs a, ar_armamentExpiresAtMs = ar_armamentExpiresAtMs a,
      ar_operatorId = ar_operatorId a, ar_operatorReason = ar_operatorReason a, ar_lineageProof = None\<rparr>
    = a\<lparr>ar_payloadVersion := 2, ar_requestFingerprint := f, ar_lineageProof := None\<rparr>" for f
    using assms(1) by (cases a) (simp add: guarded_request_def)
  have items: "requestItems (a\<lparr>ar_payloadVersion := 2, ar_requestFingerprint := f, ar_lineageProof := None\<rparr>) = requestItems a" for f
    by (simp add: requestItems_def)
  show ?thesis
    using assms(1) facts unfolding createExecutionArmamentRequestV2_def read(2) flds
    by (simp add: read(3) flds runtime evidence_recreated [OF e] targetFrom_object [OF t] guarded_request_def
        valid_target_def valid_runtime_def valid_pattern_def text_fields patternedText_def boundedInteger_def boundedBigint_def
        positiveBigint_def Let_def)
       (simp only: literal items)
qed

definition member_keys :: "bool \<Rightarrow> string list" where
  "member_keys proof_given = [''evidenceId'', ''payloadVersion'', ''evidenceFingerprint''] @ tl CANARY_INPUT_KEYS
     @ [''armamentRequestFingerprint''] @ drop 9 ARMAMENT_REQUEST_V2_KEYS @ (if proof_given then [''lineageProof''] else [])"

lemma member_keys_distinct: "distinct (member_keys b)"
proof -
  have "distinct (member_keys True)" "distinct (member_keys False)" by code_simp+
  then show ?thesis by (cases b) auto
qed

lemma member_keys_facts:
  "set (member_keys False) = set REQUEST_KEYS"
  "set (member_keys True) = set (take 12 REQUEST_KEYS @ [''lineageProof''] @ drop 12 REQUEST_KEYS)"
  "distinct REQUEST_KEYS" "distinct (take 12 REQUEST_KEYS @ [''lineageProof''] @ drop 12 REQUEST_KEYS)"
  "set ARMAMENT_REQUEST_V2_KEYS \<subseteq> set REQUEST_KEYS" "distinct ARMAMENT_REQUEST_V3_KEYS"
  "set ARMAMENT_REQUEST_V3_KEYS = insert ''lineageProof'' (set ARMAMENT_REQUEST_V2_KEYS)"
  "''lineageProof'' \<notin> set ARMAMENT_REQUEST_V2_KEYS" "''evidenceId'' \<in> set REQUEST_KEYS" "''payloadVersion'' \<in> set REQUEST_KEYS"
  "''evidenceFingerprint'' \<in> set REQUEST_KEYS" "''armamentRequestFingerprint'' \<in> set REQUEST_KEYS"
  by code_simp+

lemma requestMembers_keys: "map fst (requestMembers a) = member_keys (ar_lineageProof a \<noteq> None)"
  by (simp add: requestMembers_def member_keys_def evidenceRecord_keys requestRecord_keys split: option.split)

lemma requestMembers_distinct: "distinct (map fst (requestMembers a))"
  unfolding requestMembers_keys by (rule member_keys_distinct)

lemma requestMembers_flds:
  "fld (requestMembers a) ''evidenceId'' = JStr (ce_evidenceId (ar_evidence a))"
  "fld (requestMembers a) ''payloadVersion'' = JNum (JInt (ar_payloadVersion a))"
  "fld (requestMembers a) ''evidenceFingerprint'' = JStr (ce_evidenceFingerprint (ar_evidence a))"
  "fld (requestMembers a) ''armamentRequestFingerprint'' = JStr (ar_requestFingerprint a)"
  "ar_lineageProof a = Some p \<Longrightarrow> fld (requestMembers a) ''lineageProof'' = lineageObject p"
  by (rule fld_member [OF requestMembers_distinct], simp add: requestMembers_def)+

lemma pick_request_members:
  "pick (requestMembers a) ARMAMENT_REQUEST_V2_KEYS
     = (''payloadVersion'', JNum (JInt (ar_payloadVersion a))) # evidenceRecord (ar_evidence a) @ requestRecord a"
proof -
  have keys: "ARMAMENT_REQUEST_V2_KEYS = [''payloadVersion''] @ tl CANARY_INPUT_KEYS @ drop 9 ARMAMENT_REQUEST_V2_KEYS"
    by code_simp
  let ?pre = "[(''evidenceId'', JStr (ce_evidenceId (ar_evidence a))), (''payloadVersion'', JNum (JInt (ar_payloadVersion a))),
     (''evidenceFingerprint'', JStr (ce_evidenceFingerprint (ar_evidence a)))]"
  let ?fp = "[(''armamentRequestFingerprint'', JStr (ar_requestFingerprint a))]"
  let ?tail = "case ar_lineageProof a of None \<Rightarrow> [] | Some p \<Rightarrow> [(''lineageProof'', lineageObject p)]"
  have members: "requestMembers a = ?pre @ evidenceRecord (ar_evidence a) @ (?fp @ requestRecord a @ ?tail)"
    "requestMembers a = (?pre @ evidenceRecord (ar_evidence a) @ ?fp) @ requestRecord a @ ?tail"
    by (simp_all add: requestMembers_def)
  have "pick (requestMembers a) (tl CANARY_INPUT_KEYS) = evidenceRecord (ar_evidence a)"
    using requestMembers_distinct [of a] unfolding members(1) evidenceRecord_keys [symmetric, of "ar_evidence a"] by (rule pick_middle)
  moreover have "pick (requestMembers a) (drop 9 ARMAMENT_REQUEST_V2_KEYS) = requestRecord a"
    using requestMembers_distinct [of a] unfolding members(2) requestRecord_keys [symmetric, of a] by (rule pick_middle)
  ultimately show ?thesis
    by (subst keys) (simp add: pick_append, simp add: pick_def requestMembers_flds)
qed

lemma createRequestV3_object:
  assumes "guarded_request sha256 canonicalKey a" and "versioned_request sha256 a" and "ar_lineageProof a = Some p"
    and "r = (''payloadVersion'', JNum (JInt 3)) # evidenceRecord (ar_evidence a) @ requestRecord a"
  shows "createExecutionArmamentRequestV3 sha256 canonicalKey exotic (object_literal (r @ [(''lineageProof'', lineageObject p)])) = Some a"
proof -
  let ?r = "r @ [(''lineageProof'', lineageObject p)]" and ?V3 = ARMAMENT_REQUEST_V3_KEYS
  note keys = request_record_read(1) [OF assms(4)]
  have dist: "distinct (map fst ?r)" using keys REQUEST_KEYS_distinct(2) member_keys_facts by simp
  have "set ?V3 = fst ` set ?r"
    using arg_cong [OF keys, of set] unfolding member_keys_facts(7) by simp
  then have read: "sizedRecord ?V3 (object_literal ?r) = Some (pick ?r ?V3)"
    unfolding object_readers using dist member_keys_facts(6) by (intro readers_frozen_object(2)) auto
  have in_keys: "''payloadVersion'' \<in> set ?V3" "''lineageProof'' \<in> set ?V3" by code_simp+
  have flds: "fld (pick ?r ?V3) ''payloadVersion'' = JNum (JInt 3)" "fld (pick ?r ?V3) ''lineageProof'' = lineageObject p"
    unfolding fld_pick_in [OF in_keys(1)] fld_pick_in [OF in_keys(2)]
    by (rule fld_member [OF dist], simp add: assms(4))+
  have tail: "pick (pick ?r ?V3) (tl ARMAMENT_REQUEST_V2_KEYS) = evidenceRecord (ar_evidence a) @ requestRecord a"
  proof -
    have "set (tl ARMAMENT_REQUEST_V2_KEYS) \<subseteq> set ?V3" by code_simp
    moreover have "tl ARMAMENT_REQUEST_V2_KEYS = map fst (evidenceRecord (ar_evidence a) @ requestRecord a)"
      using keys by (simp add: assms(4) flip: keys)
    ultimately show ?thesis
      using pick_middle [of "[(''payloadVersion'', JNum (JInt 3))]" "evidenceRecord (ar_evidence a) @ requestRecord a"
          "[(''lineageProof'', lineageObject p)]"] dist
      by (simp add: pick_pick assms(4))
  qed
  have covers: "valid_lineage_proof p" "lp_sourceCapturedAtMs p \<le> ar_armedAtMs a" "ar_armamentExpiresAtMs a \<le> lp_sourceExpiresAtMs p"
    and version: "ar_payloadVersion a = 3" "ar_requestFingerprint a = hashLengthPrefixed sha256
       ([JsonStr ''execution-armament-request-v3'', JsonStr (hashLengthPrefixed sha256 (requestItems a))] @ lineageItems p)"
    using assms(2,3) by (simp_all add: versioned_request_def)
  have self: "a\<lparr>ar_payloadVersion := 3, ar_requestFingerprint := ar_requestFingerprint a, ar_lineageProof := Some p\<rparr> = a"
    using assms(3) version(1) by (cases a) simp
  show ?thesis
    using covers self unfolding createExecutionArmamentRequestV3_def read version(2)
    by (simp add: flds tail createRequestV2_object [OF assms(1) refl] lineageProofV3From_object)
qed

lemma requestFrom_object:
  assumes guarded: "guarded_request sha256 canonicalKey a" and versioned: "versioned_request sha256 a"
  shows "requestFrom sha256 canonicalKey exotic (requestObject a) = Some a"
proof -
  define K where "K = (if ar_lineageProof a \<noteq> None then take 12 REQUEST_KEYS @ [''lineageProof''] @ drop 12 REQUEST_KEYS else REQUEST_KEYS)"
  have K: "distinct K" "set REQUEST_KEYS \<subseteq> set K" "set K = fst ` set (requestMembers a)"
  proof -
    have "set REQUEST_KEYS = set (take 12 REQUEST_KEYS) \<union> set (drop 12 REQUEST_KEYS)"
      by (metis append_take_drop_id set_append)
    then show "distinct K" "set REQUEST_KEYS \<subseteq> set K" "set K = fst ` set (requestMembers a)"
      using member_keys_facts(1-4) arg_cong [OF requestMembers_keys [of a], of set]
      by (auto simp: K_def)
  qed
  have read: "sizedRecord K (requestObject a) = Some (pick (requestMembers a) K)"
    unfolding requestObject_def using readers_frozen_object(2) [OF requestMembers_distinct K(1) K(3)] .
  have flds: "fld (pick (requestMembers a) K) k = fld (requestMembers a) k" if "k \<in> set REQUEST_KEYS" for k
    using fld_pick_in K(2) that by blast
  have "set ARMAMENT_REQUEST_V2_KEYS \<subseteq> set K" using K(2) member_keys_facts(5) by blast
  then have picked: "pick (pick (requestMembers a) K) ARMAMENT_REQUEST_V2_KEYS
      = (''payloadVersion'', JNum (JInt (ar_payloadVersion a))) # evidenceRecord (ar_evidence a) @ requestRecord a"
    by (simp only: pick_pick pick_request_members)
  have object: "isPlainObject (requestObject a)" "isFrozen (requestObject a)"
    "ownValue (requestObject a) ''payloadVersion'' = JNum (JInt (ar_payloadVersion a))"
    by (simp_all add: requestObject_def ownValue_frozen_object requestMembers_flds)
  show ?thesis
  proof (cases "ar_lineageProof a")
    case None
    then have "ar_payloadVersion a = 2" "ar_requestFingerprint a = hashLengthPrefixed sha256 (requestItems a)"
      using versioned by (simp_all add: versioned_request_def)
    then have "a\<lparr>ar_payloadVersion := 2, ar_requestFingerprint := hashLengthPrefixed sha256 (requestItems a),
        ar_lineageProof := None\<rparr> = a" using None by (cases a) simp
    then have "createExecutionArmamentRequestV2 sha256 canonicalKey exotic (object_literal
        ((''payloadVersion'', JNum (JInt 2)) # evidenceRecord (ar_evidence a) @ requestRecord a)) = Some a"
      using createRequestV2_object [OF guarded refl, of exotic] by (simp only:)
    moreover have "sizedRecord REQUEST_KEYS (requestObject a) = Some (pick (requestMembers a) K)"
      using read None by (simp add: K_def)
    ultimately show ?thesis
      using object \<open>ar_payloadVersion a = 2\<close>
      by (simp add: requestFrom_def flds requestMembers_flds member_keys_facts picked)
  next
    case (Some p)
    then have "ar_payloadVersion a = 3" using versioned by (simp add: versioned_request_def)
    moreover have "fld (pick (requestMembers a) K) ''lineageProof'' = lineageObject p"
      using Some fld_pick_in [of "''lineageProof''" K] requestMembers_flds(5) by (simp add: K_def)
    moreover have "sizedRecord (take 12 REQUEST_KEYS @ ''lineageProof'' # drop 12 REQUEST_KEYS) (requestObject a)
        = Some (pick (requestMembers a) K)"
      using read Some by (simp add: K_def)
    ultimately show ?thesis
      using object createRequestV3_object [OF guarded versioned Some refl, of exotic]
      by (simp add: requestFrom_def flds requestMembers_flds member_keys_facts picked)
  qed
qed

text \<open>
  C16. A request survives the trip through the object that carries it: whatever request the code creates,
  with or without a lineage proof, the frozen object it is, nested qualification, policy and snapshots
  included, is accepted where an armament is created from it, and read back as the same request.
\<close>

theorem request_round_trip:
  assumes "createExecutionArmamentRequestV2 sha256 canonicalKey exotic v = Some r
    \<or> createExecutionArmamentRequestV3 sha256 canonicalKey exotic v = Some r"
  shows "requestFrom sha256 canonicalKey exotic (requestObject r) = Some r"
proof -
  have "guarded_request sha256 canonicalKey r \<and> versioned_request sha256 r"
    using assms createExecutionArmamentRequestV2_Some createExecutionArmamentRequestV3_Some by (auto simp: versioned_request_def)
  then show ?thesis using requestFrom_object by blast
qed

subsection \<open>Concrete armaments\<close>

lemma textHash_zero: "textHash zero_digest = zero_digest"
  by (rule ext) (simp add: textHash_def zero_digest_def)

definition canary_gate :: "string \<times> string \<Rightarrow> gate_evidence" where
  "canary_gate e = (example_gate e)\<lparr>ge_evidenceId :=
     (if fst e = ''WALLET_CHAIN_LIMITS_VERIFIED'' then ''execution_wallet_snapshot_'' @ zeros
      else if fst e = ''PROVIDER_EXIT_CAPACITY_VERIFIED'' then ''execution_provider_usage_'' @ zeros else ''ci:1'')\<rparr>"

definition canary_fields :: qualification_fields where
  "canary_fields = (example_qualification 300000)\<lparr>qf_gates := map canary_gate (zip EXECUTION_SAFETY_GATE_IDS EVIDENCE_TYPES)\<rparr>"

definition canary_policy :: risk_policy_input where
  "canary_policy = example_policy\<lparr>maximumOpenPositions := 1, maximumTotalExposureBps := 500\<rparr>"

definition canary_wallet :: wallet_fields where
  "canary_wallet = \<lparr>wf_generationId = ''execution_wallet_generation_'' @ zeros, wf_providerId = ''helius'', wf_stateRevision = 1,
     wf_slot = 5, wf_blockTimeMs = None, wf_observedAtMs = 1500, wf_walletLamports = 7, wf_tokenBalanceCount = 0,
     wf_openPositions = [], wf_realizedNetPnlRaw = 0\<rparr>"

definition example_evidence :: canary_evidence where
  "example_evidence = \<lparr>ce_evidenceId = ''execution_canary_evidence_'' @ zeros, ce_evidenceFingerprint = zeros,
     ce_qualification = qualificationOf zero_digest 1 canary_fields, ce_targetIntentId = ''execution_intent_'' @ zeros,
     ce_policy = \<lparr>policyPayloadVersion = 1, policyFingerprint = zero_digest (stringify (policyPreimage canary_policy)),
       policyFields = canary_policy\<rparr>,
     ce_walletSnapshot = walletSnapshotOf zero_digest canary_wallet,
     ce_providerSnapshot = usage_snapshot_of zero_digest example_usage, ce_capturedAtMs = 2000, ce_expiresAtMs = 200000\<rparr>"

definition example_request :: armament_request where
  "example_request = \<lparr>ar_evidence = example_evidence, ar_payloadVersion = 2, ar_requestFingerprint = zeros,
     ar_target = \<lparr>ct_intentId = ''execution_intent_'' @ zeros, ct_stateRevision = 0, ct_strategyId = ''creation-entry'',
       ct_strategyVersion = 1, ct_decisionFingerprint = zeros, ct_mint = ''mint'', ct_quoteMint = WSOL_MINT,
       ct_quoteAmountRaw = 1000\<rparr>,
     ar_maximumBuys = 1, ar_maximumCapitalLamports = 5000, ar_maximumExposureBps = 500, ar_maximumOpenPositions = 1,
     ar_maximumHoldingMs = 60000,
     ar_runtime = \<lparr>rl_quoteMaxAgeMs = 1000, rl_slippageBps = 100, rl_snapshotMaxSlotLag = 10, rl_maxComputeUnits = 200000,
       rl_maxFeeLamports = 5000, rl_maxFeePayerLamportDebit = 10000, rl_maxRpcCallsPerAttempt = 12, rl_leaseMs = 3000\<rparr>,
     ar_armedAtMs = 3000, ar_armamentExpiresAtMs = 100000, ar_operatorId = ''operator'', ar_operatorReason = ''canary'',
     ar_lineageProof = None\<rparr>"

lemma zero_digest_zeros: "zero_digest x = zeros"
  by (simp add: zero_digest_def)

lemma canary_fields_valid: "valid_qualification zero_digest (\<lambda>_. True) 1 canary_fields"
proof -
  have ids: "is_evidence_id ''ci:1''" "utf8_length ''ci:1'' = 4"
    "is_evidence_id (''execution_wallet_snapshot_'' @ zeros)" "utf8_length (''execution_wallet_snapshot_'' @ zeros) = 90"
    "is_evidence_id (''execution_provider_usage_'' @ zeros)" "utf8_length (''execution_provider_usage_'' @ zeros) = 89"
    by code_simp+
  have "valid_gate 1000 301000 e (canary_gate e)" for e
    using ids zeros_hex by (simp add: valid_gate_def canary_gate_def example_gate_def)
  then have "list_all2 (valid_gate 1000 301000) es (map canary_gate es)" for es
    by (induction es) simp_all
  then show ?thesis
    using example_qualification_valid [of zero_digest]
    by (simp add: valid_qualification_def valid_qualification_fields_def canary_fields_def example_qualification_def)
qed

lemma canary_wallet_valid: "valid_wallet canary_wallet"
proof -
  have "is_prefixed_hex64 ''execution_wallet_generation_'' (''execution_wallet_generation_'' @ zeros)"
    "is_printable_text ''helius''" "utf8_length ''helius'' = 6" by code_simp+
  then show ?thesis using zeros_hex(3) by (simp add: valid_wallet_def canary_wallet_def)
qed

lemma example_evidence_sound: "sound_evidence zero_digest (\<lambda>_. True) example_evidence"
proof -
  have "\<exists>v. createSafetyQualification (textHash zero_digest) (\<lambda>_. True) v = Some (ce_qualification example_evidence)"
    using qualification_created [OF canary_fields_valid] by (auto simp: textHash_zero example_evidence_def)
  moreover have "\<exists>v. createExecutionRiskPolicy (textHash zero_digest) v = Some (ce_policy example_evidence)"
    using valid_policy_created [of canary_policy]
    by (auto simp: textHash_zero example_evidence_def canary_policy_def valid_policy_def example_policy_def)
  moreover have "\<exists>v. createExecutionWalletSnapshot zero_digest v = Some (ce_walletSnapshot example_evidence)"
    using wallet_recreated [OF canary_wallet_valid] by (auto simp: example_evidence_def)
  moreover have "\<exists>v. createProviderUsageSnapshot (textHash zero_digest) v = Some (ce_providerSnapshot example_evidence)"
    using usage_snapshot_of_created [OF example_usage_valid(1)] by (auto simp: textHash_zero example_evidence_def)
  moreover have "snapshotsMatch (ce_qualification example_evidence) (ce_walletSnapshot example_evidence) (ce_providerSnapshot example_evidence)"
    by (simp add: snapshotsMatch_def example_evidence_def qualificationOf_def canary_fields_def Let_def zero_digest_zeros
        walletSnapshotOf_def walletFingerprintFor_def hashLengthPrefixed_def usage_snapshot_of_def snapshotFingerprintFor_def
        EXECUTION_SAFETY_GATE_IDS_def EVIDENCE_TYPES_def canary_gate_def example_gate_def)
  moreover have "is_prefixed_hex64 ''execution_intent_'' (''execution_intent_'' @ zeros)"
    "utf8_length (''execution_intent_'' @ zeros) = 81" by code_simp+
  ultimately show ?thesis
    by (simp add: sound_evidence_def valid_pattern_def textHash_zero zero_digest_zeros)
       (simp add: example_evidence_def qualificationOf_def canary_fields_def example_qualification_def Let_def
         usage_snapshot_of_def example_usage_def)
qed

lemma example_request_guarded: "guarded_request zero_digest (\<lambda>_. True) example_request" "versioned_request zero_digest example_request"
proof -
  have "is_prefixed_hex64 ''execution_intent_'' (''execution_intent_'' @ zeros)"
    "utf8_length (''execution_intent_'' @ zeros) = 81" "is_strategy_id ''creation-entry''" "utf8_length ''creation-entry'' = 14"
    "utf8_length ''mint'' = 4" "utf8_length WSOL_MINT \<le> 64" "is_identifier ''operator''" "utf8_length ''operator'' = 8"
    "is_operator_reason ''canary''" "utf8_length ''canary'' = 6"
    by code_simp+
  then show "guarded_request zero_digest (\<lambda>_. True) example_request"
    using example_evidence_sound zeros_hex
    by (simp add: guarded_request_def example_request_def valid_target_def valid_runtime_def valid_pattern_def)
       (simp add: example_evidence_def canary_policy_def example_policy_def qualificationOf_def canary_fields_def
         example_qualification_def Let_def)
  show "versioned_request zero_digest example_request"
    by (simp add: versioned_request_def example_request_def hashLengthPrefixed_def zero_digest_zeros)
qed

abbreviation throwing :: rest_pattern where "throwing \<equiv> \<lambda>_ _. None"

lemma example_request_created:
  "createExecutionArmamentRequestV2 zero_digest (\<lambda>_. True) exotic (object_literal
     ((''payloadVersion'', JNum (JInt 2)) # evidenceRecord (ar_evidence example_request) @ requestRecord example_request))
   = Some example_request"
  using createRequestV2_object [OF example_request_guarded(1) refl, of exotic]
  by (simp add: hashLengthPrefixed_def zero_digest_zeros) (simp add: example_request_def)

theorem request_round_trip_witness:
  "requestFrom zero_digest (\<lambda>_. True) throwing (requestObject example_request) = Some example_request"
  by (rule request_round_trip [OF disjI1 [OF example_request_created]])

definition example_armament_input :: js where
  "example_armament_input = frozen_object
  [(''payloadVersion'', JNum (JInt 2)), (''request'', requestObject example_request),
   (''authorizationId'', JStr (''execution_operator_authorization_'' @ zeros)), (''authorizationFingerprint'', JStr zeros),
   (''admissionReportId'', JStr (''execution_risk_admission_'' @ zeros)),
   (''reservationId'', JStr (''execution_exposure_reservation_'' @ zeros))]"

lemma example_armament_created:
  "\<exists>a. createExecutionArmamentV2 zero_digest (\<lambda>_. True) throwing example_armament_input = Some a \<and> ra_request a = example_request"
proof -
  have "sizedRecord ARMAMENT_V2_KEYS example_armament_input = Some
    [(''payloadVersion'', JNum (JInt 2)), (''request'', requestObject example_request),
     (''authorizationId'', JStr (''execution_operator_authorization_'' @ zeros)), (''authorizationFingerprint'', JStr zeros),
     (''admissionReportId'', JStr (''execution_risk_admission_'' @ zeros)),
     (''reservationId'', JStr (''execution_exposure_reservation_'' @ zeros))]"
    unfolding example_armament_input_def by (rule sizedRecord_frozen_object) (simp_all add: ARMAMENT_V2_KEYS_def)
  moreover have "authorizationId_field (JStr (''execution_operator_authorization_'' @ zeros)) = Some (''execution_operator_authorization_'' @ zeros)"
    "fingerprint_field (JStr zeros) = Some zeros"
    "prefixed_field ''execution_risk_admission_'' 128 (JStr (''execution_risk_admission_'' @ zeros)) = Some (''execution_risk_admission_'' @ zeros)"
    "prefixed_field ''execution_exposure_reservation_'' 128 (JStr (''execution_exposure_reservation_'' @ zeros))
      = Some (''execution_exposure_reservation_'' @ zeros)"
    by code_simp+
  ultimately show ?thesis
    using requestFrom_object [OF example_request_guarded, of throwing]
    by (simp add: createExecutionArmamentV2_def Let_def del: append.simps)
qed

theorem armament_rests_on_live_evidence_witness:
  "list_all (\<lambda>g. ge_observedAtMs g \<le> 50000 \<and> 50000 \<le> ge_expiresAtMs g) (qf_gates canary_fields)"
proof -
  obtain a where a: "createExecutionArmamentV2 zero_digest (\<lambda>_. True) throwing example_armament_input = Some a" "ra_request a = example_request"
    using example_armament_created by blast
  have "ar_armedAtMs example_request \<le> 50000" "50000 \<le> ar_armamentExpiresAtMs example_request"
    by (simp_all add: example_request_def)
  from armament_rests_on_live_evidence [OF a this] show ?thesis
    by (simp add: list_all_iff example_request_def example_evidence_def qualificationOf_def Let_def)
qed

definition control_object :: "string \<Rightarrow> string \<Rightarrow> js" where
  "control_object state action = frozen_object
  [(''currentState'', JStr state), (''action'', JStr action), (''freshQualification'', JBool True), (''unknownRisk'', JBool False)]"

theorem stops_hold_witness:
  "\<exists>v \<in> set [control_object ''RUNNING'' ''HARD_STOP'', control_object ''HARD_STOP'' ''RESUME'']. safe_resume v ENTRY_STOP \<or> safe_resume v HARD_STOP"
proof -
  have "control_history HARD_STOP [control_object ''HARD_STOP'' ''RESUME''] RUNNING"
  proof (rule control_history.decision)
    show "controlInputFrom (control_object ''HARD_STOP'' ''RESUME'')
        = Some \<lparr>ci_currentState = HARD_STOP, ci_action = RESUME, ci_freshQualification = True, ci_unknownRisk = False\<rparr>"
      by code_simp
    show "decideExecutionControlTransition (control_object ''HARD_STOP'' ''RESUME'') = Some (RUNNING, None)" by code_simp
  qed (simp_all add: control_history.no_decision)
  from stops_hold [OF this] show ?thesis by auto
qed

lemma operationsQualificationFrom_object:
  assumes "createSafetyQualification (textHash sha256) canonicalKey v = Some q" and "sq_payloadVersion q = 1"
  shows "operationsQualificationFrom sha256 canonicalKey (qualificationObject q) = Some q"
proof -
  from createSafetyQualification_Some [OF assms(1)] assms(2) obtain f
    where valid: "valid_qualification (textHash sha256) canonicalKey 1 f" and q: "q = qualificationOf (textHash sha256) 1 f"
    by (auto simp: qualificationOf_def Let_def)
  have fields: "sq_payloadVersion q = 1" "sq_fields q = f" by (simp_all add: q qualificationOf_def Let_def)
  have "map fst (qualificationRecord q) = QUALIFICATION_KEYS"
    by (simp add: qualificationRecord_def fields fieldsRecord_def QUALIFICATION_KEYS_def)
  then have read: "sizedRecord QUALIFICATION_KEYS (qualificationObject q) = Some (qualificationRecord q)"
    unfolding qualificationObject_def using qualificationRecord_rest(1) [of q] by (intro sizedRecord_frozen_object) auto
  have "input_like 1 f (pick (qualificationRecord q) QUALIFICATION_INPUT_KEYS)"
    by (simp add: input_like_def pick_def qualificationRecord_def fields fieldsRecord_def QUALIFICATION_INPUT_KEYS_def
        qualificationInput_def)
  from createSafetyQualification_object [OF valid this] read show ?thesis
    by (simp add: operationsQualificationFrom_def q [symmetric] fields) (simp add: qualificationRecord_def)
qed

definition phase_armament_record :: "(string \<times> js) list" where
  "phase_armament_record =
  [(''payloadVersion'', JNum (JInt 1)), (''qualification'', qualificationObject (qualificationOf zero_digest 1 canary_fields)),
   (''maximumBuys'', JNum (JInt 1)), (''maximumCapitalLamports'', JBig 5000), (''maximumExposureBps'', JBig 500),
   (''maximumOpenPositions'', JNum (JInt 1)), (''maximumHoldingMs'', JNum (JInt 60000)), (''armedAtMs'', JNum (JInt 2000)),
   (''expiresAtMs'', JNum (JInt 9000)), (''operatorId'', JStr ''operator''), (''operatorReason'', JStr ''canary''),
   (''authorizationId'', JStr (''execution_operator_authorization_'' @ zeros)), (''authorizationFingerprint'', JStr zeros)]"

lemma phase_armament_created:
  "\<exists>a. createExecutionArmament zero_digest (\<lambda>_. True) (frozen_object phase_armament_record) = Some a
     \<and> am_qualification a = qualificationOf zero_digest 1 canary_fields \<and> am_armedAtMs a = 2000 \<and> am_expiresAtMs a = 9000"
proof -
  let ?q = "qualificationOf zero_digest 1 canary_fields"
  have "map fst phase_armament_record = ARMAMENT_INPUT_KEYS" by (simp add: phase_armament_record_def ARMAMENT_INPUT_KEYS_def)
  moreover have "distinct ARMAMENT_INPUT_KEYS" by code_simp
  ultimately have read: "sizedRecord ARMAMENT_INPUT_KEYS (frozen_object phase_armament_record) = Some phase_armament_record"
    by (rule sizedRecord_frozen_object)
  have q: "operationsQualificationFrom zero_digest (\<lambda>_. True) (qualificationObject ?q) = Some ?q"
    using qualification_created [OF canary_fields_valid]
    by (intro operationsQualificationFrom_object) (simp_all add: textHash_zero qualificationOf_def Let_def)
  have texts: "identifier_field (JStr ''operator'') = Some ''operator''" "patternedText is_operator_reason 256 (JStr ''canary'') = Some ''canary''"
    "authorizationId_field (JStr (''execution_operator_authorization_'' @ zeros)) = Some (''execution_operator_authorization_'' @ zeros)"
    "fingerprint_field (JStr zeros) = Some zeros"
    by code_simp+
  have numbers: "positiveBigint (JBig 5000) = Some 5000" "boundedBigint 1 10000 (JBig 500) = Some 500"
    "timestamp_field (JNum (JInt 2000)) = Some 2000" "timestamp_field (JNum (JInt 9000)) = Some 9000"
    "validatePhaseLimits CANARY 1 500 1"
    by code_simp+
  have phase: "qf_phase (sq_fields ?q) = CANARY" "qf_qualifiedAtMs (sq_fields ?q) = 1000" "qf_expiresAtMs (sq_fields ?q) = 301000"
    by (simp_all add: qualificationOf_def Let_def canary_fields_def example_qualification_def)
  show ?thesis
    using texts numbers q phase unfolding createExecutionArmament_def read
    by (simp add: phase_armament_record_def Let_def boundedInteger_def del: append.simps)
qed

theorem armament_within_qualification_witness:
  "list_all (\<lambda>g. ge_observedAtMs g \<le> 2000 \<and> 9000 \<le> ge_expiresAtMs g) (qf_gates canary_fields)"
proof -
  obtain a where a: "createExecutionArmament zero_digest (\<lambda>_. True) (frozen_object phase_armament_record) = Some a"
    "am_qualification a = qualificationOf zero_digest 1 canary_fields" "am_armedAtMs a = 2000" "am_expiresAtMs a = 9000"
    using phase_armament_created by blast
  from armament_within_qualification [OF a(1)] show ?thesis
    by (simp add: list_all_iff a qualificationOf_def Let_def)
qed

end
