(* ===== verification/Spec2Isabelle.thy ===== *)
theory Spec2Isabelle
  imports Fault_Policy Risk_Policy Reconciliation Execution_Intent Paper_Math Fast_Exit Profile_Identity Paper_Ledger Operations
begin

text \<open>
  Verification of the decision core of sol-token-listener: the code that decides whether, how
  much and when to buy and sell, what may be signed, retried or submitted again, and how paper
  positions are kept. File names are relative to \<open>src/src\<close>.

  \<^bold>\<open>The program.\<close> A listener turns on-chain events into launches and their status. A qualification
  engine evaluates the facts about a launch against a profile and issues a report. The paper
  engine opens and closes positions on authorised reports, through a PostgreSQL
  repository. Live execution is separate: an execution intent is created, signed, submitted and
  reconciled under a risk policy, a provider quota, a fault policy and a stop control, and only
  while an armament rests on a safety qualification and on canary evidence. Fast entry and fast exit are
  the decisions taken without waiting for a report.

  \<^bold>\<open>How values are modelled.\<close> \<open>Js_Value\<close> has a datatype of JavaScript values with prototypes, proxies,
  frozen objects, accessors, symbol keys, holes in arrays, bigints and numbers. Every validator takes
  such a value and returns an option, \<open>None\<close> where the code throws. \<open>Record_Readers\<close> has the readers
  the operations modules use. Bigints and safe integers are \<open>int\<close> with the bounds of the
  code written out. \<open>Json_Text\<close> has \<open>JSON.stringify\<close> on the values that are hashed, and shows that
  the text determines the value. Object results are records, and the objects they stand for are built
  by functions such as \<open>usageSnapshotObject\<close> when the code reads its own results again. \<open>Prelude\<close>
  holds the shared lemmas and the collections \<open>result_simps\<close> and \<open>field_iffs\<close>, \<open>Interfaces\<close> the locales.

  \<^bold>\<open>Texts.\<close> A text is a list of characters with code units below 256, and its UTF-8 bytes are
  one or two per character. Texts with larger code units are not represented, with one exception:
  the identifier of an intent hashes the raw UTF-8 bytes of free texts, so \<open>Utf16_Text\<close> has strings
  of 16-bit code units with surrogates, and \<open>intentIdOf\<close> takes any of them. Everywhere else a text is
  compared, matched against a pattern of ASCII characters, bounded in length, or hashed as JSON, where
  lone surrogates are escaped and stay distinct.

  \<^bold>\<open>Parameters.\<close> SHA-256 is an argument \<open>sha256\<close>; where an identifier is said to bind a value, the
  hypothesis is that the function does not collide on the two texts compared. The public-key test
  of web3.js is an argument \<open>canonicalKey\<close>; the repository's own test is modelled. What a rest pattern
  does on getters, proxies and foreign prototypes is an argument \<open>exotic\<close>. Clocks are arguments.

  \<^bold>\<open>Theories and code.\<close>
  \<^item> \<open>Execution_Types\<close>, \<open>Intent_Lifecycle\<close>, \<open>Execution_Intent\<close>, \<open>Public_Key\<close>: \<open>domain/execution-intent.ts\<close>
    and \<open>domain/solana-public-key.ts\<close>. After a submission nothing is signed or submitted again without
    a recorded proof of no effect; terminal statuses are final and always reachable; validation accepts
    exactly the valid intents, against a specification that does not use the code's own checks; identifiers bind
    up to lone surrogates; the two public-key tests agree.
  \<^item> \<open>Fault_Policy\<close>: \<open>domain/execution-fault-policy.ts\<close>. When a new order, the same bytes or nothing is sent after a
    signature: a buy is never retried, a sell is built again exactly on a proof of no effect.
  \<^item> \<open>Risk_Policy\<close>: \<open>domain/execution-risk-policy.ts\<close>. The buy gate refines a specification in exact
    arithmetic, and bounds what is admitted.
  \<^item> \<open>Reconciliation\<close>: \<open>domain/execution-reconciliation.ts\<close>. Each verdict is returned exactly for
    the situation it stands for, and evidence identifiers bind.
  \<^item> \<open>Provider_Quota\<close>: \<open>domain/execution-provider-quota.ts\<close>. Entries never spend the units of exits, and
    the gate is monotone.
  \<^item> \<open>Safety_Qualification\<close>, \<open>Wallet_Snapshot\<close>, \<open>Canary_Evidence\<close>, \<open>Operations\<close>:
    \<open>domain/execution-safety-qualification.ts\<close>, \<open>domain/execution-wallet-snapshot.ts\<close>,
    \<open>domain/execution-canary.ts\<close>, \<open>domain/execution-operations.ts\<close>. Qualifications carry every gate for their
    whole life, armaments live within them, stops hold, and requests are read back unchanged.
  \<^item> \<open>Chain_Model\<close>: the small modules on cursors, timestamps, confirmation, events and launch transitions.
    The recorded occurrence is the preferred one among the reports, in any order and any number.
  \<^item> \<open>Paper_Math\<close>, \<open>Fast_Exit\<close>: \<open>paper/paper-math.ts\<close>, \<open>domain/fast-entry.ts\<close>,
    \<open>markets/pumpswap/reserve-math.ts\<close>, \<open>domain/fast-exit.ts\<close>. Entry exactly within the loss limit, exits only on
    the evidence named, judged in exact rational arithmetic; at most three re-exits.
  \<^item> \<open>Plain_Json\<close>: \<open>utils/json.ts\<close> on plain data.
  \<^item> \<open>Qualification\<close>, \<open>Profile_Identity\<close>: \<open>domain/qualification.ts\<close> and \<open>qualification/\<close>. Verdicts are exact, the
    authority over reports is exact, profiles are read back unchanged.
  \<^item> \<open>Paper_Report\<close>, \<open>Paper_Position\<close>, \<open>Paper_Engine\<close>, \<open>Paper_Store\<close>, \<open>Paper_Ledger\<close>:
    \<open>paper/paper-trading-engine.ts\<close>, \<open>storage/paper-trading.repository.ts\<close>, \<open>storage/paper-finality-barrier.ts\<close> and
    the constraints of their migrations. The engine is written over the repository port, the store implements
    the port on tables, and their composition refines an abstract ledger whose books balance, also across the
    retention purge of \<open>storage/database.ts\<close>. Assumed of the clock (\<open>clock_ok\<close>): it is not behind an earlier
    closing time by more than the retention period.

  \<^bold>\<open>Recursion and bounds.\<close> All definitions are total and no fuel is used: loops run over the elements of
  an array or over a sequence of calls. Histories of decisions are inductive relations.

  \<^bold>\<open>Defects and divergences.\<close> \<open>draft_ignores_proto_key\<close> (\<open>Execution_Intent\<close>): a draft with an extra own key
  \<open>__proto__\<close> is accepted. \<open>late_retraction_unreadable\<close> (\<open>Paper_Engine\<close>): a retraction with a clock far
  behind the closing time writes a row that cannot be decoded. \<open>intent_id_binds\<close> (\<open>Execution_Intent\<close>): position,
  strategy or command ids that differ only in lone surrogates give one identifier.
  \<open>revoked_envelope_always_exits\<close> (\<open>Fast_Exit\<close>): a comment says that a malformed wallet or amount throws; on a
  revoked envelope it does not.

  \<^bold>\<open>Not modelled.\<close> Network access, decoders of on-chain layouts and generated clients, signing,
  HTTP interfaces, configuration and process start-up; the repositories other than paper trading; entry
  envelopes, paper strategies and transaction ingestion; locks and isolation of the database, since a
  transaction is a function of the database it runs on.
\<close>

end
